(* ===== verification/Prelude.thy ===== *)
theory Prelude
  imports Main "HOL-Library.Word" "HOL-Library.Sublist" "HOL-Library.Code_Target_Numeral"
begin

text \<open>
  What the C sources use of the language and its standard library, and the lemmas every
  component shares.  A C string is the list of the characters before its terminating NUL, and
  a \<open>const char *\<close> cursor into it is the suffix that is still to be read: reading at the end
  of the list gives the NUL (\<open>deref\<close>), so a cursor never runs past the terminator.
  \<open>c_str\<close> is what a C function sees of a memory buffer.  \<open>size_t\<close> values are \<open>nat\<close>
  (no sum of the program comes near 2 to the 64), \<open>long\<close> and \<open>time_t\<close> values are \<open>int\<close>
  with the clamping or wrap-around of the conversion functions written out.
\<close>

section \<open>Collections of facts\<close>

text \<open>\<open>bounds\<close>: length facts of strings that went through a sized buffer.
  \<open>consumes\<close>: a scanner that succeeds leaves a shorter rest.
  \<open>plain\<close>: strings without control characters, and what keeps them so.\<close>

named_theorems bounds
named_theorems consumes
named_theorems plain

section \<open>Characters and C strings\<close>

type_synonym cstring = string

abbreviation DQ :: char where "DQ \<equiv> CHR 0x22"
abbreviation BS :: char where "BS \<equiv> CHR 0x5C"
abbreviation NL :: char where "NL \<equiv> CHR 0x0A"
abbreviation CR :: char where "CR \<equiv> CHR 0x0D"
abbreviation TAB :: char where "TAB \<equiv> CHR 0x09"
abbreviation NUL :: char where "NUL \<equiv> CHR 0x00"

text \<open>\<open>(unsigned char)c\<close> as a number.\<close>

definition uchar :: "char \<Rightarrow> nat" where
  "uchar c = of_char c"

definition c_str :: "char list \<Rightarrow> cstring" where
  "c_str b = takeWhile (\<lambda>c. c \<noteq> NUL) b"

fun deref :: "cstring \<Rightarrow> char" where
  "deref [] = NUL"
| "deref (c # p) = c"

text \<open>\<open>isspace\<close> in the "C" locale (the program never calls \<open>setlocale\<close>): blank, and
  the characters 9 to 13.\<close>

definition isspace :: "char \<Rightarrow> bool" where
  "isspace c \<longleftrightarrow> uchar c = 32 \<or> (9 \<le> uchar c \<and> uchar c \<le> 13)"

fun skip_ws :: "cstring \<Rightarrow> cstring" where
  "skip_ws [] = []"
| "skip_ws (c # p) = (if isspace c then skip_ws p else c # p)"

text \<open>What \<open>snprintf(buf, n, ...)\<close> leaves in \<open>buf\<close> when the whole formatted text is \<open>s\<close>;
  the call returns \<open>length s\<close>, so a caller sees truncation as \<open>n \<le> length s\<close>.\<close>

definition snprintf :: "nat \<Rightarrow> string \<Rightarrow> cstring" where
  "snprintf n s = take (n - 1) s"

fun strchr :: "cstring \<Rightarrow> char \<Rightarrow> cstring option" where
  "strchr [] c = None"
| "strchr (d # p) c = (if d = c then Some (d # p) else strchr p c)"

text \<open>The part of the string before the last occurrence of \<open>c\<close>, which is all the program
  uses of \<open>strrchr\<close> (it overwrites that occurrence with NUL).\<close>

fun before_last :: "cstring \<Rightarrow> char \<Rightarrow> cstring option" where
  "before_last [] c = None"
| "before_last (d # p) c =
     (case before_last p c of
        Some q \<Rightarrow> Some (d # q)
      | None \<Rightarrow> if d = c then Some [] else None)"

text \<open>\<open>strncmp(p, q, n) == 0\<close>.\<close>

definition strncmp_eq :: "cstring \<Rightarrow> cstring \<Rightarrow> nat \<Rightarrow> bool" where
  "strncmp_eq p q n \<longleftrightarrow> take n p = take n q"

fun strstr :: "cstring \<Rightarrow> cstring \<Rightarrow> bool" where
  "strstr [] q = (q = [])"
| "strstr (c # p) q = (prefix q (c # p) \<or> strstr p q)"

section \<open>Printing and reading numbers\<close>

definition digit_char :: "nat \<Rightarrow> char" where
  "digit_char d = char_of (48 + d)"

fun decimal :: "nat \<Rightarrow> string" where
  "decimal n =
     (if n < 10 then [digit_char n] else decimal (n div 10) @ [digit_char (n mod 10)])"

declare decimal.simps [simp del]

text \<open>\<open>%d\<close> and \<open>%ld\<close>.\<close>

definition decimal_int :: "int \<Rightarrow> string" where
  "decimal_int z = (if z < 0 then CHR ''-'' # decimal (nat (- z)) else decimal (nat z))"

definition hex_digit :: "nat \<Rightarrow> char" where
  "hex_digit d = (if d < 10 then char_of (48 + d) else char_of (87 + d))"

text \<open>\<open>%04x\<close> of a value below 65536.\<close>

definition hex4 :: "nat \<Rightarrow> string" where
  "hex4 n = [hex_digit (n div 4096 mod 16), hex_digit (n div 256 mod 16),
             hex_digit (n div 16 mod 16), hex_digit (n mod 16)]"

definition is_digit :: "char \<Rightarrow> bool" where
  "is_digit c \<longleftrightarrow> 48 \<le> uchar c \<and> uchar c \<le> 57"

fun scan_digits :: "nat \<Rightarrow> cstring \<Rightarrow> nat \<times> cstring" where
  "scan_digits v [] = (v, [])"
| "scan_digits v (c # p) =
     (if is_digit c then scan_digits (10 * v + (uchar c - 48)) p else (v, c # p))"

text \<open>The subject sequence of \<open>strtol(p, &end, 10)\<close>: blanks, an optional sign, digits;
  None when there is no digit (then \<open>end == p\<close> and the value is 0).\<close>

definition scan_number :: "cstring \<Rightarrow> (bool \<times> nat \<times> cstring) option" where
  "scan_number p =
     (let q = skip_ws p;
          neg = (deref q = CHR ''-'');
          ds = (if neg \<or> deref q = CHR ''+'' then tl q else q)
      in if ds \<noteq> [] \<and> is_digit (deref ds)
         then (case scan_digits 0 ds of (v, rest) \<Rightarrow> Some (neg, v, rest))
         else None)"

text \<open>\<open>strtol\<close> clamps to \<open>LONG_MIN\<close>/\<open>LONG_MAX\<close> of a 64-bit long.\<close>

definition clamp_long :: "int \<Rightarrow> int" where
  "clamp_long z = max (- (2 ^ 63)) (min (2 ^ 63 - 1) z)"

definition strtol :: "cstring \<Rightarrow> (int \<times> cstring) option" where
  "strtol p = (case scan_number p of
     None \<Rightarrow> None
   | Some (neg, v, rest) \<Rightarrow> Some (clamp_long (if neg then - int v else int v), rest))"

text \<open>\<open>strtoull(p, NULL, 10)\<close>: out of range gives \<open>ULLONG_MAX\<close>; a minus sign negates
  in the unsigned type.\<close>

definition strtoull :: "cstring \<Rightarrow> nat" where
  "strtoull p = (case scan_number p of
     None \<Rightarrow> 0
   | Some (neg, v, rest) \<Rightarrow>
       if 2 ^ 64 \<le> v then 2 ^ 64 - 1
       else if neg \<and> v \<noteq> 0 then 2 ^ 64 - v else v)"

text \<open>\<open>atoi\<close> is \<open>(int)strtol(p, NULL, 10)\<close> in the C library the program targets: the
  long is reduced to its low 32 bits, read as two's complement.\<close>

definition wrap_int32 :: "int \<Rightarrow> int" where
  "wrap_int32 z = (z + 2 ^ 31) mod 2 ^ 32 - 2 ^ 31"

definition atoi :: "cstring \<Rightarrow> int" where
  "atoi p = (case strtol p of None \<Rightarrow> 0 | Some (z, rest) \<Rightarrow> wrap_int32 z)"

section \<open>Lemmas on C strings\<close>

lemma uchar_less_256 [simp]: "uchar c < 256"
  by (simp add: uchar_def)

lemma uchar_Char [simp]:
  "uchar (Char b0 b1 b2 b3 b4 b5 b6 b7) = of_char (Char b0 b1 b2 b3 b4 b5 b6 b7)"
  by (simp add: uchar_def)

lemma uchar_char_of [simp]: "uchar (char_of n) = n mod 256"
  by (simp add: uchar_def)

lemma uchar_eq_iff [simp]: "uchar c = uchar d \<longleftrightarrow> c = d"
  by (simp add: uchar_def)

lemma c_str_no_NUL: "NUL \<notin> set (c_str b)"
  by (auto simp: c_str_def dest: set_takeWhileD)

lemma c_str_id: "NUL \<notin> set b \<Longrightarrow> c_str b = b"
  unfolding c_str_def by (rule takeWhile_eq_all_conv [THEN iffD2]) auto

lemma length_c_str: "length (c_str b) \<le> length b"
  by (simp add: c_str_def length_takeWhile_le)

lemma skip_ws_suffix: "suffix (skip_ws p) p"
  by (induction p) (auto simp: suffix_Cons)

lemma skip_ws_length: "length (skip_ws p) \<le> length p"
  by (induction p) auto

lemma skip_ws_idem [simp]: "skip_ws (skip_ws p) = skip_ws p"
  by (induction p) auto

lemma skip_ws_hd: "skip_ws p = c # q \<Longrightarrow> \<not> isspace c"
  by (induction p) (auto split: if_splits)

lemma skip_ws_id: "\<not> isspace (deref p) \<Longrightarrow> skip_ws p = p"
  by (cases p) auto

lemma deref_skip_ws: "skip_ws p \<noteq> [] \<Longrightarrow> \<not> isspace (deref (skip_ws p))"
  by (induction p) auto

lemma set_skip_ws: "set (skip_ws p) \<subseteq> set p"
  by (induction p) auto

lemma deref_eq_Cons: "c \<noteq> NUL \<Longrightarrow> deref p = c \<longleftrightarrow> (\<exists>q. p = c # q)"
  by (cases p) auto

lemma snprintf_length [bounds]: "length (snprintf n s) \<le> n - 1"
  by (simp add: snprintf_def)

lemma snprintf_length_less [bounds]: "0 < n \<Longrightarrow> length (snprintf n s) < n"
  by (simp add: snprintf_def)

lemma snprintf_id: "length s < n \<Longrightarrow> snprintf n s = s"
  by (simp add: snprintf_def)

lemma set_snprintf: "set (snprintf n s) \<subseteq> set s"
  by (simp add: snprintf_def set_take_subset)

lemma strncmp_eq_prefix: "strncmp_eq p q (length q) \<longleftrightarrow> prefix q p"
  by (auto simp: strncmp_eq_def prefix_def) (metis append_take_drop_id)

lemma strchr_Some: "strchr p c = Some q \<Longrightarrow> \<exists>u. p = u @ q \<and> c \<notin> set u \<and> deref q = c \<and> q \<noteq> []"
proof (induction p)
  case (Cons d p)
  show ?case
  proof (cases "d = c")
    case False
    with Cons obtain u where "p = u @ q" "c \<notin> set u" "deref q = c" "q \<noteq> []" by auto
    with False show ?thesis by (intro exI [of _ "d # u"]) simp
  qed (use Cons.prems in auto)
qed simp

lemma strchr_None: "strchr p c = None \<longleftrightarrow> c \<notin> set p"
  by (induction p) auto

lemma strchr_append: "c \<notin> set u \<Longrightarrow> strchr (u @ c # p) c = Some (c # p)"
  by (induction u) auto

lemma strstr_sublist: "strstr p q \<longleftrightarrow> sublist q p"
  by (induction p) (auto simp: sublist_Cons_right)

section \<open>Lemmas on numbers\<close>

lemma is_digit_digit_char [simp]: "d < 10 \<Longrightarrow> is_digit (digit_char d)"
  by (simp add: is_digit_def digit_char_def)

lemma uchar_digit_char [simp]: "d < 10 \<Longrightarrow> uchar (digit_char d) = 48 + d"
  by (simp add: digit_char_def)

lemma decimal_digits: "c \<in> set (decimal n) \<Longrightarrow> is_digit c"
proof (induction n rule: decimal.induct)
  case (1 n)
  then show ?case by (cases "n < 10") (auto simp: decimal.simps [of n])
qed

lemma decimal_not_Nil [simp]: "decimal n \<noteq> []"
  by (simp add: decimal.simps [of n])

lemma scan_digits_append:
  "\<forall>c \<in> set ds. is_digit c \<Longrightarrow> scan_digits v (ds @ r) = scan_digits (fst (scan_digits v ds)) r"
  by (induction ds arbitrary: v) auto

lemma scan_digits_decimal_fst: "fst (scan_digits 0 (decimal n)) = n"
proof (induction n rule: decimal.induct)
  case (1 n)
  show ?case
  proof (cases "n < 10")
    case True
    then show ?thesis by (simp add: decimal.simps [of n])
  next
    case False
    have "\<forall>c \<in> set (decimal (n div 10)). is_digit c" using decimal_digits by blast
    then show ?thesis
      using "1.IH" [OF False] False by (simp add: decimal.simps [of n] scan_digits_append)
  qed
qed

lemma scan_digits_decimal:
  "r = [] \<or> \<not> is_digit (deref r) \<Longrightarrow> scan_digits 0 (decimal n @ r) = (n, r)"
proof -
  assume r: "r = [] \<or> \<not> is_digit (deref r)"
  have "\<forall>c \<in> set (decimal n). is_digit c" using decimal_digits by blast
  then have "scan_digits 0 (decimal n @ r) = scan_digits n r"
    by (simp add: scan_digits_append scan_digits_decimal_fst)
  with r show ?thesis by (cases r) auto
qed

lemma decimal_inject: "decimal m = decimal n \<Longrightarrow> m = n"
  by (metis scan_digits_decimal_fst)

lemma length_decimal [bounds]: "n < 10 ^ k \<Longrightarrow> 0 < k \<Longrightarrow> length (decimal n) \<le> k"
proof (induction k arbitrary: n)
  case (Suc k)
  show ?case
  proof (cases "n < 10")
    case False
    with Suc.prems have "k \<noteq> 0" by (cases k) auto
    moreover from Suc.prems have "n div 10 < 10 ^ k" by (simp add: less_mult_imp_div_less)
    ultimately have "length (decimal (n div 10)) \<le> k" by (intro Suc.IH) auto
    with False show ?thesis by (simp add: decimal.simps [of n])
  qed (simp add: decimal.simps [of n])
qed simp

lemma length_decimal_u64 [bounds]: "length (decimal (unat (w :: 64 word))) \<le> 20"
proof (rule length_decimal)
  have "unat w < 2 ^ LENGTH(64)" by (rule unsigned_less)
  then show "unat w < 10 ^ 20" by simp
qed simp

lemma length_decimal_int: "\<bar>z\<bar> < 10 ^ k \<Longrightarrow> 0 < k \<Longrightarrow> length (decimal_int z) \<le> Suc k"
proof -
  assume k: "\<bar>z\<bar> < 10 ^ k" "0 < k"
  then have "nat \<bar>z\<bar> < 10 ^ k" by (simp add: nat_less_iff)
  then have "length (decimal (nat \<bar>z\<bar>)) \<le> k" using k by (intro length_decimal)
  then show ?thesis by (auto simp: decimal_int_def abs_if split: if_splits)
qed

lemma clamp_long_bounds: "- (2 ^ 63) \<le> clamp_long z \<and> clamp_long z < 2 ^ 63"
  by (simp add: clamp_long_def)

lemma wrap_int32_bounds: "- (2 ^ 31) \<le> wrap_int32 z \<and> wrap_int32 z < 2 ^ 31"
  by (simp add: wrap_int32_def)

lemma wrap_int32_id: "- (2 ^ 31) \<le> z \<Longrightarrow> z < 2 ^ 31 \<Longrightarrow> wrap_int32 z = z"
  by (simp add: wrap_int32_def)

lemma atoi_bounds [bounds]: "- (2 ^ 31) \<le> atoi p \<and> atoi p < 2 ^ 31"
  using wrap_int32_bounds by (auto simp: atoi_def split: option.splits)

lemma strtoull_bound [bounds]: "strtoull p < 2 ^ 64"
  by (auto simp: strtoull_def split: option.splits)

section \<open>Steps that may fail\<close>

text \<open>A function with early error returns gives a value of \<open>'e + 'a\<close>, \<open>Inl\<close> the error.\<close>

definition bindR :: "'e + 'a \<Rightarrow> ('a \<Rightarrow> 'e + 'b) \<Rightarrow> 'e + 'b" where
  "bindR r f = (case r of Inl e \<Rightarrow> Inl e | Inr x \<Rightarrow> f x)"

definition or_err :: "'e \<Rightarrow> 'a option \<Rightarrow> 'e + 'a" where
  "or_err e r = (case r of None \<Rightarrow> Inl e | Some x \<Rightarrow> Inr x)"

lemma bindR_simps [simp]: "bindR (Inl e) f = Inl e" "bindR (Inr x) f = f x"
  by (simp_all add: bindR_def)

lemma bindR_cong [fundef_cong]:
  "r = r' \<Longrightarrow> (\<And>x. r' = Inr x \<Longrightarrow> f x = g x) \<Longrightarrow> bindR r f = bindR r' g"
  by (simp add: bindR_def split: sum.split)

lemma or_err_simps [simp]: "or_err e None = Inl e" "or_err e (Some x) = Inr x"
  by (simp_all add: or_err_def)

lemma bindR_Inr: "bindR r f = Inr y \<longleftrightarrow> (\<exists>x. r = Inr x \<and> f x = Inr y)"
  by (cases r) auto

lemma or_err_Inr [simp]: "or_err e r = Inr x \<longleftrightarrow> r = Some x"
  by (cases r) auto

end
