(* ===== verification/Config.thy ===== *)
theory Config
  imports Prelude
begin

text \<open>
  \<open>include/anything/identity.h\<close> and \<open>src/common/config.c\<close>: peer identities, the daemon's
  configuration, the line-by-line reader of the configuration file and the validation.  A C
  array with a count is the list of its first \<open>count\<close> entries.  The file is its contents, None
  when \<open>fopen\<close> fails; each error text is a constructor of \<open>config_error\<close>.
\<close>

section \<open>Identities\<close>

record anything_identity =
  id_uid :: "32 word"
  id_gid :: "32 word"
  id_pid :: "32 word"

definition anything_identity_same :: "anything_identity \<Rightarrow> anything_identity \<Rightarrow> bool" where
  "anything_identity_same a b \<longleftrightarrow> id_uid a = id_uid b \<and> id_gid a = id_gid b \<and> id_pid a = id_pid b"

section \<open>Data\<close>

record anything_path_rule =
  rule_path :: cstring
  rule_writable :: bool

record anything_config =
  tool_socket_path :: cstring
  admin_socket_path :: cstring
  audit_log_path :: cstring
  capability_sys_read :: bool
  max_request_bytes :: nat
  max_output_bytes :: nat
  approval_ttl_seconds :: int
  read_timeout_ms :: int
  admin_allowed_uids :: "int list"
  admin_allowed_gids :: "int list"
  require_admin_allowlist :: bool
  config_paths :: "anything_path_rule list"

datatype config_error =
    Open_config_failed | Too_many_rules | Bad_tool_socket | Bad_admin_socket | Bad_audit_log
  | Bad_uids | Bad_gids | Bad_rule_path | Bad_rule_mode
  | Tool_socket_required | Admin_socket_required | Sockets_equal | Audit_log_required
  | Request_bytes_range | Read_timeout_range | Insecure_needs_flag | Allowlist_empty
  | Audit_in_writable

fun config_error_text :: "config_error \<Rightarrow> string" where
  "config_error_text Open_config_failed = ''failed to open config file''"
| "config_error_text Too_many_rules = ''too many path rules''"
| "config_error_text Bad_tool_socket = ''invalid tool socket path''"
| "config_error_text Bad_admin_socket = ''invalid admin socket path''"
| "config_error_text Bad_audit_log = ''invalid audit log path''"
| "config_error_text Bad_uids = ''invalid admin allowed_uids''"
| "config_error_text Bad_gids = ''invalid admin allowed_gids''"
| "config_error_text Bad_rule_path = ''invalid path rule''"
| "config_error_text Bad_rule_mode = ''invalid path mode''"
| "config_error_text Tool_socket_required = ''daemon.tool_socket_path is required''"
| "config_error_text Admin_socket_required = ''daemon.admin_socket_path is required''"
| "config_error_text Sockets_equal = ''tool and admin socket paths must differ''"
| "config_error_text Audit_log_required = ''daemon.audit_log is required''"
| "config_error_text Request_bytes_range = ''limits.max_request_bytes must be 1..1048576''"
| "config_error_text Read_timeout_range = ''limits.read_timeout_ms must be 1..60000''"
| "config_error_text Insecure_needs_flag = ''insecure admin mode requires --dev-insecure-admin''"
| "config_error_text Allowlist_empty = ''admin allowlist is required but empty''"
| "config_error_text Audit_in_writable = ''audit log path is inside an agent writable allowlist''"

section \<open>Reading values\<close>

definition trim :: "cstring \<Rightarrow> cstring" where
  "trim text = rev (skip_ws (rev (skip_ws text)))"

definition parse_quoted :: "cstring \<Rightarrow> nat \<Rightarrow> cstring option" where
  "parse_quoted value out_len =
     (case strchr value DQ of
        None \<Rightarrow> None
      | Some q \<Rightarrow>
          (let start = tl q
           in case strchr start DQ of
                None \<Rightarrow> None
              | Some end' \<Rightarrow>
                  (let len = length start - length end'
                   in if len \<ge> out_len then None else Some (take len start))))"

lemma skip_ws_rev_length: "length (skip_ws (rev (skip_ws p))) \<le> length p"
  using skip_ws_length [of "rev (skip_ws p)"] skip_ws_length [of p]
  by simp

lemma scan_digits_length: "length (snd (scan_digits v p)) \<le> length p"
  by (induction v p rule: scan_digits.induct) auto

lemma scan_digits_shorter:
  "ds \<noteq> [] \<Longrightarrow> is_digit (deref ds) \<Longrightarrow> length (snd (scan_digits v ds)) < length ds"
  using scan_digits_length [of "10 * v + (uchar (hd ds) - 48)" "tl ds"] by (cases ds) auto

lemma scan_number_shorter: "scan_number p = Some (neg, v, r) \<Longrightarrow> length r < length p"
proof -
  assume s: "scan_number p = Some (neg, v, r)"
  define q where "q = skip_ws p"
  define ds where "ds = (if deref q = CHR ''-'' \<or> deref q = CHR ''+'' then tl q else q)"
  from s have ds: "ds \<noteq> []" "is_digit (deref ds)" "snd (scan_digits 0 ds) = r"
    by (auto simp: scan_number_def Let_def q_def ds_def split: if_splits prod.splits)
  have "length r < length ds" using scan_digits_shorter [OF ds(1,2), of 0] ds(3) by simp
  also have "length ds \<le> length q" by (simp add: ds_def)
  also have "\<dots> \<le> length p" unfolding q_def by (rule skip_ws_length)
  finally show ?thesis .
qed

lemma strtol_shorter [consumes]: "strtol p = Some (v, r) \<Longrightarrow> length r < length p"
  by (auto simp: strtol_def split: option.splits dest: scan_number_shorter)

text \<open>\<open>ANYTHING_MAX_ADMIN_IDS\<close> is 16.  \<open>acc\<close> is the filled part of \<open>out\<close>.\<close>

function long_array_loop :: "cstring \<Rightarrow> nat \<Rightarrow> int list \<Rightarrow> int list option" where
  "long_array_loop p max_count acc =
     (if p = [] then None
      else
        (let q = trim p
         in if deref q = CHR '']'' then Some acc
            else if length acc \<ge> max_count then None
            else (case strtol q of
                    None \<Rightarrow> None
                  | Some (parsed, end') \<Rightarrow>
                      (let acc' = acc @ [parsed]; r = skip_ws end'
                       in if deref r = CHR '','' then long_array_loop (tl r) max_count acc'
                          else if deref r = CHR '']'' then Some acc'
                          else None))))"
  by pat_completeness auto
termination
proof (relation "measure (\<lambda>(p, n, acc). length p)", goal_cases)
  case (2 p n acc q z v r acc' r')
  then have "length r < length (trim p)" by (auto dest: strtol_shorter)
  also have "\<dots> \<le> length p" by (simp add: trim_def skip_ws_rev_length)
  finally have "length r < length p" .
  moreover have "length (tl r') \<le> length r" using 2 skip_ws_length [of r] by simp
  ultimately show ?case by simp
qed simp

definition parse_long_array :: "cstring \<Rightarrow> nat \<Rightarrow> int list option" where
  "parse_long_array value max_count =
     (case strchr value (CHR ''['') of
        None \<Rightarrow> None
      | Some q \<Rightarrow> long_array_loop (tl q) max_count [])"

definition path_is_under :: "cstring \<Rightarrow> cstring \<Rightarrow> bool" where
  "path_is_under path root =
     (let root_len = length root
      in if root_len = 0 then False
         else if \<not> strncmp_eq path root root_len then False
         else drop root_len path = [] \<or> deref (drop root_len path) = CHR ''/'')"

declare long_array_loop.simps [simp del]

section \<open>Initialisation and validation\<close>

text \<open>The path buffers have \<open>ANYTHING_MAX_PATH_LEN\<close> (256) bytes.\<close>

definition anything_config_init :: anything_config where
  "anything_config_init =
     \<lparr>tool_socket_path = snprintf 256 ''/tmp/anythingd-tool.sock'',
      admin_socket_path = snprintf 256 ''/tmp/anythingd-admin.sock'',
      audit_log_path = snprintf 256 ''/tmp/anything-audit.jsonl'',
      capability_sys_read = False,
      max_request_bytes = 1048576,
      max_output_bytes = 1048576,
      approval_ttl_seconds = 300,
      read_timeout_ms = 2000,
      admin_allowed_uids = [],
      admin_allowed_gids = [],
      require_admin_allowlist = True,
      config_paths = []\<rparr>"

definition anything_config_validate_with_options ::
  "anything_config \<Rightarrow> bool \<Rightarrow> config_error + unit" where
  "anything_config_validate_with_options config allow_dev_insecure_admin =
     (if tool_socket_path config = [] then Inl Tool_socket_required
      else if admin_socket_path config = [] then Inl Admin_socket_required
      else if tool_socket_path config = admin_socket_path config then Inl Sockets_equal
      else if audit_log_path config = [] then Inl Audit_log_required
      else if max_request_bytes config = 0 \<or> max_request_bytes config > 1048576
        then Inl Request_bytes_range
      else if read_timeout_ms config \<le> 0 \<or> read_timeout_ms config > 60000
        then Inl Read_timeout_range
      else if \<not> require_admin_allowlist config \<and> \<not> allow_dev_insecure_admin
        then Inl Insecure_needs_flag
      else if require_admin_allowlist config \<and> length (admin_allowed_uids config) = 0 \<and>
        length (admin_allowed_gids config) = 0 then Inl Allowlist_empty
      else if \<exists>rule \<in> set (config_paths config).
        rule_writable rule \<and> path_is_under (audit_log_path config) (rule_path rule)
        then Inl Audit_in_writable
      else Inr ())"

definition anything_config_validate :: "anything_config \<Rightarrow> config_error + unit" where
  "anything_config_validate config = anything_config_validate_with_options config False"

definition anything_config_identity_is_admin :: "anything_config \<Rightarrow> anything_identity \<Rightarrow> bool" where
  "anything_config_identity_is_admin config identity =
     (if \<not> require_admin_allowlist config then True
      else if \<exists>u \<in> set (admin_allowed_uids config). u = uint (id_uid identity) then True
      else \<exists>g \<in> set (admin_allowed_gids config). g = uint (id_gid identity))"

section \<open>The file reader\<close>

text \<open>\<open>fgets(line, 512, file)\<close>: up to 511 bytes, through the first newline if it comes earlier;
  None at the end of the file.  The program sees the bytes before the first NUL.\<close>

fun fgets_loop :: "nat \<Rightarrow> char list \<Rightarrow> char list \<times> char list" where
  "fgets_loop n [] = ([], [])"
| "fgets_loop n (c # s) =
     (if n = 0 then ([], c # s)
      else if c = NL then ([c], s)
      else (case fgets_loop (n - 1) s of (line, rest) \<Rightarrow> (c # line, rest)))"

definition fgets :: "nat \<Rightarrow> char list \<Rightarrow> (cstring \<times> char list) option" where
  "fgets line_size file =
     (if file = [] then None
      else (case fgets_loop (line_size - 1) file of (line, rest) \<Rightarrow> Some (c_str line, rest)))"

text \<open>The value of a \<open>key = value\<close> line: one branch per key, in the code's order.  The first
  component of the state is \<open>config\<close>, the second \<open>in_path_rule\<close>.\<close>

definition update_last_rule ::
  "(anything_path_rule \<Rightarrow> anything_path_rule) \<Rightarrow> anything_config \<Rightarrow> anything_config" where
  "update_last_rule f config =
     config\<lparr>config_paths := (config_paths config)
       [length (config_paths config) - 1 :=
          f (config_paths config ! (length (config_paths config) - 1))]\<rparr>"

definition config_entry ::
  "cstring \<Rightarrow> cstring \<Rightarrow> anything_config \<Rightarrow> bool \<Rightarrow> config_error + anything_config" where
  "config_entry key value config in_path_rule =
     (if key = ''tool_socket_path'' \<or> key = ''socket_path'' then
        bindR (or_err Bad_tool_socket (parse_quoted value 256))
          (\<lambda>s. Inr (config\<lparr>tool_socket_path := s\<rparr>))
      else if key = ''admin_socket_path'' then
        bindR (or_err Bad_admin_socket (parse_quoted value 256))
          (\<lambda>s. Inr (config\<lparr>admin_socket_path := s\<rparr>))
      else if key = ''audit_log'' then
        bindR (or_err Bad_audit_log (parse_quoted value 256))
          (\<lambda>s. Inr (config\<lparr>audit_log_path := s\<rparr>))
      else if key = ''sys_read'' then
        Inr (config\<lparr>capability_sys_read := strncmp_eq value ''true'' 4\<rparr>)
      else if key = ''max_request_bytes'' then
        Inr (config\<lparr>max_request_bytes := strtoull value\<rparr>)
      else if key = ''max_output_bytes'' then
        Inr (config\<lparr>max_output_bytes := strtoull value\<rparr>)
      else if key = ''approval_ttl_seconds'' then
        Inr (config\<lparr>approval_ttl_seconds := atoi value\<rparr>)
      else if key = ''read_timeout_ms'' then
        Inr (config\<lparr>read_timeout_ms := atoi value\<rparr>)
      else if key = ''allowed_uids'' then
        bindR (or_err Bad_uids (parse_long_array value 16))
          (\<lambda>ids. Inr (config\<lparr>admin_allowed_uids := ids\<rparr>))
      else if key = ''allowed_gids'' then
        bindR (or_err Bad_gids (parse_long_array value 16))
          (\<lambda>ids. Inr (config\<lparr>admin_allowed_gids := ids\<rparr>))
      else if key = ''require_admin_allowlist'' then
        Inr (config\<lparr>require_admin_allowlist := strncmp_eq value ''true'' 4\<rparr>)
      else if in_path_rule \<and> length (config_paths config) > 0 \<and> key = ''path'' then
        bindR (or_err Bad_rule_path (parse_quoted value 256))
          (\<lambda>s. Inr (update_last_rule (\<lambda>r. r\<lparr>rule_path := s\<rparr>) config))
      else if in_path_rule \<and> length (config_paths config) > 0 \<and> key = ''mode'' then
        bindR (or_err Bad_rule_mode (parse_quoted value 32))
          (\<lambda>mode. Inr (update_last_rule (\<lambda>r. r\<lparr>rule_writable := strstr mode ''write''\<rparr>) config))
      else Inr config)"

text \<open>\<open>strchr(line, '#')\<close> and the NUL written there: the line up to the first hash sign.\<close>

definition strip_comment :: "cstring \<Rightarrow> cstring" where
  "strip_comment line = takeWhile (\<lambda>c. c \<noteq> CHR ''#'') line"

definition config_line ::
  "cstring \<Rightarrow> anything_config \<times> bool \<Rightarrow> config_error + (anything_config \<times> bool)" where
  "config_line line st =
     (case st of (config, in_path_rule) \<Rightarrow>
       (let entry = trim (strip_comment line)
        in if entry = [] then Inr (config, in_path_rule)
           else if entry = ''[[paths]]'' then
             (if length (config_paths config) \<ge> 16 then Inl Too_many_rules
              else Inr (config\<lparr>config_paths :=
                     config_paths config @ [\<lparr>rule_path = [], rule_writable = False\<rparr>]\<rparr>, True))
           else
             (case strchr entry (CHR ''='') of
                None \<Rightarrow> Inr (config, in_path_rule)
              | Some equals \<Rightarrow>
                  (let key = trim (take (length entry - length equals) entry);
                       value = trim (tl equals)
                   in bindR (config_entry key value config in_path_rule)
                        (\<lambda>config'. Inr (config', in_path_rule))))))"

lemma fgets_loop_append: "fgets_loop n s = (line, rest) \<Longrightarrow> s = line @ rest"
  by (induction n s arbitrary: line rule: fgets_loop.induct) (auto split: if_splits prod.splits)

lemma fgets_loop_progress:
  "fgets_loop n s = (line, rest) \<Longrightarrow> 0 < n \<Longrightarrow> s \<noteq> [] \<Longrightarrow> length rest < length s"
  by (cases s) (auto split: if_splits prod.splits dest: fgets_loop_append)

lemma fgets_shorter [consumes]:
  assumes "fgets n file = Some (line, rest)" "1 < n"
  shows "length rest < length file"
proof -
  from assms obtain l where "fgets_loop (n - 1) file = (l, rest)" "0 < n - 1" "file \<noteq> []"
    by (auto simp: fgets_def split: if_splits prod.splits)
  then show ?thesis by (rule fgets_loop_progress)
qed

function config_lines ::
  "char list \<Rightarrow> anything_config \<times> bool \<Rightarrow> config_error + (anything_config \<times> bool)" where
  "config_lines file st =
     (case fgets 512 file of
        None \<Rightarrow> Inr st
      | Some (line, rest) \<Rightarrow> bindR (config_line line st) (\<lambda>st'. config_lines rest st'))"
  by pat_completeness auto
termination
  by (relation "measure (\<lambda>(f, s). length f)") (auto dest: fgets_shorter)

declare config_lines.simps [simp del]

definition anything_config_load_with_options ::
  "char list option \<Rightarrow> bool \<Rightarrow> config_error + anything_config" where
  "anything_config_load_with_options file allow_dev_insecure_admin =
     (case file of
        None \<Rightarrow> Inl Open_config_failed
      | Some contents \<Rightarrow>
          bindR (config_lines contents (anything_config_init, False)) (\<lambda>(config, in_path_rule).
          bindR (anything_config_validate_with_options config allow_dev_insecure_admin) (\<lambda>_.
          Inr config)))"

definition anything_config_load :: "char list option \<Rightarrow> config_error + anything_config" where
  "anything_config_load file = anything_config_load_with_options file False"

end
