(* ===== verification/Json_Grammar.thy ===== *)
theory Json_Grammar
  imports Prelude
begin

text \<open>
  The abstract side of everything the program prints: the grammar of JSON texts (RFC 8259,
  without optional blanks, over bytes) and a reference scanner for JSON strings.  Nothing here
  is translated from the repository; it is what the printers and the parser are compared with.
\<close>

section \<open>String bodies\<close>

definition is_hex :: "char \<Rightarrow> bool" where
  "is_hex c \<longleftrightarrow> is_digit c \<or> (97 \<le> uchar c \<and> uchar c \<le> 102) \<or> (65 \<le> uchar c \<and> uchar c \<le> 70)"

definition hex_val :: "char \<Rightarrow> nat" where
  "hex_val c = (if is_digit c then uchar c - 48
                else if 97 \<le> uchar c then uchar c - 87 else uchar c - 55)"

text \<open>The simple escapes of JSON and the characters they stand for.\<close>

definition json_unescape :: "char \<Rightarrow> char option" where
  "json_unescape e =
     (if e = DQ \<or> e = BS \<or> e = CHR ''/'' then Some e
      else if e = CHR ''b'' then Some (CHR 0x08) else if e = CHR ''f'' then Some (CHR 0x0C)
      else if e = CHR ''n'' then Some NL else if e = CHR ''r'' then Some CR
      else if e = CHR ''t'' then Some TAB else None)"

inductive json_body :: "string \<Rightarrow> bool" where
  body_Nil: "json_body []"
| body_char: "c \<noteq> DQ \<Longrightarrow> c \<noteq> BS \<Longrightarrow> 32 \<le> uchar c \<Longrightarrow> json_body s \<Longrightarrow> json_body (c # s)"
| body_esc: "json_unescape e \<noteq> None \<Longrightarrow> json_body s \<Longrightarrow> json_body (BS # e # s)"
| body_u: "is_hex a \<Longrightarrow> is_hex b \<Longrightarrow> is_hex c \<Longrightarrow> is_hex d \<Longrightarrow> json_body s \<Longrightarrow>
     json_body (BS # CHR ''u'' # a # b # c # d # s)"

lemma json_body_append: "json_body s \<Longrightarrow> json_body t \<Longrightarrow> json_body (s @ t)"
  by (induction rule: json_body.induct) (auto intro: json_body.intros)

text \<open>A string whose characters all stand for themselves.\<close>

definition plain_char :: "char \<Rightarrow> bool" where
  "plain_char c \<longleftrightarrow> c \<noteq> DQ \<and> c \<noteq> BS \<and> 32 \<le> uchar c"

lemma plain_char_literal [simp]:
  "plain_char (Char b0 b1 b2 b3 b4 b5 b6 b7) \<longleftrightarrow>
   Char b0 b1 b2 b3 b4 b5 b6 b7 \<noteq> DQ \<and> Char b0 b1 b2 b3 b4 b5 b6 b7 \<noteq> BS \<and>
   32 \<le> (of_char (Char b0 b1 b2 b3 b4 b5 b6 b7) :: nat)"
  by (simp add: plain_char_def)

lemma json_body_plain: "\<forall>c \<in> set s. plain_char c \<Longrightarrow> json_body s"
  by (induction s) (auto simp: plain_char_def intro: json_body.intros)

section \<open>Values\<close>

inductive json_value :: "string \<Rightarrow> bool"
  and json_members :: "string \<Rightarrow> bool"
  and json_elements :: "string \<Rightarrow> bool" where
  val_string: "json_body s \<Longrightarrow> json_value (DQ # s @ [DQ])"
| val_int: "json_value (decimal_int z)"
| val_true: "json_value ''true''"
| val_false: "json_value ''false''"
| val_null: "json_value ''null''"
| val_obj_Nil: "json_value ''{}''"
| val_obj: "json_members m \<Longrightarrow> json_value (CHR ''{'' # m @ ''}'')"
| val_arr_Nil: "json_value ''[]''"
| val_arr: "json_elements m \<Longrightarrow> json_value (CHR ''['' # m @ '']'')"
| mem_one: "json_body k \<Longrightarrow> json_value v \<Longrightarrow> json_members (DQ # k @ [DQ] @ '':'' @ v)"
| mem_more: "json_body k \<Longrightarrow> json_value v \<Longrightarrow> json_members m \<Longrightarrow>
     json_members (DQ # k @ [DQ] @ '':'' @ v @ '','' @ m)"
| elt_one: "json_value v \<Longrightarrow> json_elements v"
| elt_more: "json_value v \<Longrightarrow> json_elements m \<Longrightarrow> json_elements (v @ '','' @ m)"

text \<open>No control characters, and so no NUL, in any of them.\<close>

lemma decimal_printable: "d \<in> set (decimal_int z) \<Longrightarrow> 32 \<le> uchar d"
  by (auto simp: decimal_int_def is_digit_def split: if_splits dest: decimal_digits)

lemma escape_printable_cases: "is_hex c \<Longrightarrow> 32 \<le> uchar c" "json_unescape c \<noteq> None \<Longrightarrow> 32 \<le> uchar c"
  by (auto simp: is_hex_def is_digit_def json_unescape_def split: if_splits)

lemma json_body_printable: "json_body s \<Longrightarrow> \<forall>d \<in> set s. 32 \<le> uchar d"
  by (induction rule: json_body.induct) (simp_all add: escape_printable_cases)

lemma json_printable:
  "json_value s \<Longrightarrow> \<forall>d \<in> set s. 32 \<le> uchar d"
  "json_members s \<Longrightarrow> \<forall>d \<in> set s. 32 \<le> uchar d"
  "json_elements s \<Longrightarrow> \<forall>d \<in> set s. 32 \<le> uchar d"
  by (induction rule: json_value_json_members_json_elements.inducts)
    (auto dest: json_body_printable decimal_printable)

lemma json_value_no_NUL: "json_value s \<Longrightarrow> NUL \<notin> set s"
  using json_printable(1) [of s] by auto

text \<open>Objects given as a list of printed members.\<close>

definition member :: "string \<Rightarrow> string \<Rightarrow> string" where
  "member k v = DQ # k @ [DQ] @ '':'' @ v"

definition quoted :: "string \<Rightarrow> string" where
  "quoted s = DQ # s @ [DQ]"

fun comma_sep :: "string list \<Rightarrow> string" where
  "comma_sep [] = []"
| "comma_sep [x] = x"
| "comma_sep (x # y # ys) = x @ '','' @ comma_sep (y # ys)"

definition json_object :: "(string \<times> string) list \<Rightarrow> string" where
  "json_object kvs = CHR ''{'' # comma_sep (map (\<lambda>(k, v). member k v) kvs) @ ''}''"

definition json_array :: "string list \<Rightarrow> string" where
  "json_array vs = CHR ''['' # comma_sep vs @ '']''"

lemma json_members_comma_sep:
  "kvs \<noteq> [] \<Longrightarrow> \<forall>(k, v) \<in> set kvs. json_body k \<and> json_value v \<Longrightarrow>
   json_members (comma_sep (map (\<lambda>(k, v). member k v) kvs))"
proof (induction kvs rule: induct_list012)
  case (2 kv)
  then show ?case by (auto simp: member_def intro: mem_one [simplified])
next
  case (3 kv kw kvs)
  obtain k v where kv: "kv = (k, v)" by fastforce
  from 3 have "json_members (comma_sep (map (\<lambda>(k, v). member k v) (kw # kvs)))" by simp
  with 3 kv show ?case
    using mem_more [of k v "comma_sep (map (\<lambda>(k, v). member k v) (kw # kvs))"]
    by (simp add: member_def split: prod.splits)
qed simp

lemma json_value_object:
  "\<forall>(k, v) \<in> set kvs. json_body k \<and> json_value v \<Longrightarrow> json_value (json_object kvs)"
  using json_members_comma_sep [of kvs]
  by (cases "kvs = []") (auto simp: json_object_def intro: val_obj val_obj_Nil [simplified])

lemma json_elements_comma_sep:
  "vs \<noteq> [] \<Longrightarrow> \<forall>v \<in> set vs. json_value v \<Longrightarrow> json_elements (comma_sep vs)"
  by (induction vs rule: induct_list012) (auto intro: elt_one elt_more [simplified])

lemma json_value_array: "\<forall>v \<in> set vs. json_value v \<Longrightarrow> json_value (json_array vs)"
  using json_elements_comma_sep [of vs]
  by (cases "vs = []") (auto simp: json_array_def intro: val_arr val_arr_Nil [simplified])

lemma json_value_quoted: "json_body s \<Longrightarrow> json_value (quoted s)"
  by (simp add: quoted_def val_string)

section \<open>A reference scanner for strings\<close>

text \<open>From the character after the opening quote: the text the string denotes and what follows
  the closing quote.  Escapes of code points above 255 are outside the byte strings used here.\<close>

definition push :: "char \<Rightarrow> (string \<times> string) option \<Rightarrow> (string \<times> string) option" where
  "push c r = (case r of None \<Rightarrow> None | Some (t, rest) \<Rightarrow> Some (c # t, rest))"

fun json_scan :: "string \<Rightarrow> (string \<times> string) option" where
  "json_scan [] = None"
| "json_scan (x # s) =
     (if x = DQ then Some ([], s)
      else if uchar x < 32 then None
      else if x = BS then
        (case s of
           [] \<Rightarrow> None
         | e # s' \<Rightarrow>
             if e = CHR ''u'' then
               (case s' of
                  a # b # c # d # s'' \<Rightarrow>
                    if is_hex a \<and> is_hex b \<and> is_hex c \<and> is_hex d \<and> hex_val a = 0 \<and> hex_val b = 0
                    then push (char_of (16 * hex_val c + hex_val d)) (json_scan s'') else None
                | _ \<Rightarrow> None)
             else (case json_unescape e of None \<Rightarrow> None | Some c \<Rightarrow> push c (json_scan s')))
      else push x (json_scan s))"

lemma push_simps [simp]: "push c None = None" "push c (Some (t, r)) = Some (c # t, r)"
  by (simp_all add: push_def)

lemma hex_digit_is_hex [simp]: "d < 16 \<Longrightarrow> is_hex (hex_digit d)"
  by (simp add: is_hex_def hex_digit_def is_digit_def)

lemma uchar_hex_digit: "d < 16 \<Longrightarrow> uchar (hex_digit d) = (if d < 10 then 48 + d else 87 + d)"
  by (simp add: hex_digit_def)

lemma hex_digit_plain [simp]:
  assumes "d < 16"
  shows "plain_char (hex_digit d)"
proof -
  have "uchar (hex_digit d) \<noteq> uchar DQ \<and> uchar (hex_digit d) \<noteq> uchar BS"
    using assms by (simp add: uchar_hex_digit del: uchar_eq_iff)
  then have "hex_digit d \<noteq> DQ \<and> hex_digit d \<noteq> BS" by (simp only: uchar_eq_iff simp_thms)
  with assms show ?thesis by (simp add: plain_char_def uchar_hex_digit)
qed

lemma hex_val_hex_digit [simp]: "d < 16 \<Longrightarrow> hex_val (hex_digit d) = d"
  by (simp add: hex_val_def hex_digit_def is_digit_def)

end
