(* ===== verification/Json.thy ===== *)
theory Json
  imports Json_Grammar
begin

text \<open>
  \<open>src/common/json.c\<close>: the escaping helper every JSON printer of the program goes through.
  A routine that fills a buffer returns the text it left there, or None where the C returns -1
  (no caller looks at the buffer then).  The buffer's size is \<open>out_len\<close>; \<open>*used\<close> is the length
  of what has been written.  Main facts: the routine computes \<open>escape\<close> exactly when that fits
  with its NUL, its output is always the body of a JSON string, and the reference scanner reads
  the input back from it.
\<close>

section \<open>The code\<close>

definition append_char :: "nat \<Rightarrow> cstring \<Rightarrow> char \<Rightarrow> cstring option" where
  "append_char out_len out c = (if length out + 1 \<ge> out_len then None else Some (out @ [c]))"

fun append_text :: "nat \<Rightarrow> cstring \<Rightarrow> cstring \<Rightarrow> cstring option" where
  "append_text out_len out [] = Some out"
| "append_text out_len out (c # text) =
     (case append_char out_len out c of
        None \<Rightarrow> None
      | Some out' \<Rightarrow> append_text out_len out' text)"

text \<open>The body of the loop of \<open>anything_json_escape_string\<close> for one character.\<close>

definition escape_step :: "nat \<Rightarrow> cstring \<Rightarrow> char \<Rightarrow> cstring option" where
  "escape_step out_len out c =
     (if c = DQ then append_text out_len out [BS, DQ]
      else if c = BS then append_text out_len out [BS, BS]
      else if c = NL then append_text out_len out [BS, CHR ''n'']
      else if c = CR then append_text out_len out [BS, CHR ''r'']
      else if c = TAB then append_text out_len out [BS, CHR ''t'']
      else if uchar c < 32 then
        (let text = [BS, CHR ''u''] @ hex4 (uchar c)
         in if length text \<ge> out_len - length out then None else Some (out @ text))
      else append_char out_len out c)"

fun escape_loop :: "nat \<Rightarrow> cstring \<Rightarrow> cstring \<Rightarrow> cstring option" where
  "escape_loop out_len out [] = Some out"
| "escape_loop out_len out (c # p) =
     (case escape_step out_len out c of
        None \<Rightarrow> None
      | Some out' \<Rightarrow> escape_loop out_len out' p)"

text \<open>The input None is the NULL pointer.\<close>

definition anything_json_escape_string :: "cstring option \<Rightarrow> nat \<Rightarrow> cstring option" where
  "anything_json_escape_string input out_len =
     (if out_len = 0 then None
      else case input of None \<Rightarrow> Some [] | Some s \<Rightarrow> escape_loop out_len [] s)"

definition anything_json_write_string_field ::
  "nat \<Rightarrow> cstring option \<Rightarrow> cstring option \<Rightarrow> cstring option" where
  "anything_json_write_string_field out_len name value =
     (case anything_json_escape_string name 128 of
        None \<Rightarrow> None
      | Some escaped_name \<Rightarrow>
          (case anything_json_escape_string value 2048 of
             None \<Rightarrow> None
           | Some escaped_value \<Rightarrow>
               (let text = [DQ] @ escaped_name @ [DQ] @ '':'' @ [DQ] @ escaped_value @ [DQ]
                in if length text \<ge> out_len then None else Some text)))"

section \<open>The reference\<close>

definition esc_char :: "char \<Rightarrow> string" where
  "esc_char c =
     (if c = DQ then [BS, DQ] else if c = BS then [BS, BS]
      else if c = NL then [BS, CHR ''n''] else if c = CR then [BS, CHR ''r'']
      else if c = TAB then [BS, CHR ''t'']
      else if uchar c < 32 then [BS, CHR ''u''] @ hex4 (uchar c) else [c])"

definition escape :: "string \<Rightarrow> string" where
  "escape s = concat (map esc_char s)"

lemma escape_simps [simp]:
  "escape [] = []" "escape (c # s) = esc_char c @ escape s" "escape (s @ t) = escape s @ escape t"
  by (simp_all add: escape_def)

section \<open>The code computes the reference when it fits\<close>

lemma append_text_eq:
  "length out < n \<Longrightarrow>
   append_text n out t = (if length out + length t < n then Some (out @ t) else None)"
  by (induction t arbitrary: out) (auto simp: append_char_def)

lemma escape_step_eq:
  "length out < n \<Longrightarrow>
   escape_step n out c =
     (if length out + length (esc_char c) < n then Some (out @ esc_char c) else None)"
  by (auto simp: escape_step_def esc_char_def append_text_eq append_char_def Let_def)

lemma escape_loop_eq:
  "length out < n \<Longrightarrow>
   escape_loop n out s = (if length out + length (escape s) < n then Some (out @ escape s) else None)"
  by (induction s arbitrary: out) (auto simp: escape_step_eq)

lemma json_escape_eq:
  "anything_json_escape_string (Some s) n = (if length (escape s) < n then Some (escape s) else None)"
  by (simp add: anything_json_escape_string_def escape_loop_eq)

lemma json_escape_Some:
  "anything_json_escape_string (Some s) n = Some t \<longleftrightarrow> t = escape s \<and> length (escape s) < n"
  by (auto simp: json_escape_eq)

lemma json_escape_None:
  "anything_json_escape_string (Some s) n = None \<longleftrightarrow> n \<le> length (escape s)"
  by (auto simp: json_escape_eq)

section \<open>Lengths\<close>

lemma length_esc_char: "length (esc_char c) \<le> 6"
  by (simp add: esc_char_def hex4_def)

lemma length_escape [bounds]: "length (escape s) \<le> 6 * length s"
proof (induction s)
  case (Cons c s)
  then show ?case using length_esc_char [of c] by simp
qed simp

text \<open>Text without other control characters than newline, carriage return and tab at most
  doubles; this is all the text the request parser lets through.\<close>

definition simple_char :: "char \<Rightarrow> bool" where
  "simple_char c \<longleftrightarrow> 32 \<le> uchar c \<or> c = NL \<or> c = CR \<or> c = TAB"

abbreviation simple_text :: "string \<Rightarrow> bool" where
  "simple_text s \<equiv> \<forall>c \<in> set s. simple_char c"

lemma length_esc_char_simple: "simple_char c \<Longrightarrow> length (esc_char c) \<le> 2"
  by (auto simp: esc_char_def simple_char_def)

lemma length_escape_simple: "simple_text s \<Longrightarrow> length (escape s) \<le> 2 * length s"
proof (induction s)
  case (Cons c s)
  then have "length (esc_char c) \<le> 2" by (simp add: length_esc_char_simple)
  with Cons show ?case by simp
qed simp

lemma esc_char_plain [simp]: "plain_char c \<Longrightarrow> esc_char c = [c]"
  by (auto simp: esc_char_def plain_char_def)

lemma escape_plain: "\<forall>c \<in> set s. plain_char c \<Longrightarrow> escape s = s"
proof (induction s)
  case (Cons c s)
  then show ?case by (simp add: esc_char_plain)
qed simp

lemma plain_char_simple: "plain_char c \<Longrightarrow> simple_char c"
  by (simp add: plain_char_def simple_char_def)

lemma digit_plain_char [simp]: "is_digit c \<Longrightarrow> plain_char c"
  by (auto simp: is_digit_def plain_char_def)

lemma escape_decimal [simp]: "escape (decimal n) = decimal n"
  by (rule escape_plain) (auto dest: decimal_digits)

section \<open>The output is a JSON string body\<close>

lemma json_body_u: "json_body (BS # CHR ''u'' # hex4 n)"
  by (simp add: hex4_def body_u body_Nil)

lemma json_body_simple_esc: "json_unescape e \<noteq> None \<Longrightarrow> json_body [BS, e]"
  by (simp add: body_esc body_Nil)

lemma json_body_esc_char: "json_body (esc_char c)"
  by (simp add: esc_char_def json_body_u json_body_simple_esc json_unescape_def body_char body_Nil)

lemma json_body_escape [simp]: "json_body (escape s)"
  by (induction s) (auto intro: json_body_append body_Nil json_body_esc_char)

lemma hex4_printable: "d \<in> set (hex4 n) \<Longrightarrow> 32 \<le> uchar d"
  by (auto simp: hex4_def uchar_hex_digit)

lemma esc_char_printable: "d \<in> set (esc_char c) \<Longrightarrow> 32 \<le> uchar d"
  by (auto simp: esc_char_def dest: hex4_printable split: if_splits)

lemma escape_printable: "d \<in> set (escape s) \<Longrightarrow> 32 \<le> uchar d"
  by (auto simp: escape_def dest: esc_char_printable)

lemma escape_simple_text [simp]: "simple_text (escape s)"
  by (auto simp: simple_char_def dest: escape_printable)

section \<open>Reading the escaped text back\<close>

lemma json_scan_hex4:
  "uchar c < 32 \<Longrightarrow> json_scan (BS # CHR ''u'' # hex4 (uchar c) @ r) = push c (json_scan r)"
proof -
  assume "uchar c < 32"
  moreover have "char_of (16 * (uchar c div 16) + uchar c mod 16) = c" by (simp add: uchar_def)
  ultimately show ?thesis by (simp add: hex4_def)
qed

lemma json_scan_esc_char: "json_scan (esc_char c @ r) = push c (json_scan r)"
  using json_scan_hex4 [of c r] by (auto simp: esc_char_def json_unescape_def)

lemma json_scan_escape: "json_scan (escape s @ DQ # r) = Some (s, r)"
  by (induction s) (simp_all add: json_scan_esc_char)

text \<open>The interface a printer of quoted fields relies on: \<open>enc\<close> prints the text between two
  quotes and \<open>scan\<close> reads it, from just after the opening quote, for the texts \<open>ok\<close>.\<close>

locale quoted_field =
  fixes enc :: "string \<Rightarrow> string"
    and scan :: "string \<Rightarrow> (string \<times> string) option"
    and ok :: "string \<Rightarrow> bool"
  assumes scan_enc: "ok s \<Longrightarrow> scan (enc s @ DQ # r) = Some (s, r)"
begin

lemma field_inject:
  assumes "ok s" "ok t" "enc s @ DQ # q = enc t @ DQ # r"
  shows "s = t \<and> q = r"
proof -
  have "Some (s, q) = scan (enc s @ DQ # q)" by (simp only: scan_enc [OF assms(1)])
  also have "\<dots> = Some (t, r)" by (simp only: assms(3) scan_enc [OF assms(2)])
  finally show ?thesis by simp
qed

lemma enc_inject: "ok s \<Longrightarrow> ok t \<Longrightarrow> enc s = enc t \<Longrightarrow> s = t"
  using field_inject [of s t "[]" "[]"] by simp

end

interpretation json_field: quoted_field escape json_scan "\<lambda>s. True"
  by unfold_locales (rule json_scan_escape)

section \<open>Properties\<close>

text \<open>C26: the escaping helper returns the reference escaping of its whole input exactly when that
  text and its NUL fit in the buffer, and fails otherwise: never a truncated string.\<close>

theorem escape_string_exact:
  "anything_json_escape_string (Some s) n =
     (if length (concat (map esc_char s)) < n then Some (concat (map esc_char s)) else None)"
  unfolding escape_def [symmetric] by (rule json_escape_eq)

end
