(* ===== verification/Rpc_Scan.thy ===== *)
theory Rpc_Scan
  imports Json
begin

text \<open>
  The scanning routines of \<open>src/common/rpc.c\<close> (up to \<open>skip_json_value\<close>): string literals decoded into a
  sized buffer, string literals skipped, an object copied verbatim, an arbitrary value skipped.
  A routine takes the cursor \<open>*cursor\<close> (the rest of the text) and returns the rest after it, or
  None for -1.  The string routines are compared with one reference scanner \<open>scan_string\<close>; the
  locales \<open>scanner\<close> and \<open>strict_scanner\<close> are what the loops of the request parser need of
  them to terminate and to stay inside the text.
\<close>

section \<open>String literals\<close>

definition append_decoded :: "nat \<Rightarrow> cstring \<Rightarrow> char \<Rightarrow> cstring option" where
  "append_decoded out_len out c = (if length out + 1 \<ge> out_len then None else Some (out @ [c]))"

text \<open>The \<open>switch\<close> of both string routines: the five escapes they know.\<close>

definition rpc_unescape :: "char \<Rightarrow> char option" where
  "rpc_unescape e =
     (if e = DQ \<or> e = BS then Some e
      else if e = CHR ''n'' then Some NL
      else if e = CHR ''r'' then Some CR
      else if e = CHR ''t'' then Some TAB
      else None)"

fun parse_string_loop :: "nat \<Rightarrow> cstring \<Rightarrow> cstring \<Rightarrow> (cstring \<times> cstring) option" where
  "parse_string_loop out_len out [] = None"
| "parse_string_loop out_len out (c # p) =
     (if c = DQ then Some (out, p)
      else if uchar c < 32 then None
      else if c = BS then
        (case p of
           [] \<Rightarrow> None
         | e # p' \<Rightarrow>
             (case rpc_unescape e of
                None \<Rightarrow> None
              | Some d \<Rightarrow>
                  (case append_decoded out_len out d of
                     None \<Rightarrow> None
                   | Some out' \<Rightarrow> parse_string_loop out_len out' p')))
      else
        (case append_decoded out_len out c of
           None \<Rightarrow> None
         | Some out' \<Rightarrow> parse_string_loop out_len out' p))"

definition parse_json_string :: "nat \<Rightarrow> cstring \<Rightarrow> (cstring \<times> cstring) option" where
  "parse_json_string out_len p =
     (if deref p \<noteq> DQ \<or> out_len = 0 then None else parse_string_loop out_len [] (tl p))"

fun skip_string_loop :: "cstring \<Rightarrow> cstring option" where
  "skip_string_loop [] = None"
| "skip_string_loop (c # p) =
     (if c = DQ then Some p
      else if uchar c < 32 then None
      else if c = BS then
        (case p of
           [] \<Rightarrow> None
         | e # p' \<Rightarrow>
             if e = DQ \<or> e = BS \<or> e = CHR ''n'' \<or> e = CHR ''r'' \<or> e = CHR ''t''
             then skip_string_loop p' else None)
      else skip_string_loop p)"

definition skip_json_string :: "cstring \<Rightarrow> cstring option" where
  "skip_json_string p = (if deref p \<noteq> DQ then None else skip_string_loop (tl p))"

subsection \<open>The reference scanner\<close>

text \<open>From the character after the opening quote, without any buffer.\<close>

fun scan_string :: "cstring \<Rightarrow> (cstring \<times> cstring) option" where
  "scan_string [] = None"
| "scan_string (c # p) =
     (if c = DQ then Some ([], p)
      else if uchar c < 32 then None
      else if c = BS then
        (case p of
           [] \<Rightarrow> None
         | e # p' \<Rightarrow> (case rpc_unescape e of None \<Rightarrow> None | Some d \<Rightarrow> push d (scan_string p')))
      else push c (scan_string p))"

text \<open>The same as a grammar: the body of a literal and the text it denotes.\<close>

inductive rpc_body :: "cstring \<Rightarrow> cstring \<Rightarrow> bool" where
  rpc_Nil: "rpc_body [] []"
| rpc_char: "plain_char c \<Longrightarrow> rpc_body b t \<Longrightarrow> rpc_body (c # b) (c # t)"
| rpc_esc: "rpc_unescape e = Some d \<Longrightarrow> rpc_body b t \<Longrightarrow> rpc_body (BS # e # b) (d # t)"

lemma push_Some: "push c r = Some (t, q) \<longleftrightarrow> (\<exists>s. r = Some (s, q) \<and> t = c # s)"
  by (auto simp: push_def split: option.splits)

lemma uchar_DQ_BS [simp]: "\<not> uchar DQ < 32" "\<not> uchar BS < 32"
  by simp_all

lemma scan_string_body: "rpc_body b t \<Longrightarrow> scan_string (b @ DQ # r) = Some (t, r)"
  by (induction rule: rpc_body.induct) (auto simp: plain_char_def)

lemma scan_string_Some: "scan_string p = Some (t, r) \<Longrightarrow> \<exists>b. p = b @ DQ # r \<and> rpc_body b t"
proof (induction p arbitrary: t rule: scan_string.induct)
  case (2 c p)
  consider "c = DQ" | e p' d where "c = BS" "p = e # p'" "rpc_unescape e = Some d"
    | "plain_char c" using "2.prems"
    by (auto simp: plain_char_def split: if_splits list.splits option.splits)
  then show ?case
  proof cases
    case 1
    with "2.prems" show ?thesis by (auto intro: rpc_Nil)
  next
    case (2 e p' d)
    with "2.prems" obtain s where s: "scan_string p' = Some (s, r)" "t = d # s"
      by (auto simp: push_Some)
    with 2 "2.IH"(1) obtain b where "p' = b @ DQ # r" "rpc_body b s" by fastforce
    with 2 s show ?thesis by (intro exI [of _ "BS # e # b"]) (auto intro: rpc_esc)
  next
    case 3
    with "2.prems" obtain s where s: "scan_string p = Some (s, r)" "t = c # s"
      by (auto simp: push_Some plain_char_def)
    with 3 "2.IH"(2) obtain b where "p = b @ DQ # r" "rpc_body b s"
      by (auto simp: plain_char_def)
    with 3 s show ?thesis by (intro exI [of _ "c # b"]) (auto intro: rpc_char)
  qed
qed simp

lemma rpc_body_simple: "rpc_body b t \<Longrightarrow> simple_text t"
  by (induction rule: rpc_body.induct)
    (auto simp: plain_char_def simple_char_def rpc_unescape_def split: if_splits)

lemma rpc_body_length: "rpc_body b t \<Longrightarrow> length t \<le> length b"
  by (induction rule: rpc_body.induct) auto

lemma rpc_body_plain: "\<forall>c \<in> set s. plain_char c \<Longrightarrow> rpc_body s s"
  by (induction s) (auto intro: rpc_body.intros)

subsection \<open>The routines against the reference\<close>

lemma parse_string_loop_eq:
  "length out < n \<Longrightarrow>
   parse_string_loop n out p =
     (case scan_string p of
        None \<Rightarrow> None
      | Some (t, r) \<Rightarrow> if length out + length t < n then Some (out @ t, r) else None)"
proof (induction n out p rule: parse_string_loop.induct)
  case (2 n out c p)
  consider "c = DQ \<or> uchar c < 32" | "c = BS" "p = []"
    | e p' where "c = BS" "p = e # p'" "rpc_unescape e = None"
    | e p' d where "c = BS" "p = e # p'" "rpc_unescape e = Some d"
    | "plain_char c"
    by (metis list.exhaust linorder_not_less option.exhaust plain_char_def)
  then show ?case
  proof cases
    case (4 e p' d)
    show ?thesis
    proof (cases "length out + 1 < n")
      case True
      with 4 "2.IH"(1) [of e p' d "out @ [d]"] show ?thesis
        by (auto simp: append_decoded_def push_def split: option.splits)
    qed (use 4 in \<open>auto simp: append_decoded_def push_def split: option.splits\<close>)
  next
    case 5
    show ?thesis
    proof (cases "length out + 1 < n")
      case True
      with 5 "2.IH"(2) [of "out @ [c]"] show ?thesis
        by (auto simp: append_decoded_def push_def plain_char_def split: option.splits)
    qed (use 5 in \<open>auto simp: append_decoded_def push_def plain_char_def split: option.splits\<close>)
  qed (use "2.prems" in auto)
qed simp

lemma parse_json_string_Some:
  "parse_json_string n p = Some (t, r) \<longleftrightarrow>
   (\<exists>q. p = DQ # q \<and> scan_string q = Some (t, r) \<and> length t < n)"
  by (cases p)
    (auto simp: parse_json_string_def parse_string_loop_eq split: option.splits if_splits)

lemma map_snd_push [simp]: "map_option snd (push c r) = map_option snd r"
  by (simp add: push_def split: option.splits)

lemma skip_string_loop_eq: "skip_string_loop p = map_option snd (scan_string p)"
proof (induction p rule: skip_string_loop.induct)
  case (2 c p)
  show ?case
  proof (cases "c = BS")
    case True
    then show ?thesis
    proof (cases p)
      case (Cons e p')
      with True 2 show ?thesis
        by (simp add: rpc_unescape_def)
    qed simp
  next
    case False
    then show ?thesis using 2 by simp
  qed
qed simp

lemma skip_json_string_Some:
  "skip_json_string p = Some r \<longleftrightarrow> (\<exists>q t. p = DQ # q \<and> scan_string q = Some (t, r))"
  by (cases p) (auto simp: skip_json_string_def skip_string_loop_eq)

lemma parse_json_string_body:
  "rpc_body b t \<Longrightarrow> length t < n \<Longrightarrow> parse_json_string n (DQ # b @ DQ # r) = Some (t, r)"
  by (auto simp: parse_json_string_Some scan_string_body)

lemma skip_json_string_body: "rpc_body b t \<Longrightarrow> skip_json_string (DQ # b @ DQ # r) = Some r"
  by (auto simp: skip_json_string_Some scan_string_body)

lemma scan_string_suffix: "scan_string p = Some (t, r) \<Longrightarrow> suffix r p \<and> length r < length p"
  by (auto dest!: scan_string_Some simp: suffix_def)

lemma parse_json_string_simple: "parse_json_string n p = Some (t, r) \<Longrightarrow> simple_text t"
  by (auto simp: parse_json_string_Some dest!: scan_string_Some rpc_body_simple)

lemma parse_json_string_length [bounds]: "parse_json_string n p = Some (t, r) \<Longrightarrow> length t < n"
  by (auto simp: parse_json_string_Some)

section \<open>What the loops need of a scanner\<close>

locale scanner =
  fixes scan :: "cstring \<Rightarrow> ('a \<times> cstring) option"
  assumes rest_suffix: "scan p = Some (x, r) \<Longrightarrow> suffix r p"
begin

lemma rest_length: "scan p = Some (x, r) \<Longrightarrow> length r \<le> length p"
  by (rule suffix_length_le [OF rest_suffix])

lemma rest_set: "scan p = Some (x, r) \<Longrightarrow> set r \<subseteq> set p"
  by (rule set_mono_suffix [OF rest_suffix])

lemma rest_skip_ws: "scan p = Some (x, r) \<Longrightarrow> suffix (skip_ws r) p"
  using rest_suffix skip_ws_suffix suffix_order.trans by blast

end

locale strict_scanner = scanner +
  assumes rest_shorter: "scan p = Some (x, r) \<Longrightarrow> length r < length p"
begin

lemma rest_skip_ws_shorter: "scan p = Some (x, r) \<Longrightarrow> length (skip_ws r) < length p"
  by (rule le_less_trans [OF skip_ws_length rest_shorter])

lemma rest_tl_shorter: "scan p = Some (x, r) \<Longrightarrow> length (skip_ws (tl (skip_ws r))) < length p"
proof -
  assume "scan p = Some (x, r)"
  then have "length (tl (skip_ws r)) < length p"
    using rest_skip_ws_shorter [of p x r] by simp
  then show ?thesis by (rule le_less_trans [OF skip_ws_length])
qed

end

interpretation str: strict_scanner "parse_json_string n"
  by unfold_locales (auto simp: parse_json_string_Some suffix_Cons dest: scan_string_suffix)

interpretation skip_str: strict_scanner "\<lambda>p. map_option (Pair ()) (skip_json_string p)"
  by unfold_locales (auto simp: skip_json_string_Some suffix_Cons dest: scan_string_suffix)

lemmas skip_json_string_suffix = skip_str.rest_suffix [simplified]
lemmas skip_json_string_shorter [consumes] = skip_str.rest_shorter [simplified]

section \<open>Objects copied verbatim\<close>

text \<open>The loop of \<open>copy_json_object_raw\<close>: the cursor after the brace that brings the depth
  to 0.\<close>

function copy_object_loop :: "cstring \<Rightarrow> int \<Rightarrow> cstring option" where
  "copy_object_loop [] depth = None"
| "copy_object_loop (c # p) depth =
     (if c = DQ then
        (case skip_json_string (c # p) of
           None \<Rightarrow> None
         | Some p' \<Rightarrow> copy_object_loop p' depth)
      else if c = CHR ''{'' then copy_object_loop p (depth + 1)
      else if c = CHR ''}'' then
        (if depth - 1 = 0 then Some p else copy_object_loop p (depth - 1))
      else copy_object_loop p depth)"
  by pat_completeness auto
termination
  by (relation "measure (\<lambda>(p, d). length p)") (auto dest: skip_json_string_shorter)

text \<open>\<open>len = p - start\<close> characters are copied out when they fit with the NUL.\<close>

definition copy_json_object_raw :: "nat \<Rightarrow> cstring \<Rightarrow> (cstring \<times> cstring) option" where
  "copy_json_object_raw out_len start =
     (if deref start \<noteq> CHR ''{'' then None
      else (case copy_object_loop start 0 of
              None \<Rightarrow> None
            | Some p \<Rightarrow>
                (let len = length start - length p
                 in if len \<ge> out_len then None else Some (take len start, p))))"

section \<open>Values skipped\<close>

function skip_array_loop :: "cstring \<Rightarrow> int \<Rightarrow> cstring option" where
  "skip_array_loop [] depth = None"
| "skip_array_loop (c # p) depth =
     (if c = DQ then
        (case skip_json_string (c # p) of
           None \<Rightarrow> None
         | Some p' \<Rightarrow> skip_array_loop p' depth)
      else
        (let depth' = (if c = CHR ''['' then depth + 1 else depth)
         in if c = CHR '']'' then
              (if depth' - 1 = 0 then Some p else skip_array_loop p (depth' - 1))
            else skip_array_loop p depth'))"
  by pat_completeness auto
termination
  by (relation "measure (\<lambda>(p, d). length p)") (auto dest: skip_json_string_shorter)

fun skip_scalar :: "cstring \<Rightarrow> cstring" where
  "skip_scalar [] = []"
| "skip_scalar (c # p) =
     (if c \<noteq> CHR '','' \<and> c \<noteq> CHR ''}'' \<and> c \<noteq> CHR '']'' then skip_scalar p else c # p)"

text \<open>\<open>scratch\<close> has \<open>ANYTHING_RPC_MAX_PARAMS\<close> (1024) bytes.\<close>

definition skip_json_value :: "cstring \<Rightarrow> cstring option" where
  "skip_json_value cursor =
     (let p = skip_ws cursor
      in if deref p = DQ then skip_json_string p
         else if deref p = CHR ''{'' then map_option snd (copy_json_object_raw 1024 p)
         else if deref p = CHR ''['' then skip_array_loop p 0
         else Some (skip_scalar p))"

section \<open>Lemmas on objects and values\<close>

lemma copy_object_loop_suffix:
  "copy_object_loop p d = Some r \<Longrightarrow> suffix r p \<and> length r < length p"
proof (induction p d rule: copy_object_loop.induct)
  case (2 c p d)
  show ?case
  proof (cases "c = DQ")
    case True
    with 2 obtain p' where p': "skip_json_string (c # p) = Some p'"
      "suffix r p' \<and> length r < length p'" by (auto split: option.splits)
    then show ?thesis
      using skip_json_string_suffix [of "c # p" p'] skip_json_string_shorter [of "c # p" p']
      by (auto intro: suffix_order.trans)
  next
    case False
    with 2 have "r = p \<or> suffix r p \<and> length r < length p" by (simp split: if_splits)
    then show ?thesis by (auto intro: suffix_ConsI)
  qed
qed simp

lemma copy_json_object_raw_Some:
  "copy_json_object_raw n p = Some (out, r) \<longleftrightarrow>
   deref p = CHR ''{'' \<and> copy_object_loop p 0 = Some r \<and> p = out @ r \<and> length out < n"
  (is "?L = ?R")
proof
  assume ?L
  then have d: "deref p = CHR ''{''" and loop: "copy_object_loop p 0 = Some r"
    and out: "out = take (length p - length r) p" and n: "length p - length r < n"
    by (auto simp: copy_json_object_raw_def Let_def split: if_splits option.splits)
  from copy_object_loop_suffix [OF loop] obtain s where "p = s @ r" by (auto simp: suffix_def)
  with d loop out n show ?R by auto
next
  assume ?R
  then show ?L by (auto simp: copy_json_object_raw_def Let_def)
qed

interpretation obj: strict_scanner "copy_json_object_raw n"
  by unfold_locales (auto simp: copy_json_object_raw_Some dest: copy_object_loop_suffix)

lemma skip_array_loop_suffix: "skip_array_loop p d = Some r \<Longrightarrow> suffix r p"
proof (induction p d rule: skip_array_loop.induct)
  case (2 c p d)
  show ?case
  proof (cases "c = DQ")
    case True
    with 2 obtain p' where p': "skip_json_string (c # p) = Some p'" "suffix r p'"
      by (auto split: option.splits)
    then show ?thesis
      using skip_json_string_suffix [of "c # p" p'] by (auto intro: suffix_order.trans)
  next
    case False
    with 2 have "suffix r p" by (auto simp: Let_def split: if_splits)
    then show ?thesis by (rule suffix_ConsI)
  qed
qed simp

lemma skip_scalar_suffix: "suffix (skip_scalar p) p"
  by (induction p) (auto simp: suffix_Cons)

lemma skip_json_value_suffix: "skip_json_value p = Some r \<Longrightarrow> suffix r p"
proof -
  assume "skip_json_value p = Some r"
  then have "suffix r (skip_ws p)"
    by (auto simp: skip_json_value_def Let_def intro: skip_scalar_suffix
        dest: skip_json_string_suffix skip_array_loop_suffix obj.rest_suffix split: if_splits)
  then show ?thesis using skip_ws_suffix suffix_order.trans by blast
qed

interpretation val: scanner "\<lambda>p. map_option (Pair ()) (skip_json_value p)"
  by unfold_locales (auto dest: skip_json_value_suffix)

lemmas skip_json_value_shorter [consumes] = val.rest_length [simplified]

end
