(* ===== verification/Rpc.thy ===== *)
theory Rpc
  imports Rpc_Scan
begin

unbundle bit_operations_syntax

text \<open>
  \<open>src/common/rpc.c\<close> after its scanning routines: the request hash, the strict JSON-RPC request parser, the
  two response printers and the lookup of a string parameter.  \<open>anything_rpc_request\<close> is the
  struct of \<open>include/anything/rpc.h\<close>; each error text of the parser is a constructor of
  \<open>rpc_error\<close>, and \<open>rpc_error_text\<close> is the text the code writes into \<open>error\<close>.
\<close>

section \<open>Data\<close>

record anything_rpc_request =
  rq_id :: cstring
  rq_method :: cstring
  rq_session_id :: cstring
  rq_params :: cstring
  rq_hash :: "64 word"

record rpc_scan =
  seen_jsonrpc :: bool
  seen_id :: bool
  seen_method :: bool
  seen_params :: bool

datatype rpc_error =
    Invalid_json | Invalid_object | Invalid_request | Invalid_key | Invalid_shape
  | Duplicate_key | Invalid_version | Invalid_id | Invalid_method | Non_object_params
  | Invalid_params | Invalid_value | Invalid_terminator | Trailing_data | Missing_field

fun rpc_error_text :: "rpc_error \<Rightarrow> string" where
  "rpc_error_text Invalid_json = ''invalid JSON''"
| "rpc_error_text Invalid_object = ''invalid JSON object''"
| "rpc_error_text Invalid_request = ''invalid JSON-RPC request''"
| "rpc_error_text Invalid_key = ''invalid top-level key''"
| "rpc_error_text Invalid_shape = ''invalid request shape''"
| "rpc_error_text Duplicate_key = ''duplicate top-level key''"
| "rpc_error_text Invalid_version = ''invalid JSON-RPC version''"
| "rpc_error_text Invalid_id = ''invalid id''"
| "rpc_error_text Invalid_method = ''invalid method''"
| "rpc_error_text Non_object_params = ''non-object params''"
| "rpc_error_text Invalid_params = ''invalid params''"
| "rpc_error_text Invalid_value = ''invalid value''"
| "rpc_error_text Invalid_terminator = ''invalid request terminator''"
| "rpc_error_text Trailing_data = ''trailing data''"
| "rpc_error_text Missing_field = ''missing required JSON-RPC field''"

section \<open>The request hash\<close>

definition hash_byte :: "64 word \<Rightarrow> char \<Rightarrow> 64 word" where
  "hash_byte hash s = (hash XOR of_nat (uchar s)) * 1099511628211"

definition anything_rpc_hash_request :: "cstring \<Rightarrow> cstring \<Rightarrow> cstring \<Rightarrow> 64 word" where
  "anything_rpc_hash_request method params session_id =
     foldl (foldl hash_byte) 1469598103934665603 [method, ''|'', params, ''|'', session_id]"

section \<open>String parameters\<close>

function extract_param_loop :: "nat \<Rightarrow> cstring \<Rightarrow> cstring \<Rightarrow> cstring option" where
  "extract_param_loop out_len key p =
     (if p = [] \<or> deref p = CHR ''}'' then None
      else (case parse_json_string 64 p of
              None \<Rightarrow> None
            | Some (found_key, p1) \<Rightarrow>
                (let p2 = skip_ws p1
                 in if deref p2 \<noteq> CHR '':'' then None
                    else (let p3 = skip_ws (tl p2)
                          in if found_key = key then map_option fst (parse_json_string out_len p3)
                             else (case skip_json_value p3 of
                                     None \<Rightarrow> None
                                   | Some p4 \<Rightarrow>
                                       (let p5 = skip_ws p4
                                        in extract_param_loop out_len key
                                             (if deref p5 = CHR '','' then skip_ws (tl p5)
                                              else p5)))))))"
  by pat_completeness auto

lemma member_shorter:
  assumes "parse_json_string n p = Some (key, p1)"
    and "length p3 \<le> length (skip_ws (tl (skip_ws p1)))"
  shows "length (skip_ws p3) < length p" "length (skip_ws (tl (skip_ws p3))) < length p"
proof -
  have "length p3 < length p" by (rule le_less_trans [OF assms(2) str.rest_tl_shorter [OF assms(1)]])
  then show "length (skip_ws p3) < length p" by (rule le_less_trans [OF skip_ws_length])
  then have "length (tl (skip_ws p3)) < length p" by simp
  then show "length (skip_ws (tl (skip_ws p3))) < length p" by (rule le_less_trans [OF skip_ws_length])
qed

termination extract_param_loop
  by (relation "measure (\<lambda>(n, k, p). length p)")
    (auto intro: member_shorter dest: skip_json_value_shorter)

declare extract_param_loop.simps [simp del]

definition anything_rpc_extract_param_string :: "cstring \<Rightarrow> cstring \<Rightarrow> nat \<Rightarrow> cstring option" where
  "anything_rpc_extract_param_string params key out_len =
     (let p = skip_ws params
      in if deref p \<noteq> CHR ''{'' then None
         else extract_param_loop out_len key (skip_ws (tl p)))"

section \<open>The request parser\<close>

definition mark_seen :: "bool \<Rightarrow> rpc_error + bool" where
  "mark_seen seen = (if seen then Inl Duplicate_key else Inr True)"

text \<open>One member of the top-level object, from its value on: the branches of the loop.\<close>

definition rpc_field :: "cstring \<Rightarrow> cstring \<Rightarrow> rpc_scan \<Rightarrow> anything_rpc_request \<Rightarrow>
    rpc_error + (cstring \<times> rpc_scan \<times> anything_rpc_request)" where
  "rpc_field key p scan request =
     (if key = ''jsonrpc'' then
        bindR (mark_seen (seen_jsonrpc scan)) (\<lambda>seen.
        bindR (or_err Invalid_version (parse_json_string 16 p)) (\<lambda>(version, p').
        if version \<noteq> ''2.0'' then Inl Invalid_version
        else Inr (p', scan\<lparr>seen_jsonrpc := seen\<rparr>, request)))
      else if key = ''id'' then
        bindR (mark_seen (seen_id scan)) (\<lambda>seen.
        bindR (or_err Invalid_id (parse_json_string 64 p)) (\<lambda>(text, p').
        Inr (p', scan\<lparr>seen_id := seen\<rparr>, request\<lparr>rq_id := text\<rparr>)))
      else if key = ''method'' then
        bindR (mark_seen (seen_method scan)) (\<lambda>seen.
        bindR (or_err Invalid_method (parse_json_string 64 p)) (\<lambda>(text, p').
        Inr (p', scan\<lparr>seen_method := seen\<rparr>, request\<lparr>rq_method := text\<rparr>)))
      else if key = ''params'' then
        bindR (mark_seen (seen_params scan)) (\<lambda>seen.
        if deref p \<noteq> CHR ''{'' then Inl Non_object_params
        else bindR (or_err Invalid_params (copy_json_object_raw 1024 p)) (\<lambda>(text, p').
        Inr (p', scan\<lparr>seen_params := seen\<rparr>, request\<lparr>rq_params := text\<rparr>)))
      else
        bindR (or_err Invalid_value (skip_json_value p)) (\<lambda>p'. Inr (p', scan, request)))"

text \<open>The \<open>while\<close> loop.  It also ends, without an error, when the text ends where the next
  member should start.\<close>

lemma rpc_field_suffix: "rpc_field key p scan rq = Inr (p', scan', rq') \<Longrightarrow> suffix p' p"
  by (auto simp: rpc_field_def bindR_Inr split: if_splits
      dest: str.rest_suffix obj.rest_suffix skip_json_value_suffix)

function rpc_members :: "cstring \<Rightarrow> rpc_scan \<Rightarrow> anything_rpc_request \<Rightarrow>
    rpc_error + (cstring \<times> rpc_scan \<times> anything_rpc_request)" where
  "rpc_members p scan request =
     (if p = [] then Inr (p, scan, request)
      else
        bindR (or_err Invalid_key (parse_json_string 64 p)) (\<lambda>(key, p1).
        let p2 = skip_ws p1
        in if deref p2 \<noteq> CHR '':'' then Inl Invalid_shape
           else
             bindR (rpc_field key (skip_ws (tl p2)) scan request) (\<lambda>(p3, scan', request').
             let p4 = skip_ws p3
             in if deref p4 = CHR '','' then rpc_members (skip_ws (tl p4)) scan' request'
                else if deref p4 = CHR ''}'' then Inr (tl p4, scan', request')
                else Inl Invalid_terminator)))"
  by pat_completeness auto
termination rpc_members
  by (relation "measure (\<lambda>(p, s, r). length p)")
    (auto intro: member_shorter dest: rpc_field_suffix suffix_length_le)

declare rpc_members.simps [simp del]

text \<open>\<open>memset(request, 0, sizeof *request)\<close> and \<open>rpc_scan scan = {0}\<close>.\<close>

definition empty_request :: anything_rpc_request where
  "empty_request = \<lparr>rq_id = [], rq_method = [], rq_session_id = [], rq_params = [], rq_hash = 0\<rparr>"

definition empty_scan :: rpc_scan where
  "empty_scan = \<lparr>seen_jsonrpc = False, seen_id = False, seen_method = False, seen_params = False\<rparr>"

text \<open>What follows the loop: trailing data, required fields, defaults, session and hash.\<close>

definition rpc_finish :: "cstring \<times> rpc_scan \<times> anything_rpc_request \<Rightarrow> rpc_error + anything_rpc_request" where
  "rpc_finish = (\<lambda>(p, scan, request).
     let p' = skip_ws p
     in if p' \<noteq> [] \<and> deref p' \<noteq> NL then Inl Trailing_data
        else if \<not> seen_jsonrpc scan \<or> \<not> seen_id scan \<or> \<not> seen_method scan then Inl Missing_field
        else
          (let params = (if seen_params scan then rq_params request else snprintf 1024 ''{}'');
               session = (case anything_rpc_extract_param_string params ''session_id'' 64 of
                            None \<Rightarrow> snprintf 64 ''default''
                          | Some s \<Rightarrow> s)
           in Inr (request\<lparr>rq_params := params, rq_session_id := session,
                   rq_hash := anything_rpc_hash_request (rq_method request) params session\<rparr>)))"

text \<open>\<open>json\<close> is the buffer (None for NULL) and \<open>len\<close> its length.\<close>

definition anything_rpc_parse :: "char list option \<Rightarrow> nat \<Rightarrow> rpc_error + anything_rpc_request" where
  "anything_rpc_parse json len =
     (case json of
        None \<Rightarrow> Inl Invalid_json
      | Some buffer \<Rightarrow>
          if len = 0 then Inl Invalid_json
          else
            (let p = skip_ws (c_str buffer)
             in if deref p \<noteq> CHR ''{'' then Inl Invalid_object
                else
                  (let q = skip_ws (tl p)
                   in if deref q = CHR ''}'' then Inl Invalid_request
                      else bindR (rpc_members q empty_scan empty_request) rpc_finish)))"

section \<open>Responses\<close>

text \<open>The printers return what is in \<open>out\<close>, or None for -1 (then \<open>out\<close> is not written at
  all: a caller that sends it sends uninitialised memory).\<close>

definition anything_rpc_result :: "cstring \<Rightarrow> cstring \<Rightarrow> nat \<Rightarrow> cstring option" where
  "anything_rpc_result rpc_id json_result out_len =
     (case anything_json_escape_string (Some rpc_id) 128 of
        None \<Rightarrow> None
      | Some escaped_id \<Rightarrow>
          Some (snprintf out_len
            (''{\"jsonrpc\":\"2.0\",\"id\":\"'' @ escaped_id @ ''\",\"result\":'' @ json_result @ ''}'' @ [NL])))"

definition anything_rpc_error ::
  "cstring option \<Rightarrow> int \<Rightarrow> cstring \<Rightarrow> cstring \<Rightarrow> cstring option \<Rightarrow> nat \<Rightarrow> cstring option" where
  "anything_rpc_error rpc_id code kind message data_json out_len =
     (case (anything_json_escape_string (Some (case rpc_id of None \<Rightarrow> ''null'' | Some s \<Rightarrow> s)) 128,
            anything_json_escape_string (Some kind) 128,
            anything_json_escape_string (Some message) 256) of
        (Some escaped_id, Some escaped_kind, Some escaped_message) \<Rightarrow>
          (let extra = (case data_json of None \<Rightarrow> [] | Some d \<Rightarrow> d)
           in Some (snprintf out_len
                (''{\"jsonrpc\":\"2.0\",\"id\":\"'' @ escaped_id @ ''\",\"error\":{\"code\":'' @
                 decimal_int code @ '',\"message\":\"'' @ escaped_message @
                 ''\",\"data\":{\"kind\":\"'' @ escaped_kind @ [DQ] @ extra @ ''}}}'' @ [NL])))
      | _ \<Rightarrow> None)"

end
