(* ===== verification/Rpc_Props.thy ===== *)
theory Rpc_Props
  imports Rpc
begin

unbundle bit_operations_syntax

text \<open>
  Facts on the request parser, the hash and the response printers of \<open>Rpc\<close>: what a parsed
  request always satisfies, how the top-level loop acts on a printed object, which changes of a
  request the hash detects, when a response is complete JSON.
\<close>

section \<open>The hash\<close>

text \<open>The multiplier is odd, so one round of the hash is a bijection of the 64-bit state.\<close>

lemma hash_prime_inverse: "(1099511628211 :: 64 word) * 14886173955864302971 = 1"
  by simp

lemma hash_prime_cancel: "(x :: 64 word) * 1099511628211 = y * 1099511628211 \<longleftrightarrow> x = y"
proof
  assume "x * 1099511628211 = y * 1099511628211"
  then have "x * (1099511628211 * 14886173955864302971) = y * (1099511628211 * 14886173955864302971)"
    by (simp only: mult.assoc [symmetric])
  then show "x = y" by (simp only: hash_prime_inverse mult_1_right)
qed simp

lemma xor_cancel: "(a :: 64 word) XOR c = b XOR c \<longleftrightarrow> a = b"
proof
  assume "a XOR c = b XOR c"
  then have "a XOR (c XOR c) = b XOR (c XOR c)" by (simp only: xor.assoc [symmetric])
  then show "a = b" by simp
qed simp

lemma hash_byte_state: "hash_byte h c = hash_byte k c \<longleftrightarrow> h = k"
  by (simp add: hash_byte_def hash_prime_cancel xor_cancel)

lemma hash_byte_char: "hash_byte h c = hash_byte h d \<longleftrightarrow> c = d"
proof -
  have "(of_nat (uchar c) :: 64 word) = of_nat (uchar d) \<longleftrightarrow> uchar c = uchar d"
  proof
    assume "(of_nat (uchar c) :: 64 word) = of_nat (uchar d)"
    then have "unat (of_nat (uchar c) :: 64 word) = unat (of_nat (uchar d) :: 64 word)" by simp
    then show "uchar c = uchar d"
      using uchar_less_256 [of c] uchar_less_256 [of d] by (simp add: unat_of_nat take_bit_eq_mod)
  qed simp
  then show ?thesis
    by (simp add: hash_byte_def hash_prime_cancel xor_cancel xor.commute [of h] del: of_nat_eq_iff)
qed

lemma hash_fold_state: "foldl hash_byte h s = foldl hash_byte k s \<longleftrightarrow> h = k"
  by (induction s arbitrary: h k) (simp_all add: hash_byte_state)

lemma hash_request_joined:
  "anything_rpc_hash_request m p s =
   foldl hash_byte 1469598103934665603 (m @ ''|'' @ p @ ''|'' @ s)"
  by (simp add: anything_rpc_hash_request_def)

lemma hash_fold_change:
  "foldl hash_byte h (u @ c # v) = foldl hash_byte h (u @ d # v) \<longleftrightarrow> c = d"
  by (simp add: hash_fold_state hash_byte_char)

section \<open>What a parsed request satisfies\<close>

definition object_text :: "cstring \<Rightarrow> bool" where
  "object_text s \<longleftrightarrow> (\<exists>m. s = CHR ''{'' # m @ ''}'')"

definition request_ok :: "anything_rpc_request \<Rightarrow> bool" where
  "request_ok rq \<longleftrightarrow>
     length (rq_id rq) < 64 \<and> simple_text (rq_id rq) \<and>
     length (rq_method rq) < 64 \<and> simple_text (rq_method rq) \<and>
     length (rq_session_id rq) < 64 \<and> simple_text (rq_session_id rq) \<and>
     length (rq_params rq) < 1024 \<and> object_text (rq_params rq) \<and>
     rq_hash rq = anything_rpc_hash_request (rq_method rq) (rq_params rq) (rq_session_id rq)"

lemma copy_object_loop_closed: "copy_object_loop p d = Some r \<Longrightarrow> \<exists>s. p = s @ CHR ''}'' # r"
proof (induction p d rule: copy_object_loop.induct)
  case (2 c p d)
  show ?case
  proof (cases "c = DQ")
    case True
    with 2 obtain p' s where p': "skip_json_string (c # p) = Some p'" "p' = s @ CHR ''}'' # r"
      by (auto split: option.splits)
    then obtain u where "c # p = u @ p'"
      using skip_json_string_suffix [of "c # p" p'] by (auto simp: suffix_def)
    with p' show ?thesis by (intro exI [of _ "u @ s"]) simp
  next
    case False
    with 2 consider "r = p" "c = CHR ''}''" | "\<exists>s. p = s @ CHR ''}'' # r" by (simp split: if_splits)
    then show ?thesis
    proof cases
      case 1
      then show ?thesis by (intro exI [of _ "[]"]) simp
    next
      case 2
      then obtain s where "p = s @ CHR ''}'' # r" by blast
      then show ?thesis by (intro exI [of _ "c # s"]) simp
    qed
  qed
qed simp

lemma copy_json_object_raw_object:
  assumes "copy_json_object_raw n p = Some (out, r)"
  shows "object_text out \<and> length out < n"
proof -
  from assms have a: "deref p = CHR ''{''" "copy_object_loop p 0 = Some r" "p = out @ r"
      "length out < n" by (auto simp: copy_json_object_raw_Some)
  then obtain s where s: "p = s @ CHR ''}'' # r" using copy_object_loop_closed by blast
  with a(3) have out: "out = s @ ''}''" by simp
  moreover from a(1) s obtain m where "s = CHR ''{'' # m" by (cases s) auto
  ultimately show ?thesis using a(4) by (auto simp: object_text_def)
qed

text \<open>What the loop keeps true of the request under construction.\<close>

definition fields_ok :: "rpc_scan \<Rightarrow> anything_rpc_request \<Rightarrow> bool" where
  "fields_ok scan rq \<longleftrightarrow>
     length (rq_id rq) < 64 \<and> simple_text (rq_id rq) \<and>
     length (rq_method rq) < 64 \<and> simple_text (rq_method rq) \<and>
     (seen_params scan \<longrightarrow> length (rq_params rq) < 1024 \<and> object_text (rq_params rq))"

lemma rpc_field_ok:
  "rpc_field key p scan rq = Inr (p', scan', rq') \<Longrightarrow> fields_ok scan rq \<Longrightarrow> fields_ok scan' rq'"
  by (simp add: rpc_field_def bindR_Inr fields_ok_def split: if_splits)
    (auto dest: parse_json_string_simple parse_json_string_length copy_json_object_raw_object)

text \<open>The rule of the loop: what every member keeps holds at the end.\<close>

lemma rpc_members_rule:
  assumes "rpc_members p scan rq = Inr (p', scan', rq')" and "I scan rq"
    and "\<And>key q q' scan rq scan' rq'. I scan rq \<Longrightarrow>
      rpc_field key q scan rq = Inr (q', scan', rq') \<Longrightarrow> I scan' rq'"
  shows "I scan' rq'"
  using assms(1,2)
proof (induction p scan rq rule: rpc_members.induct)
  case (1 p scan rq)
  show ?case
  proof (cases "p = []")
    case True
    with "1.prems" show ?thesis by (simp add: rpc_members.simps)
  next
    case False
    with "1.prems"(1) obtain key p1 p3 scan1 rq1 where
      key: "parse_json_string 64 p = Some (key, p1)" "deref (skip_ws p1) = CHR '':''" and
      field: "rpc_field key (skip_ws (tl (skip_ws p1))) scan rq = Inr (p3, scan1, rq1)" and
      rest: "(if deref (skip_ws p3) = CHR '','' then rpc_members (skip_ws (tl (skip_ws p3))) scan1 rq1
              else if deref (skip_ws p3) = CHR ''}'' then Inr (tl (skip_ws p3), scan1, rq1)
              else Inl Invalid_terminator) = Inr (p', scan', rq')"
      by (auto simp: rpc_members.simps [of p] bindR_Inr Let_def split: if_splits)
    from "1.prems"(2) field have "I scan1 rq1" by (rule assms(3))
    with rest "1.IH" [OF False, of "(key, p1)" key p1 "skip_ws p1" "(p3, scan1, rq1)"] key field
    show ?thesis by (auto split: if_splits)
  qed
qed

lemma fields_ok_init: "fields_ok empty_scan empty_request"
  by (simp add: fields_ok_def empty_scan_def empty_request_def)

lemma extract_param_result:
  "extract_param_loop n key p = Some s \<Longrightarrow> length s < n \<and> simple_text s"
proof (induction n key p rule: extract_param_loop.induct)
  case (1 n key p)
  from "1.prems" obtain found p1 where
    p1: "\<not> (p = [] \<or> deref p = CHR ''}'')" "parse_json_string 64 p = Some (found, p1)"
      "deref (skip_ws p1) = CHR '':''"
    by (auto simp: extract_param_loop.simps [of n key p] Let_def split: if_splits option.splits)
  show ?case
  proof (cases "found = key")
    case True
    with "1.prems" p1 show ?thesis
      by (auto simp: extract_param_loop.simps [of n key p]
          dest: parse_json_string_simple parse_json_string_length)
  next
    case False
    with "1.prems" p1 obtain p4 where p4: "skip_json_value (skip_ws (tl (skip_ws p1))) = Some p4"
      "extract_param_loop n key (if deref (skip_ws p4) = CHR '','' then skip_ws (tl (skip_ws p4))
         else skip_ws p4) = Some s"
      by (auto simp: extract_param_loop.simps [of n key p] Let_def split: if_splits option.splits)
    with "1.IH" [OF p1(1), of "(found, p1)" found p1 "skip_ws p1" "skip_ws (tl (skip_ws p1))" p4
        "skip_ws p4"] p1 False show ?thesis by simp
  qed
qed

lemma extract_param_string_result:
  "anything_rpc_extract_param_string ps key n = Some s \<Longrightarrow> length s < n \<and> simple_text s"
  by (auto simp: anything_rpc_extract_param_string_def Let_def dest: extract_param_result
      split: if_splits)

text \<open>The parameters and the session the request ends up with.\<close>

definition default_params :: "rpc_scan \<Rightarrow> anything_rpc_request \<Rightarrow> cstring" where
  "default_params scan rq = (if seen_params scan then rq_params rq else ''{}'')"

definition session_of_params :: "cstring \<Rightarrow> cstring" where
  "session_of_params ps =
     (case anything_rpc_extract_param_string ps ''session_id'' 64 of
        None \<Rightarrow> ''default'' | Some s \<Rightarrow> s)"

lemma rpc_finish_eq:
  "rpc_finish (p, scan, rq) =
     (if skip_ws p \<noteq> [] then Inl Trailing_data
      else if \<not> (seen_jsonrpc scan \<and> seen_id scan \<and> seen_method scan) then Inl Missing_field
      else let ps = default_params scan rq; s = session_of_params ps
           in Inr (rq\<lparr>rq_params := ps, rq_session_id := s,
                rq_hash := anything_rpc_hash_request (rq_method rq) ps s\<rparr>))"
proof -
  have "deref (skip_ws p) \<noteq> NL" if "skip_ws p \<noteq> []"
    using deref_skip_ws [OF that] by (auto simp: isspace_def)
  then show ?thesis
    by (cases "skip_ws p = []")
      (simp_all add: rpc_finish_def default_params_def session_of_params_def snprintf_def
        cong: option.case_cong if_cong)
qed

lemma session_of_params_ok: "length (session_of_params ps) < 64 \<and> simple_text (session_of_params ps)"
proof (cases "anything_rpc_extract_param_string ps ''session_id'' 64")
  case None
  then show ?thesis by (simp add: session_of_params_def simple_char_def)
next
  case (Some s)
  then show ?thesis
    using extract_param_string_result [OF Some] by (simp add: session_of_params_def)
qed

lemma object_text_empty: "object_text ''{}''"
  by (auto simp: object_text_def)

lemma rpc_finish_ok:
  assumes "fields_ok scan rq" and "rpc_finish (p, scan, rq) = Inr rq'"
  shows "request_ok rq'"
proof -
  have "length (default_params scan rq) < 1024 \<and> object_text (default_params scan rq)"
    using assms(1) object_text_empty by (simp add: default_params_def fields_ok_def)
  with assms show ?thesis
    using session_of_params_ok [of "default_params scan rq"]
    by (auto simp: rpc_finish_eq Let_def request_ok_def fields_ok_def split: if_splits)
qed

lemma rpc_members_ok:
  "rpc_members q empty_scan empty_request = Inr (p, scan, rq) \<Longrightarrow> fields_ok scan rq"
  by (erule rpc_members_rule [where I = fields_ok]) (auto intro: fields_ok_init rpc_field_ok)

lemma rpc_parse_ok: "anything_rpc_parse json len = Inr rq \<Longrightarrow> request_ok rq"
proof -
  assume "anything_rpc_parse json len = Inr rq"
  then obtain q p scan rq0 where "rpc_members q empty_scan empty_request = Inr (p, scan, rq0)"
    "rpc_finish (p, scan, rq0) = Inr rq"
    by (auto simp: anything_rpc_parse_def bindR_Inr Let_def split: option.splits if_splits)
  then show ?thesis using rpc_members_ok rpc_finish_ok by blast
qed

section \<open>The loop on a printed object\<close>

lemma quoted_append: "quoted s @ r = DQ # s @ DQ # r"
  by (simp add: quoted_def)

lemma member_append: "member k v @ r = DQ # k @ DQ # CHR '':'' # v @ r"
  by (simp add: member_def)

lemma not_isspace [simp]:
  "\<not> isspace DQ" "\<not> isspace (CHR ''{'')" "\<not> isspace (CHR ''}'')" "\<not> isspace (CHR ''['')"
  "\<not> isspace (CHR '','')" "\<not> isspace (CHR '':'')"
  by (simp_all add: isspace_def)

lemma skip_ws_here [simp]:
  "skip_ws (DQ # p) = DQ # p" "skip_ws (CHR ''{'' # p) = CHR ''{'' # p"
  "skip_ws (CHR ''}'' # p) = CHR ''}'' # p" "skip_ws (CHR '','' # p) = CHR '','' # p"
  "skip_ws (CHR '':'' # p) = CHR '':'' # p"
  by simp_all

text \<open>One member of the text, its key printed as \<open>k\<close>, its value as \<open>v\<close>: the loop
  continues after the comma or ends after the closing brace.\<close>

lemma rpc_members_member:
  assumes "rpc_body k key" "length key < 64" "\<not> isspace (deref v)" "v \<noteq> []"
    and "rpc_field key (v @ c # rest) scan rq = Inr (c # rest, scan', rq')" "\<not> isspace c"
  shows "rpc_members (member k v @ c # rest) scan rq =
     (if c = CHR '','' then rpc_members (skip_ws rest) scan' rq'
      else if c = CHR ''}'' then Inr (rest, scan', rq') else Inl Invalid_terminator)"
proof -
  have "skip_ws (v @ c # rest) = v @ c # rest" using assms(3,4) by (cases v) auto
  then show ?thesis
    using assms parse_json_string_body [OF assms(1,2), of "CHR '':'' # v @ c # rest"]
    by (simp add: member_append rpc_members.simps [of "DQ # _"] skip_ws_id)
qed

lemma rpc_field_jsonrpc:
  "\<not> seen_jsonrpc scan \<Longrightarrow>
   rpc_field ''jsonrpc'' (DQ # ''2.0'' @ DQ # r) scan rq = Inr (r, scan\<lparr>seen_jsonrpc := True\<rparr>, rq)"
  using parse_json_string_body [of "''2.0''" "''2.0''" 16 r] rpc_body_plain [of "''2.0''"]
  by (simp add: rpc_field_def mark_seen_def plain_char_def)

lemma rpc_field_id:
  "\<not> seen_id scan \<Longrightarrow> rpc_body b t \<Longrightarrow> length t < 64 \<Longrightarrow>
   rpc_field ''id'' (DQ # b @ DQ # r) scan rq = Inr (r, scan\<lparr>seen_id := True\<rparr>, rq\<lparr>rq_id := t\<rparr>)"
  by (simp add: rpc_field_def mark_seen_def parse_json_string_body)

lemma rpc_field_method:
  "\<not> seen_method scan \<Longrightarrow> rpc_body b t \<Longrightarrow> length t < 64 \<Longrightarrow>
   rpc_field ''method'' (DQ # b @ DQ # r) scan rq =
     Inr (r, scan\<lparr>seen_method := True\<rparr>, rq\<lparr>rq_method := t\<rparr>)"
  by (simp add: rpc_field_def mark_seen_def parse_json_string_body)

lemma rpc_field_params:
  "\<not> seen_params scan \<Longrightarrow> copy_json_object_raw 1024 p = Some (ps, r) \<Longrightarrow>
   rpc_field ''params'' p scan rq = Inr (r, scan\<lparr>seen_params := True\<rparr>, rq\<lparr>rq_params := ps\<rparr>)"
  by (simp add: rpc_field_def mark_seen_def) (simp add: copy_json_object_raw_def split: if_splits)

text \<open>An object with one string member, as the command-line client prints its parameters.\<close>

definition string_param :: "cstring \<Rightarrow> cstring \<Rightarrow> cstring" where
  "string_param k b = json_object [(k, quoted b)]"

lemma string_param_text: "string_param k b = CHR ''{'' # DQ # k @ DQ # CHR '':'' # DQ # b @ DQ # ''}''"
  by (simp add: string_param_def json_object_def member_def quoted_def)

lemma copy_object_loop_string:
  "rpc_body b t \<Longrightarrow> copy_object_loop (DQ # b @ DQ # r) d = copy_object_loop r d"
  by (simp add: skip_json_string_body)

lemma copy_string_param:
  assumes "rpc_body k key" "rpc_body b t" "length (string_param k b) < n"
  shows "copy_json_object_raw n (string_param k b @ r) = Some (string_param k b, r)"
  using assms(3) skip_json_string_body [OF assms(1)] skip_json_string_body [OF assms(2)]
  by (simp add: copy_json_object_raw_Some string_param_text)

lemma extract_string_param:
  assumes "rpc_body k key" "length key < 64" "rpc_body b t" "length t < n"
  shows "anything_rpc_extract_param_string (string_param k b) key n = Some t"
  using assms parse_json_string_body [OF assms(1,2), of "CHR '':'' # DQ # b @ DQ # ''}''"]
    parse_json_string_body [OF assms(3,4), of "''}''"]
  by (simp add: anything_rpc_extract_param_string_def string_param_text
      extract_param_loop.simps [of n key "DQ # _"] skip_ws_id)

lemma extract_other_param:
  assumes "rpc_body k key'" "length key' < 64" "rpc_body b t" "key' \<noteq> key"
  shows "anything_rpc_extract_param_string (string_param k b) key n = None"
  using assms parse_json_string_body [OF assms(1,2), of "CHR '':'' # DQ # b @ DQ # ''}''"]
    skip_json_string_body [OF assms(3), of "''}''"]
  by (simp add: anything_rpc_extract_param_string_def string_param_text skip_json_value_def
      extract_param_loop.simps [of n key "DQ # _"] extract_param_loop.simps [of n key "''}''"]
      skip_ws_id)

end
