(* ===== verification/Rpc_Replies.thy ===== *)
theory Rpc_Replies
  imports Rpc_Props
begin

text \<open>
  The response printers \<open>anything_rpc_result\<close> and \<open>anything_rpc_error\<close> against the objects
  they are meant to print: the object as a list of members, its printed text, when the printer
  produces exactly that text and a newline, and how long it is.
\<close>

section \<open>The objects\<close>

definition result_object :: "cstring \<Rightarrow> cstring \<Rightarrow> string" where
  "result_object rid json_result =
     json_object [(''jsonrpc'', quoted ''2.0''), (''id'', quoted (escape rid)), (''result'', json_result)]"

definition error_object ::
  "cstring \<Rightarrow> int \<Rightarrow> cstring \<Rightarrow> cstring \<Rightarrow> (string \<times> string) list \<Rightarrow> string" where
  "error_object rid code kind message extra =
     json_object [(''jsonrpc'', quoted ''2.0''), (''id'', quoted (escape rid)),
       (''error'', json_object [(''code'', decimal_int code), (''message'', quoted (escape message)),
          (''data'', json_object ((''kind'', quoted (escape kind)) # extra))])]"

text \<open>Further members of \<open>data\<close> as the callers print them, each with a leading comma.\<close>

definition extra_text :: "(string \<times> string) list \<Rightarrow> string" where
  "extra_text kvs = concat (map (\<lambda>(k, v). '','' @ member k v) kvs)"

lemma extra_text_simps [simp]:
  "extra_text [] = []" "extra_text ((k, v) # kvs) = '','' @ member k v @ extra_text kvs"
  by (simp_all add: extra_text_def)

lemma comma_sep_extra:
  "comma_sep (x # map (\<lambda>(k, v). member k v) kvs) = x @ extra_text kvs"
  by (induction kvs arbitrary: x) auto

section \<open>The printers print them\<close>

lemma rpc_result_eq:
  "length (escape rid) < 128 \<Longrightarrow>
   anything_rpc_result rid json n = Some (snprintf n (result_object rid json @ [NL]))"
  by (simp add: anything_rpc_result_def json_escape_eq result_object_def json_object_def
      member_def quoted_def)

lemma rpc_error_eq:
  assumes "length (escape rid) < 128" "length (escape kind) < 128" "length (escape message) < 256"
  shows "anything_rpc_error (Some rid) code kind message (Some (extra_text kvs)) n =
     Some (snprintf n (error_object rid code kind message kvs @ [NL]))"
  using assms comma_sep_extra [of "member ''kind'' (quoted (escape kind))" kvs]
  by (simp add: anything_rpc_error_def json_escape_eq error_object_def json_object_def
      member_def quoted_def)

lemma rpc_error_plain:
  assumes "length (escape rid) < 128" "length (escape kind) < 128" "length (escape message) < 256"
  shows "anything_rpc_error (Some rid) code kind message (Some []) n =
     Some (snprintf n (error_object rid code kind message [] @ [NL]))"
  using rpc_error_eq [OF assms, of code "[]" n] by simp

lemma json_body_keys [simp]:
  "json_body ''jsonrpc''" "json_body ''id''" "json_body ''result''" "json_body ''error''"
  "json_body ''code''" "json_body ''message''" "json_body ''data''" "json_body ''kind''"
  "json_body ''2.0''"
  by (simp_all add: json_body_plain plain_char_def)

lemma json_value_result_object: "json_value json \<Longrightarrow> json_value (result_object rid json)"
  by (simp add: result_object_def json_value_object json_value_quoted)

lemma json_value_error_object:
  "\<forall>(k, v) \<in> set kvs. json_body k \<and> json_value v \<Longrightarrow>
   json_value (error_object rid code kind message kvs)"
  by (fastforce simp: error_object_def val_int intro!: json_value_object json_value_quoted)

lemma length_result_object [bounds]:
  "length (result_object rid json) = 35 + length (escape rid) + length json"
  by (simp add: result_object_def json_object_def member_def quoted_def)

lemma length_error_object [bounds]:
  "length (error_object rid code kind message kvs) =
   75 + length (escape rid) + length (decimal_int code) + length (escape message)
      + length (escape kind) + length (extra_text kvs)"
  using comma_sep_extra [of "member ''kind'' (quoted (escape kind))" kvs]
  by (simp add: error_object_def json_object_def member_def quoted_def)

lemma simple_id_fits: "length rid < 64 \<Longrightarrow> simple_text rid \<Longrightarrow> length (escape rid) < 128"
  using length_escape_simple [of rid] by simp

end
