(* ===== verification/Policy.thy ===== *)
theory Policy
  imports Config Rpc_Replies
begin

text \<open>
  \<open>src/common/policy.c\<close>: the decision of the policy on a request.  The enum of
  \<open>include/anything/policy.h\<close> is ordered by its C values (deny below approval required below
  allow).  Facts: only \<open>sys.info\<close> ever gets past the policy, nothing is allowed without an
  approval, and the answer does not depend on the caller.
\<close>

section \<open>Data\<close>

datatype anything_policy_decision =
  POLICY_DENY | POLICY_APPROVAL_REQUIRED | POLICY_ALLOW

fun decision_code :: "anything_policy_decision \<Rightarrow> nat" where
  "decision_code POLICY_DENY = 0"
| "decision_code POLICY_APPROVAL_REQUIRED = 1"
| "decision_code POLICY_ALLOW = 2"

lemma decision_code_inject [simp]: "decision_code a = decision_code b \<longleftrightarrow> a = b"
  by (cases a; cases b) auto

instantiation anything_policy_decision :: linorder
begin

definition less_eq_anything_policy_decision ::
  "anything_policy_decision \<Rightarrow> anything_policy_decision \<Rightarrow> bool" where
  "less_eq_anything_policy_decision a b \<longleftrightarrow> decision_code a \<le> decision_code b"

definition less_anything_policy_decision ::
  "anything_policy_decision \<Rightarrow> anything_policy_decision \<Rightarrow> bool" where
  "less_anything_policy_decision a b \<longleftrightarrow> decision_code a < decision_code b"

instance
  by standard (auto simp: less_eq_anything_policy_decision_def less_anything_policy_decision_def)

end

record anything_policy_result =
  pol_decision :: anything_policy_decision
  pol_risk :: cstring
  pol_request_hash :: "64 word"
  pol_summary :: cstring
  pol_reason :: cstring

section \<open>The decision\<close>

definition anything_policy_preflight ::
  "anything_config \<Rightarrow> anything_rpc_request \<Rightarrow> anything_identity \<Rightarrow> anything_policy_result" where
  "anything_policy_preflight config request caller =
     (let res = \<lparr>pol_decision = POLICY_DENY, pol_risk = [], pol_request_hash = rq_hash request,
                 pol_summary = [], pol_reason = []\<rparr>
      in if rq_method request \<noteq> ''sys.info'' then
           res\<lparr>pol_decision := POLICY_DENY,
               pol_risk := snprintf 16 ''denied'',
               pol_reason := snprintf 128 ''unknown_tool'',
               pol_summary := snprintf 256 (''Unknown method '' @ rq_method request)\<rparr>
         else if \<not> capability_sys_read config then
           res\<lparr>pol_decision := POLICY_DENY,
               pol_risk := snprintf 16 ''denied'',
               pol_reason := snprintf 128 ''policy_denied'',
               pol_summary := snprintf 256
                 ''sys.info denied because capabilities.sys_read is disabled''\<rparr>
         else
           res\<lparr>pol_decision := POLICY_APPROVAL_REQUIRED,
               pol_risk := snprintf 16 ''low'',
               pol_reason := snprintf 128 ''approval_required'',
               pol_summary := snprintf 256 ''Read Linux system information with sys.info''\<rparr>)"

section \<open>Facts\<close>

lemma preflight_hash [simp]: "pol_request_hash (anything_policy_preflight c rq i) = rq_hash rq"
  by (simp add: anything_policy_preflight_def Let_def)

lemma preflight_decision:
  "pol_decision (anything_policy_preflight c rq i) =
     (if rq_method rq = ''sys.info'' \<and> capability_sys_read c then POLICY_APPROVAL_REQUIRED
      else POLICY_DENY)"
  by (simp add: anything_policy_preflight_def Let_def)

lemma preflight_below_approval:
  "pol_decision (anything_policy_preflight c rq i) \<le> POLICY_APPROVAL_REQUIRED"
  by (simp add: preflight_decision less_eq_anything_policy_decision_def)

lemma preflight_granted_texts:
  assumes "pol_decision (anything_policy_preflight c rq i) \<noteq> POLICY_DENY"
  shows "pol_risk (anything_policy_preflight c rq i) = ''low''"
    "pol_summary (anything_policy_preflight c rq i) = ''Read Linux system information with sys.info''"
    "rq_method rq = ''sys.info''" "capability_sys_read c"
  using assms by (auto simp: anything_policy_preflight_def Let_def snprintf_def split: if_splits)

lemma preflight_denied_texts:
  assumes "pol_decision (anything_policy_preflight c rq i) = POLICY_DENY" and "length (rq_method rq) < 64"
  shows "pol_risk (anything_policy_preflight c rq i) = ''denied''"
    "pol_reason (anything_policy_preflight c rq i) =
       (if rq_method rq = ''sys.info'' then ''policy_denied'' else ''unknown_tool'')"
    "pol_summary (anything_policy_preflight c rq i) =
       (if rq_method rq = ''sys.info''
        then ''sys.info denied because capabilities.sys_read is disabled''
        else ''Unknown method '' @ rq_method rq)"
  using assms by (auto simp: anything_policy_preflight_def Let_def snprintf_def split: if_splits)

section \<open>Properties\<close>

text \<open>The policy never lets a request through without an approval, whoever asks: its
  decision is at most "approval required", it is that exactly for \<open>sys.info\<close> with the
  \<open>sys_read\<close> capability on, and the result carries the request's own hash.\<close>

theorem policy_never_allows_directly:
  "pol_decision (anything_policy_preflight c rq i) \<le> POLICY_APPROVAL_REQUIRED \<and>
   (pol_decision (anything_policy_preflight c rq i) = POLICY_APPROVAL_REQUIRED \<longleftrightarrow>
      rq_method rq = ''sys.info'' \<and> capability_sys_read c) \<and>
   anything_policy_preflight c rq i = anything_policy_preflight c rq j \<and>
   pol_request_hash (anything_policy_preflight c rq i) = rq_hash rq"
  using preflight_below_approval by (simp add: preflight_decision anything_policy_preflight_def Let_def)

end
