(* ===== verification/Approval.thy ===== *)
theory Approval
  imports Policy
begin

text \<open>
  \<open>include/anything/approval.h\<close> and \<open>src/common/approval.c\<close>: the store of approval requests
  and the operations on it.  The array with its \<open>count\<close> is the list of its first \<open>count\<close>
  entries; a pointer into it is an index, the NULL pointer None.  An operation that calls
  \<open>time(NULL)\<close> takes the time as an argument.  The four C buffers copied from a request have the
  sizes of \<open>approval.h\<close>.
\<close>

section \<open>Data\<close>

datatype anything_approval_status =
  APPROVAL_PENDING | APPROVAL_GRANTED | APPROVAL_REJECTED | APPROVAL_EXECUTED

fun status_code :: "anything_approval_status \<Rightarrow> nat" where
  "status_code APPROVAL_PENDING = 0"
| "status_code APPROVAL_GRANTED = 1"
| "status_code APPROVAL_REJECTED = 2"
| "status_code APPROVAL_EXECUTED = 3"

lemma status_code_inject [simp]: "status_code a = status_code b \<longleftrightarrow> a = b"
  by (cases a; cases b) auto

instantiation anything_approval_status :: linorder
begin

definition less_eq_anything_approval_status ::
  "anything_approval_status \<Rightarrow> anything_approval_status \<Rightarrow> bool" where
  "less_eq_anything_approval_status a b \<longleftrightarrow> status_code a \<le> status_code b"

definition less_anything_approval_status ::
  "anything_approval_status \<Rightarrow> anything_approval_status \<Rightarrow> bool" where
  "less_anything_approval_status a b \<longleftrightarrow> status_code a < status_code b"

instance
  by standard (auto simp: less_eq_anything_approval_status_def less_anything_approval_status_def)

end

record anything_pending_request =
  pd_request_id :: cstring
  pd_request_hash :: "64 word"
  pd_requester :: anything_identity
  pd_approver :: anything_identity
  pd_session_id :: cstring
  pd_method :: cstring
  pd_params :: cstring
  pd_risk :: cstring
  pd_summary :: cstring
  pd_expires_at :: int
  pd_status :: anything_approval_status

record anything_approval_store =
  pending :: "anything_pending_request list"
  next_id :: "64 word"

datatype approval_error =
    Approval_not_found | Approval_not_pending | Approval_expired | Self_approval_denied
  | Approval_rejected | Approval_required | Request_changed

fun approval_error_kind :: "approval_error \<Rightarrow> string" where
  "approval_error_kind Approval_not_found = ''approval_not_found''"
| "approval_error_kind Approval_not_pending = ''approval_not_pending''"
| "approval_error_kind Approval_expired = ''approval_expired''"
| "approval_error_kind Self_approval_denied = ''control_plane_denied''"
| "approval_error_kind Approval_rejected = ''approval_rejected''"
| "approval_error_kind Approval_required = ''approval_required''"
| "approval_error_kind Request_changed = ''request_changed''"

section \<open>Operations\<close>

definition anything_approval_store_init :: anything_approval_store where
  "anything_approval_store_init = \<lparr>pending = [], next_id = 1\<rparr>"

definition zero_identity :: anything_identity where
  "zero_identity = \<lparr>id_uid = 0, id_gid = 0, id_pid = 0\<rparr>"

definition request_id_text :: "64 word \<Rightarrow> cstring" where
  "request_id_text n = ''req_'' @ decimal (unat n)"

text \<open>The new store and the index of the created entry; None for -1.\<close>

definition anything_approval_add ::
  "anything_approval_store \<Rightarrow> anything_rpc_request \<Rightarrow> anything_policy_result \<Rightarrow> anything_identity \<Rightarrow>
   int \<Rightarrow> int \<Rightarrow> (anything_approval_store \<times> nat) option" where
  "anything_approval_add store request policy requester ttl_seconds now =
     (if length (pending store) \<ge> 64 then None
      else
        Some (store\<lparr>
          pending := pending store @
            [\<lparr>pd_request_id = snprintf 40 (request_id_text (next_id store)),
              pd_request_hash = pol_request_hash policy,
              pd_requester = requester,
              pd_approver = zero_identity,
              pd_session_id = snprintf 64 (rq_session_id request),
              pd_method = snprintf 64 (rq_method request),
              pd_params = snprintf 1024 (rq_params request),
              pd_risk = snprintf 16 (pol_risk policy),
              pd_summary = snprintf 256 (pol_summary policy),
              pd_expires_at = now + ttl_seconds,
              pd_status = APPROVAL_PENDING\<rparr>],
          next_id := next_id store + 1\<rparr>, length (pending store)))"

fun find_loop :: "anything_pending_request list \<Rightarrow> cstring \<Rightarrow> nat \<Rightarrow> nat option" where
  "find_loop [] request_id i = None"
| "find_loop (p # ps) request_id i =
     (if pd_request_id p = request_id then Some i else find_loop ps request_id (i + 1))"

definition anything_approval_find :: "anything_approval_store \<Rightarrow> cstring \<Rightarrow> nat option" where
  "anything_approval_find store request_id = find_loop (pending store) request_id 0"

text \<open>The entry a pointer points to, and the store with that entry overwritten.\<close>

definition deref_pending ::
  "anything_approval_store \<Rightarrow> nat option \<Rightarrow> anything_pending_request option" where
  "deref_pending store i = map_option (\<lambda>n. pending store ! n) i"

definition put_pending ::
  "anything_approval_store \<Rightarrow> nat \<Rightarrow> anything_pending_request \<Rightarrow> anything_approval_store" where
  "put_pending store i p = store\<lparr>pending := (pending store)[i := p]\<rparr>"

definition anything_approval_grant ::
  "anything_pending_request option \<Rightarrow> anything_identity \<Rightarrow> int \<Rightarrow>
   approval_error + anything_pending_request" where
  "anything_approval_grant entry approver now =
     (case entry of
        None \<Rightarrow> Inl Approval_not_found
      | Some p \<Rightarrow>
          if pd_status p \<noteq> APPROVAL_PENDING then Inl Approval_not_pending
          else if now > pd_expires_at p then Inl Approval_expired
          else if anything_identity_same (pd_requester p) approver then Inl Self_approval_denied
          else Inr (p\<lparr>pd_approver := approver, pd_status := APPROVAL_GRANTED\<rparr>))"

definition anything_approval_reject ::
  "anything_pending_request option \<Rightarrow> anything_identity \<Rightarrow>
   approval_error + anything_pending_request" where
  "anything_approval_reject entry approver =
     (case entry of
        None \<Rightarrow> Inl Approval_not_found
      | Some p \<Rightarrow>
          if anything_identity_same (pd_requester p) approver then Inl Self_approval_denied
          else Inr (p\<lparr>pd_approver := approver, pd_status := APPROVAL_REJECTED\<rparr>))"

definition anything_approval_validate_for_execute ::
  "anything_pending_request option \<Rightarrow> 64 word \<Rightarrow> int \<Rightarrow> approval_error + unit" where
  "anything_approval_validate_for_execute entry current_hash now =
     (case entry of
        None \<Rightarrow> Inl Approval_not_found
      | Some p \<Rightarrow>
          if pd_status p \<noteq> APPROVAL_GRANTED then
            Inl (if pd_status p = APPROVAL_REJECTED then Approval_rejected else Approval_required)
          else if now > pd_expires_at p then Inl Approval_expired
          else if pd_request_hash p \<noteq> current_hash then Inl Request_changed
          else Inr ())"

text \<open>One entry of the listing; the four escape buffers have 128, 128, 64 and 512 bytes.\<close>

definition list_entry_text :: "bool \<Rightarrow> anything_pending_request \<Rightarrow> string option" where
  "list_entry_text first p =
     (case (anything_json_escape_string (Some (pd_request_id p)) 128,
            anything_json_escape_string (Some (pd_method p)) 128,
            anything_json_escape_string (Some (pd_risk p)) 64,
            anything_json_escape_string (Some (pd_summary p)) 512) of
        (Some request_id, Some method, Some risk, Some summary) \<Rightarrow>
          Some ((if first then [] else '','') @
            ''{\"request_id\":\"'' @ request_id @ ''\",\"method\":\"'' @ method @
            ''\",\"risk\":\"'' @ risk @ ''\",\"status\":'' @
            decimal_int (int (status_code (pd_status p))) @
            '',\"summary\":\"'' @ summary @ ''\"}'')
      | _ \<Rightarrow> None)"

text \<open>\<open>snprintf(out + used, out_len - used, ...)\<close> with the check that it fitted.\<close>

definition append_checked :: "nat \<Rightarrow> cstring \<Rightarrow> string \<Rightarrow> cstring option" where
  "append_checked out_len out text =
     (if length text \<ge> out_len - length out then None else Some (out @ text))"

fun list_loop :: "nat \<Rightarrow> cstring \<Rightarrow> bool \<Rightarrow> anything_pending_request list \<Rightarrow> cstring option" where
  "list_loop out_len out first [] = Some out"
| "list_loop out_len out first (p # ps) =
     (case list_entry_text first p of
        None \<Rightarrow> None
      | Some text \<Rightarrow>
          (case append_checked out_len out text of
             None \<Rightarrow> None
           | Some out' \<Rightarrow> list_loop out_len out' False ps))"

definition anything_approval_list_json :: "anything_approval_store \<Rightarrow> nat \<Rightarrow> cstring option" where
  "anything_approval_list_json store out_len =
     (case append_checked out_len [] ''{\"pending\":['' of
        None \<Rightarrow> None
      | Some out \<Rightarrow>
          (case list_loop out_len out True (pending store) of
             None \<Rightarrow> None
           | Some out' \<Rightarrow> append_checked out_len out' '']}''))"

end
