(* ===== verification/Config_Props.thy ===== *)
theory Config_Props
  imports Config
begin

text \<open>
  Facts on the configuration: when a path counts as lying under a rule's root, what validation
  accepts, the sizes every line keeps, identifier arrays read back from their printed form, and
  the two configuration files of the repository evaluated.
\<close>

section \<open>Paths\<close>

lemma path_is_under_iff:
  "path_is_under path root \<longleftrightarrow> root \<noteq> [] \<and> (path = root \<or> (\<exists>s. path = root @ CHR ''/'' # s))"
proof (cases "prefix root path")
  case True
  then obtain t where "path = root @ t" by (auto simp: prefix_def)
  moreover have "deref t = CHR ''/'' \<longleftrightarrow> (\<exists>s. t = CHR ''/'' # s)" by (simp add: deref_eq_Cons)
  ultimately show ?thesis by (auto simp: path_is_under_def Let_def strncmp_eq_def)
next
  case False
  then show ?thesis by (auto simp: path_is_under_def Let_def strncmp_eq_prefix)
qed

text \<open>The specification: a directory covers what lies in it or below, component by component.  A
  resolved path is the text of its components, as \<open>realpath\<close> gives it, and is not the root.\<close>

function components :: "cstring \<Rightarrow> string list" where
  "components [] = []"
| "components (c # p) =
     (if c = CHR ''/'' then components p
      else (c # takeWhile (\<lambda>d. d \<noteq> CHR ''/'') p) # components (dropWhile (\<lambda>d. d \<noteq> CHR ''/'') p))"
  by pat_completeness auto

termination
  by (relation "measure length") (auto simp: less_Suc_eq_le length_dropWhile_le)

definition path_of :: "string list \<Rightarrow> cstring" where
  "path_of cs = concat (map (\<lambda>c. CHR ''/'' # c) cs)"

definition resolved :: "cstring \<Rightarrow> bool" where
  "resolved p \<longleftrightarrow> components p \<noteq> [] \<and> p = path_of (components p)"

lemma components_slash: "components (p @ CHR ''/'' # s) = components p @ components s"
  by (induction p rule: components.induct)
    (auto simp: takeWhile_append dropWhile_append takeWhile_eq_all_conv [THEN iffD2] dropWhile_eq_Nil_conv [THEN iffD2])

lemma path_of_append: "path_of (cs @ ds) = path_of cs @ path_of ds"
  by (simp add: path_of_def)

lemma path_under_components:
  assumes "resolved path" "resolved root"
  shows "path_is_under path root \<longleftrightarrow> prefix (components root) (components path)"
proof
  assume "path_is_under path root"
  then show "prefix (components root) (components path)"
    by (auto simp: path_is_under_iff components_slash)
next
  assume "prefix (components root) (components path)"
  then obtain ds where "components path = components root @ ds" by (auto simp: prefix_def)
  with assms have "path = root @ path_of ds" by (metis resolved_def path_of_append)
  moreover have "root \<noteq> []" using assms(2) by (auto simp: resolved_def)
  ultimately show "path_is_under path root"
    by (cases ds) (auto simp: path_is_under_iff path_of_def)
qed

section \<open>Validation\<close>

definition valid_config :: "anything_config \<Rightarrow> bool \<Rightarrow> bool" where
  "valid_config c dev \<longleftrightarrow>
     tool_socket_path c \<noteq> [] \<and> admin_socket_path c \<noteq> [] \<and>
     tool_socket_path c \<noteq> admin_socket_path c \<and> audit_log_path c \<noteq> [] \<and>
     1 \<le> max_request_bytes c \<and> max_request_bytes c \<le> 1048576 \<and>
     1 \<le> read_timeout_ms c \<and> read_timeout_ms c \<le> 60000 \<and>
     (require_admin_allowlist c \<or> dev) \<and>
     (require_admin_allowlist c \<longrightarrow> admin_allowed_uids c \<noteq> [] \<or> admin_allowed_gids c \<noteq> []) \<and>
     (\<forall>r \<in> set (config_paths c). rule_writable r \<longrightarrow> \<not> path_is_under (audit_log_path c) (rule_path r))"

lemma validate_iff:
  "anything_config_validate_with_options c dev = Inr () \<longleftrightarrow> valid_config c dev"
  by (auto simp: anything_config_validate_with_options_def valid_config_def)

lemma load_Inr:
  "anything_config_load_with_options file dev = Inr c \<longleftrightarrow>
   (\<exists>contents b. file = Some contents \<and> config_lines contents (anything_config_init, False) = Inr (c, b)
      \<and> valid_config c dev)"
  by (auto simp: anything_config_load_with_options_def bindR_Inr validate_iff split: option.splits)

section \<open>Sizes\<close>

definition config_fits :: "anything_config \<Rightarrow> bool" where
  "config_fits c \<longleftrightarrow>
     length (tool_socket_path c) < 256 \<and> length (admin_socket_path c) < 256 \<and>
     length (audit_log_path c) < 256 \<and>
     max_request_bytes c < 2 ^ 64 \<and> max_output_bytes c < 2 ^ 64 \<and>
     - (2 ^ 31) \<le> approval_ttl_seconds c \<and> approval_ttl_seconds c < 2 ^ 31 \<and>
     - (2 ^ 31) \<le> read_timeout_ms c \<and> read_timeout_ms c < 2 ^ 31 \<and>
     length (admin_allowed_uids c) \<le> 16 \<and> length (admin_allowed_gids c) \<le> 16 \<and>
     length (config_paths c) \<le> 16 \<and> (\<forall>r \<in> set (config_paths c). length (rule_path r) < 256)"

lemma config_init_fits: "config_fits anything_config_init"
  by (simp add: config_fits_def anything_config_init_def snprintf_def)

lemma parse_quoted_length [bounds]: "parse_quoted v n = Some s \<Longrightarrow> length s < n"
  by (auto simp: parse_quoted_def Let_def split: option.splits if_splits)

lemma long_array_loop_length:
  "long_array_loop p n acc = Some ids \<Longrightarrow> length acc \<le> n \<Longrightarrow> length ids \<le> n"
proof (induction p n acc rule: long_array_loop.induct)
  case (1 p n acc)
  show ?case
  proof (cases "deref (trim p) = CHR '']'' \<or> p = []")
    case True
    with "1.prems" show ?thesis by (auto simp: long_array_loop.simps [of p] Let_def split: if_splits)
  next
    case False
    with "1.prems" obtain v r where v: "strtol (trim p) = Some (v, r)" "\<not> n \<le> length acc"
      and r: "deref (skip_ws r) = CHR '','' \<and> long_array_loop (tl (skip_ws r)) n (acc @ [v]) = Some ids
        \<or> ids = acc @ [v]"
      by (auto simp: long_array_loop.simps [of p] Let_def split: if_splits option.splits)
    from r show ?thesis
    proof
      assume "deref (skip_ws r) = CHR '','' \<and> long_array_loop (tl (skip_ws r)) n (acc @ [v]) = Some ids"
      with "1.IH" [of "trim p" "(v, r)" v r "acc @ [v]" "skip_ws r"] False v show ?thesis by simp
    qed (use v in simp)
  qed
qed

lemma parse_long_array_length [bounds]: "parse_long_array v n = Some ids \<Longrightarrow> length ids \<le> n"
  by (auto simp: parse_long_array_def split: option.splits dest: long_array_loop_length)

lemma update_last_rule_fits:
  assumes "config_fits c" "\<And>r. length (rule_path r) < 256 \<Longrightarrow> length (rule_path (f r)) < 256"
    "0 < length (config_paths c)"
  shows "config_fits (update_last_rule f c)"
proof -
  let ?rs = "config_paths c" and ?i = "length (config_paths c) - 1"
  have "?rs ! ?i \<in> set ?rs" using assms(3) by simp
  then have "length (rule_path (f (?rs ! ?i))) < 256"
    using assms(1,2) by (simp add: config_fits_def)
  then have "\<forall>r \<in> set (?rs[?i := f (?rs ! ?i)]). length (rule_path r) < 256"
    using assms(1) set_update_subset_insert [of ?rs ?i "f (?rs ! ?i)"]
    by (auto simp: config_fits_def)
  with assms(1) show ?thesis by (simp add: config_fits_def update_last_rule_def)
qed

text \<open>One fact per field: an update with a value of the right size keeps the sizes.\<close>

lemma fits_tool: "config_fits c \<Longrightarrow> length s < 256 \<Longrightarrow> config_fits (c\<lparr>tool_socket_path := s\<rparr>)"
  by (simp add: config_fits_def)

lemma fits_admin: "config_fits c \<Longrightarrow> length s < 256 \<Longrightarrow> config_fits (c\<lparr>admin_socket_path := s\<rparr>)"
  by (simp add: config_fits_def)

lemma fits_audit: "config_fits c \<Longrightarrow> length s < 256 \<Longrightarrow> config_fits (c\<lparr>audit_log_path := s\<rparr>)"
  by (simp add: config_fits_def)

lemma fits_flags:
  "config_fits c \<Longrightarrow> config_fits (c\<lparr>capability_sys_read := x\<rparr>)"
  "config_fits c \<Longrightarrow> config_fits (c\<lparr>require_admin_allowlist := x\<rparr>)"
  by (simp_all add: config_fits_def)

lemma fits_numbers:
  "config_fits c \<Longrightarrow> config_fits (c\<lparr>max_request_bytes := strtoull v\<rparr>)"
  "config_fits c \<Longrightarrow> config_fits (c\<lparr>max_output_bytes := strtoull v\<rparr>)"
  "config_fits c \<Longrightarrow> config_fits (c\<lparr>approval_ttl_seconds := atoi v\<rparr>)"
  "config_fits c \<Longrightarrow> config_fits (c\<lparr>read_timeout_ms := atoi v\<rparr>)"
  using atoi_bounds [of v] strtoull_bound [of v] by (simp_all add: config_fits_def)

lemma fits_ids:
  "config_fits c \<Longrightarrow> length ids \<le> 16 \<Longrightarrow> config_fits (c\<lparr>admin_allowed_uids := ids\<rparr>)"
  "config_fits c \<Longrightarrow> length ids \<le> 16 \<Longrightarrow> config_fits (c\<lparr>admin_allowed_gids := ids\<rparr>)"
  by (simp_all add: config_fits_def)

lemma fits_rule_path:
  "config_fits c \<Longrightarrow> length s < 256 \<Longrightarrow> 0 < length (config_paths c) \<Longrightarrow>
   config_fits (update_last_rule (\<lambda>r. r\<lparr>rule_path := s\<rparr>) c)"
  by (rule update_last_rule_fits) auto

lemma fits_rule_mode:
  "config_fits c \<Longrightarrow> 0 < length (config_paths c) \<Longrightarrow>
   config_fits (update_last_rule (\<lambda>r. r\<lparr>rule_writable := w\<rparr>) c)"
  by (rule update_last_rule_fits) auto

lemmas fits_updates = fits_tool fits_admin fits_audit fits_flags fits_numbers fits_ids
  fits_rule_path fits_rule_mode

lemma config_entry_fits:
  "config_entry key val c b = Inr c' \<Longrightarrow> config_fits c \<Longrightarrow> config_fits c'"
  unfolding config_entry_def
  by (auto simp: bindR_Inr intro: fits_updates dest: parse_quoted_length parse_long_array_length
      split: if_split_asm)

lemma config_line_fits:
  "config_line line (c, b) = Inr (c', b') \<Longrightarrow> config_fits c \<Longrightarrow> config_fits c'"
  by (auto simp: config_line_def Let_def bindR_Inr split: if_splits option.splits
      dest: config_entry_fits) (auto simp: config_fits_def)

lemma config_lines_fits:
  "config_lines fl (c, b) = Inr (c', b') \<Longrightarrow> config_fits c \<Longrightarrow> config_fits c'"
proof (induction fl "(c, b)" arbitrary: c b rule: config_lines.induct)
  case (1 fl)
  show ?case
  proof (cases "fgets 512 fl")
    case None
    with "1.prems" show ?thesis by (simp add: config_lines.simps)
  next
    case (Some lr)
    obtain line rest where lr: "lr = (line, rest)" by fastforce
    from "1.prems"(1) Some lr obtain c1 b1 where l: "config_line line (c, b) = Inr (c1, b1)"
      "config_lines rest (c1, b1) = Inr (c', b')"
      by (auto simp: config_lines.simps [of fl] bindR_Inr)
    with "1.prems"(2) have "config_fits c1" by (blast dest: config_line_fits)
    with "1.hyps" [OF Some lr [symmetric] l(1) l(2)] show ?thesis by simp
  qed
qed

lemma load_fits: "anything_config_load_with_options file dev = Inr c \<Longrightarrow> config_fits c"
  by (auto simp: load_Inr dest: config_lines_fits intro: config_init_fits)

section \<open>Identifier arrays\<close>

fun print_ids :: "nat list \<Rightarrow> string" where
  "print_ids [] = '']''"
| "print_ids [n] = decimal n @ '']''"
| "print_ids (n # m # ns) = decimal n @ '', '' @ print_ids (m # ns)"

lemma print_ids_last: "\<exists>u. print_ids ns = u @ '']''"
proof (induction ns rule: print_ids.induct)
  case (3 n m ns)
  then obtain u where "print_ids (m # ns) = u @ '']''" by blast
  then show ?case by (intro exI [of _ "decimal n @ '', '' @ u"]) simp
qed auto

lemma trim_closed: "trim (p @ '']'') = skip_ws (p @ '']'')"
proof -
  have "\<exists>u. skip_ws (p @ '']'') = u @ '']''"
  proof (induction p)
    case Nil
    then show ?case by (intro exI [of _ "[]"]) (simp add: isspace_def)
  next
    case (Cons c p)
    then show ?case by (cases "isspace c") auto
  qed
  then obtain u where "skip_ws (p @ '']'') = u @ '']''" by blast
  then show ?thesis by (simp add: trim_def isspace_def)
qed

lemma is_digit_not_space: "is_digit c \<Longrightarrow> \<not> isspace c \<and> c \<noteq> CHR ''-'' \<and> c \<noteq> CHR ''+'' \<and> c \<noteq> CHR '']''"
  by (auto simp: is_digit_def isspace_def)

lemma decimal_Cons: "\<exists>c ds. decimal n = c # ds \<and> is_digit c"
  using decimal_digits [of _ n] decimal_not_Nil [of n] by (cases "decimal n") auto

lemma strtol_decimal:
  assumes "int n < 2 ^ 63" "r = [] \<or> \<not> is_digit (deref r)"
  shows "strtol (decimal n @ r) = Some (int n, r)"
proof -
  obtain c ds where c: "decimal n = c # ds" "is_digit c" using decimal_Cons by blast
  then have "scan_number (decimal n @ r) = Some (False, n, r)"
    using scan_digits_decimal [OF assms(2), of n] is_digit_not_space [OF c(2)]
    by (simp add: scan_number_def)
  with assms(1) show ?thesis by (simp add: strtol_def clamp_long_def)
qed

lemma long_array_loop_print:
  assumes "\<forall>n \<in> set ns. int n < 2 ^ 63" "length acc + length ns \<le> k"
    "p = print_ids ns \<or> p = CHR '' '' # print_ids ns"
  shows "long_array_loop p k acc = Some (acc @ map int ns)"
  using assms
proof (induction ns arbitrary: acc p rule: print_ids.induct)
  case 1
  then have "trim p = '']''" "p \<noteq> []" by (auto simp: trim_def isspace_def)
  then show ?case by (simp add: long_array_loop.simps)
next
  case (2 n)
  obtain c ds where c: "decimal n = c # ds" "is_digit c" using decimal_Cons by blast
  have "trim p = decimal n @ '']''" "p \<noteq> []"
    using "2.prems"(3) trim_closed [of "decimal n"] trim_closed [of "CHR '' '' # decimal n"] c
      is_digit_not_space [OF c(2)] by (auto simp: isspace_def)
  moreover have "strtol (decimal n @ '']'') = Some (int n, '']'')"
    using "2.prems"(1) by (intro strtol_decimal) (auto simp: is_digit_def)
  ultimately show ?case using "2.prems"(2) c is_digit_not_space [OF c(2)]
    by (simp add: long_array_loop.simps [of p] isspace_def)
next
  case (3 n m ns)
  obtain c ds where c: "decimal n = c # ds" "is_digit c" using decimal_Cons by blast
  let ?r = "'', '' @ print_ids (m # ns)"
  obtain u where u: "print_ids (m # ns) = u @ '']''" using print_ids_last by blast
  have "trim p = decimal n @ ?r" "p \<noteq> []"
    using "3.prems"(3) trim_closed [of "decimal n @ '', '' @ u"]
      trim_closed [of "CHR '' '' # decimal n @ '', '' @ u"] c u is_digit_not_space [OF c(2)]
    by (auto simp: isspace_def)
  moreover have "strtol (decimal n @ ?r) = Some (int n, ?r)"
    using "3.prems"(1) by (intro strtol_decimal) (auto simp: is_digit_def)
  ultimately show ?case
    using "3.prems" c is_digit_not_space [OF c(2)] "3.IH" [of "acc @ [int n]" "CHR '' '' # print_ids (m # ns)"]
    by (simp add: long_array_loop.simps [of p] isspace_def)
qed

lemma parse_printed_ids:
  "\<forall>n \<in> set ns. int n < 2 ^ 63 \<Longrightarrow> length ns \<le> k \<Longrightarrow>
   parse_long_array (CHR ''['' # print_ids ns) k = Some (map int ns)"
  using long_array_loop_print [of ns "[]" k "print_ids ns"] by (simp add: parse_long_array_def)

section \<open>The configuration files of the repository\<close>

text \<open>\<open>config/anythingd.example.toml\<close> and \<open>config/anythingd.dev-insecure.toml\<close>.\<close>

definition example_toml :: "char list" where
  "example_toml = concat (map (\<lambda>l. l @ [NL])
    [''[daemon]'',
     ''tool_socket_path = \"/tmp/anythingd-tool.sock\"'',
     ''admin_socket_path = \"/tmp/anythingd-admin.sock\"'',
     ''audit_log = \"/tmp/anything-audit.jsonl\"'',
     '''',
     ''[capabilities]'',
     ''sys_read = true'',
     ''fs_read = false'',
     ''fs_write = false'',
     ''fs_delete = false'',
     ''proc_spawn = false'',
     ''proc_kill = false'',
     ''net_http = false'',
     '''',
     ''[limits]'',
     ''max_request_bytes = 1048576'',
     ''max_output_bytes = 1048576'',
     ''approval_ttl_seconds = 300'',
     ''read_timeout_ms = 2000'',
     '''',
     ''[admin]'',
     ''allowed_uids = [1000]'',
     ''allowed_gids = []'',
     ''require_admin_allowlist = true'',
     '''',
     ''[[paths]]'',
     ''path = \"/tmp/anything-agent-readable\"'',
     ''mode = \"read-only\"''])"

definition dev_insecure_toml :: "char list" where
  "dev_insecure_toml = concat (map (\<lambda>l. l @ [NL])
    [''# INSECURE DEVELOPMENT ONLY.'',
     ''# This config disables admin allowlist enforcement so a local smoke test can'',
     ''# run without a dedicated admin UID/GID. Never use this file for deployment.'',
     '''',
     ''[daemon]'',
     ''tool_socket_path = \"/tmp/anythingd-tool.sock\"'',
     ''admin_socket_path = \"/tmp/anythingd-admin.sock\"'',
     ''audit_log = \"/tmp/anything-audit.jsonl\"'',
     '''',
     ''[capabilities]'',
     ''sys_read = true'',
     ''fs_read = false'',
     ''fs_write = false'',
     ''fs_delete = false'',
     ''proc_spawn = false'',
     ''proc_kill = false'',
     ''net_http = false'',
     '''',
     ''[limits]'',
     ''max_request_bytes = 1048576'',
     ''max_output_bytes = 1048576'',
     ''approval_ttl_seconds = 300'',
     ''read_timeout_ms = 2000'',
     '''',
     ''[admin]'',
     ''allowed_uids = []'',
     ''allowed_gids = []'',
     ''require_admin_allowlist = false'',
     '''',
     ''[[paths]]'',
     ''path = \"/tmp/anything-agent-readable\"'',
     ''mode = \"read-only\"''])"

definition example_config :: anything_config where
  "example_config = anything_config_init
     \<lparr>capability_sys_read := True, admin_allowed_uids := [1000],
      config_paths := [\<lparr>rule_path = ''/tmp/anything-agent-readable'', rule_writable = False\<rparr>]\<rparr>"

definition dev_insecure_config :: anything_config where
  "dev_insecure_config = example_config\<lparr>admin_allowed_uids := [], require_admin_allowlist := False\<rparr>"

lemma example_lines: "config_lines example_toml (anything_config_init, False) = Inr (example_config, True)"
  by code_simp

lemma dev_insecure_lines:
  "config_lines dev_insecure_toml (anything_config_init, False) = Inr (dev_insecure_config, True)"
  by code_simp

lemma example_valid: "valid_config example_config dev"
  by (simp add: valid_config_def example_config_def anything_config_init_def snprintf_def)

lemma example_loads_any:
  "anything_config_load_with_options (Some example_toml) dev = Inr example_config"
  using example_valid [of dev] example_lines by (auto simp: load_Inr)

lemma example_loads: "anything_config_load (Some example_toml) = Inr example_config"
  by (simp add: anything_config_load_def example_loads_any)

lemma dev_insecure_validates:
  "anything_config_validate_with_options dev_insecure_config dev =
     (if dev then Inr () else Inl Insecure_needs_flag)"
  by (simp add: anything_config_validate_with_options_def dev_insecure_config_def
      example_config_def anything_config_init_def snprintf_def)

section \<open>Properties\<close>

text \<open>C19: a configuration the daemon starts with has passed every check of the validation
  (distinct non-empty sockets, limits in range, a non-empty admin allowlist unless the insecure
  flag was given, no writable rule over the audit log) and fits the fixed-size fields.\<close>

theorem loaded_config_valid:
  "anything_config_load_with_options file dev = Inr c \<Longrightarrow> valid_config c dev \<and> config_fits c"
  using load_Inr [of "file" dev c] load_fits by blast

theorem loaded_config_valid_witness: "valid_config example_config False \<and> config_fits example_config"
  using loaded_config_valid [OF example_loads [unfolded anything_config_load_def]] .

text \<open>C20: without the insecure flag nobody is an administrator unless listed: a configuration
  that loads has a non-empty allowlist, and a peer is an administrator exactly when its user id
  or its group id is on it.\<close>

theorem secure_admin_exactly_listed:
  assumes "anything_config_load file = Inr c"
  shows "(admin_allowed_uids c \<noteq> [] \<or> admin_allowed_gids c \<noteq> []) \<and>
     (anything_config_identity_is_admin c i \<longleftrightarrow>
        uint (id_uid i) \<in> set (admin_allowed_uids c) \<or> uint (id_gid i) \<in> set (admin_allowed_gids c))"
proof -
  from assms have "valid_config c False" by (auto simp: anything_config_load_def load_Inr)
  then show ?thesis by (auto simp: valid_config_def anything_config_identity_is_admin_def)
qed

theorem secure_admin_exactly_listed_witness:
  "anything_config_identity_is_admin example_config \<lparr>id_uid = 1000, id_gid = 7, id_pid = 1\<rparr> \<and>
   \<not> anything_config_identity_is_admin example_config \<lparr>id_uid = 0, id_gid = 0, id_pid = 1\<rparr>"
  using secure_admin_exactly_listed [OF example_loads, of "\<lparr>id_uid = 1000, id_gid = 7, id_pid = 1\<rparr>"]
    secure_admin_exactly_listed [OF example_loads, of "\<lparr>id_uid = 0, id_gid = 0, id_pid = 1\<rparr>"]
  by (simp add: example_config_def anything_config_init_def)

text \<open>C39: a writable rule whose path ends in a slash does not cover the files of that directory:
  of the texts that start with \<open>d/\<close>, the rule \<open>d/\<close> covers only \<open>d/\<close> itself and those with a
  second slash right there, as in \<open>d//x\<close>.\<close>

theorem trailing_slash_rule_covers_nothing:
  "path_is_under (d @ ''/'' @ f) (d @ ''/'') \<longleftrightarrow> f = [] \<or> (\<exists>s. f = ''/'' @ s)"
  by (simp add: path_is_under_iff)

text \<open>C34: an allowlist written as a bracketed, comma-separated array of at most 16 decimal
  numbers that fit a long is read back as exactly those numbers.\<close>

theorem printed_ids_parse_back:
  "\<forall>n \<in> set ns. int n < 2 ^ 63 \<Longrightarrow> length ns \<le> 16 \<Longrightarrow>
   parse_long_array (''['' @ print_ids ns) 16 = Some (map int ns)"
  using parse_printed_ids [of ns 16] by simp

theorem printed_ids_parse_back_witness:
  "parse_long_array (''['' @ print_ids [1000, 0, 4294967295]) 16 = Some [1000, 0, 4294967295]"
  using printed_ids_parse_back [of "[1000, 0, 4294967295]"] by simp

text \<open>C40: the reader takes a line in pieces of 511 bytes, so when a comment fills the first
  piece, whatever follows on that same line is read as a configuration line of its own.\<close>

theorem overlong_comment_tail_is_parsed:
  assumes "length c = 511" "NL \<notin> set c" "NUL \<notin> set c" "deref c = CHR ''#''"
  shows "config_lines (c @ tail) st = config_lines tail st"
proof -
  have loop: "fgets_loop n (u @ v) = (u, v)" if "length u = n" "NL \<notin> set u" for n u v
    using that by (induction u arbitrary: n) (auto split: prod.splits, cases v, auto)
  have c: "fgets 512 (c @ tail) = Some (c, tail)"
    using loop [OF assms(1,2), of tail] assms(1) c_str_id [OF assms(3)] by (auto simp: fgets_def)
  have "strip_comment c = []" using assms(1,4) by (cases c) (auto simp: strip_comment_def)
  then have "config_line c st = Inr st" by (cases st) (simp add: config_line_def trim_def)
  with c show ?thesis by (simp add: config_lines.simps [of "c @ tail"])
qed

theorem overlong_comment_tail_is_parsed_witness:
  "config_lines (replicate 511 (CHR ''#'') @ ''sys_read = true'') (anything_config_init, False) =
   Inr (anything_config_init\<lparr>capability_sys_read := True\<rparr>, False)"
proof -
  have "config_lines ''sys_read = true'' (anything_config_init, False) =
    Inr (anything_config_init\<lparr>capability_sys_read := True\<rparr>, False)" by code_simp
  moreover have "deref (replicate 511 (CHR ''#'')) = CHR ''#''" by (simp add: numeral_eq_Suc)
  ultimately show ?thesis
    using overlong_comment_tail_is_parsed [of "replicate 511 (CHR ''#'')"
      "''sys_read = true''" "(anything_config_init, False)"] by simp
qed

text \<open>The shipped secure configuration loads as written; the shipped insecure one is
  refused without the insecure flag and loads, with an empty allowlist, under it.\<close>

theorem shipped_configurations:
  "anything_config_load_with_options (Some example_toml) dev = Inr example_config \<and>
   anything_config_load_with_options (Some dev_insecure_toml) False = Inl Insecure_needs_flag \<and>
   anything_config_load_with_options (Some dev_insecure_toml) True =
     Inr dev_insecure_config"
  using example_loads_any [of dev]
  by (simp add: anything_config_load_with_options_def dev_insecure_lines dev_insecure_validates)

end
