(* ===== verification/Approval_Props.thy ===== *)
theory Approval_Props
  imports Approval Config_Props
begin

text \<open>
  Facts on the approval store: the interface of a store whose entries are found by a key, with
  its interpretation on the code's operations; the frame every entry operation keeps; the life
  cycle of an entry as a state machine the operations refine; the listing as a JSON object.
\<close>

section \<open>A store whose entries are found by a key\<close>

locale keyed_store =
  fixes entries :: "'s \<Rightarrow> 'e list"
    and key :: "'e \<Rightarrow> 'k"
    and find :: "'s \<Rightarrow> 'k \<Rightarrow> nat option"
    and put :: "'s \<Rightarrow> nat \<Rightarrow> 'e \<Rightarrow> 's"
  assumes find_Some: "find s k = Some i \<Longrightarrow> i < length (entries s) \<and> key (entries s ! i) = k"
    and find_first: "find s k = Some i \<Longrightarrow> j < i \<Longrightarrow> key (entries s ! j) \<noteq> k"
    and find_None: "find s k = None \<longleftrightarrow> k \<notin> key ` set (entries s)"
    and entries_put: "entries (put s i e) = (entries s)[i := e]"
begin

lemma find_unique:
  assumes "distinct (map key (entries s))" "i < length (entries s)"
  shows "find s (key (entries s ! i)) = Some i"
proof -
  have "key (entries s ! i) \<in> key ` set (entries s)" using assms(2) by simp
  then obtain j where j: "find s (key (entries s ! i)) = Some j" using find_None by blast
  then have "j < length (entries s)" "key (entries s ! j) = key (entries s ! i)"
    using find_Some by blast+
  with assms have "j = i" by (simp add: distinct_conv_nth) metis
  with j show ?thesis by simp
qed

lemma keys_put: "i < length (entries s) \<Longrightarrow> key e = key (entries s ! i) \<Longrightarrow>
   map key (entries (put s i e)) = map key (entries s)"
  by (simp add: entries_put map_update list_update_same_conv)

lemma find_put:
  assumes "distinct (map key (entries s))" "find s k = Some i" "key e = k"
  shows "find (put s i e) k = Some i \<and> entries (put s i e) ! i = e"
proof -
  have i: "i < length (entries s)" "key (entries s ! i) = k" using find_Some [OF assms(2)] by auto
  with assms(3) have "map key (entries (put s i e)) = map key (entries s)" by (simp add: keys_put)
  with assms(1) have "distinct (map key (entries (put s i e)))" by simp
  then show ?thesis
    using find_unique [of "put s i e" i] i assms(3) by (simp add: entries_put)
qed

end

lemma find_loop_Some:
  "find_loop ps k n = Some i \<Longrightarrow>
   n \<le> i \<and> i - n < length ps \<and> pd_request_id (ps ! (i - n)) = k \<and>
   (\<forall>j < i - n. pd_request_id (ps ! j) \<noteq> k)"
proof (induction ps arbitrary: n)
  case (Cons p ps)
  show ?case
  proof (cases "pd_request_id p = k")
    case False
    with Cons.prems have "find_loop ps k (n + 1) = Some i" by simp
    from Cons.IH [OF this] have IH: "n + 1 \<le> i" "i - (n + 1) < length ps"
      "pd_request_id (ps ! (i - (n + 1))) = k" "\<forall>j < i - (n + 1). pd_request_id (ps ! j) \<noteq> k"
      by auto
    then obtain m where m: "i - n = Suc m" "i - (n + 1) = m" by (cases "i - n") auto
    with IH False show ?thesis by (auto simp: nth_Cons split: nat.splits)
  qed (use Cons.prems in auto)
qed simp

lemma find_loop_None: "find_loop ps k n = None \<longleftrightarrow> k \<notin> pd_request_id ` set ps"
  by (induction ps arbitrary: n) auto

interpretation apst: keyed_store pending pd_request_id anything_approval_find put_pending
proof (unfold_locales, goal_cases)
  case (1 s k i)
  then show ?case using find_loop_Some [of "pending s" k 0 i] by (simp add: anything_approval_find_def)
next
  case (2 s k i j)
  then show ?case using find_loop_Some [of "pending s" k 0 i] by (simp add: anything_approval_find_def)
qed (simp_all add: anything_approval_find_def put_pending_def find_loop_None)

section \<open>Entry operations change the approver and the status only\<close>

definition same_request :: "anything_pending_request \<Rightarrow> anything_pending_request \<Rightarrow> bool" where
  "same_request p q \<longleftrightarrow> q = p\<lparr>pd_approver := pd_approver q, pd_status := pd_status q\<rparr>"

lemma same_request_fields:
  assumes "same_request p q"
  shows "pd_request_id q = pd_request_id p" "pd_request_hash q = pd_request_hash p"
    "pd_requester q = pd_requester p" "pd_session_id q = pd_session_id p"
    "pd_method q = pd_method p" "pd_params q = pd_params p" "pd_risk q = pd_risk p"
    "pd_summary q = pd_summary p" "pd_expires_at q = pd_expires_at p"
  by (subst assms [unfolded same_request_def], simp)+

lemma same_request_refl [simp]: "same_request p p"
  by (simp add: same_request_def)

lemma same_request_trans: "same_request p q \<Longrightarrow> same_request q r \<Longrightarrow> same_request p r"
  by (cases p; cases q; cases r) (simp add: same_request_def)

text \<open>What the daemon needs of an operation that rewrites one entry: it keeps the request, and
  the approver it leaves is not the requester when the entry counts as approved.\<close>

locale entry_operation =
  fixes run :: "anything_pending_request \<Rightarrow> 'err + anything_pending_request"
  assumes run_frame: "run p = Inr q \<Longrightarrow> same_request p q"
begin

lemma run_keeps_ids:
  assumes "i < length (pending st)" "run (pending st ! i) = Inr q"
  shows "map pd_request_id (pending (put_pending st i q)) = map pd_request_id (pending st)"
  using assms same_request_fields(1) [OF run_frame] by (intro apst.keys_put) auto

lemma run_keeps_others:
  "j \<noteq> i \<Longrightarrow> pending (put_pending st i q) ! j = pending st ! j"
  by (simp add: put_pending_def)

lemma run_all_same_request:
  assumes "run (pending st ! i) = Inr q"
  shows "same_request (pending st ! j) (pending (put_pending st i q) ! j)"
proof (cases "j = i \<and> i < length (pending st)")
  case True
  with run_frame [OF assms] show ?thesis by (simp add: put_pending_def)
next
  case False
  then show ?thesis by (cases "i < length (pending st)") (auto simp: put_pending_def list_update_beyond)
qed

end

interpretation grant: entry_operation "\<lambda>p. anything_approval_grant (Some p) a now"
  by unfold_locales (auto simp: anything_approval_grant_def same_request_def split: if_splits)

interpretation reject: entry_operation "\<lambda>p. anything_approval_reject (Some p) a"
  by unfold_locales (auto simp: anything_approval_reject_def same_request_def split: if_splits)

lemma grant_Inr:
  "anything_approval_grant (Some p) a now = Inr q \<longleftrightarrow>
   pd_status p = APPROVAL_PENDING \<and> now \<le> pd_expires_at p \<and>
   \<not> anything_identity_same (pd_requester p) a \<and>
   q = p\<lparr>pd_approver := a, pd_status := APPROVAL_GRANTED\<rparr>"
  by (auto simp: anything_approval_grant_def)

lemma reject_Inr:
  "anything_approval_reject (Some p) a = Inr q \<longleftrightarrow>
   \<not> anything_identity_same (pd_requester p) a \<and>
   q = p\<lparr>pd_approver := a, pd_status := APPROVAL_REJECTED\<rparr>"
  by (auto simp: anything_approval_reject_def)

lemma validate_Inr:
  "anything_approval_validate_for_execute e h now = Inr u \<longleftrightarrow>
   (\<exists>p. e = Some p \<and> pd_status p = APPROVAL_GRANTED \<and> now \<le> pd_expires_at p \<and> pd_request_hash p = h)"
  by (auto simp: anything_approval_validate_for_execute_def split: option.splits)

section \<open>The life cycle of an entry\<close>

text \<open>The abstract state machine: an approval is granted once, used once; a rejection is
  possible in every state.\<close>

inductive lifecycle :: "anything_approval_status \<Rightarrow> anything_approval_status \<Rightarrow> bool" where
  lc_grant: "lifecycle APPROVAL_PENDING APPROVAL_GRANTED"
| lc_execute: "lifecycle APPROVAL_GRANTED APPROVAL_EXECUTED"
| lc_reject: "lifecycle s APPROVAL_REJECTED"

inductive_cases lifecycle_to_granted: "lifecycle s APPROVAL_GRANTED"

inductive_simps lifecycle_from_executed: "lifecycle APPROVAL_EXECUTED s"

inductive_simps lifecycle_from_rejected: "lifecycle APPROVAL_REJECTED s"

lemmas lifecycle_simps = lifecycle_from_executed lifecycle_from_rejected

lemma lifecycle_closed:
  assumes "lifecycle\<^sup>*\<^sup>* s t" "s = APPROVAL_EXECUTED \<or> s = APPROVAL_REJECTED"
  shows "t = s \<or> t = APPROVAL_REJECTED"
  using assms by (induction rule: rtranclp_induct) (auto simp: lifecycle_simps)

section \<open>Invariant of the store\<close>

definition entry_fits :: "anything_pending_request \<Rightarrow> bool" where
  "entry_fits p \<longleftrightarrow>
     pd_method p = ''sys.info'' \<and> pd_risk p = ''low'' \<and>
     pd_summary p = ''Read Linux system information with sys.info'' \<and>
     length (pd_session_id p) < 64 \<and> simple_text (pd_session_id p) \<and>
     length (pd_params p) < 1024 \<and> object_text (pd_params p) \<and>
     pd_request_hash p = anything_rpc_hash_request (pd_method p) (pd_params p) (pd_session_id p)"

lemma entry_fits_same: "same_request p q \<Longrightarrow> entry_fits p \<Longrightarrow> entry_fits q"
  by (simp add: entry_fits_def same_request_fields)

text \<open>Entry number \<open>i\<close> carries the id \<open>req_(i+1)\<close>.\<close>

definition ids_ok :: "anything_approval_store \<Rightarrow> bool" where
  "ids_ok st \<longleftrightarrow>
     length (pending st) \<le> 64 \<and> next_id st = of_nat (length (pending st) + 1) \<and>
     map pd_request_id (pending st) = map (\<lambda>i. request_id_text (of_nat (i + 1))) [0..<length (pending st)]"

lemma request_id_text_small:
  "n < 2 ^ 64 \<Longrightarrow> request_id_text (of_nat n) = ''req_'' @ decimal n"
  by (simp add: request_id_text_def unat_of_nat take_bit_eq_mod)

lemma ids_ok_nth:
  assumes "ids_ok st" "i < length (pending st)"
  shows "pd_request_id (pending st ! i) = ''req_'' @ decimal (i + 1)"
proof -
  have "pd_request_id (pending st ! i) = map pd_request_id (pending st) ! i" using assms(2) by simp
  also have "\<dots> = request_id_text (of_nat (i + 1))" using assms by (simp add: ids_ok_def)
  also have "\<dots> = ''req_'' @ decimal (i + 1)"
    using assms by (intro request_id_text_small) (simp add: ids_ok_def)
  finally show ?thesis .
qed

lemma ids_distinct: "ids_ok st \<Longrightarrow> distinct (map pd_request_id (pending st))"
  by (auto simp: distinct_conv_nth ids_ok_nth dest: decimal_inject)

lemma find_nth: "ids_ok st \<Longrightarrow> i < length (pending st) \<Longrightarrow>
   anything_approval_find st (pd_request_id (pending st ! i)) = Some i"
  by (rule apst.find_unique [OF ids_distinct])

lemma find_req: "ids_ok st \<Longrightarrow> i < length (pending st) \<Longrightarrow>
   anything_approval_find st (''req_'' @ decimal (i + 1)) = Some i"
  using find_nth ids_ok_nth by fastforce

lemma ids_ok_init: "ids_ok anything_approval_store_init"
  by (simp add: ids_ok_def anything_approval_store_init_def)

lemma ids_ok_put:
  assumes "ids_ok st" "map pd_request_id (pending (put_pending st i p)) = map pd_request_id (pending st)"
  shows "ids_ok (put_pending st i p)"
  using assms by (simp add: ids_ok_def) (simp add: put_pending_def)

lemma length_request_id_text [bounds]: "length (request_id_text n) \<le> 24"
  using length_decimal_u64 [of n] by (simp add: request_id_text_def)

text \<open>The entry that \<open>anything_approval_add\<close> creates.\<close>

definition new_entry ::
  "anything_approval_store \<Rightarrow> anything_rpc_request \<Rightarrow> anything_policy_result \<Rightarrow> anything_identity \<Rightarrow>
   int \<Rightarrow> anything_pending_request" where
  "new_entry st rq pol i expires =
     \<lparr>pd_request_id = request_id_text (next_id st), pd_request_hash = pol_request_hash pol,
      pd_requester = i, pd_approver = zero_identity, pd_session_id = rq_session_id rq,
      pd_method = rq_method rq, pd_params = rq_params rq, pd_risk = pol_risk pol,
      pd_summary = pol_summary pol, pd_expires_at = expires, pd_status = APPROVAL_PENDING\<rparr>"

lemma approval_add_eq:
  assumes "request_ok rq" "length (pol_risk pol) < 16" "length (pol_summary pol) < 256"
  shows "anything_approval_add st rq pol i ttl now =
     (if 64 \<le> length (pending st) then None
      else Some (\<lparr>pending = pending st @ [new_entry st rq pol i (now + ttl)], next_id = next_id st + 1\<rparr>,
                 length (pending st)))"
  using assms length_request_id_text [of "next_id st"]
  by (simp add: anything_approval_add_def new_entry_def snprintf_id request_ok_def)

lemma ids_ok_add:
  assumes "ids_ok st" "length (pending st) < 64"
    "st' = \<lparr>pending = pending st @ [new_entry st rq pol i e], next_id = next_id st + 1\<rparr>"
  shows "ids_ok st'"
  using assms by (simp add: ids_ok_def new_entry_def)

section \<open>The listing as a JSON object\<close>

definition entry_object :: "anything_pending_request \<Rightarrow> string" where
  "entry_object p = json_object
     [(''request_id'', quoted (escape (pd_request_id p))), (''method'', quoted (escape (pd_method p))),
      (''risk'', quoted (escape (pd_risk p))),
      (''status'', decimal_int (int (status_code (pd_status p)))),
      (''summary'', quoted (escape (pd_summary p)))]"

definition list_object :: "anything_approval_store \<Rightarrow> string" where
  "list_object st = json_object [(''pending'', json_array (map entry_object (pending st)))]"

text \<open>The entry's texts fit in the listing's escape buffers.\<close>

definition listable :: "anything_pending_request \<Rightarrow> bool" where
  "listable p \<longleftrightarrow> length (escape (pd_request_id p)) < 128 \<and> length (escape (pd_method p)) < 128 \<and>
     length (escape (pd_risk p)) < 64 \<and> length (escape (pd_summary p)) < 512"

definition entries_tail :: "anything_pending_request list \<Rightarrow> string" where
  "entries_tail ps = concat (map (\<lambda>p. '','' @ entry_object p) ps)"

lemma list_entry_text_eq:
  "listable p \<Longrightarrow> list_entry_text first p = Some ((if first then [] else '','') @ entry_object p)"
  by (simp add: list_entry_text_def listable_def json_escape_eq entry_object_def json_object_def
      member_def quoted_def)

lemma append_checked_eq:
  "length out < n \<Longrightarrow>
   append_checked n out t = (if length out + length t < n then Some (out @ t) else None)"
  by (auto simp: append_checked_def)

lemma list_loop_tail:
  "length out < n \<Longrightarrow> \<forall>p \<in> set ps. listable p \<Longrightarrow>
   list_loop n out False ps =
     (if length out + length (entries_tail ps) < n then Some (out @ entries_tail ps) else None)"
  by (induction ps arbitrary: out)
    (auto simp: entries_tail_def list_entry_text_eq append_checked_eq)

lemma comma_sep_entries: "comma_sep (entry_object p # map entry_object ps) = entry_object p @ entries_tail ps"
  by (induction ps arbitrary: p) (auto simp: entries_tail_def)

lemma list_loop_eq:
  assumes "length out < n" "\<forall>p \<in> set ps. listable p"
  shows "list_loop n out True ps =
     (if length out + length (comma_sep (map entry_object ps)) < n
      then Some (out @ comma_sep (map entry_object ps)) else None)"
proof (cases ps)
  case (Cons p qs)
  with assms show ?thesis
    by (auto simp: list_entry_text_eq append_checked_eq list_loop_tail comma_sep_entries)
qed (use assms in simp)

lemma approval_list_eq:
  assumes "\<forall>p \<in> set (pending st). listable p"
  shows "anything_approval_list_json st n =
     (if length (list_object st) < n then Some (list_object st) else None)"
proof (cases "length ''{\"pending\":['' < n")
  case True
  with assms show ?thesis
    by (auto simp: anything_approval_list_json_def append_checked_eq list_loop_eq list_object_def
        json_object_def json_array_def member_def)
next
  case False
  then show ?thesis
    by (auto simp: anything_approval_list_json_def append_checked_def list_object_def
        json_object_def json_array_def member_def)
qed

lemma json_body_list_keys [simp]:
  "json_body ''request_id''" "json_body ''method''" "json_body ''risk''" "json_body ''status''"
  "json_body ''summary''" "json_body ''pending''" "json_body ''expires_at''"
  by (simp_all add: json_body_plain plain_char_def)

lemma json_value_entry_object: "json_value (entry_object p)"
  by (auto simp: entry_object_def val_int intro!: json_value_object json_value_quoted)

lemma json_value_list_object: "json_value (list_object st)"
  by (auto simp: list_object_def json_value_entry_object intro!: json_value_object json_value_array)

lemma request_id_plain: "c \<in> set (request_id_text n) \<Longrightarrow> plain_char c"
  by (auto simp: request_id_text_def dest: decimal_digits)

lemma escape_request_id [simp]: "escape (request_id_text n) = request_id_text n"
  by (rule escape_plain) (blast dest: request_id_plain)

lemma fitting_entry_listable: "entry_fits p \<Longrightarrow> pd_request_id p = request_id_text n \<Longrightarrow> listable p"
  using length_request_id_text [of n] by (simp add: entry_fits_def listable_def)

lemma length_entry_object:
  assumes "entry_fits p"
  shows "length (entry_object p) = 117 + length (escape (pd_request_id p))"
proof -
  have "length (decimal_int (int (status_code (pd_status p)))) = 1"
    by (cases "pd_status p") (simp_all add: decimal_int_def decimal.simps)
  with assms show ?thesis
    by (simp add: entry_object_def json_object_def member_def quoted_def entry_fits_def)
qed

section \<open>Properties\<close>

text \<open>C22: in a well-formed store with room, adding a request parsed by the daemon stores it
  untruncated as a pending entry under a fresh id, keeps every other entry, keeps the ids well
  formed, and a lookup of the new id finds exactly the new entry.\<close>

theorem added_request_is_found:
  assumes "ids_ok st" "length (pending st) < 64" "request_ok rq"
    "pol = anything_policy_preflight cfg rq caller"
  shows "\<exists>st'. anything_approval_add st rq pol caller ttl now = Some (st', length (pending st)) \<and>
     ids_ok st' \<and> pending st' = pending st @ [new_entry st rq pol caller (now + ttl)] \<and>
     pd_request_id (last (pending st')) \<notin> pd_request_id ` set (pending st) \<and>
     anything_approval_find st' (pd_request_id (last (pending st'))) = Some (length (pending st))"
proof -
  let ?st' = "\<lparr>pending = pending st @ [new_entry st rq pol caller (now + ttl)], next_id = next_id st + 1\<rparr>"
  have "length (pol_risk pol) < 16" "length (pol_summary pol) < 256"
    using assms(3) unfolding assms(4)
    by (simp_all add: anything_policy_preflight_def Let_def request_ok_def snprintf_def)
  then have add: "anything_approval_add st rq pol caller ttl now = Some (?st', length (pending st))"
    using approval_add_eq [OF assms(3)] assms(2) by simp
  have ids: "ids_ok ?st'" using ids_ok_add [OF assms(1,2)] by blast
  have "anything_approval_find ?st' (pd_request_id (pending ?st' ! length (pending st))) = Some (length (pending st))"
    by (rule find_nth [OF ids]) simp
  moreover have "pd_request_id (last (pending ?st')) \<notin> pd_request_id ` set (pending st)"
    using ids_distinct [OF ids] by simp
  ultimately show ?thesis using add ids by (intro exI [of _ ?st']) simp
qed

definition sample_request :: anything_rpc_request where
  "sample_request = \<lparr>rq_id = ''1'', rq_method = ''sys.info'', rq_session_id = ''default'',
     rq_params = ''{}'', rq_hash = anything_rpc_hash_request ''sys.info'' ''{}'' ''default''\<rparr>"

definition sample_identity :: anything_identity where
  "sample_identity = \<lparr>id_uid = 1001, id_gid = 1001, id_pid = 42\<rparr>"

lemma sample_request_ok: "request_ok sample_request"
  using object_text_empty by (simp add: sample_request_def request_ok_def simple_char_def)

theorem added_request_is_found_witness:
  "\<exists>st'. anything_approval_add anything_approval_store_init sample_request
      (anything_policy_preflight example_config sample_request sample_identity)
      sample_identity 300 0 = Some (st', 0) \<and> anything_approval_find st' ''req_1'' = Some 0"
proof -
  have "length (pending anything_approval_store_init) < 64"
    by (simp add: anything_approval_store_init_def)
  from added_request_is_found [OF ids_ok_init this sample_request_ok refl, of example_config
      sample_identity 300 0]
  obtain st' where st': "anything_approval_add anything_approval_store_init sample_request
      (anything_policy_preflight example_config sample_request sample_identity)
      sample_identity 300 0 = Some (st', 0)" "ids_ok st'" "length (pending st') = 1"
    by (auto simp: anything_approval_store_init_def)
  have "''req_'' @ decimal (0 + 1) = ''req_1''" by code_simp
  with st' find_req [of st' 0] show ?thesis by auto
qed

text \<open>C15: every operation that succeeds on an entry is one step of the life cycle (grant only
  from pending, execution only from granted, rejection from anywhere), records who acted, who is
  never the requester, and leaves the stored request itself untouched.\<close>

theorem entry_operations_refine_lifecycle:
  "(anything_approval_grant (Some p) a now = Inr q \<longrightarrow>
      lifecycle (pd_status p) (pd_status q) \<and> pd_status q = APPROVAL_GRANTED \<and> pd_approver q = a \<and>
      \<not> anything_identity_same (pd_requester q) a \<and> now \<le> pd_expires_at q \<and> same_request p q) \<and>
   (anything_approval_reject (Some p) a = Inr q \<longrightarrow>
      lifecycle (pd_status p) (pd_status q) \<and> pd_status q = APPROVAL_REJECTED \<and> pd_approver q = a \<and>
      \<not> anything_identity_same (pd_requester q) a \<and> same_request p q) \<and>
   (anything_approval_validate_for_execute (Some p) h now = Inr () \<longrightarrow>
      lifecycle (pd_status p) APPROVAL_EXECUTED \<and> now \<le> pd_expires_at p \<and> pd_request_hash p = h)"
  using grant.run_frame [of p a now q] reject.run_frame [of p a q]
  by (auto simp: grant_Inr reject_Inr validate_Inr intro: lifecycle.intros)

definition sample_entry :: anything_pending_request where
  "sample_entry = new_entry anything_approval_store_init sample_request
     (anything_policy_preflight example_config sample_request sample_identity) sample_identity 300"

definition other_identity :: anything_identity where
  "other_identity = \<lparr>id_uid = 1000, id_gid = 1000, id_pid = 43\<rparr>"

theorem entry_operations_refine_lifecycle_witness:
  "\<exists>q. anything_approval_grant (Some sample_entry) other_identity 10 = Inr q \<and>
      lifecycle APPROVAL_PENDING (pd_status q) \<and> pd_approver q = other_identity"
proof -
  define q where "q = sample_entry\<lparr>pd_approver := other_identity, pd_status := APPROVAL_GRANTED\<rparr>"
  have "anything_approval_grant (Some sample_entry) other_identity 10 = Inr q"
    by (simp add: grant_Inr q_def sample_entry_def new_entry_def anything_identity_same_def
        sample_identity_def other_identity_def)
  moreover have "pd_status sample_entry = APPROVAL_PENDING" by (simp add: sample_entry_def new_entry_def)
  ultimately show ?thesis
    using entry_operations_refine_lifecycle [of sample_entry other_identity 10 q 0] by metis
qed

text \<open>C37: the refusal of self-approval compares the process id too, so the same user, from
  any other process, can grant the request it made.\<close>

theorem same_user_other_process_can_grant:
  assumes "pd_status p = APPROVAL_PENDING" "now \<le> pd_expires_at p" "n \<noteq> id_pid (pd_requester p)"
  shows "\<exists>q. anything_approval_grant (Some p) ((pd_requester p)\<lparr>id_pid := n\<rparr>) now = Inr q \<and>
     pd_status q = APPROVAL_GRANTED"
  using assms by (auto simp: grant_Inr anything_identity_same_def)

theorem same_user_other_process_can_grant_witness:
  "\<exists>q. anything_approval_grant (Some sample_entry) (sample_identity\<lparr>id_pid := 43\<rparr>) 10 = Inr q \<and>
     pd_status q = APPROVAL_GRANTED"
  using same_user_other_process_can_grant [of sample_entry 10 43]
  by (simp add: sample_entry_def new_entry_def sample_identity_def)

text \<open>C36: a rejection looks at neither the status nor the expiry, so an entry that was
  already executed, or rejected, or has expired, is still turned into a rejected one.\<close>

theorem reject_ignores_status:
  assumes "\<not> anything_identity_same (pd_requester p) a"
  shows "anything_approval_reject (Some (p\<lparr>pd_status := s, pd_expires_at := t\<rparr>)) a =
     Inr (p\<lparr>pd_status := APPROVAL_REJECTED, pd_expires_at := t, pd_approver := a\<rparr>)"
  using assms by (simp add: reject_Inr)

theorem reject_ignores_status_witness:
  "anything_approval_reject (Some (sample_entry\<lparr>pd_status := APPROVAL_EXECUTED, pd_expires_at := 0\<rparr>))
     other_identity =
   Inr (sample_entry\<lparr>pd_status := APPROVAL_REJECTED, pd_expires_at := 0, pd_approver := other_identity\<rparr>)"
  by (rule reject_ignores_status)
    (simp add: sample_entry_def new_entry_def anything_identity_same_def sample_identity_def
      other_identity_def)

text \<open>C31: the listing of a store whose entries the daemon created is the JSON object of its
  entries in order, complete and well formed, exactly when that text fits in the buffer with its
  NUL, and an error otherwise.\<close>

theorem listing_exact:
  assumes "ids_ok st" "\<forall>p \<in> set (pending st). entry_fits p"
  shows "json_value (list_object st) \<and>
     anything_approval_list_json st n =
       (if length (list_object st) < n then Some (list_object st) else None)"
proof -
  have "listable p" if "p \<in> set (pending st)" for p
  proof -
    from that obtain i where i: "i < length (pending st)" "p = pending st ! i"
      by (auto simp: in_set_conv_nth)
    then have "map pd_request_id (pending st) ! i = request_id_text (of_nat (i + 1))"
      using assms(1) by (simp add: ids_ok_def)
    with i assms(2) show ?thesis by (auto intro: fitting_entry_listable)
  qed
  then show ?thesis by (simp add: approval_list_eq json_value_list_object)
qed

theorem listing_exact_witness:
  "anything_approval_list_json \<lparr>pending = [sample_entry], next_id = 2\<rparr> 4096 =
     Some (''{\"pending\":['' @ entry_object sample_entry @ '']}'') \<and>
   anything_approval_list_json \<lparr>pending = [sample_entry], next_id = 2\<rparr> 100 = None"
proof -
  let ?st = "\<lparr>pending = [sample_entry], next_id = 2\<rparr>"
  have granted: "pol_decision (anything_policy_preflight example_config sample_request sample_identity) \<noteq> POLICY_DENY"
    by (simp add: preflight_decision sample_request_def example_config_def)
  have fits: "\<forall>p \<in> set (pending ?st). entry_fits p"
    using preflight_granted_texts [OF granted] sample_request_ok
    by (simp add: sample_entry_def new_entry_def entry_fits_def request_ok_def)
  have ids: "ids_ok ?st"
    by (rule ids_ok_add [OF ids_ok_init]) (simp_all add: anything_approval_store_init_def sample_entry_def)
  have obj: "list_object ?st = ''{\"pending\":['' @ entry_object sample_entry @ '']}''"
    by (simp add: list_object_def json_object_def json_array_def member_def)
  have "length (entry_object sample_entry) = 117 + length (escape (pd_request_id sample_entry))"
    using fits by (intro length_entry_object) simp
  moreover have "length (escape (pd_request_id sample_entry)) \<le> 24"
    using length_request_id_text by (simp add: sample_entry_def new_entry_def)
  ultimately have "length (entry_object sample_entry) < 600" "100 \<le> length (entry_object sample_entry)"
    by simp_all
  with listing_exact [OF ids fits, of 4096] listing_exact [OF ids fits, of 100] show ?thesis
    unfolding obj by simp
qed

end
