(* ===== verification/Audit_Log.thy ===== *)
theory Audit_Log
  imports Config Json
begin

text \<open>
  \<open>src/common/audit.c\<close>: the checks of the audit log at start-up and the writer of one audit
  record.  What the operating system answers is an argument: \<open>realpath\<close> and \<open>is_dir\<close> are
  functions of a path, \<open>open_result\<close> is what \<open>open\<close> and \<open>fstat\<close> say of the log, \<open>audit_io\<close>
  holds the answers to the calls of one record.  The writer returns whether it reported success
  and the bytes it appended to the log.  Main facts: a reported success means that exactly one
  complete JSON line was appended, and the line determines every field of the event.
\<close>

section \<open>Data\<close>

datatype audit_error =
    Audit_path_required | Audit_in_allowlist | Audit_no_parent | Audit_parent_unavailable
  | Audit_symlink | Audit_not_writable | Audit_not_regular

fun audit_error_text :: "audit_error \<Rightarrow> string" where
  "audit_error_text Audit_path_required = ''audit log path is required''"
| "audit_error_text Audit_in_allowlist = ''audit log path is inside an agent writable allowlist''"
| "audit_error_text Audit_no_parent = ''audit log path must include an existing parent directory''"
| "audit_error_text Audit_parent_unavailable = ''audit log parent directory is not available''"
| "audit_error_text Audit_symlink = ''audit log must not be a symlink''"
| "audit_error_text Audit_not_writable = ''audit log is not writable''"
| "audit_error_text Audit_not_regular = ''audit log must be a regular file''"

text \<open>\<open>Open_failed\<close> tells whether \<open>errno\<close> is \<open>ELOOP\<close>; \<open>Opened\<close> whether \<open>fstat\<close> succeeds on
  the descriptor and finds a regular file.\<close>

datatype open_result = Open_failed bool | Opened bool

text \<open>The arguments of \<open>anything_audit_write_event\<close>; None is the NULL pointer.\<close>

record audit_event =
  ev_event :: cstring
  ev_request_id :: "cstring option"
  ev_session_id :: "cstring option"
  ev_caller :: anything_identity
  ev_approver :: "anything_identity option"
  ev_method :: "cstring option"
  ev_risk :: "cstring option"
  ev_decision :: "cstring option"
  ev_error_kind :: "cstring option"
  ev_params_summary :: "cstring option"
  ev_duration_ms :: int

text \<open>A \<open>dprintf\<close> writes its whole text, or fails (a negative result) after the given number of
  bytes.\<close>

datatype write_result = Written | Write_failed nat

record audit_io =
  io_open :: open_result
  io_time :: int
  io_write_head :: write_result
  io_write_approver :: write_result
  io_write_tail :: write_result
  io_close :: bool

section \<open>Event names\<close>

definition k_audit_contract_events :: "string list" where
  "k_audit_contract_events =
     [''request_received'', ''preflight_denied'', ''approval_required'', ''approval_granted'',
      ''approval_rejected'', ''execution_started'', ''execution_finished'', ''execution_failed'']"

fun is_known_loop :: "string list \<Rightarrow> cstring \<Rightarrow> bool" where
  "is_known_loop [] event = False"
| "is_known_loop (k # ks) event = (if event = k then True else is_known_loop ks event)"

definition is_known_event :: "cstring \<Rightarrow> bool" where
  "is_known_event event = is_known_loop k_audit_contract_events event"

section \<open>Time stamps\<close>

text \<open>\<open>gmtime_r\<close>: the proleptic Gregorian date of a day counted from 1970-01-01, with years
  beginning in March inside (400 years have 146097 days).\<close>

definition civil_from_days :: "int \<Rightarrow> int \<times> int \<times> int" where
  "civil_from_days days =
     (let z = days + 719468;
          era = z div 146097;
          doe = z mod 146097;
          yoe = (doe - doe div 1460 + doe div 36524 - doe div 146096) div 365;
          doy = doe - (365 * yoe + yoe div 4 - yoe div 100);
          mp = (5 * doy + 2) div 153;
          d = doy - (153 * mp + 2) div 5 + 1;
          m = (if mp < 10 then mp + 3 else mp - 9)
      in (yoe + era * 400 + (if m \<le> 2 then 1 else 0), m, d))"

text \<open>\<open>%m\<close>, \<open>%d\<close>, \<open>%H\<close>, \<open>%M\<close>, \<open>%S\<close>: two digits.\<close>

definition two_digits :: "int \<Rightarrow> string" where
  "two_digits z = [digit_char (nat (z div 10 mod 10)), digit_char (nat (z mod 10))]"

text \<open>\<open>strftime\<close> with the format \<open>%Y-%m-%dT%H:%M:%SZ\<close>.  A year that fits in the \<open>int\<close> of
  \<open>struct tm\<close> has at most 11 characters, so the text always fits in the 32-byte buffer.\<close>

definition timestamp_utc :: "int \<Rightarrow> cstring" where
  "timestamp_utc now =
     (case civil_from_days (now div 86400) of (y, m, d) \<Rightarrow>
       (let s = now mod 86400
        in decimal_int y @ ''-'' @ two_digits m @ ''-'' @ two_digits d @ ''T'' @
           two_digits (s div 3600) @ '':'' @ two_digits (s div 60 mod 60) @ '':'' @
           two_digits (s mod 60) @ ''Z''))"

section \<open>Start-up checks\<close>

definition audit_path_under :: "cstring \<Rightarrow> cstring \<Rightarrow> bool" where
  "audit_path_under path root =
     (let root_len = length root
      in if root_len = 0 then False
         else if \<not> strncmp_eq path root root_len then False
         else drop root_len path = [] \<or> deref (drop root_len path) = CHR ''/'')"

text \<open>The two buffers have 256 bytes, while \<open>realpath\<close> may write \<open>PATH_MAX\<close>: None stands for
  the overflow, whose behaviour C leaves undefined.\<close>

definition canonical_path_under ::
  "(cstring \<Rightarrow> cstring option) \<Rightarrow> cstring \<Rightarrow> cstring \<Rightarrow> bool option" where
  "canonical_path_under realpath path root =
     (case realpath path of
        None \<Rightarrow> Some (audit_path_under path root)
      | Some real_path \<Rightarrow>
          if length real_path \<ge> 256 then None
          else (case realpath root of
                  None \<Rightarrow> Some (audit_path_under path root)
                | Some real_root \<Rightarrow>
                    if length real_root \<ge> 256 then None
                    else Some (audit_path_under real_path real_root)))"

definition open_audit_fd :: "open_result \<Rightarrow> audit_error + unit" where
  "open_audit_fd r =
     (case r of
        Open_failed eloop \<Rightarrow> Inl (if eloop then Audit_symlink else Audit_not_writable)
      | Opened regular \<Rightarrow> if regular then Inr () else Inl Audit_not_regular)"

fun writable_loop ::
  "(cstring \<Rightarrow> cstring option) \<Rightarrow> cstring \<Rightarrow> anything_path_rule list \<Rightarrow> bool option" where
  "writable_loop realpath log [] = Some False"
| "writable_loop realpath log (rule # rules) =
     (if rule_writable rule
      then (case canonical_path_under realpath log (rule_path rule) of
              None \<Rightarrow> None
            | Some True \<Rightarrow> Some True
            | Some False \<Rightarrow> writable_loop realpath log rules)
      else writable_loop realpath log rules)"

definition anything_audit_validate_startup ::
  "(cstring \<Rightarrow> cstring option) \<Rightarrow> (cstring \<Rightarrow> bool) \<Rightarrow> open_result \<Rightarrow> anything_config \<Rightarrow>
   (audit_error + unit) option" where
  "anything_audit_validate_startup realpath is_dir open_log config =
     (if audit_log_path config = [] then Some (Inl Audit_path_required)
      else
        (case writable_loop realpath (audit_log_path config) (config_paths config) of
           None \<Rightarrow> None
         | Some True \<Rightarrow> Some (Inl Audit_in_allowlist)
         | Some False \<Rightarrow>
             Some (case before_last (snprintf 256 (audit_log_path config)) (CHR ''/'') of
                     None \<Rightarrow> Inl Audit_no_parent
                   | Some parent \<Rightarrow>
                       if parent = [] then Inl Audit_no_parent
                       else if \<not> is_dir parent then Inl Audit_parent_unavailable
                       else open_audit_fd open_log)))"

section \<open>Writing a record\<close>

definition or_empty :: "cstring option \<Rightarrow> cstring" where
  "or_empty s = (case s of None \<Rightarrow> [] | Some t \<Rightarrow> t)"

definition dprintf :: "write_result \<Rightarrow> string \<Rightarrow> bool \<times> string" where
  "dprintf r text = (case r of Written \<Rightarrow> (True, text) | Write_failed n \<Rightarrow> (False, take n text))"

definition identity_text :: "anything_identity \<Rightarrow> string" where
  "identity_text i =
     ''{\"uid\":'' @ decimal_int (uint (id_uid i)) @ '',\"gid\":'' @ decimal_int (uint (id_gid i)) @
     '',\"pid\":'' @ decimal_int (sint (id_pid i)) @ ''}''"

text \<open>The three \<open>dprintf\<close> calls; each is made only if none before it failed.\<close>

definition write_parts :: "audit_io \<Rightarrow> string \<Rightarrow> string option \<Rightarrow> string \<Rightarrow> bool \<times> string" where
  "write_parts io head approver tail =
     (case dprintf (io_write_head io) head of
        (False, out) \<Rightarrow> (False, out)
      | (True, out) \<Rightarrow>
          (case (case approver of None \<Rightarrow> (True, []) | Some a \<Rightarrow> dprintf (io_write_approver io) a) of
             (False, out2) \<Rightarrow> (False, out @ out2)
           | (True, out2) \<Rightarrow>
               (case dprintf (io_write_tail io) tail of (ok, out3) \<Rightarrow> (ok, out @ out2 @ out3))))"

definition anything_audit_write_event :: "audit_event \<Rightarrow> audit_io \<Rightarrow> bool \<times> string" where
  "anything_audit_write_event ev io =
     (case open_audit_fd (io_open io) of
        Inl e \<Rightarrow> (False, [])
      | Inr _ \<Rightarrow>
          (case (anything_json_escape_string (Some (ev_event ev)) 64,
                 anything_json_escape_string (Some (or_empty (ev_request_id ev))) 128,
                 anything_json_escape_string (Some (or_empty (ev_session_id ev))) 128,
                 anything_json_escape_string (Some (or_empty (ev_method ev))) 128,
                 anything_json_escape_string (Some (or_empty (ev_risk ev))) 64,
                 anything_json_escape_string (Some (or_empty (ev_decision ev))) 64,
                 anything_json_escape_string (Some (or_empty (ev_error_kind ev))) 128,
                 anything_json_escape_string (Some (or_empty (ev_params_summary ev))) 512) of
             (Some event, Some request_id, Some session_id, Some method, Some risk, Some decision,
              Some error_kind, Some summary) \<Rightarrow>
               (case write_parts io
                  (''{\"timestamp\":\"'' @ timestamp_utc (io_time io) @ ''\",\"event\":\"'' @ event @
                   ''\",\"request_id\":\"'' @ request_id @ ''\",\"session_id\":\"'' @ session_id @
                   ''\",\"caller\":'' @ identity_text (ev_caller ev) @ '','')
                  (map_option (\<lambda>a. ''\"approver\":'' @ identity_text a @ '','') (ev_approver ev))
                  (''\"method\":\"'' @ method @ ''\",\"risk\":\"'' @ risk @ ''\",\"decision\":\"'' @
                   decision @ ''\",\"error_kind\":\"'' @ error_kind @ ''\",\"duration_ms\":'' @
                   decimal_int (ev_duration_ms ev) @ '',\"params_summary\":\"'' @ summary @ ''\"}'' @ [NL]) of
                  (ok, out) \<Rightarrow> (ok \<and> io_close io, out))
           | _ \<Rightarrow> (False, [])))"

end
