(* ===== verification/Audit_Props.thy ===== *)
theory Audit_Props
  imports Audit_Log Config_Props
begin

text \<open>
  Facts on the audit log: the record as a JSON object, the writer against it, a reading of the
  printed record field by field that makes it unambiguous, and what the start-up checks
  guarantee about the place of the log.
\<close>

section \<open>The record as an object\<close>

definition identity_object :: "anything_identity \<Rightarrow> string" where
  "identity_object i = json_object
     [(''uid'', decimal_int (uint (id_uid i))), (''gid'', decimal_int (uint (id_gid i))),
      (''pid'', decimal_int (sint (id_pid i)))]"

definition text_member :: "string \<Rightarrow> cstring option \<Rightarrow> string \<times> string" where
  "text_member k s = (k, quoted (escape (or_empty s)))"

definition audit_members :: "cstring \<Rightarrow> audit_event \<Rightarrow> (string \<times> string) list" where
  "audit_members ts ev =
     [(''timestamp'', quoted ts), (''event'', quoted (escape (ev_event ev))),
      text_member ''request_id'' (ev_request_id ev), text_member ''session_id'' (ev_session_id ev),
      (''caller'', identity_object (ev_caller ev))] @
     (case ev_approver ev of None \<Rightarrow> [] | Some a \<Rightarrow> [(''approver'', identity_object a)]) @
     [text_member ''method'' (ev_method ev), text_member ''risk'' (ev_risk ev),
      text_member ''decision'' (ev_decision ev), text_member ''error_kind'' (ev_error_kind ev),
      (''duration_ms'', decimal_int (ev_duration_ms ev)),
      text_member ''params_summary'' (ev_params_summary ev)]"

definition audit_object :: "int \<Rightarrow> audit_event \<Rightarrow> string" where
  "audit_object now ev = json_object (audit_members (timestamp_utc now) ev)"

text \<open>The texts of the event fit in the escape buffers of the writer.\<close>

definition event_fits :: "audit_event \<Rightarrow> bool" where
  "event_fits ev \<longleftrightarrow>
     length (escape (ev_event ev)) < 64 \<and> length (escape (or_empty (ev_request_id ev))) < 128 \<and>
     length (escape (or_empty (ev_session_id ev))) < 128 \<and>
     length (escape (or_empty (ev_method ev))) < 128 \<and> length (escape (or_empty (ev_risk ev))) < 64 \<and>
     length (escape (or_empty (ev_decision ev))) < 64 \<and>
     length (escape (or_empty (ev_error_kind ev))) < 128 \<and>
     length (escape (or_empty (ev_params_summary ev))) < 512"

text \<open>Every system call of the record succeeds.\<close>

definition io_ok :: "audit_event \<Rightarrow> audit_io \<Rightarrow> bool" where
  "io_ok ev io \<longleftrightarrow>
     io_open io = Opened True \<and> io_write_head io = Written \<and>
     (ev_approver ev \<noteq> None \<longrightarrow> io_write_approver io = Written) \<and>
     io_write_tail io = Written \<and> io_close io"

section \<open>The writer prints the record\<close>

definition record_head :: "int \<Rightarrow> audit_event \<Rightarrow> string" where
  "record_head now ev = CHR ''{'' # member ''timestamp'' (quoted (timestamp_utc now)) @ '','' @
     member ''event'' (quoted (escape (ev_event ev))) @ '','' @
     member ''request_id'' (quoted (escape (or_empty (ev_request_id ev)))) @ '','' @
     member ''session_id'' (quoted (escape (or_empty (ev_session_id ev)))) @ '','' @
     member ''caller'' (identity_object (ev_caller ev)) @ '',''"

definition record_approver :: "audit_event \<Rightarrow> string option" where
  "record_approver ev =
     map_option (\<lambda>a. member ''approver'' (identity_object a) @ '','') (ev_approver ev)"

definition record_tail :: "audit_event \<Rightarrow> string" where
  "record_tail ev = member ''method'' (quoted (escape (or_empty (ev_method ev)))) @ '','' @
     member ''risk'' (quoted (escape (or_empty (ev_risk ev)))) @ '','' @
     member ''decision'' (quoted (escape (or_empty (ev_decision ev)))) @ '','' @
     member ''error_kind'' (quoted (escape (or_empty (ev_error_kind ev)))) @ '','' @
     member ''duration_ms'' (decimal_int (ev_duration_ms ev)) @ '','' @
     member ''params_summary'' (quoted (escape (or_empty (ev_params_summary ev)))) @ ''}''"

lemma identity_text_object: "identity_text i = identity_object i"
  by (simp add: identity_text_def identity_object_def json_object_def member_def)

lemma record_parts:
  "audit_object now ev = record_head now ev @ or_empty (record_approver ev) @ record_tail ev"
  by (cases "ev_approver ev")
    (simp_all add: audit_object_def audit_members_def text_member_def json_object_def
      record_head_def record_approver_def record_tail_def or_empty_def)

lemma audit_write_eq:
  assumes "event_fits ev"
  shows "anything_audit_write_event ev io =
     (case open_audit_fd (io_open io) of
        Inl e \<Rightarrow> (False, [])
      | Inr _ \<Rightarrow>
          (case write_parts io (record_head (io_time io) ev) (record_approver ev)
             (record_tail ev @ [NL]) of (ok, out) \<Rightarrow> (ok \<and> io_close io, out)))"
  using assms
  by (cases "open_audit_fd (io_open io)")
    (simp_all add: anything_audit_write_event_def event_fits_def json_escape_eq record_head_def
      record_approver_def record_tail_def member_def quoted_def identity_text_object)

lemma audit_write_unfit: "\<not> event_fits ev \<Longrightarrow> anything_audit_write_event ev io = (False, [])"
  by (cases "open_audit_fd (io_open io)")
    (auto simp: anything_audit_write_event_def event_fits_def json_escape_eq split: option.split)

lemma write_parts_prefix:
  "write_parts io h a t = (ok, out) \<Longrightarrow> prefix out (h @ or_empty a @ t)"
  by (auto simp: write_parts_def dprintf_def or_empty_def prefix_def split: write_result.splits
      option.splits) (metis append_take_drop_id append.assoc)+

lemma write_parts_True:
  "write_parts io h a t = (True, out) \<longleftrightarrow>
   out = h @ or_empty a @ t \<and> io_write_head io = Written \<and>
   (a \<noteq> None \<longrightarrow> io_write_approver io = Written) \<and> io_write_tail io = Written"
  by (auto simp: write_parts_def dprintf_def or_empty_def split: write_result.splits option.splits)

lemma open_audit_fd_Inr: "open_audit_fd r = Inr u \<longleftrightarrow> r = Opened True"
  by (cases r) (auto simp: open_audit_fd_def)

lemma audit_write_True:
  "anything_audit_write_event ev io = (True, out) \<longleftrightarrow>
   event_fits ev \<and> io_ok ev io \<and> out = audit_object (io_time io) ev @ [NL]"
proof (cases "event_fits ev")
  case True
  show ?thesis
  proof (cases "open_audit_fd (io_open io)")
    case (Inl e)
    then have "io_open io \<noteq> Opened True" by (auto simp: open_audit_fd_def)
    with Inl True show ?thesis by (simp add: audit_write_eq io_ok_def)
  next
    case (Inr u)
    then have "io_open io = Opened True" by (simp add: open_audit_fd_Inr)
    moreover have "(case w of (ok, out') \<Rightarrow> (ok \<and> io_close io, out')) = (True, out) \<longleftrightarrow>
      w = (True, out) \<and> io_close io" for w by (cases w) auto
    ultimately show ?thesis using Inr True
      by (auto simp: audit_write_eq io_ok_def record_parts write_parts_True record_approver_def)
  qed
qed (simp add: audit_write_unfit)

lemma audit_write_prefix:
  assumes "anything_audit_write_event ev io = (ok, out)"
  shows "prefix out (audit_object (io_time io) ev @ [NL])"
proof (cases "event_fits ev")
  case True
  with assms show ?thesis
    by (auto simp: audit_write_eq record_parts split: sum.splits prod.splits dest!: write_parts_prefix)
qed (use assms in \<open>simp add: audit_write_unfit\<close>)

lemma audit_write_cases:
  obtains (written) out where "anything_audit_write_event ev io = (True, out)" "event_fits ev" "io_ok ev io"
  | (failed) out where "anything_audit_write_event ev io = (False, out)" "\<not> (event_fits ev \<and> io_ok ev io)"
  using audit_write_True [of ev io] by (cases "anything_audit_write_event ev io") auto

section \<open>The record is JSON, on one line\<close>

lemma decimal_int_plain: "c \<in> set (decimal_int z) \<Longrightarrow> plain_char c"
  by (auto simp: decimal_int_def dest: decimal_digits split: if_splits)

lemma two_digits_plain: "c \<in> set (two_digits z) \<Longrightarrow> plain_char c"
  by (auto simp: two_digits_def)

lemma timestamp_plain: "c \<in> set (timestamp_utc now) \<Longrightarrow> plain_char c"
  by (auto simp: timestamp_utc_def Let_def dest: decimal_int_plain two_digits_plain split: prod.splits)

lemma json_body_timestamp: "json_body (timestamp_utc now)"
  by (rule json_body_plain) (blast dest: timestamp_plain)

lemma json_body_audit_keys [simp]:
  "json_body ''timestamp''" "json_body ''event''" "json_body ''session_id''" "json_body ''caller''"
  "json_body ''approver''" "json_body ''method''" "json_body ''decision''" "json_body ''error_kind''"
  "json_body ''duration_ms''" "json_body ''params_summary''" "json_body ''uid''" "json_body ''gid''"
  "json_body ''pid''" "json_body ''request_id''" "json_body ''risk''"
  by (simp_all add: json_body_plain plain_char_def)

lemma json_value_identity [simp]: "json_value (identity_object i)"
  by (auto simp: identity_object_def val_int intro!: json_value_object)

lemma json_value_audit_object: "json_value (audit_object now ev)"
  by (cases "ev_approver ev")
    (auto simp: audit_object_def audit_members_def text_member_def val_int
      intro!: json_value_object json_value_quoted json_body_timestamp)

section \<open>Reading a record back\<close>

lemma peel_text: "escape s @ DQ # q = escape t @ DQ # r \<longleftrightarrow> s = t \<and> q = r"
  using json_field.field_inject by blast

lemma peel_timestamp:
  "timestamp_utc a @ DQ # q = timestamp_utc b @ DQ # r \<longleftrightarrow> timestamp_utc a = timestamp_utc b \<and> q = r"
  using peel_text [of "timestamp_utc a" q "timestamp_utc b" r] timestamp_plain
  by (simp add: escape_plain)

definition read_int :: "string \<Rightarrow> int \<times> string" where
  "read_int s =
     (if deref s = CHR ''-'' then (case scan_digits 0 (tl s) of (n, r) \<Rightarrow> (- int n, r))
      else (case scan_digits 0 s of (n, r) \<Rightarrow> (int n, r)))"

lemma deref_decimal: "is_digit (deref (decimal n @ s))"
  using decimal_digits [of "hd (decimal n)" n] by (cases "decimal n") auto

lemma read_int_decimal: "\<not> is_digit c \<Longrightarrow> read_int (decimal_int z @ c # s) = (z, c # s)"
proof -
  assume c: "\<not> is_digit c"
  have "deref (decimal (nat z) @ c # s) \<noteq> CHR ''-''"
    using deref_decimal [of "nat z" "c # s"] by (auto simp: is_digit_def)
  with c show ?thesis by (simp add: read_int_def decimal_int_def scan_digits_decimal)
qed

lemma peel_int:
  assumes "\<not> is_digit c"
  shows "decimal_int a @ c # q = decimal_int b @ c # r \<longleftrightarrow> a = b \<and> q = r"
proof
  assume "decimal_int a @ c # q = decimal_int b @ c # r"
  then have "read_int (decimal_int a @ c # q) = read_int (decimal_int b @ c # r)" by (rule arg_cong)
  then show "a = b \<and> q = r" by (simp only: read_int_decimal [OF assms] prod.inject list.inject)
qed simp

lemma not_digit [simp]: "\<not> is_digit (CHR '','')" "\<not> is_digit (CHR ''}'')"
  by (simp_all add: is_digit_def)

lemma peel_identity: "identity_object i @ q = identity_object j @ r \<longleftrightarrow> i = j \<and> q = r"
  by (cases i; cases j)
    (auto simp: identity_object_def json_object_def member_def peel_int
      intro: unsigned_word_eqI signed_word_eqI)

text \<open>What a record can tell: NULL and the empty text are printed alike.\<close>

definition same_event :: "audit_event \<Rightarrow> audit_event \<Rightarrow> bool" where
  "same_event e f \<longleftrightarrow>
     ev_event e = ev_event f \<and> ev_caller e = ev_caller f \<and> ev_approver e = ev_approver f \<and>
     ev_duration_ms e = ev_duration_ms f \<and>
     map or_empty [ev_request_id e, ev_session_id e, ev_method e, ev_risk e, ev_decision e,
       ev_error_kind e, ev_params_summary e] =
     map or_empty [ev_request_id f, ev_session_id f, ev_method f, ev_risk f, ev_decision f,
       ev_error_kind f, ev_params_summary f]"

lemma peel_record:
  assumes "audit_object a e @ NL # q = audit_object b f @ NL # r"
  shows "timestamp_utc a = timestamp_utc b \<and> same_event e f \<and> q = r"
proof -
  have "(ev_approver e = None) = (ev_approver f = None)"
    using assms by (cases "ev_approver e"; cases "ev_approver f")
      (simp_all add: record_parts record_head_def record_tail_def record_approver_def member_def
        quoted_def or_empty_def peel_text peel_timestamp peel_identity)
  then show ?thesis
    using assms by (cases "ev_approver e"; cases "ev_approver f")
      (auto simp: record_parts record_head_def record_tail_def record_approver_def member_def
        quoted_def or_empty_def same_event_def peel_text peel_timestamp peel_identity peel_int)
qed

text \<open>A whole log of complete records, in the order they were appended.\<close>

definition log_text :: "(int \<times> audit_event) list \<Rightarrow> string" where
  "log_text rs = concat (map (\<lambda>(now, ev). audit_object now ev @ [NL]) rs)"

lemma log_text_simps [simp]:
  "log_text [] = []" "log_text ((now, ev) # rs) = audit_object now ev @ NL # log_text rs"
  by (simp_all add: log_text_def)

definition same_record :: "int \<times> audit_event \<Rightarrow> int \<times> audit_event \<Rightarrow> bool" where
  "same_record r s \<longleftrightarrow> timestamp_utc (fst r) = timestamp_utc (fst s) \<and> same_event (snd r) (snd s)"

lemma log_text_inject: "log_text rs = log_text ss \<Longrightarrow> list_all2 same_record rs ss"
proof (induction rs arbitrary: ss)
  case Nil
  then show ?case by (cases ss) auto
next
  case (Cons r rs)
  obtain a e where r: "r = (a, e)" by fastforce
  from Cons.prems r obtain b f ss' where ss: "ss = (b, f) # ss'" by (cases ss) auto
  from Cons.prems r ss have "audit_object a e @ NL # log_text rs = audit_object b f @ NL # log_text ss'"
    by simp
  then have "timestamp_utc a = timestamp_utc b \<and> same_event e f \<and> log_text rs = log_text ss'"
    by (rule peel_record)
  with Cons.IH [of ss'] r ss show ?case by (simp add: same_record_def)
qed

lemma event_fits_simple:
  assumes "ev_event ev \<in> set k_audit_contract_events"
    "length (or_empty (ev_request_id ev)) < 64" "simple_text (or_empty (ev_request_id ev))"
    "length (or_empty (ev_session_id ev)) < 64" "simple_text (or_empty (ev_session_id ev))"
    "length (or_empty (ev_method ev)) < 64" "simple_text (or_empty (ev_method ev))"
    "length (escape (or_empty (ev_risk ev))) < 64" "length (escape (or_empty (ev_decision ev))) < 64"
    "length (escape (or_empty (ev_error_kind ev))) < 128"
    "length (escape (or_empty (ev_params_summary ev))) < 512"
  shows "event_fits ev"
proof -
  have "length (escape (ev_event ev)) < 64"
    using assms(1) by (auto simp: k_audit_contract_events_def)
  with assms show ?thesis
    using length_escape_simple [of "or_empty (ev_request_id ev)"]
      length_escape_simple [of "or_empty (ev_session_id ev)"]
      length_escape_simple [of "or_empty (ev_method ev)"] by (simp add: event_fits_def)
qed

section \<open>Start-up\<close>










text \<open>A resolved path of 256 bytes or more overruns the buffer of the comparison.\<close>

lemma long_resolved_path_overruns:
  assumes "config_paths config = rule # rules" "rule_writable rule" "audit_log_path config \<noteq> []"
    "realpath (audit_log_path config) = Some q" "256 \<le> length q"
  shows "anything_audit_validate_startup realpath is_dir open_log config = None"
  using assms by (simp add: anything_audit_validate_startup_def canonical_path_under_def)

section \<open>Properties\<close>

text \<open>C16: the writer reports success exactly when the texts fit and every system call succeeds;
  then it has appended one complete JSON object and a newline, and whatever happens it appends a
  prefix of that line, nothing else.\<close>

theorem audit_success_is_one_record:
  "(anything_audit_write_event ev io = (True, out) \<longleftrightarrow>
      event_fits ev \<and> io_ok ev io \<and> out = audit_object (io_time io) ev @ [NL]) \<and>
   prefix (snd (anything_audit_write_event ev io)) (audit_object (io_time io) ev @ [NL]) \<and>
   json_value (audit_object (io_time io) ev)"
  using audit_write_prefix [of ev io "fst (anything_audit_write_event ev io)"]
  by (simp add: audit_write_True json_value_audit_object)

text \<open>C17: a log of complete records determines the sequence of its events: two logs with the same
  bytes record the same events with the same time stamps, so that no text an agent chooses (a
  session id, a method name) can pass for another record or hide one.\<close>

theorem audit_log_unambiguous:
  assumes "list_all2 (\<lambda>(ev, io) out. anything_audit_write_event ev io = (True, out)) es outs"
    and "list_all2 (\<lambda>(ev, io) out. anything_audit_write_event ev io = (True, out)) fs outs'"
    and "concat outs = concat outs'"
  shows "list_all2 (\<lambda>(e, i) (f, j). timestamp_utc (io_time i) = timestamp_utc (io_time j) \<and> same_event e f)
     es fs"
proof -
  have log: "concat outs = log_text (map (\<lambda>(ev, io). (io_time io, ev)) es)"
    if "list_all2 (\<lambda>(ev, io) out. anything_audit_write_event ev io = (True, out)) es outs" for es outs
    using that by (induction rule: list_all2_induct) (auto simp: audit_write_True)
  have "list_all2 same_record (map (\<lambda>(ev, io). (io_time io, ev)) es) (map (\<lambda>(ev, io). (io_time io, ev)) fs)"
    using assms(3) unfolding log [OF assms(1)] log [OF assms(2)] by (rule log_text_inject)
  then show ?thesis
    by (simp add: list_all2_map1 list_all2_map2 same_record_def case_prod_unfold)
qed

definition sample_event :: audit_event where
  "sample_event = \<lparr>ev_event = ''request_received'', ev_request_id = Some [],
     ev_session_id = Some ''default'', ev_caller = \<lparr>id_uid = 1001, id_gid = 1001, id_pid = 42\<rparr>,
     ev_approver = None, ev_method = Some ''sys.info'', ev_risk = Some [],
     ev_decision = Some ''received'', ev_error_kind = Some [],
     ev_params_summary = Some ''bounded request'', ev_duration_ms = 0\<rparr>"

definition sample_io :: audit_io where
  "sample_io = \<lparr>io_open = Opened True, io_time = 0, io_write_head = Written,
     io_write_approver = Written, io_write_tail = Written, io_close = True\<rparr>"

lemma sample_event_fits: "event_fits sample_event" "io_ok sample_event sample_io"
  by (simp_all add: event_fits_def io_ok_def sample_event_def sample_io_def or_empty_def)

theorem audit_log_unambiguous_witness:
  "\<exists>out. anything_audit_write_event sample_event sample_io = (True, out) \<and>
     anything_audit_write_event (sample_event\<lparr>ev_risk := None\<rparr>) sample_io = (True, out) \<and>
     timestamp_utc (io_time sample_io) = timestamp_utc (io_time sample_io) \<and>
     same_event sample_event (sample_event\<lparr>ev_risk := None\<rparr>)"
proof -
  define out where "out = audit_object 0 sample_event @ [NL]"
  have 1: "anything_audit_write_event sample_event sample_io = (True, out)"
    using sample_event_fits by (simp add: audit_write_True out_def) (simp add: sample_io_def)
  have 2: "anything_audit_write_event (sample_event\<lparr>ev_risk := None\<rparr>) sample_io = (True, out)"
    using sample_event_fits
    by (simp add: audit_write_True out_def event_fits_def io_ok_def audit_object_def
        audit_members_def text_member_def or_empty_def)
      (simp add: sample_io_def sample_event_def)
  show ?thesis
    using audit_log_unambiguous [of "[(sample_event, sample_io)]" "[out]"
        "[(sample_event\<lparr>ev_risk := None\<rparr>, sample_io)]" "[out]"] 1 2 by auto
qed







end
