(* ===== verification/Transport.thy ===== *)
theory Transport
  imports Config
begin

text \<open>
  \<open>src/common/transport.c\<close>: opening a listening socket, the peer's identity, the read timeout,
  the bounded read of a request and the write of a response.  A system call's answer is an
  argument; a call whose effect matters later is an entry of a list of effects.  Clock readings
  are pairs of seconds and nanoseconds, as in \<open>struct timespec\<close>.
\<close>

section \<open>Data\<close>

datatype anything_socket_plane = SOCKET_TOOL | SOCKET_ADMIN

text \<open>The effects of opening and removing sockets, and what opening reports.\<close>

datatype socket_effect =
    Unlinked cstring | Bound cstring | Mode_set cstring int | Listening cstring nat | Closed

datatype transport_error =
    Socket_failed string | Path_too_long | Bind_failed string | Listen_failed string
  | Peercred_failed string | Rcvtimeo_failed string
  | Deadline_exceeded | Read_failed string | Request_too_large

text \<open>\<open>ANYTHING_MAX_ERROR_LEN\<close> is 256; the strings are the texts of \<open>strerror(errno)\<close>.\<close>

fun transport_error_text :: "transport_error \<Rightarrow> cstring" where
  "transport_error_text (Socket_failed e) = snprintf 256 (''socket failed: '' @ e)"
| "transport_error_text Path_too_long = ''socket path too long''"
| "transport_error_text (Bind_failed e) = snprintf 256 (''bind failed: '' @ e)"
| "transport_error_text (Listen_failed e) = snprintf 256 (''listen failed: '' @ e)"
| "transport_error_text (Peercred_failed e) = snprintf 256 (''SO_PEERCRED failed: '' @ e)"
| "transport_error_text (Rcvtimeo_failed e) = snprintf 256 (''SO_RCVTIMEO failed: '' @ e)"
| "transport_error_text Deadline_exceeded = ''request deadline exceeded''"
| "transport_error_text (Read_failed e) = snprintf 256 (''read failed: '' @ e)"
| "transport_error_text Request_too_large = ''request exceeds configured max_request_bytes''"

text \<open>The answers of \<open>socket\<close>, \<open>bind\<close>, \<open>listen\<close>: None for success, else the error's text.\<close>

record listen_calls =
  call_socket :: "string option"
  call_bind :: "string option"
  call_listen :: "string option"

section \<open>Sockets\<close>

text \<open>\<open>sizeof(addr.sun_path)\<close> is 108.  The path is removed before its length is checked.\<close>

definition anything_transport_listen ::
  "listen_calls \<Rightarrow> cstring \<Rightarrow> int \<Rightarrow> (transport_error + cstring) \<times> socket_effect list" where
  "anything_transport_listen calls path mode =
     (case call_socket calls of
        Some e \<Rightarrow> (Inl (Socket_failed e), [])
      | None \<Rightarrow>
          if length path \<ge> 108 then (Inl Path_too_long, [Unlinked path, Closed])
          else (let sun_path = snprintf 108 path
                in case call_bind calls of
                     Some e \<Rightarrow> (Inl (Bind_failed e), [Unlinked path, Closed])
                   | None \<Rightarrow>
                       (case call_listen calls of
                          Some e \<Rightarrow> (Inl (Listen_failed e),
                            [Unlinked path, Bound sun_path, Mode_set path mode, Closed])
                        | None \<Rightarrow> (Inr sun_path,
                            [Unlinked path, Bound sun_path, Mode_set path mode, Listening sun_path 16]))))"

text \<open>\<open>SO_PEERCRED\<close>: the credentials the kernel recorded at connection, or the error's text.\<close>

definition anything_transport_peer_identity ::
  "string + (32 word \<times> 32 word \<times> 32 word) \<Rightarrow> transport_error + anything_identity" where
  "anything_transport_peer_identity cred =
     (case cred of
        Inl e \<Rightarrow> Inl (Peercred_failed e)
      | Inr (uid, gid, pid) \<Rightarrow> Inr \<lparr>id_uid = uid, id_gid = gid, id_pid = pid\<rparr>)"

text \<open>C division truncates towards zero; \<open>setsockopt\<close> gets seconds and microseconds.\<close>

definition cdiv :: "int \<Rightarrow> int \<Rightarrow> int" where
  "cdiv a b = sgn a * (\<bar>a\<bar> div b)"

definition cmod :: "int \<Rightarrow> int \<Rightarrow> int" where
  "cmod a b = a - cdiv a b * b"

definition timeval_of_ms :: "int \<Rightarrow> int \<times> int" where
  "timeval_of_ms timeout_ms = (cdiv timeout_ms 1000, cmod timeout_ms 1000 * 1000)"

definition anything_transport_set_read_timeout ::
  "(int \<times> int \<Rightarrow> string option) \<Rightarrow> int \<Rightarrow> transport_error + unit" where
  "anything_transport_set_read_timeout setsockopt timeout_ms =
     (case setsockopt (timeval_of_ms timeout_ms) of
        Some e \<Rightarrow> Inl (Rcvtimeo_failed e)
      | None \<Rightarrow> Inr ())"

section \<open>Reading a request\<close>

type_synonym timespec = "int \<times> int"

definition elapsed_ms_since :: "timespec \<Rightarrow> timespec \<Rightarrow> int" where
  "elapsed_ms_since start now =
     (let sec = fst now - fst start; nsec = snd now - snd start
      in sec * 1000 + cdiv nsec 1000000)"

text \<open>One turn of the loop: the clock read at its start, and what \<open>read\<close> answers.  \<open>read\<close>
  returns at most the bytes asked for: the model takes that many of \<open>Data\<close>.\<close>

datatype read_result = Data "char list" | Eof | Interrupted | Failed string

text \<open>The bytes read when the loop ends, with the turns not used.  A list that runs out stands
  for a call of \<open>read\<close> that has not returned: None.\<close>

fun read_loop ::
  "timespec \<Rightarrow> nat \<Rightarrow> int \<Rightarrow> char list \<Rightarrow> (timespec \<times> read_result) list \<Rightarrow>
   (transport_error + char list) option" where
  "read_loop started max_bytes deadline_ms buffer turns =
     (if length buffer < max_bytes then
        (case turns of
           [] \<Rightarrow> None
         | (now, r) # turns' \<Rightarrow>
             if elapsed_ms_since started now > deadline_ms then Some (Inl Deadline_exceeded)
             else
               (case r of
                  Interrupted \<Rightarrow> read_loop started max_bytes deadline_ms buffer turns'
                | Failed e \<Rightarrow> Some (Inl (Read_failed e))
                | Eof \<Rightarrow> Some (Inr buffer)
                | Data bytes \<Rightarrow>
                    (let n = take (max_bytes - length buffer) bytes; buffer' = buffer @ n
                     in if n = [] then Some (Inr buffer)
                        else if NL \<in> set buffer' then Some (Inr buffer')
                        else read_loop started max_bytes deadline_ms buffer' turns')))
      else Some (Inr buffer))"

declare read_loop.simps [simp del]

text \<open>\<open>ended\<close> is the clock after the loop.  The result is the filled part of the buffer: the
  buffer was zeroed, and \<open>*out_len\<close> is the length of the result.\<close>

definition anything_transport_read_request ::
  "timespec \<Rightarrow> nat \<Rightarrow> int \<Rightarrow> (timespec \<times> read_result) list \<Rightarrow> timespec \<Rightarrow>
   (transport_error + char list) option" where
  "anything_transport_read_request started max_bytes deadline_ms turns ended =
     (case read_loop started max_bytes deadline_ms [] turns of
        None \<Rightarrow> None
      | Some (Inl e) \<Rightarrow> Some (Inl e)
      | Some (Inr buffer) \<Rightarrow>
          if elapsed_ms_since started ended > deadline_ms then Some (Inl Deadline_exceeded)
          else if length buffer \<ge> max_bytes then Some (Inl Request_too_large)
          else Some (Inr buffer))"

section \<open>Writing a response\<close>

datatype write_answer = Wrote nat | Write_interrupted | Write_error

text \<open>The bytes sent and whether the call reported success; None while \<open>write\<close> has not returned.
  \<open>write\<close> takes at most the bytes offered.\<close>

fun write_loop :: "cstring \<Rightarrow> nat \<Rightarrow> write_answer list \<Rightarrow> (bool \<times> cstring) option" where
  "write_loop response written [] =
     (if written < length response then None else Some (True, take written response))"
| "write_loop response written (a # answers) =
     (if written < length response then
        (case a of
           Wrote n \<Rightarrow> write_loop response (written + min n (length response - written)) answers
         | Write_interrupted \<Rightarrow> write_loop response written answers
         | Write_error \<Rightarrow> Some (False, take written response))
      else Some (True, take written response))"

definition anything_transport_write_response ::
  "cstring \<Rightarrow> write_answer list \<Rightarrow> (bool \<times> cstring) option" where
  "anything_transport_write_response response answers = write_loop response 0 answers"

definition anything_transport_cleanup_socket :: "cstring \<Rightarrow> socket_effect list" where
  "anything_transport_cleanup_socket path = [Unlinked path]"

end
