(* ===== verification/Transport_Props.thy ===== *)
theory Transport_Props
  imports Transport Config_Props
begin

text \<open>
  Facts on the transport: the read deadline against real time, what a request that was read is,
  that the read ends, and that a response is written without loss or repetition.
\<close>

section \<open>Time\<close>

lemma cdiv_mod: "0 < b \<Longrightarrow> cdiv a b * b + cmod a b = a \<and> \<bar>cmod a b\<bar> < b"
proof -
  assume b: "0 < b"
  have "\<bar>a\<bar> = \<bar>a\<bar> div b * b + \<bar>a\<bar> mod b" "0 \<le> \<bar>a\<bar> mod b" "\<bar>a\<bar> mod b < b"
    using b by simp_all
  moreover have "cmod a b = sgn a * (\<bar>a\<bar> mod b)"
    using minus_div_mult_eq_mod [of "\<bar>a\<bar>" b]
    by (auto simp: cmod_def cdiv_def sgn_if split: if_splits)
  ultimately show ?thesis using b by (auto simp: sgn_if) (auto simp: cmod_def)
qed

lemma cdiv_pos: "0 \<le> a \<Longrightarrow> 0 < b \<Longrightarrow> cdiv a b = a div b \<and> cmod a b = a mod b"
  by (auto simp: cdiv_def cmod_def sgn_if minus_div_mult_eq_mod)

definition nanoseconds :: "timespec \<Rightarrow> int" where
  "nanoseconds t = fst t * 1000000000 + snd t"

lemma elapsed_error:
  "\<bar>(nanoseconds now - nanoseconds start) - elapsed_ms_since start now * 1000000\<bar> < 1000000"
proof -
  let ?d = "snd now - snd start"
  have "cdiv ?d 1000000 * 1000000 + cmod ?d 1000000 = ?d \<and> \<bar>cmod ?d 1000000\<bar> < 1000000"
    by (rule cdiv_mod) simp
  then show ?thesis by (simp add: elapsed_ms_since_def nanoseconds_def Let_def) arith
qed

section \<open>The read loop\<close>

definition late :: "timespec \<Rightarrow> int \<Rightarrow> timespec \<Rightarrow> bool" where
  "late started deadline_ms now \<longleftrightarrow> elapsed_ms_since started now > deadline_ms"

lemma read_loop_Nil [simp]:
  "read_loop started m d buf [] = (if length buf < m then None else Some (Inr buf))"
  by (simp add: read_loop.simps)

lemma read_loop_Cons [simp]:
  "read_loop started m d buf ((now, r) # turns) =
     (if \<not> length buf < m then Some (Inr buf)
      else if late started d now then Some (Inl Deadline_exceeded)
      else (case r of
              Interrupted \<Rightarrow> read_loop started m d buf turns
            | Failed e \<Rightarrow> Some (Inl (Read_failed e))
            | Eof \<Rightarrow> Some (Inr buf)
            | Data bytes \<Rightarrow>
                (let n = take (m - length buf) bytes
                 in if n = [] then Some (Inr buf)
                    else if NL \<in> set (buf @ n) then Some (Inr (buf @ n))
                    else read_loop started m d (buf @ n) turns)))"
  by (simp add: read_loop.simps [of started m d buf "(now, r) # turns"] late_def Let_def
      cong: if_cong read_result.case_cong)

text \<open>The bytes the turns deliver.\<close>

fun received :: "(timespec \<times> read_result) list \<Rightarrow> char list" where
  "received [] = []"
| "received ((now, Data bytes) # turns) = bytes @ received turns"
| "received ((now, r) # turns) = received turns"

lemma read_loop_Inr:
  "read_loop started m d buf turns = Some (Inr b) \<Longrightarrow> length buf \<le> m \<Longrightarrow>
   prefix buf b \<and> length b \<le> m \<and> prefix b (buf @ received turns)"
proof (induction turns arbitrary: buf)
  case Nil
  then show ?case by (auto split: if_splits)
next
  case (Cons t turns)
  obtain now r where t: "t = (now, r)" by fastforce
  show ?case
  proof (cases "\<exists>bytes. r = Data bytes \<and> length buf < m \<and> \<not> late started d now")
    case True
    then obtain bytes where r: "r = Data bytes" "length buf < m" "\<not> late started d now" by blast
    let ?n = "take (m - length buf) bytes"
    have pr: "prefix (buf @ ?n) (buf @ bytes @ x)" for x
      by (metis append_take_drop_id append.assoc prefixI)
    show ?thesis
    proof (cases "?n \<noteq> [] \<and> NL \<notin> set (buf @ ?n)")
      case rec: True
      then have "read_loop started m d (buf @ ?n) turns = Some (Inr b)"
        using Cons.prems t r by (auto simp: Let_def)
      then have b: "prefix (buf @ ?n) b" "length b \<le> m" "prefix b ((buf @ ?n) @ received turns)"
        using Cons.IH [of "buf @ ?n"] r by auto
      have "prefix b (buf @ bytes @ received turns)"
      proof (cases "m - length buf \<le> length bytes")
        case True
        then have "length (buf @ ?n) = m" using r by simp
        with b(1,2) have "b = buf @ ?n" by (auto simp: prefix_def)
        with pr show ?thesis by simp
      qed (use b in simp)
      with b t r show ?thesis by (auto intro: append_prefixD)
    next
      case False
      then have "b = buf @ ?n" using Cons.prems t r by (auto simp: Let_def split: if_splits)
      with pr t r show ?thesis by simp
    qed
  next
    case False
    with Cons t show ?thesis by (cases r) (auto split: if_splits)
  qed
qed

lemma read_loop_late:
  "\<exists>t \<in> set turns. late started d (fst t) \<Longrightarrow> read_loop started m d buf turns \<noteq> None"
proof (induction turns arbitrary: buf)
  case (Cons t turns)
  obtain now r where t: "t = (now, r)" by fastforce
  show ?case
  proof (cases "late started d now")
    case False
    with Cons.prems t have "\<exists>u \<in> set turns. late started d (fst u)" by auto
    then have "read_loop started m d b turns \<noteq> None" for b using Cons.IH by blast
    then show ?thesis using t by (cases r) (auto simp: Let_def)
  qed (use t in auto)
qed simp

text \<open>Turns that deliver the request in time, cut into chunks anywhere, with interrupted calls
  between them.\<close>

definition timely :: "timespec \<Rightarrow> int \<Rightarrow> (timespec \<times> read_result) list \<Rightarrow> bool" where
  "timely started d turns \<longleftrightarrow>
     (\<forall>(now, r) \<in> set turns. \<not> late started d now \<and>
        (r = Interrupted \<or> (\<exists>c bytes. r = Data (c # bytes))))"

lemma read_loop_timely:
  "timely started d turns \<Longrightarrow> NL \<notin> set (buf @ received turns) \<Longrightarrow>
   length (buf @ received turns) < m \<Longrightarrow>
   read_loop started m d buf (turns @ us) = read_loop started m d (buf @ received turns) us"
proof (induction turns arbitrary: buf)
  case (Cons t turns)
  obtain now r where t: "t = (now, r)" by fastforce
  from Cons.prems t have r: "\<not> elapsed_ms_since started now > d" "timely started d turns"
    "r = Interrupted \<or> (\<exists>c bytes. r = Data (c # bytes))"
    by (auto simp: timely_def late_def)
  with Cons t show ?case by (auto simp: Let_def late_def)
qed simp

section \<open>Writing\<close>

lemma write_loop_prefix: "write_loop s k as = Some (ok, out) \<Longrightarrow> k \<le> length s \<Longrightarrow>
   prefix out s \<and> (ok \<longrightarrow> out = s)"
  by (induction s k as rule: write_loop.induct)
    (auto simp: take_is_prefix split: if_splits write_answer.splits)

fun taken :: "write_answer list \<Rightarrow> nat" where
  "taken [] = 0"
| "taken (Wrote n # as) = n + taken as"
| "taken (a # as) = taken as"

lemma write_loop_enough:
  "Write_error \<notin> set as \<Longrightarrow> length s \<le> k + taken as \<Longrightarrow> write_loop s k as = Some (True, s)"
proof (induction s k as rule: write_loop.induct)
  case (2 s k a as)
  show ?case
  proof (cases a)
    case (Wrote n)
    have "length s \<le> k + min n (length s - k) + taken as"
      using "2.prems"(2) Wrote by (cases "n \<le> length s - k") auto
    with 2 Wrote show ?thesis by auto
  qed (use 2 in auto)
qed simp

section \<open>Properties\<close>

text \<open>For every configuration the loader accepts, the socket's read timeout is the configured
  number of milliseconds exactly, a legal \<open>timeval\<close>, and never the zero that would mean no
  timeout.\<close>

theorem read_timeout_exact:
  assumes "anything_config_load_with_options file allow = Inr cfg"
    and "timeval_of_ms (read_timeout_ms cfg) = (sec, usec)"
  shows "sec * 1000000 + usec = read_timeout_ms cfg * 1000 \<and> 0 \<le> usec \<and> usec < 1000000 \<and>
     0 \<le> sec \<and> (sec, usec) \<noteq> (0, 0)"
proof -
  let ?t = "read_timeout_ms cfg"
  have t: "0 < ?t" using assms(1) by (auto simp: load_Inr valid_config_def)
  have "sec = ?t div 1000" "usec = ?t mod 1000 * 1000"
    using assms(2) cdiv_pos [of ?t 1000] t by (auto simp: timeval_of_ms_def)
  moreover have "?t div 1000 * 1000000 + ?t mod 1000 * 1000 = ?t * 1000"
    using div_mult_mod_eq [of ?t 1000] by linarith
  moreover have "0 \<le> ?t div 1000" "0 \<le> ?t mod 1000" "?t mod 1000 < 1000"
    using t by (simp_all add: pos_imp_zdiv_nonneg_iff)
  ultimately show ?thesis using t
    by (cases "?t div 1000 = 0") auto
qed

theorem read_timeout_exact_witness:
  "timeval_of_ms (read_timeout_ms example_config) = (2, 0) \<and> (2 :: int) * 1000000 + 0 = 2000 * 1000"
proof -
  have t: "timeval_of_ms (read_timeout_ms example_config) = (2, 0)"
    by (simp add: timeval_of_ms_def example_config_def anything_config_init_def cdiv_def cmod_def)
  with read_timeout_exact [OF example_loads_any t] show ?thesis
    by (simp add: example_config_def anything_config_init_def)
qed

text \<open>C24: a request is accepted only complete and in time: it is what the peer sent, cut nowhere
  but at its end, shorter than the configured maximum, and less than one millisecond of real time
  past the deadline has elapsed.\<close>

theorem accepted_request_bounded:
  assumes "anything_transport_read_request started max_bytes deadline turns ended = Some (Inr body)"
  shows "prefix body (received turns) \<and> length body < max_bytes \<and>
     nanoseconds ended - nanoseconds started < (deadline + 1) * 1000000"
proof -
  from assms have loop: "read_loop started max_bytes deadline [] turns = Some (Inr body)"
    and time: "elapsed_ms_since started ended \<le> deadline" and len: "length body < max_bytes"
    by (auto simp: anything_transport_read_request_def split: option.splits sum.splits if_splits)
  have "prefix body (received turns)" using read_loop_Inr [OF loop] by simp
  then show ?thesis using time len elapsed_error [of ended started] by (simp add: algebra_simps)
qed

text \<open>Four turns: two chunks, an interrupted call, the end of the line.\<close>

definition sample_turns :: "(timespec \<times> read_result) list" where
  "sample_turns = [((0, 1), Data ''{ab''), ((0, 2), Interrupted), ((0, 3), Data ''c''), ((0, 4), Data (''}'' @ [NL]))]"

theorem accepted_request_bounded_witness:
  "prefix (''{abc}'' @ [NL]) (received sample_turns) \<and> nanoseconds (0, 5) - nanoseconds (0, 0) < 11 * 1000000"
proof -
  have "anything_transport_read_request (0, 0) 64 10 sample_turns (0, 5) = Some (Inr (''{abc}'' @ [NL]))"
    by code_simp
  from accepted_request_bounded [OF this] show ?thesis by simp
qed

text \<open>C23: a line, or a text ended by the peer's shutdown, that arrives in time in any chunks, with
  calls interrupted anywhere, is read back whole when it is shorter than the maximum; one of
  exactly the maximum is already refused as exceeding it.\<close>

theorem request_read_exactly:
  assumes "timely started deadline turns" "NL \<notin> set (received turns)"
    "length (received turns) < max_bytes"
    "\<not> late started deadline now" "chunk = [] \<or> NL \<in> set chunk"
  shows "anything_transport_read_request started max_bytes deadline (turns @ [(now, Data chunk)]) ended =
     Some (if late started deadline ended then Inl Deadline_exceeded
           else if length (received turns @ chunk) < max_bytes then Inr (received turns @ chunk)
           else Inl Request_too_large)"
proof -
  let ?b = "received turns" and ?n = "take (max_bytes - length (received turns)) chunk"
  have "read_loop started max_bytes deadline [] (turns @ [(now, Data chunk)]) =
      Some (Inr (?b @ ?n))"
  proof (cases "chunk = []")
    case True
    then show ?thesis using assms read_loop_timely [of started deadline turns "[]"] by simp
  next
    case False
    then have "?n \<noteq> []" using assms(3) by simp
    moreover have "max_bytes \<le> length (?b @ ?n)" if "NL \<notin> set ?n"
    proof -
      have "?n \<noteq> chunk" using that assms(5) False by auto
      then have "max_bytes - length ?b < length chunk" by (metis not_less take_all)
      then show ?thesis by simp
    qed
    ultimately show ?thesis
      using assms read_loop_timely [of started deadline turns "[]"] by (auto simp: Let_def)
  qed
  moreover have "?b @ ?n = ?b @ chunk" if "length (?b @ chunk) < max_bytes"
    using that by simp
  ultimately show ?thesis
    using assms(3) by (auto simp: anything_transport_read_request_def late_def min_def)
qed

theorem request_read_exactly_witness:
  "anything_transport_read_request (0, 0) 7 10 sample_turns (0, 5) = Some (Inr (''{abc}'' @ [NL])) \<and>
   anything_transport_read_request (0, 0) 6 10 sample_turns (0, 5) = Some (Inl Request_too_large)"
proof -
  let ?turns = "[((0, 1), Data ''{ab''), ((0, 2), Interrupted), ((0, 3), Data ''c'')]"
  have t: "timely (0, 0) 10 ?turns" "\<not> late (0, 0) 10 (0, 4)" "\<not> late (0, 0) 10 (0, 5)"
    by (simp_all add: timely_def late_def elapsed_ms_since_def cdiv_def)
  have s: "sample_turns = ?turns @ [((0, 4), Data (''}'' @ [NL]))]" by (simp add: sample_turns_def)
  show ?thesis
    using request_read_exactly [OF t(1), of 7 "(0, 4)" "''}'' @ [NL]" "(0, 5)"]
      request_read_exactly [OF t(1), of 6 "(0, 4)" "''}'' @ [NL]" "(0, 5)"] t s by simp
qed

text \<open>The read cannot be held open: as soon as one turn of the loop starts after the deadline,
  the call returns, whatever the peer sends.\<close>

theorem read_ends_at_deadline:
  assumes "\<exists>t \<in> set turns. late started deadline (fst t)"
  shows "anything_transport_read_request started max_bytes deadline turns ended \<noteq> None"
  using read_loop_late [OF assms, of max_bytes "[]"]
  by (auto simp: anything_transport_read_request_def split: option.splits sum.splits)

theorem read_ends_at_deadline_witness:
  "anything_transport_read_request (0, 0) 64 10 [((0, 0), Data ''a''), ((1, 0), Data ''b'')] (1, 0) \<noteq> None"
  by (rule read_ends_at_deadline) (simp add: late_def elapsed_ms_since_def cdiv_def)

text \<open>C33: a response is written whole, in order, without loss or repetition, through any sequence
  of short and interrupted writes that takes that many bytes; a write reported as successful sent
  all of it, and a failed one a prefix.\<close>

theorem response_written_exactly:
  assumes "length response \<le> taken answers"
  shows "(Write_error \<notin> set answers \<longrightarrow>
      anything_transport_write_response response answers = Some (True, response)) \<and>
    (anything_transport_write_response response answers = Some (ok, out) \<longrightarrow>
      prefix out response \<and> (ok \<longrightarrow> out = response))"
  using assms write_loop_enough [of answers response 0] write_loop_prefix [of response 0 answers ok out]
  by (auto simp: anything_transport_write_response_def)

theorem response_written_exactly_witness:
  "anything_transport_write_response ''hello'' [Wrote 2, Write_interrupted, Wrote 9] = Some (True, ''hello'')"
  using response_written_exactly [of "''hello''" "[Wrote 2, Write_interrupted, Wrote 9]"] by simp

end
