(* ===== verification/Sys_Info.thy ===== *)
theory Sys_Info
  imports Config Rpc_Replies
begin

text \<open>
  \<open>src/tools/sys_info.c\<close>, the one tool of the daemon: \<open>uname\<close>, the first lines of two files,
  and a JSON object made of them.  What the system answers is a \<open>sys_env\<close>: the three fields of
  \<open>struct utsname\<close> the tool reads (None when \<open>uname\<close> fails) and the contents of the two files
  (None when \<open>fopen\<close> fails).
\<close>

section \<open>The code\<close>

record sys_env =
  sys_uname :: "(cstring \<times> cstring \<times> cstring) option"
  sys_proc_uptime :: "char list option"
  sys_os_release :: "char list option"

datatype sys_error = Uname_failed | Sys_escaping_failed | Sys_output_exceeded

fun sys_error_text :: "sys_error \<Rightarrow> cstring" where
  "sys_error_text Uname_failed = ''uname failed''"
| "sys_error_text Sys_escaping_failed = ''sys.info JSON escaping failed''"
| "sys_error_text Sys_output_exceeded = ''sys.info output exceeded buffer''"

text \<open>The loop runs from the end of the text, so it is a recursion over the reversed text.\<close>

fun strip_newline_loop :: "cstring \<Rightarrow> cstring" where
  "strip_newline_loop [] = []"
| "strip_newline_loop (c # p) = (if c = NL \<or> c = CR then strip_newline_loop p else c # p)"

definition strip_newline :: "cstring \<Rightarrow> cstring" where
  "strip_newline text = rev (strip_newline_loop (rev text))"

definition read_first_line :: "char list option \<Rightarrow> nat \<Rightarrow> cstring" where
  "read_first_line file out_len =
     (case file of
        None \<Rightarrow> snprintf out_len ''unknown''
      | Some contents \<Rightarrow>
          strip_newline
            (case fgets out_len contents of
               None \<Rightarrow> snprintf out_len ''unknown''
             | Some (line, rest) \<Rightarrow> line))"

definition anything_sys_info_json :: "sys_env \<Rightarrow> nat \<Rightarrow> sys_error + cstring" where
  "anything_sys_info_json env out_len =
     (case sys_uname env of
        None \<Rightarrow> Inl Uname_failed
      | Some (nodename, release, machine) \<Rightarrow>
          (let uptime = read_first_line (sys_proc_uptime env) 64;
               os_release = read_first_line (sys_os_release env) 256
           in case (anything_json_escape_string (Some nodename) 256,
                    anything_json_escape_string (Some release) 256,
                    anything_json_escape_string (Some os_release) 512,
                    anything_json_escape_string (Some uptime) 128,
                    anything_json_escape_string (Some machine) 128) of
                (Some hostname_json, Some kernel_json, Some os_release_json, Some uptime_json,
                 Some arch_json) \<Rightarrow>
                  (let text = ''{\"version\":\"v0.1.1\",\"hostname\":\"'' @ hostname_json @
                         ''\",\"kernel_version\":\"'' @ kernel_json @ ''\",\"os_release\":\"'' @
                         os_release_json @ ''\",\"uptime\":\"'' @ uptime_json @
                         ''\",\"architecture\":\"'' @ arch_json @ ''\"}''
                   in if length text \<ge> out_len then Inl Sys_output_exceeded else Inr text)
              | _ \<Rightarrow> Inl Sys_escaping_failed))"

section \<open>The object\<close>

definition sys_info_object :: "cstring \<Rightarrow> cstring \<Rightarrow> cstring \<Rightarrow> cstring \<Rightarrow> cstring \<Rightarrow> string" where
  "sys_info_object hostname release os_release uptime arch = json_object
     [(''version'', quoted ''v0.1.1''), (''hostname'', quoted (escape hostname)),
      (''kernel_version'', quoted (escape release)), (''os_release'', quoted (escape os_release)),
      (''uptime'', quoted (escape uptime)), (''architecture'', quoted (escape arch))]"

lemma json_body_sys_keys [simp]:
  "json_body ''version''" "json_body ''hostname''" "json_body ''kernel_version''"
  "json_body ''os_release''" "json_body ''uptime''" "json_body ''architecture''" "json_body ''v0.1.1''"
  by (simp_all add: json_body_plain plain_char_def)

lemma json_value_sys_info: "json_value (sys_info_object h k r u a)"
  by (simp add: sys_info_object_def json_value_object json_value_quoted)

text \<open>The texts fit in the tool's escape buffers.\<close>

definition sys_texts_fit :: "cstring \<Rightarrow> cstring \<Rightarrow> cstring \<Rightarrow> cstring \<Rightarrow> cstring \<Rightarrow> bool" where
  "sys_texts_fit h k r u a \<longleftrightarrow>
     length (escape h) < 256 \<and> length (escape k) < 256 \<and> length (escape r) < 512 \<and>
     length (escape u) < 128 \<and> length (escape a) < 128"

lemma length_sys_info_object:
  "length (sys_info_object h k r u a) = 100 + length (escape h) + length (escape k)
     + length (escape r) + length (escape u) + length (escape a)"
  by (simp add: sys_info_object_def json_object_def member_def quoted_def)

text \<open>With the daemon's buffer of 2048 bytes the last error is impossible.\<close>

lemma sys_info_eq:
  "anything_sys_info_json env 2048 =
     (case sys_uname env of
        None \<Rightarrow> Inl Uname_failed
      | Some (h, k, a) \<Rightarrow>
          (let u = read_first_line (sys_proc_uptime env) 64;
               r = read_first_line (sys_os_release env) 256
           in if sys_texts_fit h k r u a then Inr (sys_info_object h k r u a)
              else Inl Sys_escaping_failed))"
proof (cases "sys_uname env")
  case (Some uts)
  obtain h k a where uts: "uts = (h, k, a)" by (cases uts) auto
  let ?u = "read_first_line (sys_proc_uptime env) 64"
  let ?r = "read_first_line (sys_os_release env) 256"
  show ?thesis
  proof (cases "sys_texts_fit h k ?r ?u a")
    case True
    then have "length (sys_info_object h k ?r ?u a) < 2048"
      unfolding length_sys_info_object sys_texts_fit_def by linarith
    then show ?thesis using True Some uts
      by (simp add: anything_sys_info_json_def sys_texts_fit_def json_escape_eq Let_def
          sys_info_object_def json_object_def member_def quoted_def)
  next
    case False
    then show ?thesis using Some uts
      by (auto simp: anything_sys_info_json_def sys_texts_fit_def json_escape_eq Let_def
          split: option.split)
  qed
qed (simp add: anything_sys_info_json_def)

lemma sys_info_Inr:
  "anything_sys_info_json env 2048 = Inr text \<Longrightarrow> json_value text \<and> length text < 1376"
  by (auto simp: sys_info_eq Let_def length_sys_info_object sys_texts_fit_def json_value_sys_info
      split: option.splits if_splits)

section \<open>First lines\<close>

lemma strip_newline_loop_suffix: "suffix (strip_newline_loop p) p"
  by (induction p) (auto simp: suffix_Cons)

lemma strip_newline_prefix: "prefix (strip_newline text) text"
  using strip_newline_loop_suffix [of "rev text"] by (simp add: strip_newline_def suffix_to_prefix)

lemma strip_newline_loop_id: "deref p \<noteq> NL \<Longrightarrow> deref p \<noteq> CR \<Longrightarrow> strip_newline_loop p = p"
  by (cases p) auto

lemma fgets_loop_line: "NL \<notin> set line \<Longrightarrow> length line < n \<Longrightarrow>
   fgets_loop n (line @ NL # rest) = (line @ [NL], rest)"
  by (induction line arbitrary: n) auto

lemma fgets_loop_length: "length (fst (fgets_loop n s)) \<le> n"
proof (induction n s rule: fgets_loop.induct)
  case (2 n c s)
  then show ?case by (cases "fgets_loop (n - 1) s") auto
qed simp

lemma c_str_prefix: "prefix (c_str b) b"
  by (simp add: c_str_def takeWhile_is_prefix)

lemma read_first_line_simple:
  assumes "8 \<le> n" "\<And>contents. src = Some contents \<Longrightarrow> simple_text contents"
  shows "length (read_first_line src n) < n \<and> simple_text (read_first_line src n)"
proof -
  have unknown: "length (snprintf n ''unknown'') < n \<and> simple_text (snprintf n ''unknown'')"
    using assms(1) by (simp add: snprintf_id simple_char_def)
  have strip: "length (strip_newline t) < n \<and> simple_text (strip_newline t)"
    if "length t < n \<and> simple_text t" for t
    using that strip_newline_prefix [of t] prefix_length_le [of "strip_newline t" t]
      set_mono_prefix [of "strip_newline t" t] by auto
  show ?thesis
  proof (cases src)
    case (Some contents)
    show ?thesis
    proof (cases "fgets n contents")
      case (Some p)
      then obtain line rest where p: "p = (line, rest)" by fastforce
      obtain l r where l: "fgets_loop (n - 1) contents = (l, r)" by fastforce
      with Some p have line: "line = c_str l" "rest = r" by (auto simp: fgets_def split: if_splits)
      have "length line \<le> length l" "set line \<subseteq> set l"
        using prefix_length_le [OF c_str_prefix [of l]] set_mono_prefix [OF c_str_prefix [of l]] line
        by auto
      moreover have "length l < n" using fgets_loop_length [of "n - 1" contents] l assms(1) by simp
      moreover have "set l \<subseteq> set contents" using fgets_loop_append [OF l] by auto
      ultimately have "length line < n \<and> simple_text line"
        using assms(2) [OF \<open>src = Some contents\<close>] by auto
      then show ?thesis using Some p \<open>src = Some contents\<close> strip by (simp add: read_first_line_def)
    qed (use \<open>src = Some contents\<close> strip unknown in \<open>simp add: read_first_line_def\<close>)
  qed (use unknown in \<open>simp add: read_first_line_def\<close>)
qed

section \<open>Properties\<close>

text \<open>C32: on a system whose names and files hold no control characters but newline, carriage
  return and tab, the tool succeeds, with one JSON object made of the names and the first lines,
  which fits with room to spare in the daemon's response.\<close>

theorem sys_info_succeeds:
  assumes "sys_uname env = Some (h, k, a)" "length h \<le> 64" "length k \<le> 64" "length a < 64"
    and "simple_text h" "simple_text k" "simple_text a"
    and "\<And>contents. sys_proc_uptime env = Some contents \<Longrightarrow> simple_text contents"
    and "\<And>contents. sys_os_release env = Some contents \<Longrightarrow> simple_text contents"
  shows "anything_sys_info_json env 2048 =
     Inr (sys_info_object h k (read_first_line (sys_os_release env) 256)
       (read_first_line (sys_proc_uptime env) 64) a) \<and>
   json_value (sys_info_object h k (read_first_line (sys_os_release env) 256)
       (read_first_line (sys_proc_uptime env) 64) a)"
proof -
  have "length (read_first_line (sys_os_release env) 256) < 256 \<and>
      simple_text (read_first_line (sys_os_release env) 256)"
    using assms(9) by (intro read_first_line_simple) auto
  moreover have "length (read_first_line (sys_proc_uptime env) 64) < 64 \<and>
      simple_text (read_first_line (sys_proc_uptime env) 64)"
    using assms(8) by (intro read_first_line_simple) auto
  ultimately have "sys_texts_fit h k (read_first_line (sys_os_release env) 256)
      (read_first_line (sys_proc_uptime env) 64) a"
    using assms(2-7) length_escape_simple [of h] length_escape_simple [of k] length_escape_simple [of a]
      length_escape_simple [of "read_first_line (sys_os_release env) 256"]
      length_escape_simple [of "read_first_line (sys_proc_uptime env) 64"]
    by (simp add: sys_texts_fit_def)
  then show ?thesis using assms(1) by (simp add: sys_info_eq json_value_sys_info)
qed

definition sample_sys_env :: sys_env where
  "sample_sys_env = \<lparr>sys_uname = Some (''host'', ''6.1'', ''x86_64''),
     sys_proc_uptime = Some (''12.5 3.1'' @ [NL]), sys_os_release = None\<rparr>"

theorem sys_info_succeeds_witness:
  "anything_sys_info_json sample_sys_env 2048 =
     Inr (sys_info_object ''host'' ''6.1'' ''unknown'' ''12.5 3.1'' ''x86_64'')"
proof -
  have "read_first_line (sys_os_release sample_sys_env) 256 = ''unknown''"
    "read_first_line (sys_proc_uptime sample_sys_env) 64 = ''12.5 3.1''" by code_simp+
  then show ?thesis
    using sys_info_succeeds [of sample_sys_env "''host''" "''6.1''" "''x86_64''"]
    by (simp add: sample_sys_env_def simple_char_def)
qed

text \<open>A file's first line is reported as it is: the text before the first newline, when it is
  shorter than the buffer and holds no NUL and no carriage return at its end, whatever follows.\<close>

theorem first_line_exact:
  assumes "NL \<notin> set line" "NUL \<notin> set line" "length line + 1 < n" "deref (rev line) \<noteq> CR"
  shows "read_first_line (Some (line @ NL # rest)) n = line"
proof -
  have "fgets n (line @ NL # rest) = Some (line @ [NL], rest)"
    using assms fgets_loop_line [of line "n - 1" rest] by (simp add: fgets_def c_str_id)
  moreover have "deref (rev line) \<noteq> NL"
    using assms(1) by (cases "rev line") (auto dest: arg_cong [where f = set])
  ultimately show ?thesis
    using assms(4) by (simp add: read_first_line_def strip_newline_def strip_newline_loop_id)
qed

theorem first_line_exact_witness:
  "read_first_line (Some (''ID=x'' @ NL # ''VERSION=1'')) 256 = ''ID=x''"
  by (rule first_line_exact) simp_all

end
