(* ===== verification/Rpc_Requests.thy ===== *)
theory Rpc_Requests
  imports Rpc_Replies
begin

text \<open>
  The request parser against an abstract reading of requests.  A request is a list of members
  (key and value), printed as one JSON object with the program's own escaping; the abstract
  reading \<open>abstract_request\<close> goes over the members one by one and never looks at text.  The parser, run on the
  printed text, computes the abstract reading, errors included.
\<close>

section \<open>Abstract requests\<close>

datatype field_value =
    Text_value string
  | Object_value "(string \<times> string) list"
  | Number_value int

text \<open>Objects are the ones of parameters: members with text values.\<close>

definition string_params :: "(string \<times> string) list \<Rightarrow> string" where
  "string_params kvs = json_object (map (\<lambda>(k, v). (escape k, quoted (escape v))) kvs)"

fun print_value :: "field_value \<Rightarrow> string" where
  "print_value (Text_value s) = quoted (escape s)"
| "print_value (Object_value kvs) = string_params kvs"
| "print_value (Number_value z) = decimal_int z"

definition print_request :: "(string \<times> field_value) list \<Rightarrow> string" where
  "print_request fs = json_object (map (\<lambda>(k, v). (escape k, print_value v)) fs)"

fun text_within :: "nat \<Rightarrow> field_value \<Rightarrow> string option" where
  "text_within n (Text_value s) = (if length s < n then Some s else None)"
| "text_within n v = None"

fun object_within :: "nat \<Rightarrow> field_value \<Rightarrow> string option" where
  "object_within n (Object_value kvs) =
     (if length (string_params kvs) < n then Some (string_params kvs) else None)"
| "object_within n v = None"

definition read_field :: "string \<times> field_value \<Rightarrow> rpc_scan \<times> anything_rpc_request \<Rightarrow>
    rpc_error + (rpc_scan \<times> anything_rpc_request)" where
  "read_field = (\<lambda>(k, v) (scan, rq).
     if length k \<ge> 64 then Inl Invalid_key
     else if k = ''jsonrpc'' then
       (if seen_jsonrpc scan then Inl Duplicate_key
        else if v \<noteq> Text_value ''2.0'' then Inl Invalid_version
        else Inr (scan\<lparr>seen_jsonrpc := True\<rparr>, rq))
     else if k = ''id'' then
       (if seen_id scan then Inl Duplicate_key
        else bindR (or_err Invalid_id (text_within 64 v))
          (\<lambda>s. Inr (scan\<lparr>seen_id := True\<rparr>, rq\<lparr>rq_id := s\<rparr>)))
     else if k = ''method'' then
       (if seen_method scan then Inl Duplicate_key
        else bindR (or_err Invalid_method (text_within 64 v))
          (\<lambda>s. Inr (scan\<lparr>seen_method := True\<rparr>, rq\<lparr>rq_method := s\<rparr>)))
     else if k = ''params'' then
       (if seen_params scan then Inl Duplicate_key
        else case v of
          Object_value kvs \<Rightarrow> bindR (or_err Invalid_params (object_within 1024 v))
            (\<lambda>ps. Inr (scan\<lparr>seen_params := True\<rparr>, rq\<lparr>rq_params := ps\<rparr>))
        | _ \<Rightarrow> Inl Non_object_params)
     else (case v of
          Object_value kvs \<Rightarrow> bindR (or_err Invalid_value (object_within 1024 v)) (\<lambda>_. Inr (scan, rq))
        | _ \<Rightarrow> Inr (scan, rq)))"

fun read_fields :: "(string \<times> field_value) list \<Rightarrow> rpc_scan \<times> anything_rpc_request \<Rightarrow>
    rpc_error + (rpc_scan \<times> anything_rpc_request)" where
  "read_fields [] st = Inr st"
| "read_fields (f # fs) st = bindR (read_field f st) (read_fields fs)"

definition read_request :: "(string \<times> field_value) list \<Rightarrow> rpc_error + anything_rpc_request" where
  "read_request fs =
     (if fs = [] then Inl Invalid_request
      else bindR (read_fields fs (empty_scan, empty_request)) (\<lambda>(scan, rq).
        if \<not> (seen_jsonrpc scan \<and> seen_id scan \<and> seen_method scan) then Inl Missing_field
        else let ps = default_params scan rq; s = session_of_params ps
             in Inr (rq\<lparr>rq_params := ps, rq_session_id := s,
                  rq_hash := anything_rpc_hash_request (rq_method rq) ps s\<rparr>)))"

text \<open>Texts the parser's escapes can denote.\<close>

fun simple_value :: "field_value \<Rightarrow> bool" where
  "simple_value (Text_value s) = simple_text s"
| "simple_value (Object_value kvs) = (\<forall>(k, v) \<in> set kvs. simple_text k \<and> simple_text v)"
| "simple_value (Number_value z) = True"

definition simple_fields :: "(string \<times> field_value) list \<Rightarrow> bool" where
  "simple_fields fs \<longleftrightarrow> (\<forall>(k, v) \<in> set fs. simple_text k \<and> simple_value v)"

section \<open>Strings and objects of strings\<close>

lemma rpc_body_escape: "simple_text s \<Longrightarrow> rpc_body (escape s) s"
proof (induction s)
  case (Cons c s)
  then have s: "rpc_body (escape s) s" by simp
  have esc: "rpc_body (BS # e # escape s) (c # s)" if "rpc_unescape e = Some c" for e
    using that s by (rule rpc_esc)
  show ?case
  proof (cases "plain_char c")
    case True
    with s show ?thesis by (simp add: rpc_char)
  next
    case False
    with Cons.prems consider "c = DQ" | "c = BS" | "c = NL" | "c = CR" | "c = TAB"
      by (fastforce simp: plain_char_def simple_char_def)
    then obtain e where "esc_char c = [BS, e]" "rpc_unescape e = Some c"
    proof cases
      case 1 then show ?thesis using that [of DQ] by (simp add: esc_char_def rpc_unescape_def)
    next
      case 2 then show ?thesis using that [of BS] by (simp add: esc_char_def rpc_unescape_def)
    next
      case 3 then show ?thesis using that [of "CHR ''n''"] by (simp add: esc_char_def rpc_unescape_def)
    next
      case 4 then show ?thesis using that [of "CHR ''r''"] by (simp add: esc_char_def rpc_unescape_def)
    next
      case 5 then show ?thesis using that [of "CHR ''t''"] by (simp add: esc_char_def rpc_unescape_def)
    qed
    with esc [of e] show ?thesis by simp
  qed
qed (simp add: rpc_Nil)

lemma scan_escape: "simple_text s \<Longrightarrow> scan_string (escape s @ DQ # r) = Some (s, r)"
  by (rule scan_string_body [OF rpc_body_escape])

lemma parse_quoted_text:
  "simple_text s \<Longrightarrow>
   parse_json_string n (DQ # escape s @ DQ # r) = (if length s < n then Some (s, r) else None)"
  by (cases "n = 0") (simp_all add: parse_json_string_def parse_string_loop_eq scan_escape)

lemma skip_quoted_text: "simple_text s \<Longrightarrow> skip_json_string (DQ # escape s @ DQ # r) = Some r"
  by (rule skip_json_string_body [OF rpc_body_escape])

abbreviation string_members :: "(string \<times> string) list \<Rightarrow> string" where
  "string_members kvs \<equiv> comma_sep (map (\<lambda>(k, v). member (escape k) (quoted (escape v))) kvs)"

lemma string_params_text: "string_params kvs = CHR ''{'' # string_members kvs @ ''}''"
  by (simp add: string_params_def json_object_def case_prod_unfold comp_def)

lemma copy_string_members:
  "\<forall>(k, v) \<in> set kvs. simple_text k \<and> simple_text v \<Longrightarrow>
   copy_object_loop (string_members kvs @ r) d = copy_object_loop r d"
proof (induction kvs rule: induct_list012)
  case (2 kv)
  then show ?case by (cases kv) (simp add: member_append quoted_append skip_quoted_text)
next
  case (3 kv kw kvs)
  then show ?case by (cases kv; cases kw) (simp add: member_append quoted_append skip_quoted_text)
qed simp

lemma copy_string_params:
  assumes "\<forall>(k, v) \<in> set kvs. simple_text k \<and> simple_text v"
  shows "copy_json_object_raw n (string_params kvs @ r) =
     (if length (string_params kvs) < n then Some (string_params kvs, r) else None)"
proof -
  have "copy_object_loop (string_params kvs @ r) 0 = Some r"
    using copy_string_members [OF assms, of "CHR ''}'' # r" 1] by (simp add: string_params_text)
  then show ?thesis by (simp add: copy_json_object_raw_def string_params_text)
qed

section \<open>Values\<close>

lemma skip_scalar_plain:
  "\<forall>x \<in> set s. x \<noteq> CHR '','' \<and> x \<noteq> CHR ''}'' \<and> x \<noteq> CHR '']'' \<Longrightarrow>
   c = CHR '','' \<or> c = CHR ''}'' \<Longrightarrow> skip_scalar (s @ c # r) = c # r"
  by (induction s) auto

lemma decimal_int_chars: "x \<in> set (decimal_int z) \<Longrightarrow> is_digit x \<or> x = CHR ''-''"
  by (auto simp: decimal_int_def dest: decimal_digits split: if_splits)

lemma number_start:
  obtains x xs where "decimal_int z = x # xs" "is_digit x \<or> x = CHR ''-''"
proof (cases "decimal_int z")
  case Nil
  then show ?thesis by (auto simp: decimal_int_def split: if_splits)
next
  case (Cons x xs)
  then show ?thesis using that decimal_int_chars [of x z] by auto
qed

lemma number_char:
  assumes "is_digit x \<or> x = CHR ''-''"
  shows "x \<noteq> DQ" "x \<noteq> CHR ''{''" "x \<noteq> CHR ''[''" "x \<noteq> CHR '',''" "x \<noteq> CHR ''}''" "x \<noteq> CHR '']''"
    "\<not> isspace x"
  using assms by (auto simp: is_digit_def isspace_def)

lemma skip_number:
  "c = CHR '','' \<or> c = CHR ''}'' \<Longrightarrow> skip_json_value (decimal_int z @ c # r) = Some (c # r)"
proof -
  assume c: "c = CHR '','' \<or> c = CHR ''}''"
  obtain x xs where x: "decimal_int z = x # xs" "is_digit x \<or> x = CHR ''-''" by (rule number_start)
  have "\<forall>y \<in> set (decimal_int z). y \<noteq> CHR '','' \<and> y \<noteq> CHR ''}'' \<and> y \<noteq> CHR '']''"
    using number_char(4-6) [OF decimal_int_chars] by simp
  then have "skip_scalar (decimal_int z @ c # r) = c # r" using c by (rule skip_scalar_plain)
  with x number_char [OF x(2)] show ?thesis by (simp add: skip_json_value_def Let_def)
qed

lemma value_start:
  obtains x xs where "print_value v = x # xs" "\<not> isspace x"
proof (cases v)
  case (Number_value z)
  then show ?thesis using that number_start [of z] number_char(7) by (metis print_value.simps(3))
qed (use that in \<open>auto simp: quoted_def string_params_text\<close>)

lemma skip_ws_value: "skip_ws (print_value v @ r) = print_value v @ r"
  by (rule value_start [of v]) simp

section \<open>One member\<close>

abbreviation ends_member :: "char \<Rightarrow> bool" where
  "ends_member c \<equiv> c = CHR '','' \<or> c = CHR ''}''"

lemma parse_text_value:
  assumes "simple_value v"
  shows "parse_json_string n (print_value v @ c # r) = map_option (\<lambda>s. (s, c # r)) (text_within n v)"
proof (cases v)
  case (Number_value z)
  obtain x xs where "decimal_int z = x # xs" "is_digit x \<or> x = CHR ''-''" by (rule number_start)
  with Number_value number_char(1) [of x] show ?thesis by (simp add: parse_json_string_def)
next
  case (Text_value s)
  with assms show ?thesis by (simp add: quoted_append parse_quoted_text)
qed (simp add: string_params_text parse_json_string_def)

lemma copy_object_value:
  assumes "simple_value v"
  shows "deref (print_value v @ c # r) = CHR ''{'' \<longleftrightarrow> (\<exists>kvs. v = Object_value kvs)"
    and "v = Object_value kvs \<Longrightarrow> copy_json_object_raw n (print_value v @ c # r) =
      map_option (\<lambda>s. (s, c # r)) (object_within n v)"
proof -
  show "deref (print_value v @ c # r) = CHR ''{'' \<longleftrightarrow> (\<exists>kvs. v = Object_value kvs)"
  proof (cases v)
    case (Number_value z)
    obtain x xs where "decimal_int z = x # xs" "is_digit x \<or> x = CHR ''-''" by (rule number_start)
    with Number_value number_char(2) [of x] show ?thesis by simp
  qed (auto simp: quoted_append string_params_text)
  show "v = Object_value kvs \<Longrightarrow> copy_json_object_raw n (print_value v @ c # r) =
      map_option (\<lambda>s. (s, c # r)) (object_within n v)"
    using assms by (simp add: copy_string_params)
qed

lemma skip_value:
  assumes "simple_value v" "ends_member c"
  shows "skip_json_value (print_value v @ c # r) =
     (case v of Object_value kvs \<Rightarrow> map_option (\<lambda>_. c # r) (object_within 1024 v) | _ \<Rightarrow> Some (c # r))"
proof (cases v)
  case (Object_value kvs)
  then show ?thesis
    using assms(1) copy_string_params [of kvs 1024 "c # r"]
    by (auto simp: skip_json_value_def string_params_text)
next
  case (Number_value z)
  with assms(2) skip_number [of c z r] show ?thesis by simp
qed (use assms in \<open>simp add: quoted_append skip_json_value_def skip_quoted_text\<close>)

definition with_rest :: "cstring \<Rightarrow> rpc_error + (rpc_scan \<times> anything_rpc_request) \<Rightarrow>
    rpc_error + (cstring \<times> rpc_scan \<times> anything_rpc_request)" where
  "with_rest p r = bindR r (\<lambda>(scan, rq). Inr (p, scan, rq))"

lemma rpc_field_reads:
  assumes "simple_value v" "ends_member c" "length k < 64"
  shows "rpc_field k (print_value v @ c # r) scan rq = with_rest (c # r) (read_field (k, v) (scan, rq))"
proof -
  have moved: "bindR (or_err e (map_option (\<lambda>s. (s, c # r)) t)) f =
      bindR (or_err e t) (\<lambda>s. f (s, c # r))" for e t
    and f :: "cstring \<times> cstring \<Rightarrow> rpc_error + (cstring \<times> rpc_scan \<times> anything_rpc_request)"
    by (cases t) simp_all
  have version: "text_within 16 v = Some s \<and> s = ''2.0'' \<longleftrightarrow> v = Text_value ''2.0'' \<and> s = ''2.0''" for s
    by (cases v) auto
  note parse = parse_text_value [OF assms(1), of _ c r]
  note obj = copy_object_value [OF assms(1), where c = c and r = r]
  consider "k = ''jsonrpc''" | "k = ''id'' \<or> k = ''method''" | "k = ''params''"
    | "k \<notin> {''jsonrpc'', ''id'', ''method'', ''params''}" by blast
  then show ?thesis
  proof cases
    case 1
    show ?thesis
    proof (cases "text_within 16 v")
      case None
      then have "v \<noteq> Text_value ''2.0''" by auto
      with None 1 show ?thesis
        by (simp add: rpc_field_def read_field_def with_rest_def mark_seen_def parse)
    next
      case (Some s)
      with version [of s] 1 show ?thesis
        by (auto simp: rpc_field_def read_field_def with_rest_def mark_seen_def parse)
    qed
  next
    case 2
    then show ?thesis
      by (cases "text_within 64 v")
        (auto simp: rpc_field_def read_field_def with_rest_def mark_seen_def parse)
  next
    case 3
    show ?thesis
    proof (cases "\<exists>kvs. v = Object_value kvs")
      case True
      then obtain kvs where v: "v = Object_value kvs" by blast
      with 3 obj(1) obj(2) [OF v, where n = 1024] show ?thesis
        by (cases "object_within 1024 v")
          (auto simp: rpc_field_def read_field_def with_rest_def mark_seen_def)
    next
      case False
      with 3 obj(1) show ?thesis
        by (cases v) (auto simp: rpc_field_def read_field_def with_rest_def mark_seen_def)
    qed
  next
    case 4
    then show ?thesis
      using assms(3) skip_value [OF assms(1,2), of r]
      by (cases v; cases "object_within 1024 v")
        (auto simp: rpc_field_def read_field_def with_rest_def)
  qed
qed

lemma rpc_members_reads:
  assumes "simple_text k" "simple_value v" "ends_member c"
  shows "rpc_members (member (escape k) (print_value v) @ c # r) scan rq =
     bindR (read_field (k, v) (scan, rq)) (\<lambda>(scan', rq').
       if c = CHR '','' then rpc_members (skip_ws r) scan' rq' else Inr (r, scan', rq'))"
proof (cases "length k < 64")
  case True
  have "rpc_members (member (escape k) (print_value v) @ c # r) scan rq =
      bindR (rpc_field k (print_value v @ c # r) scan rq) (\<lambda>(p3, scan', rq').
        let p4 = skip_ws p3
        in if deref p4 = CHR '','' then rpc_members (skip_ws (tl p4)) scan' rq'
           else if deref p4 = CHR ''}'' then Inr (tl p4, scan', rq')
           else Inl Invalid_terminator)"
    using True assms(1)
    by (simp add: member_append rpc_members.simps [of "DQ # _"] parse_quoted_text skip_ws_value)
  also have "\<dots> = bindR (read_field (k, v) (scan, rq)) (\<lambda>(scan', rq').
       if c = CHR '','' then rpc_members (skip_ws r) scan' rq' else Inr (r, scan', rq'))"
    using assms(3) rpc_field_reads [OF assms(2,3) True, of r scan rq]
    by (cases "read_field (k, v) (scan, rq)") (auto simp: with_rest_def)
  finally show ?thesis .
next
  case False
  with assms(1) show ?thesis
    by (simp add: member_append rpc_members.simps [of "DQ # _"] parse_quoted_text read_field_def)
qed

section \<open>The whole request\<close>

lemma printed_members_start:
  "fs \<noteq> [] \<Longrightarrow> skip_ws (comma_sep (map (\<lambda>(k, v). member (escape k) (print_value v)) fs) @ r) =
     comma_sep (map (\<lambda>(k, v). member (escape k) (print_value v)) fs) @ r"
  by (cases fs; cases "tl fs") (auto simp: member_def split: prod.splits)

text \<open>\<open>c\<close> is what stands for the closing brace: the brace itself, or a comma at the very end.\<close>

lemma rpc_members_fields:
  "simple_fields fs \<Longrightarrow> fs \<noteq> [] \<Longrightarrow> c = CHR ''}'' \<or> c = CHR '','' \<and> r = [] \<Longrightarrow>
   rpc_members (comma_sep (map (\<lambda>(k, v). member (escape k) (print_value v)) fs) @ c # r) scan rq =
   with_rest r (read_fields fs (scan, rq))"
proof (induction fs arbitrary: scan rq rule: induct_list012)
  case (2 f)
  obtain k v where f: "f = (k, v)" by fastforce
  with 2 have "rpc_members (member (escape k) (print_value v) @ c # r) scan rq =
     bindR (read_field (k, v) (scan, rq)) (\<lambda>(scan', rq').
       if c = CHR '','' then rpc_members (skip_ws r) scan' rq' else Inr (r, scan', rq'))"
    by (intro rpc_members_reads) (auto simp: simple_fields_def)
  with 2 f show ?case
    by (cases "read_field (k, v) (scan, rq)")
      (auto simp: with_rest_def rpc_members.simps [of "[]"])
next
  case (3 f g fs)
  obtain k v where f: "f = (k, v)" by fastforce
  let ?rest = "comma_sep (map (\<lambda>(k, v). member (escape k) (print_value v)) (g # fs)) @ c # r"
  have simple: "simple_text k" "simple_value v" "simple_fields (g # fs)"
    using 3 f by (auto simp: simple_fields_def)
  have "rpc_members (member (escape k) (print_value v) @ CHR '','' # ?rest) scan rq =
     bindR (read_field (k, v) (scan, rq)) (\<lambda>(scan', rq'). rpc_members (skip_ws ?rest) scan' rq')"
    using rpc_members_reads [OF simple(1,2), of "CHR '',''"] by simp
  also have "skip_ws ?rest = ?rest" by (rule printed_members_start) simp
  also have "bindR (read_field (k, v) (scan, rq)) (\<lambda>(scan', rq'). rpc_members ?rest scan' rq') =
     with_rest r (read_fields (f # g # fs) (scan, rq))"
    using "3.IH"(2) [OF simple(3) _ "3.prems"(3)] f
    by (cases "read_field (k, v) (scan, rq)") (auto simp: with_rest_def)
  finally show ?case using f by simp
qed simp

lemma printable_member: "(\<forall>x \<in> set v. 32 \<le> uchar x) \<Longrightarrow> y \<in> set (member (escape k) v) \<Longrightarrow> 32 \<le> uchar y"
  by (auto simp: member_def dest: escape_printable)

lemma comma_sep_set: "y \<in> set (comma_sep xs) \<Longrightarrow> y = CHR '','' \<or> (\<exists>x \<in> set xs. y \<in> set x)"
  by (induction xs rule: comma_sep.induct) auto

lemma printable_params: "y \<in> set (string_params kvs) \<Longrightarrow> 32 \<le> uchar y"
  by (auto simp: string_params_text quoted_def member_def dest!: comma_sep_set)
    (blast intro: escape_printable)+

lemma printable_value: "y \<in> set (print_value v) \<Longrightarrow> 32 \<le> uchar y"
  by (cases v) (auto simp: quoted_def is_digit_def dest: escape_printable printable_params decimal_int_chars)

lemma printable_members:
  "y \<in> set (comma_sep (map (\<lambda>(k, v). member (escape k) (print_value v)) fs)) \<Longrightarrow> 32 \<le> uchar y"
  by (auto simp: member_def dest!: comma_sep_set)
    (blast intro: escape_printable printable_value)+

lemma not_NUL: "32 \<le> uchar y \<Longrightarrow> y \<noteq> NUL"
  by auto

lemma printed_no_NUL:
  assumes "NUL \<notin> set r"
  shows "NUL \<notin> set (comma_sep (map (\<lambda>(k, v). member (escape k) (print_value v)) fs) @ r)"
proof
  assume "NUL \<in> set (comma_sep (map (\<lambda>(k, v). member (escape k) (print_value v)) fs) @ r)"
  then have "NUL \<in> set (comma_sep (map (\<lambda>(k, v). member (escape k) (print_value v)) fs))"
    using assms by simp
  then have "32 \<le> uchar NUL" by (rule printable_members)
  then show False by simp
qed

lemma print_request_text:
  "print_request fs = CHR ''{'' # comma_sep (map (\<lambda>(k, v). member (escape k) (print_value v)) fs) @ ''}''"
  by (simp add: print_request_def json_object_def case_prod_unfold comp_def)

lemma skip_ws_blank: "\<forall>x \<in> set t. isspace x \<Longrightarrow> skip_ws t = []"
  by (induction t) auto

lemma blank_no_NUL: "\<forall>x \<in> set t. isspace x \<Longrightarrow> NUL \<notin> set t"
  by (auto simp: isspace_def)

lemma finish_reads:
  assumes "\<forall>x \<in> set t. isspace x"
  shows "bindR (with_rest t (read_fields fs (empty_scan, empty_request))) rpc_finish =
     (if fs = [] then bindR (Inr (t, empty_scan, empty_request)) rpc_finish else read_request fs)"
  by (cases "read_fields fs (empty_scan, empty_request)")
    (auto simp: with_rest_def read_request_def rpc_finish_eq skip_ws_blank [OF assms] Let_def)

lemma parse_print:
  assumes "simple_fields fs" "\<forall>x \<in> set t. isspace x" "0 < len"
    and "c = CHR ''}'' \<or> c = CHR '','' \<and> t = [] \<and> fs \<noteq> []"
  shows "anything_rpc_parse (Some (CHR ''{'' #
      comma_sep (map (\<lambda>(k, v). member (escape k) (print_value v)) fs) @ c # t)) len = read_request fs"
proof -
  let ?ms = "comma_sep (map (\<lambda>(k, v). member (escape k) (print_value v)) fs)"
  have "NUL \<notin> set (?ms @ c # t)"
    using assms(2,4) blank_no_NUL by (intro printed_no_NUL) auto
  then have cs: "c_str (CHR ''{'' # ?ms @ c # t) = CHR ''{'' # ?ms @ c # t"
    by (intro c_str_id) simp
  show ?thesis
  proof (cases "fs = []")
    case True
    with assms(3,4) cs show ?thesis by (auto simp: anything_rpc_parse_def read_request_def Let_def)
  next
    case False
    have ws: "skip_ws (?ms @ c # t) = ?ms @ c # t" by (rule printed_members_start [OF False])
    moreover have "deref (?ms @ c # t) = DQ"
      using False by (cases fs; cases "tl fs") (auto simp: member_def split: prod.splits)
    moreover have "rpc_members (?ms @ c # t) empty_scan empty_request =
        with_rest t (read_fields fs (empty_scan, empty_request))"
      using assms(4) by (intro rpc_members_fields [OF assms(1) False]) auto
    ultimately show ?thesis
      using assms(3) cs False finish_reads [OF assms(2), of fs]
      by (simp add: anything_rpc_parse_def Let_def)
  qed
qed

section \<open>String parameters\<close>

text \<open>The value of the first member with a key, when it fits; a key too long for the buffer of the
  lookup ends it.\<close>

fun find_text :: "nat \<Rightarrow> string \<Rightarrow> (string \<times> string) list \<Rightarrow> string option" where
  "find_text n key [] = None"
| "find_text n key ((k, v) # kvs) =
     (if length k \<ge> 64 then None
      else if k = key then (if length v < n then Some v else None)
      else find_text n key kvs)"

lemma find_text_map_of:
  "\<forall>(k, v) \<in> set kvs. length k < 64 \<Longrightarrow>
   find_text n key kvs = (case map_of kvs key of None \<Rightarrow> None | Some v \<Rightarrow> if length v < n then Some v else None)"
  by (induction n key kvs rule: find_text.induct) auto

lemma extract_members:
  "kvs \<noteq> [] \<Longrightarrow> \<forall>(k, v) \<in> set kvs. simple_text k \<and> simple_text v \<Longrightarrow>
   extract_param_loop n key (string_members kvs @ ''}'') = find_text n key kvs"
proof (induction kvs rule: induct_list012)
  case (2 kv)
  obtain k v where kv: "kv = (k, v)" by fastforce
  with 2 show ?case
    by (auto simp: member_append extract_param_loop.simps [of n key "DQ # _"]
        extract_param_loop.simps [of n key "''}''"] parse_quoted_text quoted_append skip_quoted_text
        skip_json_value_def member_def quoted_def Let_def)
next
  case (3 kv kw kvs)
  obtain k v where kv: "kv = (k, v)" by fastforce
  let ?rest = "string_members (kw # kvs) @ ''}''"
  have ws: "skip_ws ?rest = ?rest"
    by (cases kvs; cases kw; simp add: member_def; cases "hd kvs"; simp add: member_def)
  have IH: "extract_param_loop n key ?rest = find_text n key (kw # kvs)"
    using 3 by simp
  have "string_members (kv # kw # kvs) @ ''}'' = DQ # escape k @ DQ # CHR '':'' # DQ # escape v @ DQ # CHR '','' # ?rest"
    using kv by (simp add: member_def quoted_def)
  then show ?case
    using 3 kv ws IH
    by (simp add: extract_param_loop.simps [of n key "DQ # _"] parse_quoted_text skip_quoted_text
        skip_json_value_def Let_def)
qed simp

lemma extract_find_text:
  assumes "\<forall>(k, v) \<in> set kvs. simple_text k \<and> simple_text v"
  shows "anything_rpc_extract_param_string (string_params kvs) key n = find_text n key kvs"
proof (cases "kvs = []")
  case True
  then show ?thesis
    by (simp add: anything_rpc_extract_param_string_def string_params_text
        extract_param_loop.simps [of n key "''}''"] Let_def)
next
  case False
  have "skip_ws (string_members kvs @ ''}'') = string_members kvs @ ''}''"
    using False by (cases kvs; cases "tl kvs") (auto simp: member_def split: prod.splits)
  then show ?thesis
    using extract_members [OF False assms]
    by (simp add: anything_rpc_extract_param_string_def string_params_text Let_def)
qed

lemma extract_string_params:
  assumes "\<forall>(k, v) \<in> set kvs. simple_text k \<and> simple_text v \<and> length k < 64"
  shows "anything_rpc_extract_param_string (string_params kvs) key n =
     (case map_of kvs key of None \<Rightarrow> None | Some v \<Rightarrow> if length v < n then Some v else None)"
proof -
  have "\<forall>(k, v) \<in> set kvs. simple_text k \<and> simple_text v" using assms by auto
  moreover have "\<forall>(k, v) \<in> set kvs. length k < 64" using assms by auto
  ultimately show ?thesis by (simp add: extract_find_text find_text_map_of)
qed

section \<open>The abstract reading of a whole request\<close>

text \<open>The parameters are the first member of that key (a second one is an error), and the session
  is looked up in their list of members: no text is scanned.\<close>

definition params_of :: "(string \<times> field_value) list \<Rightarrow> (string \<times> string) list" where
  "params_of fs = (case map_of fs ''params'' of Some (Object_value kvs) \<Rightarrow> kvs | _ \<Rightarrow> [])"

definition abstract_request :: "(string \<times> field_value) list \<Rightarrow> rpc_error + anything_rpc_request" where
  "abstract_request fs =
     (if fs = [] then Inl Invalid_request
      else bindR (read_fields fs (empty_scan, empty_request)) (\<lambda>(scan, rq).
        if \<not> (seen_jsonrpc scan \<and> seen_id scan \<and> seen_method scan) then Inl Missing_field
        else let ps = string_params (params_of fs);
                 s = (case find_text 64 ''session_id'' (params_of fs) of None \<Rightarrow> ''default'' | Some s \<Rightarrow> s)
             in Inr (rq\<lparr>rq_params := ps, rq_session_id := s,
                  rq_hash := anything_rpc_hash_request (rq_method rq) ps s\<rparr>)))"

lemma read_field_params:
  assumes "read_field (k, v) (scan, rq) = Inr (scan', rq')"
  shows "if k = ''params'' then \<not> seen_params scan \<and> seen_params scan' \<and>
            (\<exists>kvs. v = Object_value kvs \<and> rq_params rq' = string_params kvs)
         else seen_params scan' = seen_params scan \<and> rq_params rq' = rq_params rq"
  using assms
  by (cases v) (auto simp: read_field_def bindR_Inr or_err_Inr split: if_splits)

lemma read_fields_seen:
  "read_fields fs (scan, rq) = Inr (scan', rq') \<Longrightarrow> seen_params scan \<Longrightarrow>
   seen_params scan' \<and> rq_params rq' = rq_params rq"
proof (induction fs arbitrary: scan rq)
  case (Cons f fs)
  obtain k v where f: "f = (k, v)" by fastforce
  from Cons.prems f obtain scan1 rq1 where 1: "read_field (k, v) (scan, rq) = Inr (scan1, rq1)"
    "read_fields fs (scan1, rq1) = Inr (scan', rq')" by (auto simp: bindR_Inr)
  with read_field_params [OF 1(1)] Cons show ?case by (auto split: if_splits)
qed simp

lemma string_params_Nil: "string_params [] = ''{}''"
  by (simp add: string_params_def json_object_def)

lemma read_fields_params:
  "read_fields fs (scan, rq) = Inr (scan', rq') \<Longrightarrow> \<not> seen_params scan \<Longrightarrow>
   default_params scan' rq' = string_params (params_of fs)"
proof (induction fs arbitrary: scan rq)
  case Nil
  then show ?case by (simp add: default_params_def params_of_def string_params_Nil)
next
  case (Cons f fs)
  obtain k v where f: "f = (k, v)" by fastforce
  from Cons.prems f obtain scan1 rq1 where 1: "read_field (k, v) (scan, rq) = Inr (scan1, rq1)"
    "read_fields fs (scan1, rq1) = Inr (scan', rq')" by (auto simp: bindR_Inr)
  show ?case
  proof (cases "k = ''params''")
    case True
    with read_field_params [OF 1(1)] read_fields_seen [OF 1(2)] f show ?thesis
      by (auto simp: default_params_def params_of_def)
  next
    case False
    with read_field_params [OF 1(1)] Cons 1(2) f show ?thesis by (simp add: params_of_def)
  qed
qed

lemma params_of_simple:
  assumes "simple_fields fs"
  shows "\<forall>(k, v) \<in> set (params_of fs). simple_text k \<and> simple_text v"
proof (cases "map_of fs ''params''")
  case (Some v)
  then have "(''params'', v) \<in> set fs" by (rule map_of_SomeD)
  with assms have "simple_value v" by (auto simp: simple_fields_def)
  with Some show ?thesis by (cases v) (simp_all add: params_of_def)
qed (simp add: params_of_def)

lemma read_request_abstract:
  assumes "simple_fields fs"
  shows "read_request fs = abstract_request fs"
proof (cases "read_fields fs (empty_scan, empty_request)")
  case (Inr r)
  obtain scan rq where r: "r = (scan, rq)" by fastforce
  have "default_params scan rq = string_params (params_of fs)"
    using Inr r by (intro read_fields_params) (auto simp: empty_scan_def)
  then show ?thesis
    using Inr r extract_find_text [OF params_of_simple [OF assms]]
    by (simp add: read_request_def abstract_request_def session_of_params_def Let_def)
qed (simp add: read_request_def abstract_request_def)

section \<open>Properties\<close>

text \<open>C13: on the printed text of a list of members with text, object and number values (any texts
  but with control characters other than newline, carriage return and tab, which the code's
  escapes cannot denote), in any order, with unknown or repeated keys, over-long keys and values
  or missing fields, and blanks after it, the parser computes the abstract reading: the same
  request or the same error.\<close>

theorem parse_reads_printed_request:
  assumes "simple_fields fs" "\<forall>x \<in> set blanks. isspace x"
  shows "anything_rpc_parse (Some (print_request fs @ blanks)) (length (print_request fs @ blanks)) =
     abstract_request fs"
  using parse_print [OF assms, of _ "CHR ''}''"] by (simp add: print_request_text read_request_abstract [OF assms(1)])

definition sample_fields :: "(string \<times> field_value) list" where
  "sample_fields = [(''method'', Text_value ''sys.info''), (''extra'', Number_value (-5)),
     (''id'', Text_value (''a'' @ [DQ])), (''params'', Object_value [(''session_id'', ''s1'')]),
     (''jsonrpc'', Text_value ''2.0'')]"

definition sample_parsed :: anything_rpc_request where
  "sample_parsed = \<lparr>rq_id = ''a'' @ [DQ], rq_method = ''sys.info'', rq_session_id = ''s1'',
     rq_params = string_params [(''session_id'', ''s1'')],
     rq_hash = anything_rpc_hash_request ''sys.info'' (string_params [(''session_id'', ''s1'')]) ''s1''\<rparr>"

lemma sample_read:
  "simple_fields sample_fields" "read_request sample_fields = Inr sample_parsed"
proof -
  show "simple_fields sample_fields"
    by (simp add: simple_fields_def sample_fields_def simple_char_def)
  have params: "length (string_params [(''session_id'', ''s1'')]) < 1024" by code_simp
  have "session_of_params (string_params [(''session_id'', ''s1'')]) = ''s1''"
    using extract_string_params [of "[(''session_id'', ''s1'')]" "''session_id''" 64]
    by (simp add: session_of_params_def simple_char_def)
  with params show "read_request sample_fields = Inr sample_parsed"
    by (simp add: read_request_def sample_fields_def read_field_def empty_scan_def empty_request_def
        default_params_def sample_parsed_def Let_def)
qed

theorem parse_reads_printed_request_witness:
  "anything_rpc_parse (Some (print_request sample_fields @ [NL])) (length (print_request sample_fields @ [NL])) =
     Inr sample_parsed"
  using parse_reads_printed_request [OF sample_read(1), of "[NL]"] read_request_abstract [OF sample_read(1)]
  by (simp add: isspace_def sample_read(2))

text \<open>C35: an object that is cut after a trailing comma, with no closing brace, is accepted like the
  complete one.\<close>

theorem unterminated_request_accepted:
  assumes "simple_fields fs" "fs \<noteq> []"
  shows "anything_rpc_parse (Some (butlast (print_request fs) @ '','')) (length (print_request fs)) =
     anything_rpc_parse (Some (print_request fs)) (length (print_request fs))"
  using parse_print [OF assms(1), of "[]" "length (print_request fs)" "CHR '',''"]
    parse_print [OF assms(1), of "[]" "length (print_request fs)" "CHR ''}''"] assms(2)
  by (simp add: print_request_text butlast_append)

theorem unterminated_request_accepted_witness:
  "anything_rpc_parse (Some (butlast (print_request sample_fields) @ '','')) (length (print_request sample_fields)) =
     anything_rpc_parse (Some (print_request sample_fields)) (length (print_request sample_fields))"
  by (rule unterminated_request_accepted)
    (simp_all add: simple_fields_def sample_fields_def simple_char_def)

text \<open>C14: whatever bytes arrive, a request the parser returns is well formed: its texts fit their
  fields and hold no control characters but newline, carriage return and tab, its parameters are
  one object, and its hash is the hash of its own method, parameters and session.\<close>

theorem parsed_request_well_formed:
  assumes "anything_rpc_parse json len = Inr rq"
  shows "length (rq_id rq) < 64 \<and> simple_text (rq_id rq) \<and>
     length (rq_method rq) < 64 \<and> simple_text (rq_method rq) \<and>
     length (rq_session_id rq) < 64 \<and> simple_text (rq_session_id rq) \<and>
     length (rq_params rq) < 1024 \<and> (\<exists>ms. rq_params rq = CHR ''{'' # ms @ ''}'') \<and>
     rq_hash rq = anything_rpc_hash_request (rq_method rq) (rq_params rq) (rq_session_id rq)"
  using rpc_parse_ok [OF assms] by (simp add: request_ok_def object_text_def)

theorem parsed_request_well_formed_witness:
  "anything_rpc_parse (Some (print_request sample_fields)) 3 = Inr sample_parsed \<and>
   length (rq_params sample_parsed) < 1024 \<and> (\<exists>ms. rq_params sample_parsed = CHR ''{'' # ms @ ''}'') \<and>
   rq_hash sample_parsed = anything_rpc_hash_request ''sys.info'' (rq_params sample_parsed) ''s1''"
proof -
  have p: "anything_rpc_parse (Some (print_request sample_fields)) 3 = Inr sample_parsed"
    using parse_print [OF sample_read(1), of "[]" 3 "CHR ''}''"] sample_read(2)
    by (simp add: print_request_text)
  have "rq_method sample_parsed = ''sys.info''" "rq_session_id sample_parsed = ''s1''"
    by (simp_all add: sample_parsed_def)
  with parsed_request_well_formed [OF p] p show ?thesis by simp
qed

text \<open>The value of a text parameter is found again by its key, the first one when a key is
  repeated, exactly when it fits the caller's buffer.\<close>

theorem string_parameter_found:
  assumes "\<forall>(k, v) \<in> set kvs. simple_text k \<and> simple_text v \<and> length k < 64"
  shows "anything_rpc_extract_param_string (string_params kvs) key n =
     (case map_of kvs key of None \<Rightarrow> None | Some v \<Rightarrow> if length v < n then Some v else None)"
  by (rule extract_string_params [OF assms])

theorem string_parameter_found_witness:
  "anything_rpc_extract_param_string (string_params [(''a'', ''1''), (''request_id'', ''req_1'')]) ''request_id'' 40 =
     Some ''req_1''"
  using string_parameter_found [of "[(''a'', ''1''), (''request_id'', ''req_1'')]" "''request_id''" 40]
  by (simp add: simple_char_def)

text \<open>C25: changing one byte anywhere in the method, the parameters or the session always changes
  the request hash, although it is no cryptographic hash: every round is a bijection of its
  64-bit state.\<close>

theorem hash_detects_byte_change:
  assumes "c \<noteq> d"
  shows "anything_rpc_hash_request (u @ c # v) p s \<noteq> anything_rpc_hash_request (u @ d # v) p s \<and>
     anything_rpc_hash_request m (u @ c # v) s \<noteq> anything_rpc_hash_request m (u @ d # v) s \<and>
     anything_rpc_hash_request m p (u @ c # v) \<noteq> anything_rpc_hash_request m p (u @ d # v)"
proof -
  have "anything_rpc_hash_request (u @ c # v) p s \<noteq> anything_rpc_hash_request (u @ d # v) p s"
    using assms hash_fold_change [of _ u c "v @ ''|'' @ p @ ''|'' @ s" d] by (simp add: hash_request_joined)
  moreover have "anything_rpc_hash_request m (u @ c # v) s \<noteq> anything_rpc_hash_request m (u @ d # v) s"
    using assms hash_fold_change [of _ "m @ ''|'' @ u" c "v @ ''|'' @ s" d] by (simp add: hash_request_joined)
  moreover have "anything_rpc_hash_request m p (u @ c # v) \<noteq> anything_rpc_hash_request m p (u @ d # v)"
    using assms hash_fold_change [of _ "m @ ''|'' @ p @ ''|'' @ u" c v d] by (simp add: hash_request_joined)
  ultimately show ?thesis by blast
qed

theorem hash_detects_byte_change_witness:
  "anything_rpc_hash_request ''sys.info'' ''{}'' ''alice'' \<noteq> anything_rpc_hash_request ''sys.info'' ''{}'' ''alicf''"
  using hash_detects_byte_change [of "CHR ''e''" "CHR ''f''" "''alic''" "[]" "''{}''" "''x''" "''sys.info''"]
  by simp

end
