(* ===== verification/Daemon.thy ===== *)
theory Daemon
  imports Approval_Props Audit_Props Transport_Props Sys_Info Rpc_Requests
begin

text \<open>
  \<open>src/daemon/anythingd.c\<close>: the two request handlers, one connection, start-up and the poll
  loop.  The state of the daemon is its configuration and its approval store.  A handler returns
  the new state and the list of what it did, in order: audit records (with what the writer
  reported and the bytes it appended), runs of the tool, replies.  A reply is what the handler
  passed to \<open>anything_transport_write_response\<close>: None when its buffer was never filled.
\<close>

section \<open>Data\<close>

record daemon_state =
  ds_config :: anything_config
  ds_approvals :: anything_approval_store

datatype effect =
    Audit audit_event bool string
  | Ran_tool cstring anything_identity "sys_error + cstring"
  | Reply "cstring option"

text \<open>The answers of the system during one request: \<open>time(NULL)\<close> (each request asks at most
  once), the calls of its first, second, ... audit record, and what the tool reads.\<close>

record daemon_env =
  env_now :: int
  env_audit :: "nat \<Rightarrow> audit_io"
  env_sys :: sys_env

section \<open>Replies and audited steps\<close>

text \<open>\<open>ANYTHING_RPC_MAX_RESPONSE\<close> is 4096; every error without further data passes "".\<close>

definition error_reply :: "cstring \<Rightarrow> int \<Rightarrow> cstring \<Rightarrow> cstring \<Rightarrow> effect" where
  "error_reply rid code kind message =
     Reply (anything_rpc_error (Some rid) code kind message (Some []) 4096)"

definition result_reply :: "cstring \<Rightarrow> cstring \<Rightarrow> effect" where
  "result_reply rid json_result = Reply (anything_rpc_result rid json_result 4096)"

definition send_invalid :: "cstring \<Rightarrow> cstring \<Rightarrow> cstring \<Rightarrow> effect list" where
  "send_invalid rid kind message = [error_reply rid (- 32600) kind message]"

text \<open>The arguments of an audit call; no call of the daemon passes NULL for a text, and every
  duration is 0.\<close>

definition audit_args ::
  "cstring \<Rightarrow> cstring \<Rightarrow> cstring \<Rightarrow> anything_identity \<Rightarrow> anything_identity option \<Rightarrow> cstring \<Rightarrow> cstring \<Rightarrow>
   cstring \<Rightarrow> cstring \<Rightarrow> cstring \<Rightarrow> audit_event" where
  "audit_args event request_id session_id caller approver method risk decision error_kind summary =
     \<lparr>ev_event = event, ev_request_id = Some request_id, ev_session_id = Some session_id,
      ev_caller = caller, ev_approver = approver, ev_method = Some method, ev_risk = Some risk,
      ev_decision = Some decision, ev_error_kind = Some error_kind,
      ev_params_summary = Some summary, ev_duration_ms = 0\<rparr>"

definition checked_audit :: "audit_event \<Rightarrow> audit_io \<Rightarrow> cstring \<Rightarrow> bool \<times> effect list" where
  "checked_audit ev io rpc_id =
     (case anything_audit_write_event ev io of
        (ok, out) \<Rightarrow>
          if ok then (True, [Audit ev True out])
          else (False, [Audit ev False out,
                        error_reply rpc_id (- 32050) ''audit_failed'' ''audit write failed'']))"

text \<open>\<open>if (checked_audit(...) != 0) return;\<close> in state \<open>s\<close>, followed by \<open>k\<close>.\<close>

definition audited :: "bool \<times> effect list \<Rightarrow> 's \<Rightarrow> 's \<times> effect list \<Rightarrow> 's \<times> effect list" where
  "audited r s k = (case r of (ok, es) \<Rightarrow> if ok then (fst k, es @ snd k) else (s, es))"

section \<open>The tool socket\<close>

definition approval_data :: "cstring \<Rightarrow> cstring \<Rightarrow> cstring \<Rightarrow> int \<Rightarrow> cstring" where
  "approval_data escaped_request_id escaped_risk escaped_summary expires_at =
     snprintf 768 ('',\"request_id\":\"'' @ escaped_request_id @ ''\",\"risk\":\"'' @ escaped_risk @
       ''\",\"summary\":\"'' @ escaped_summary @ ''\",\"expires_at\":'' @ decimal_int expires_at)"

text \<open>The end of the handler, for a request the policy lets wait for an approval.\<close>

definition admit_request ::
  "daemon_state \<Rightarrow> daemon_env \<Rightarrow> anything_identity \<Rightarrow> anything_rpc_request \<Rightarrow> anything_policy_result \<Rightarrow>
   daemon_state \<times> effect list" where
  "admit_request state env caller request policy =
     (case anything_approval_add (ds_approvals state) request policy caller
             (approval_ttl_seconds (ds_config state)) (env_now env) of
        None \<Rightarrow> (state, [error_reply (rq_id request) (- 32000) ''resource_limit'' ''approval store full''])
      | Some (store, created) \<Rightarrow>
          (let state' = state\<lparr>ds_approvals := store\<rparr>; p = pending store ! created
           in case (anything_json_escape_string (Some (pd_request_id p)) 128,
                    anything_json_escape_string (Some (pd_risk p)) 64,
                    anything_json_escape_string (Some (pd_summary p)) 512) of
                (Some escaped_request_id, Some escaped_risk, Some escaped_summary) \<Rightarrow>
                  audited (checked_audit
                      (audit_args ''approval_required'' (pd_request_id p) (pd_session_id p) caller None
                         (pd_method p) (pd_risk p) ''approval_required'' [] (pd_summary p))
                      (env_audit env 1) (rq_id request)) state'
                  (state', [Reply (anything_rpc_error (Some (rq_id request)) (- 32010)
                     ''approval_required'' ''approval required''
                     (Some (approval_data escaped_request_id escaped_risk escaped_summary
                              (pd_expires_at p))) 4096)])
              | _ \<Rightarrow>
                  (state', [error_reply (rq_id request) (- 32000) ''resource_limit''
                              ''approval response too large''])))"

text \<open>The audit records of the handler before that.\<close>

definition received_event :: "anything_rpc_request \<Rightarrow> anything_identity \<Rightarrow> audit_event" where
  "received_event request caller =
     audit_args ''request_received'' [] (rq_session_id request) caller None (rq_method request) []
       ''received'' [] ''bounded request''"

definition denied_event ::
  "anything_rpc_request \<Rightarrow> anything_identity \<Rightarrow> cstring \<Rightarrow> cstring \<Rightarrow> cstring \<Rightarrow> audit_event" where
  "denied_event request caller risk error_kind summary =
     audit_args ''preflight_denied'' [] (rq_session_id request) caller None (rq_method request) risk
       ''deny'' error_kind summary"

definition handle_tool_request ::
  "daemon_state \<Rightarrow> daemon_env \<Rightarrow> anything_identity \<Rightarrow> char list \<Rightarrow> nat \<Rightarrow> daemon_state \<times> effect list" where
  "handle_tool_request state env caller body body_len =
     (case anything_rpc_parse (Some body) body_len of
        Inl e \<Rightarrow> (state, send_invalid ''null'' ''invalid_request'' (rpc_error_text e))
      | Inr request \<Rightarrow>
          audited (checked_audit (received_event request caller) (env_audit env 0) (rq_id request)) state
          (if strncmp_eq (rq_method request) ''approval.'' 9 then
             audited (checked_audit
                 (denied_event request caller ''denied'' ''control_plane_denied''
                    ''agent tool socket cannot access approval methods'')
                 (env_audit env 1) (rq_id request)) state
             (state, [error_reply (rq_id request) (- 32040) ''control_plane_denied''
                        ''approval methods require admin socket''])
           else
             (let policy = anything_policy_preflight (ds_config state) request caller
              in if pol_decision policy = POLICY_DENY then
                   audited (checked_audit
                       (denied_event request caller (pol_risk policy) (pol_reason policy) (pol_summary policy))
                       (env_audit env 1) (rq_id request)) state
                   (state, [error_reply (rq_id request) (- 32020) (pol_reason policy) ''policy denied''])
                 else if rq_method request \<noteq> ''sys.info'' then
                   (state, [error_reply (rq_id request) (- 32601) ''unknown_tool'' ''unknown method''])
                 else admit_request state env caller request policy)))"

section \<open>The admin socket\<close>

definition pending_to_request :: "anything_pending_request \<Rightarrow> anything_rpc_request" where
  "pending_to_request p =
     (let method = snprintf 64 (pd_method p); params = snprintf 1024 (pd_params p);
          session = snprintf 64 (pd_session_id p)
      in \<lparr>rq_id = snprintf 64 (pd_request_id p), rq_method = method, rq_session_id = session,
          rq_params = params, rq_hash = anything_rpc_hash_request method params session\<rparr>)"

text \<open>The audit call about a stored entry, made by the administrator \<open>admin\<close>.\<close>

definition entry_audit ::
  "cstring \<Rightarrow> anything_pending_request \<Rightarrow> anything_identity \<Rightarrow> cstring \<Rightarrow> cstring \<Rightarrow> cstring \<Rightarrow> audit_event" where
  "entry_audit event p admin decision error_kind summary =
     audit_args event (pd_request_id p) (pd_session_id p) (pd_requester p) (Some admin)
       (pd_method p) (pd_risk p) decision error_kind summary"

text \<open>The end of an execution, from the call of the tool on: \<open>sys_error\<close> has 128 bytes and
  \<open>result\<close> has 2048.\<close>

definition run_tool ::
  "daemon_state \<Rightarrow> daemon_env \<Rightarrow> anything_identity \<Rightarrow> cstring \<Rightarrow> nat \<Rightarrow> anything_pending_request \<Rightarrow>
   daemon_state \<times> effect list" where
  "run_tool state env admin rpc_id n p =
     (let answer = anything_sys_info_json (env_sys env) 2048;
          ran = Ran_tool (pd_request_id p) admin answer
      in case answer of
           Inl e \<Rightarrow>
             (let sys_error = snprintf 128 (sys_error_text e)
              in case audited (checked_audit
                       (entry_audit ''execution_failed'' p admin ''failed'' ''execution_failed'' sys_error)
                       (env_audit env 1) rpc_id) state
                     (state, [error_reply rpc_id (- 32030) ''execution_failed'' sys_error]) of
                   (state', es) \<Rightarrow> (state', ran # es))
         | Inr json \<Rightarrow>
             (let done_entry = p\<lparr>pd_status := APPROVAL_EXECUTED\<rparr>;
                  state' = state\<lparr>ds_approvals := put_pending (ds_approvals state) n done_entry\<rparr>
              in case audited (checked_audit
                       (entry_audit ''execution_finished'' p admin ''finished'' [] (pd_summary p))
                       (env_audit env 1) rpc_id) state'
                     (state', [result_reply rpc_id json]) of
                   (state'', es) \<Rightarrow> (state'', ran # es)))"

text \<open>\<open>pending\<close> is the index found (None for NULL); the last case of the last match cannot
  happen, because the validation refuses a NULL entry.\<close>

definition handle_admin_execute ::
  "daemon_state \<Rightarrow> daemon_env \<Rightarrow> anything_identity \<Rightarrow> anything_rpc_request \<Rightarrow>
   daemon_state \<times> effect list" where
  "handle_admin_execute state env admin request =
     (case anything_rpc_extract_param_string (rq_params request) ''request_id'' 40 of
        None \<Rightarrow>
          (state, [error_reply (rq_id request) (- 32602) ''invalid_params'' ''request_id is required''])
      | Some request_id \<Rightarrow>
          (let pending = anything_approval_find (ds_approvals state) request_id;
               entry = deref_pending (ds_approvals state) pending;
               current_hash = (case entry of None \<Rightarrow> 0 | Some p \<Rightarrow> rq_hash (pending_to_request p))
           in case anything_approval_validate_for_execute entry current_hash (env_now env) of
                Inl e \<Rightarrow>
                  (state, [error_reply (rq_id request) (- 32011) (snprintf 64 (approval_error_kind e))
                             ''approval cannot execute''])
              | Inr _ \<Rightarrow>
                  (case (pending, entry) of
                     (Some n, Some p) \<Rightarrow>
                       (let recheck = anything_policy_preflight (ds_config state)
                              (pending_to_request p) (pd_requester p)
                        in if pol_decision recheck = POLICY_DENY \<or>
                              pol_request_hash recheck \<noteq> pd_request_hash p then
                             (state, [error_reply (rq_id request) (- 32021) ''policy_denied''
                                        ''policy recheck failed''])
                           else
                             audited (checked_audit
                                 (entry_audit ''execution_started'' p admin ''started'' [] (pd_summary p))
                                 (env_audit env 0) (rq_id request)) state
                             (run_tool state env admin (rq_id request) n p))
                   | _ \<Rightarrow> (state, []))))"

text \<open>Approving and rejecting differ in the operation, the audit record and the texts.\<close>

definition decide_entry ::
  "daemon_state \<Rightarrow> daemon_env \<Rightarrow> anything_identity \<Rightarrow> cstring \<Rightarrow> nat option \<Rightarrow>
   (approval_error + anything_pending_request) \<Rightarrow> int \<Rightarrow> cstring \<Rightarrow> cstring \<Rightarrow> cstring \<Rightarrow> cstring \<Rightarrow>
   daemon_state \<times> effect list" where
  "decide_entry state env admin rpc_id index outcome code refusal event decision json =
     (case (outcome, index) of
        (Inl e, _) \<Rightarrow> (state, [error_reply rpc_id code (snprintf 64 (approval_error_kind e)) refusal])
      | (Inr q, Some n) \<Rightarrow>
          (let state' = state\<lparr>ds_approvals := put_pending (ds_approvals state) n q\<rparr>
           in audited (checked_audit (entry_audit event q admin decision [] (pd_summary q))
                (env_audit env 0) rpc_id) state'
              (state', [result_reply rpc_id json]))
      | (Inr q, None) \<Rightarrow> (state, []))"

definition handle_admin_request ::
  "daemon_state \<Rightarrow> daemon_env \<Rightarrow> anything_identity \<Rightarrow> char list \<Rightarrow> nat \<Rightarrow> daemon_state \<times> effect list" where
  "handle_admin_request state env admin body body_len =
     (case anything_rpc_parse (Some body) body_len of
        Inl e \<Rightarrow> (state, send_invalid ''null'' ''invalid_request'' (rpc_error_text e))
      | Inr request \<Rightarrow>
          if \<not> anything_config_identity_is_admin (ds_config state) admin then
            audited (checked_audit
                (denied_event request admin ''denied'' ''control_plane_denied''
                   ''admin caller is not in allowlist'')
                (env_audit env 0) (rq_id request)) state
            (state, [error_reply (rq_id request) (- 32040) ''control_plane_denied''
                       ''admin caller is not authorized''])
          else if rq_method request = ''approval.list'' then
            (case anything_approval_list_json (ds_approvals state) 4096 of
               None \<Rightarrow>
                 (state, [error_reply (rq_id request) (- 32000) ''resource_limit''
                            ''pending list too large''])
             | Some json \<Rightarrow> (state, [result_reply (rq_id request) json]))
          else if rq_method request = ''approval.execute'' then
            handle_admin_execute state env admin request
          else
            (case anything_rpc_extract_param_string (rq_params request) ''request_id'' 40 of
               None \<Rightarrow>
                 (state, [error_reply (rq_id request) (- 32602) ''invalid_params''
                            ''request_id is required''])
             | Some request_id \<Rightarrow>
                 (let pending = anything_approval_find (ds_approvals state) request_id;
                      entry = deref_pending (ds_approvals state) pending
                  in if rq_method request = ''approval.approve'' then
                       decide_entry state env admin (rq_id request) pending
                         (anything_approval_grant entry admin (env_now env)) (- 32012)
                         ''approval denied'' ''approval_granted'' ''granted'' ''{\"approved\":true}''
                     else if rq_method request = ''approval.reject'' then
                       decide_entry state env admin (rq_id request) pending
                         (anything_approval_reject entry admin) (- 32013)
                         ''approval rejection failed'' ''approval_rejected'' ''rejected''
                         ''{\"rejected\":true}''
                     else
                       (state, [error_reply (rq_id request) (- 32601) ''unknown_tool''
                                  ''unknown admin method'']))))"

section \<open>One connection\<close>

text \<open>What the system answers during one connection: \<open>accept\<close>, the peer's credentials, the
  socket option, the allocation, the turns of the read loop with its clock, then the request's
  own environment.\<close>

record connection =
  con_accepted :: bool
  con_cred :: "string + (32 word \<times> 32 word \<times> 32 word)"
  con_setsockopt :: "int \<times> int \<Rightarrow> string option"
  con_calloc :: bool
  con_started :: timespec
  con_turns :: "(timespec \<times> read_result) list"
  con_ended :: timespec
  con_env :: daemon_env

text \<open>None while the read has not returned.\<close>

definition accept_one ::
  "daemon_state \<Rightarrow> connection \<Rightarrow> anything_socket_plane \<Rightarrow> (daemon_state \<times> effect list) option" where
  "accept_one state con plane =
     (if \<not> con_accepted con then Some (state, [])
      else
        (case anything_transport_peer_identity (con_cred con) of
           Inl e \<Rightarrow> Some (state, send_invalid ''null'' ''control_plane_denied'' (transport_error_text e))
         | Inr peer \<Rightarrow>
             (case anything_transport_set_read_timeout (con_setsockopt con)
                     (read_timeout_ms (ds_config state)) of
                Inl e \<Rightarrow> Some (state, send_invalid ''null'' ''resource_limit'' (transport_error_text e))
              | Inr _ \<Rightarrow>
                  if \<not> con_calloc con then
                    Some (state, send_invalid ''null'' ''resource_limit'' ''allocation failed'')
                  else
                    (case anything_transport_read_request (con_started con)
                            (max_request_bytes (ds_config state)) (read_timeout_ms (ds_config state))
                            (con_turns con) (con_ended con) of
                       None \<Rightarrow> None
                     | Some (Inl e) \<Rightarrow>
                         Some (state, send_invalid ''null'' ''resource_limit'' (transport_error_text e))
                     | Some (Inr body) \<Rightarrow>
                         Some (if plane = SOCKET_TOOL
                               then handle_tool_request state (con_env con) peer body (length body)
                               else handle_admin_request state (con_env con) peer body (length body))))))"

section \<open>Start-up and the poll loop\<close>

text \<open>The arguments: the configuration path and whether \<open>--dev-insecure-admin\<close> is given.\<close>

fun daemon_args :: "cstring list \<Rightarrow> cstring \<Rightarrow> bool \<Rightarrow> cstring \<times> bool" where
  "daemon_args [] config_path allow = (config_path, allow)"
| "daemon_args (arg # args) config_path allow =
     (if arg = ''--dev-insecure-admin'' then daemon_args args config_path True
      else daemon_args args arg allow)"

record startup_env =
  su_file :: "cstring \<Rightarrow> char list option"
  su_realpath :: "cstring \<Rightarrow> cstring option"
  su_is_dir :: "cstring \<Rightarrow> bool"
  su_open_log :: open_result
  su_tool_socket :: listen_calls
  su_admin_socket :: listen_calls

datatype startup =
    Config_exit config_error
  | Audit_exit audit_error
  | Tool_exit transport_error
  | Admin_exit transport_error
  | Serving daemon_state

text \<open>\<open>main\<close> up to the loop, with what it did to the sockets; both get mode 0600.  None stands for
  the undefined behaviour of the audit check.\<close>

definition daemon_start :: "startup_env \<Rightarrow> cstring list \<Rightarrow> (startup \<times> socket_effect list) option" where
  "daemon_start env argv =
     (case daemon_args (tl argv) ''config/anythingd.example.toml'' False of
        (config_path, allow) \<Rightarrow>
          (case anything_config_load_with_options (su_file env config_path) allow of
             Inl e \<Rightarrow> Some (Config_exit e, [])
           | Inr config \<Rightarrow>
               (case anything_audit_validate_startup (su_realpath env) (su_is_dir env)
                       (su_open_log env) config of
                  None \<Rightarrow> None
                | Some (Inl e) \<Rightarrow> Some (Audit_exit e, [])
                | Some (Inr _) \<Rightarrow>
                    (case anything_transport_listen (su_tool_socket env) (tool_socket_path config) 384 of
                       (Inl e, effs) \<Rightarrow> Some (Tool_exit e, effs)
                     | (Inr _, effs) \<Rightarrow>
                         (case anything_transport_listen (su_admin_socket env)
                                 (admin_socket_path config) 384 of
                            (Inl e, effs') \<Rightarrow>
                              Some (Admin_exit e, effs @ effs' @
                                anything_transport_cleanup_socket (tool_socket_path config))
                          | (Inr _, effs') \<Rightarrow>
                              Some (Serving \<lparr>ds_config = config,
                                      ds_approvals = anything_approval_store_init\<rparr>, effs @ effs'))))))"

text \<open>One turn of the loop: \<open>poll\<close> returns nothing, or which of the two sockets has a connection.
  The list of turns ends when a signal has set \<open>g_stop\<close>.\<close>

datatype turn = Idle | Ready "connection option" "connection option"

definition accept_ready ::
  "daemon_state \<Rightarrow> connection option \<Rightarrow> anything_socket_plane \<Rightarrow> (daemon_state \<times> effect list) option" where
  "accept_ready state ready plane =
     (case ready of None \<Rightarrow> Some (state, []) | Some con \<Rightarrow> accept_one state con plane)"

fun serve :: "daemon_state \<Rightarrow> turn list \<Rightarrow> (daemon_state \<times> effect list) option" where
  "serve state [] = Some (state, [])"
| "serve state (Idle # turns) = serve state turns"
| "serve state (Ready tool admin # turns) =
     (case accept_ready state tool SOCKET_TOOL of
        None \<Rightarrow> None
      | Some (state1, es1) \<Rightarrow>
          (case accept_ready state1 admin SOCKET_ADMIN of
             None \<Rightarrow> None
           | Some (state2, es2) \<Rightarrow>
               (case serve state2 turns of
                  None \<Rightarrow> None
                | Some (state3, es3) \<Rightarrow> Some (state3, es1 @ es2 @ es3))))"

text \<open>The exit status, what was done on the connections, and what was done to the sockets.\<close>

definition daemon_main ::
  "startup_env \<Rightarrow> cstring list \<Rightarrow> turn list \<Rightarrow> (int \<times> effect list \<times> socket_effect list) option" where
  "daemon_main env argv turns =
     (case daemon_start env argv of
        None \<Rightarrow> None
      | Some (Serving state, effs) \<Rightarrow>
          (case serve state turns of
             None \<Rightarrow> None
           | Some (state', es) \<Rightarrow>
               Some (0, es, effs @ [Closed, Closed] @
                 anything_transport_cleanup_socket (tool_socket_path (ds_config state)) @
                 anything_transport_cleanup_socket (admin_socket_path (ds_config state))))
      | Some (_, effs) \<Rightarrow> Some (2, [], effs))"

end
