(* ===== verification/Protocol.thy ===== *)
theory Protocol
  imports Daemon
begin

text \<open>
  The abstract specification of the daemon: a step relation on the approval store that says what
  one connection may do and leave in the trace (stay, add an entry, grant, reject, a failed and
  a successful execution), the states it reaches, and the invariants of store and trace.
  \<open>Daemon_Refines\<close> shows that every connection of the code is such a step.
\<close>

section \<open>Steps\<close>

text \<open>No run of the tool.\<close>

definition quiet :: "effect list \<Rightarrow> bool" where
  "quiet es \<longleftrightarrow> (\<forall>e \<in> set es. case e of Ran_tool rid admin r \<Rightarrow> False | _ \<Rightarrow> True)"

lemma quiet_simps [simp]:
  "quiet []" "quiet (Audit ev ok out # es) = quiet es" "quiet (Reply r # es) = quiet es"
  "quiet (Ran_tool rid admin t # es) = False" "quiet (es @ fs) = (quiet es \<and> quiet fs)"
  by (auto simp: quiet_def)

abbreviation authorised :: "anything_config \<Rightarrow> anything_identity \<Rightarrow> bool" where
  "authorised \<equiv> anything_config_identity_is_admin"

definition granted_event :: "anything_pending_request \<Rightarrow> anything_identity \<Rightarrow> audit_event" where
  "granted_event p admin = entry_audit ''approval_granted'' p admin ''granted'' [] (pd_summary p)"

definition started_event :: "anything_pending_request \<Rightarrow> anything_identity \<Rightarrow> audit_event" where
  "started_event p admin = entry_audit ''execution_started'' p admin ''started'' [] (pd_summary p)"

text \<open>A granted entry may be used now.\<close>

definition usable :: "anything_pending_request \<Rightarrow> int \<Rightarrow> bool" where
  "usable p now \<longleftrightarrow> pd_status p = APPROVAL_GRANTED \<and> now \<le> pd_expires_at p"

inductive protocol_step ::
  "anything_config \<Rightarrow> anything_approval_store \<Rightarrow> effect list \<Rightarrow> anything_approval_store \<Rightarrow> bool"
  for cfg where
  ps_stay: "quiet es \<Longrightarrow> protocol_step cfg st es st"
| ps_add: "length (pending st) < 64 \<Longrightarrow> capability_sys_read cfg \<Longrightarrow> request_ok rq \<Longrightarrow>
    rq_method rq = ''sys.info'' \<Longrightarrow> quiet es \<Longrightarrow>
    st' = \<lparr>pending = pending st @ [new_entry st rq (anything_policy_preflight cfg rq caller) caller expires],
           next_id = next_id st + 1\<rparr> \<Longrightarrow>
    protocol_step cfg st es st'"
| ps_grant: "i < length (pending st) \<Longrightarrow> authorised cfg admin \<Longrightarrow>
    anything_approval_grant (Some (pending st ! i)) admin now = Inr q \<Longrightarrow>
    Audit (granted_event q admin) ok out \<in> set es \<Longrightarrow> quiet es \<Longrightarrow>
    protocol_step cfg st es (put_pending st i q)"
| ps_reject: "i < length (pending st) \<Longrightarrow> authorised cfg admin \<Longrightarrow>
    anything_approval_reject (Some (pending st ! i)) admin = Inr q \<Longrightarrow> quiet es \<Longrightarrow>
    protocol_step cfg st es (put_pending st i q)"
| ps_attempt: "i < length (pending st) \<Longrightarrow> authorised cfg admin \<Longrightarrow> usable (pending st ! i) now \<Longrightarrow>
    out = audit_object t (started_event (pending st ! i) admin) @ [NL] \<Longrightarrow> quiet es \<Longrightarrow>
    protocol_step cfg st
      (Audit (started_event (pending st ! i) admin) True out #
       Ran_tool (pd_request_id (pending st ! i)) admin (Inl e) # es) st"
| ps_execute: "i < length (pending st) \<Longrightarrow> authorised cfg admin \<Longrightarrow> usable (pending st ! i) now \<Longrightarrow>
    out = audit_object t (started_event (pending st ! i) admin) @ [NL] \<Longrightarrow> quiet es \<Longrightarrow>
    protocol_step cfg st
      (Audit (started_event (pending st ! i) admin) True out #
       Ran_tool (pd_request_id (pending st ! i)) admin (Inr json) # es)
      (put_pending st i ((pending st ! i)\<lparr>pd_status := APPROVAL_EXECUTED\<rparr>))"

inductive protocol_reaches :: "anything_config \<Rightarrow> anything_approval_store \<Rightarrow> effect list \<Rightarrow> bool"
  for cfg where
  pr_start: "protocol_reaches cfg anything_approval_store_init []"
| pr_step: "protocol_reaches cfg st tr \<Longrightarrow> protocol_step cfg st es st' \<Longrightarrow>
    protocol_reaches cfg st' (tr @ es)"

section \<open>The invariant of the store\<close>

definition approval_sound :: "anything_config \<Rightarrow> anything_pending_request \<Rightarrow> bool" where
  "approval_sound cfg p \<longleftrightarrow>
     (pd_status p \<noteq> APPROVAL_PENDING \<longrightarrow>
        authorised cfg (pd_approver p) \<and> \<not> anything_identity_same (pd_requester p) (pd_approver p))"

definition store_inv :: "anything_config \<Rightarrow> anything_approval_store \<Rightarrow> bool" where
  "store_inv cfg st \<longleftrightarrow> ids_ok st \<and> (pending st \<noteq> [] \<longrightarrow> capability_sys_read cfg) \<and>
     (\<forall>p \<in> set (pending st). entry_fits p \<and> approval_sound cfg p)"

lemma store_inv_init: "store_inv cfg anything_approval_store_init"
  using ids_ok_init by (simp add: store_inv_def) (simp add: anything_approval_store_init_def)

lemma pending_put [simp]: "pending (put_pending st i p) = (pending st)[i := p]"
  by (simp add: put_pending_def)

lemma next_id_put [simp]: "next_id (put_pending st i p) = next_id st"
  by (simp add: put_pending_def)

lemma store_inv_put:
  assumes "store_inv cfg st" "i < length (pending st)" "same_request (pending st ! i) q"
    "approval_sound cfg q"
  shows "store_inv cfg (put_pending st i q)"
proof -
  have "map pd_request_id (pending (put_pending st i q)) = map pd_request_id (pending st)"
    using assms(2) same_request_fields(1) [OF assms(3)] by (intro apst.keys_put)
  then have "ids_ok (put_pending st i q)"
    using assms(1) ids_ok_put by (simp add: store_inv_def)
  moreover have "entry_fits q"
    using assms(1,2) by (intro entry_fits_same [OF assms(3)]) (simp add: store_inv_def)
  ultimately show ?thesis
    using assms(1,2,4) set_update_subset_insert [of "pending st" i q]
    by (auto simp: store_inv_def list_update_nonempty)
qed

lemma new_entry_fits:
  assumes "request_ok rq" "rq_method rq = ''sys.info''" "capability_sys_read cfg"
  shows "entry_fits (new_entry st rq (anything_policy_preflight cfg rq caller) caller expires)"
proof -
  have "pol_decision (anything_policy_preflight cfg rq caller) \<noteq> POLICY_DENY"
    using assms by (simp add: preflight_decision)
  from preflight_granted_texts [OF this] show ?thesis
    using assms by (simp add: entry_fits_def new_entry_def request_ok_def)
qed

lemma new_entry_pending: "pd_status (new_entry st rq pol caller expires) = APPROVAL_PENDING"
  by (simp add: new_entry_def)

lemma grant_sound:
  "anything_approval_grant (Some p) admin now = Inr q \<Longrightarrow> authorised cfg admin \<Longrightarrow>
   same_request p q \<and> approval_sound cfg q \<and> pd_status p = APPROVAL_PENDING \<and>
   pd_status q = APPROVAL_GRANTED \<and> pd_approver q = admin"
  using grant.run_frame [of p admin now q] by (auto simp: grant_Inr approval_sound_def)

lemma reject_sound:
  "anything_approval_reject (Some p) admin = Inr q \<Longrightarrow> authorised cfg admin \<Longrightarrow>
   same_request p q \<and> approval_sound cfg q \<and> pd_status q = APPROVAL_REJECTED"
  using reject.run_frame [of p admin q] by (auto simp: reject_Inr approval_sound_def)

lemma executed_sound:
  "approval_sound cfg p \<Longrightarrow> usable p now \<Longrightarrow>
   same_request p (p\<lparr>pd_status := APPROVAL_EXECUTED\<rparr>) \<and>
   approval_sound cfg (p\<lparr>pd_status := APPROVAL_EXECUTED\<rparr>)"
  by (simp add: approval_sound_def usable_def same_request_def)

lemma store_inv_nth:
  "store_inv cfg st \<Longrightarrow> i < length (pending st) \<Longrightarrow>
   entry_fits (pending st ! i) \<and> approval_sound cfg (pending st ! i)"
  by (simp add: store_inv_def)

lemma protocol_step_inv: "protocol_step cfg st es st' \<Longrightarrow> store_inv cfg st \<Longrightarrow> store_inv cfg st'"
proof (induction rule: protocol_step.induct)
  case (ps_add st rq es st' caller expires)
  let ?e = "new_entry st rq (anything_policy_preflight cfg rq caller) caller expires"
  have "ids_ok st" using ps_add(7) by (simp add: store_inv_def)
  then have "ids_ok st'" by (rule ids_ok_add [OF _ ps_add(1) ps_add(6)])
  moreover have "entry_fits ?e" by (rule new_entry_fits [OF ps_add(3,4,2)])
  moreover have "approval_sound cfg ?e" by (simp add: approval_sound_def new_entry_pending)
  moreover have "pending st' = pending st @ [?e]" by (simp add: ps_add(6))
  ultimately show ?case using ps_add(2,7) by (auto simp: store_inv_def)
next
  case (ps_grant i st admin now q ok out es)
  from grant_sound [OF ps_grant(3,2)] show ?case
    by (intro store_inv_put [OF ps_grant(6,1)]) simp_all
next
  case (ps_reject i st admin q es)
  from reject_sound [OF ps_reject(3,2)] show ?case
    by (intro store_inv_put [OF ps_reject(5,1)]) simp_all
next
  case (ps_execute i st admin now out t es json)
  have "approval_sound cfg (pending st ! i)" using store_inv_nth ps_execute by blast
  from executed_sound [OF this ps_execute(3)] show ?case
    by (intro store_inv_put [OF ps_execute(6,1)]) simp_all
qed

lemma protocol_reaches_inv: "protocol_reaches cfg st tr \<Longrightarrow> store_inv cfg st"
  by (induction rule: protocol_reaches.induct) (auto intro: store_inv_init protocol_step_inv)

section \<open>What a step does to the entry at one place\<close>

lemma protocol_step_entry:
  assumes "protocol_step cfg st es st'" "store_inv cfg st"
  shows "length (pending st) \<le> length (pending st')"
    and "i < length (pending st) \<Longrightarrow> same_request (pending st ! i) (pending st' ! i) \<and>
       lifecycle\<^sup>=\<^sup>= (pd_status (pending st ! i)) (pd_status (pending st' ! i))"
  using assms
proof (induction rule: protocol_step.induct)
  case (ps_stay es st)
  { case 1 show ?case by simp }
  { case 2 show ?case by simp }
next
  case (ps_add st rq es st' caller expires)
  { case 1 then show ?case using ps_add by simp }
  { case 2 then show ?case using ps_add by (simp add: nth_append) }
next
  case (ps_grant j st admin now q ok out es)
  { case 1 then show ?case by simp }
  { case 2 then show ?case using ps_grant grant_sound [of "pending st ! j" admin now q cfg]
      by (cases "i = j") (auto intro: lifecycle.intros) }
next
  case (ps_reject j st admin q es)
  { case 1 then show ?case by simp }
  { case 2 then show ?case using ps_reject reject_sound [of "pending st ! j" admin q cfg]
      by (cases "i = j") (auto intro: lifecycle.intros) }
next
  case (ps_attempt j st admin now out t es e)
  { case 1 show ?case by simp }
  { case 2 show ?case by simp }
next
  case (ps_execute j st admin now out t es json)
  { case 1 then show ?case by simp }
  { case 2 then show ?case using ps_execute
      by (cases "i = j") (auto simp: usable_def same_request_def intro: lifecycle.intros) }
qed

end
