(* ===== verification/Protocol_Props.thy ===== *)
theory Protocol_Props
  imports Protocol
begin

text \<open>
  Invariants that link the trace of the abstract daemon with its store: a used approval was
  granted before, by an authorised identity that is not the requester, and announced in the
  audit log; no request is executed twice; the store never shrinks.
\<close>

section \<open>Approvals in the trace\<close>

lemma entry_audit_same:
  "same_request p q \<Longrightarrow> entry_audit event q admin decision kind summary =
     entry_audit event p admin decision kind summary"
  by (simp add: entry_audit_def same_request_fields)

lemma granted_event_same: "same_request p q \<Longrightarrow> granted_event q admin = granted_event p admin"
  by (simp add: granted_event_def entry_audit_same same_request_fields)

lemma started_event_same: "same_request p q \<Longrightarrow> started_event q admin = started_event p admin"
  by (simp add: started_event_def entry_audit_same same_request_fields)

definition grant_recorded :: "anything_pending_request \<Rightarrow> effect list \<Rightarrow> bool" where
  "grant_recorded p tr \<longleftrightarrow> (\<exists>ok out. Audit (granted_event p (pd_approver p)) ok out \<in> set tr)"

definition grants_recorded :: "anything_approval_store \<Rightarrow> effect list \<Rightarrow> bool" where
  "grants_recorded st tr \<longleftrightarrow>
     (\<forall>p \<in> set (pending st). pd_status p \<in> {APPROVAL_GRANTED, APPROVAL_EXECUTED} \<longrightarrow> grant_recorded p tr)"

lemma grant_recorded_append: "grant_recorded p tr \<Longrightarrow> grant_recorded p (tr @ es)"
  by (auto simp: grant_recorded_def)

lemma grants_recorded_append: "grants_recorded st tr \<Longrightarrow> grants_recorded st (tr @ es)"
  by (auto simp: grants_recorded_def intro: grant_recorded_append)

lemma grants_recorded_put:
  assumes "grants_recorded st tr"
    and "pd_status q \<in> {APPROVAL_GRANTED, APPROVAL_EXECUTED} \<Longrightarrow> grant_recorded q (tr @ es)"
  shows "grants_recorded (put_pending st i q) (tr @ es)"
  using assms set_update_subset_insert [of "pending st" i q] grants_recorded_append [OF assms(1), of es]
  by (auto simp: grants_recorded_def)

lemma protocol_step_grants:
  "protocol_step cfg st es st' \<Longrightarrow> grants_recorded st tr \<Longrightarrow> grants_recorded st' (tr @ es)"
proof (induction rule: protocol_step.induct)
  case (ps_stay es st)
  then show ?case by (intro grants_recorded_append)
next
  case (ps_add st rq es st' caller expires)
  from grants_recorded_append [OF ps_add(7), of es] show ?case
    by (simp add: grants_recorded_def ps_add(6) new_entry_pending)
next
  case (ps_grant i st admin now q ok out es)
  have "pd_approver q = admin" using ps_grant(3) by (auto simp: grant_Inr)
  with ps_grant(4) have "grant_recorded q (tr @ es)" by (auto simp: grant_recorded_def)
  with ps_grant(6) show ?case by (intro grants_recorded_put)
next
  case (ps_reject i st admin q es)
  have "pd_status q = APPROVAL_REJECTED" using ps_reject(3) by (auto simp: reject_Inr)
  with ps_reject(5) show ?case by (intro grants_recorded_put) simp_all
next
  case (ps_attempt i st admin now out t es e)
  then show ?case by (intro grants_recorded_append)
next
  case (ps_execute i st admin now out t es json)
  let ?p = "pending st ! i" and ?q = "(pending st ! i)\<lparr>pd_status := APPROVAL_EXECUTED\<rparr>"
  have "grant_recorded ?p tr"
    using ps_execute(1,3,6) by (simp add: grants_recorded_def usable_def)
  moreover have "granted_event ?q a = granted_event ?p a" for a
    by (rule granted_event_same) (simp add: same_request_def)
  ultimately have "grant_recorded ?q tr" by (simp add: grant_recorded_def)
  with ps_execute(6) show ?case by (intro grants_recorded_put grant_recorded_append)
qed

section \<open>Every run of the tool is justified\<close>

text \<open>What must have happened, \<open>u\<close> being the trace before the run.\<close>

definition justified :: "anything_config \<Rightarrow> effect list \<Rightarrow> cstring \<Rightarrow> anything_identity \<Rightarrow> bool" where
  "justified cfg u rid admin \<longleftrightarrow>
     (\<exists>p before t. u = before @ [Audit (started_event p admin) True
                                   (audit_object t (started_event p admin) @ [NL])] \<and>
        pd_request_id p = rid \<and> entry_fits p \<and> authorised cfg admin \<and>
        authorised cfg (pd_approver p) \<and> \<not> anything_identity_same (pd_requester p) (pd_approver p) \<and>
        grant_recorded p before)"

fun runs_justified :: "anything_config \<Rightarrow> effect list \<Rightarrow> effect list \<Rightarrow> bool" where
  "runs_justified cfg seen [] = True"
| "runs_justified cfg seen (Ran_tool rid admin r # es) =
     (justified cfg seen rid admin \<and> runs_justified cfg (seen @ [Ran_tool rid admin r]) es)"
| "runs_justified cfg seen (e # es) = runs_justified cfg (seen @ [e]) es"

lemma runs_justified_append:
  "runs_justified cfg seen (es @ fs) \<longleftrightarrow>
   runs_justified cfg seen es \<and> runs_justified cfg (seen @ es) fs"
  by (induction cfg seen es rule: runs_justified.induct) auto

lemma runs_justified_quiet: "quiet es \<Longrightarrow> runs_justified cfg seen es"
  by (induction cfg seen es rule: runs_justified.induct) auto

lemma run_justified:
  assumes "i < length (pending st)" "authorised cfg admin" "usable (pending st ! i) now"
    "store_inv cfg st" "grants_recorded st tr" "p = pending st ! i"
  shows "justified cfg (tr @ [Audit (started_event p admin) True
      (audit_object t (started_event p admin) @ [NL])]) (pd_request_id p) admin"
proof -
  have "entry_fits p" "approval_sound cfg p" using store_inv_nth [OF assms(4,1)] assms(6) by simp_all
  moreover have "pd_status p = APPROVAL_GRANTED" using assms(3,6) by (simp add: usable_def)
  moreover from this have "grant_recorded p tr"
    using assms(1,5,6) by (simp add: grants_recorded_def)
  ultimately show ?thesis
    using assms(2) by (auto simp: justified_def approval_sound_def)
qed

lemma protocol_step_runs:
  "protocol_step cfg st es st' \<Longrightarrow> store_inv cfg st \<Longrightarrow> grants_recorded st tr \<Longrightarrow>
   runs_justified cfg tr es"
proof (induction rule: protocol_step.induct)
  case (ps_attempt i st admin now out t es e)
  with run_justified [OF ps_attempt(1-3) ps_attempt(6,7) refl] show ?case
    by (simp add: runs_justified_quiet)
next
  case (ps_execute i st admin now out t es json)
  with run_justified [OF ps_execute(1-3) ps_execute(6,7) refl] show ?case
    by (simp add: runs_justified_quiet)
qed (auto intro: runs_justified_quiet)

section \<open>No request is executed twice\<close>

definition succeeded :: "cstring \<Rightarrow> effect \<Rightarrow> bool" where
  "succeeded rid e = (case e of Ran_tool r admin (Inr json) \<Rightarrow> r = rid | _ \<Rightarrow> False)"

definition successes :: "cstring \<Rightarrow> effect list \<Rightarrow> nat" where
  "successes rid tr = length (filter (succeeded rid) tr)"

lemma successes_simps [simp]:
  "successes rid [] = 0"
  "successes rid (Audit ev ok out # es) = successes rid es"
  "successes rid (Reply txt # es) = successes rid es"
  "successes rid (Ran_tool r admin (Inl e) # es) = successes rid es"
  "successes rid (Ran_tool r admin (Inr json) # es) = (if r = rid then 1 else 0) + successes rid es"
  "successes rid (es @ fs) = successes rid es + successes rid fs"
  by (simp_all add: successes_def succeeded_def)

lemma successes_quiet: "quiet es \<Longrightarrow> successes rid es = 0"
  by (induction es) (auto simp: successes_def succeeded_def quiet_def split: effect.splits sum.splits)

definition used_once :: "anything_approval_store \<Rightarrow> effect list \<Rightarrow> bool" where
  "used_once st tr \<longleftrightarrow> (\<forall>rid. successes rid tr \<le> 1) \<and>
     (\<forall>rid. successes rid tr \<noteq> 0 \<longrightarrow>
        (\<exists>p \<in> set (pending st). pd_request_id p = rid \<and>
           pd_status p \<in> {APPROVAL_EXECUTED, APPROVAL_REJECTED}))"

lemma used_once_quiet:
  assumes "used_once st tr" "quiet es"
    and "\<And>p. p \<in> set (pending st) \<Longrightarrow> pd_status p \<in> {APPROVAL_EXECUTED, APPROVAL_REJECTED} \<Longrightarrow>
      \<exists>q \<in> set (pending st'). pd_request_id q = pd_request_id p \<and>
        pd_status q \<in> {APPROVAL_EXECUTED, APPROVAL_REJECTED}"
  shows "used_once st' (tr @ es)"
  using assms by (simp add: used_once_def successes_quiet) metis

lemma put_keeps_closed:
  assumes "i < length (pending st)" "pd_request_id q = pd_request_id (pending st ! i)"
    "pd_status (pending st ! i) \<in> {APPROVAL_EXECUTED, APPROVAL_REJECTED} \<Longrightarrow>
       pd_status q \<in> {APPROVAL_EXECUTED, APPROVAL_REJECTED}"
    and "p \<in> set (pending st)" "pd_status p \<in> {APPROVAL_EXECUTED, APPROVAL_REJECTED}"
  shows "\<exists>r \<in> set (pending (put_pending st i q)). pd_request_id r = pd_request_id p \<and>
     pd_status r \<in> {APPROVAL_EXECUTED, APPROVAL_REJECTED}"
proof -
  from assms(4) obtain j where j: "j < length (pending st)" "p = pending st ! j"
    by (auto simp: in_set_conv_nth)
  have "pending (put_pending st i q) ! j \<in> set (pending (put_pending st i q))"
    using j by (intro nth_mem) simp
  moreover have "pending (put_pending st i q) ! j = (if j = i then q else p)"
    using j assms(1) by simp
  ultimately show ?thesis using assms(2,3,5) j by (metis (full_types))
qed

lemma protocol_step_used_once:
  "protocol_step cfg st es st' \<Longrightarrow> store_inv cfg st \<Longrightarrow> used_once st tr \<Longrightarrow> used_once st' (tr @ es)"
proof (induction rule: protocol_step.induct)
  case (ps_stay es st)
  then show ?case by (intro used_once_quiet [of st]) auto
next
  case (ps_add st rq es st' caller expires)
  from ps_add(8,5) show ?case by (rule used_once_quiet) (auto simp: ps_add(6))
next
  case (ps_grant i st admin now q ok out es)
  from grant_sound [OF ps_grant(3,2)] same_request_fields(1) have q:
    "pd_request_id q = pd_request_id (pending st ! i)" "pd_status (pending st ! i) = APPROVAL_PENDING"
    by blast+
  show ?case
    by (rule used_once_quiet [OF ps_grant(7,5) put_keeps_closed [OF ps_grant(1) q(1)]])
      (simp_all add: q)
next
  case (ps_reject i st admin q es)
  from reject_sound [OF ps_reject(3,2)] same_request_fields(1) have q:
    "pd_request_id q = pd_request_id (pending st ! i)" "pd_status q = APPROVAL_REJECTED" by blast+
  show ?case
    by (rule used_once_quiet [OF ps_reject(6,4) put_keeps_closed [OF ps_reject(1) q(1)]])
      (simp_all add: q)
next
  case (ps_attempt i st admin now out t es e)
  then show ?case by (simp add: used_once_def successes_quiet)
next
  case (ps_execute i st admin now out t es json)
  let ?p = "pending st ! i" and ?q = "(pending st ! i)\<lparr>pd_status := APPROVAL_EXECUTED\<rparr>"
  let ?st' = "put_pending st i ?q"
  let ?es = "Audit (started_event ?p admin) True out # Ran_tool (pd_request_id ?p) admin (Inr json) # es"
  have closed: "\<exists>r \<in> set (pending ?st'). pd_request_id r = pd_request_id p \<and>
      pd_status r \<in> {APPROVAL_EXECUTED, APPROVAL_REJECTED}"
    if "p \<in> set (pending st)" "pd_status p \<in> {APPROVAL_EXECUTED, APPROVAL_REJECTED}" for p
    by (rule put_keeps_closed [OF ps_execute(1) _ _ that]) simp_all
  have fresh: "successes (pd_request_id ?p) tr = 0"
  proof (rule ccontr)
    assume "successes (pd_request_id ?p) tr \<noteq> 0"
    then obtain p where p: "p \<in> set (pending st)" "pd_request_id p = pd_request_id ?p"
      "pd_status p \<in> {APPROVAL_EXECUTED, APPROVAL_REJECTED}"
      using ps_execute(7) unfolding used_once_def by blast
    then obtain j where "j < length (pending st)" "p = pending st ! j"
      by (auto simp: in_set_conv_nth)
    with p ps_execute(1,6) have "j = i"
      using ids_distinct [of st] by (auto simp: store_inv_def distinct_conv_nth)
    with p \<open>p = pending st ! j\<close> ps_execute(3) show False by (auto simp: usable_def)
  qed
  have "?q \<in> set (pending ?st')" using ps_execute(1) by (simp add: set_update_memI)
  then have mem: "\<exists>r \<in> set (pending ?st'). pd_request_id r = pd_request_id ?p \<and>
      pd_status r \<in> {APPROVAL_EXECUTED, APPROVAL_REJECTED}" by (intro bexI [of _ ?q]) simp_all
  have count: "successes rid (tr @ ?es) = successes rid tr + (if pd_request_id ?p = rid then 1 else 0)" for rid
    using ps_execute(5) by (simp add: successes_quiet)
  show ?case unfolding used_once_def
  proof (intro conjI allI impI)
    fix rid
    show "successes rid (tr @ ?es) \<le> 1"
      using ps_execute(7) fresh unfolding count by (auto simp: used_once_def)
  next
    fix rid
    assume "successes rid (tr @ ?es) \<noteq> 0"
    then have "pd_request_id ?p = rid \<or> successes rid tr \<noteq> 0" unfolding count by (auto split: if_splits)
    then show "\<exists>r \<in> set (pending ?st'). pd_request_id r = rid \<and>
        pd_status r \<in> {APPROVAL_EXECUTED, APPROVAL_REJECTED}"
    proof
      assume "successes rid tr \<noteq> 0"
      then obtain p where "p \<in> set (pending st)" "pd_request_id p = rid"
        "pd_status p \<in> {APPROVAL_EXECUTED, APPROVAL_REJECTED}"
        using ps_execute(7) unfolding used_once_def by blast
      with closed show ?thesis by blast
    qed (use mem in blast)
  qed
qed

section \<open>Reachable states\<close>

lemma protocol_reaches_trace:
  "protocol_reaches cfg st tr \<Longrightarrow>
   store_inv cfg st \<and> grants_recorded st tr \<and> runs_justified cfg [] tr \<and> used_once st tr"
proof (induction rule: protocol_reaches.induct)
  case pr_start
  show ?case
    using store_inv_init
    by (simp add: grants_recorded_def used_once_def) (simp add: anything_approval_store_init_def)
next
  case (pr_step st tr es st')
  then show ?case
    by (simp add: protocol_step_inv protocol_step_grants protocol_step_used_once runs_justified_append
        protocol_step_runs)
qed

lemma protocol_reaches_run:
  assumes "protocol_reaches cfg st (u @ Ran_tool rid admin r # v)"
  shows "justified cfg u rid admin"
  using protocol_reaches_trace [OF assms] by (simp add: runs_justified_append)

end
