(* ===== verification/Daemon_Refines.thy ===== *)
theory Daemon_Refines
  imports Protocol_Props
begin

text \<open>
  Every request the daemon handles, and so every connection, is one step of the abstract
  specification in \<open>Protocol\<close>; the states and traces of the daemon are reachable there.
\<close>

section \<open>Audited steps\<close>

lemma checked_audit_cases:
  obtains (recorded) out where "checked_audit ev io rid = (True, [Audit ev True out])"
      "event_fits ev" "io_ok ev io" "out = audit_object (io_time io) ev @ [NL]"
  | (lost) out where "checked_audit ev io rid = (False, [Audit ev False out,
      error_reply rid (- 32050) ''audit_failed'' ''audit write failed''])"
      "\<not> (event_fits ev \<and> io_ok ev io)"
proof (cases "anything_audit_write_event ev io")
  case (Pair ok out)
  show ?thesis
  proof (cases ok)
    case True
    with Pair have "event_fits ev \<and> io_ok ev io \<and> out = audit_object (io_time io) ev @ [NL]"
      by (simp add: audit_write_True [symmetric])
    with Pair True show ?thesis by (intro recorded) (simp_all add: checked_audit_def)
  next
    case False
    with Pair have "\<not> (event_fits ev \<and> io_ok ev io)"
      using audit_write_True [of ev io] by auto
    with Pair False show ?thesis by (intro lost) (simp_all add: checked_audit_def)
  qed
qed

lemma audited_simps [simp]:
  "audited (True, es) s k = (fst k, es @ snd k)" "audited (False, es) s k = (s, es)"
  by (simp_all add: audited_def)

lemma quiet_replies [simp]:
  "quiet (error_reply rid code kind message # es) = quiet es"
  "quiet (result_reply rid json # es) = quiet es" "quiet (send_invalid rid kind message)"
  by (simp_all add: error_reply_def result_reply_def send_invalid_def)

lemma audited_same [simp]: "fst (audited (checked_audit ev io rid) s (s, es)) = s"
  by (cases rule: checked_audit_cases [of ev io rid]) simp_all

lemma audited_quiet [simp]:
  "quiet (snd k) \<Longrightarrow> quiet (snd (audited (checked_audit ev io rid) s k))"
  by (cases rule: checked_audit_cases [of ev io rid]) simp_all

lemma audited_stays:
  "fst k = s \<Longrightarrow> quiet (snd k) \<Longrightarrow>
   fst (audited (checked_audit ev io rid) s k) = s \<and> quiet (snd (audited (checked_audit ev io rid) s k))"
  by (cases rule: checked_audit_cases [of ev io rid]) simp_all

lemma audited_mentions: "\<exists>ok out. Audit ev ok out \<in> set (snd (audited (checked_audit ev io rid) s k))"
  by (cases rule: checked_audit_cases [of ev io rid]) auto

lemma audited_cases:
  assumes "audited (checked_audit ev io rid) s k = (s', fs)"
  obtains (recorded) out where "fs = Audit ev True out # snd k" "s' = fst k" "event_fits ev" "io_ok ev io"
      "out = audit_object (io_time io) ev @ [NL]"
  | (lost) out where "s' = s" "fs = [Audit ev False out,
      error_reply rid (- 32050) ''audit_failed'' ''audit write failed'']" "\<not> (event_fits ev \<and> io_ok ev io)"
  using assms by (cases rule: checked_audit_cases [of ev io rid]) (auto intro: that)

section \<open>The tool socket\<close>

text \<open>A new entry comes from a parsed request for the tool, with the policy's leave.\<close>

definition entry_added ::
  "daemon_state \<Rightarrow> daemon_env \<Rightarrow> anything_identity \<Rightarrow> anything_rpc_request \<Rightarrow> anything_approval_store \<Rightarrow> bool" where
  "entry_added st env caller rq store' \<longleftrightarrow>
     length (pending (ds_approvals st)) < 64 \<and> capability_sys_read (ds_config st) \<and>
     rq_method rq = ''sys.info'' \<and>
     store' = \<lparr>pending = pending (ds_approvals st) @
                 [new_entry (ds_approvals st) rq (anything_policy_preflight (ds_config st) rq caller) caller
                    (env_now env + approval_ttl_seconds (ds_config st))],
               next_id = next_id (ds_approvals st) + 1\<rparr>"

lemma approval_add_allowed:
  assumes "request_ok rq" "pol_decision (anything_policy_preflight (ds_config st) rq caller) \<noteq> POLICY_DENY"
  shows "anything_approval_add (ds_approvals st) rq (anything_policy_preflight (ds_config st) rq caller)
      caller (approval_ttl_seconds (ds_config st)) (env_now env) = Some (store', i) \<longleftrightarrow>
    entry_added st env caller rq store' \<and> i = length (pending (ds_approvals st))"
  using approval_add_eq [OF assms(1)] preflight_granted_texts [OF assms(2)]
  by (auto simp: entry_added_def)

lemma audited_state:
  "fst (audited (checked_audit ev io rid) s k) = s \<or> fst (audited (checked_audit ev io rid) s k) = fst k"
  by (cases rule: checked_audit_cases [of ev io rid]) simp_all

lemma admit_request_step:
  assumes "request_ok rq" "pol_decision (anything_policy_preflight (ds_config st) rq caller) \<noteq> POLICY_DENY"
    and "r = admit_request st env caller rq (anything_policy_preflight (ds_config st) rq caller)"
  shows "quiet (snd r) \<and>
     (fst r = st \<or> (\<exists>store'. entry_added st env caller rq store' \<and> fst r = st\<lparr>ds_approvals := store'\<rparr>))"
proof (cases "anything_approval_add (ds_approvals st) rq (anything_policy_preflight (ds_config st) rq caller)
      caller (approval_ttl_seconds (ds_config st)) (env_now env)")
  case (Some a)
  obtain store' i where a: "a = (store', i)" by fastforce
  have "entry_added st env caller rq store'"
    using Some a by (simp add: approval_add_allowed [OF assms(1,2)])
  with Some a show ?thesis
    by (auto simp: assms(3) admit_request_def Let_def split: option.splits)
qed (simp add: assms(3) admit_request_def)

lemma tool_request_step:
  assumes "r = handle_tool_request st env caller body len"
  shows "quiet (snd r) \<and>
   (fst r = st \<or>
    (\<exists>rq store'. anything_rpc_parse (Some body) len = Inr rq \<and> entry_added st env caller rq store' \<and>
       fst r = st\<lparr>ds_approvals := store'\<rparr>))"
proof (cases "anything_rpc_parse (Some body) len")
  case (Inl e)
  then show ?thesis by (simp add: assms handle_tool_request_def)
next
  case (Inr rq)
  let ?pol = "anything_policy_preflight (ds_config st) rq caller"
  let ?first = "checked_audit (received_event rq caller) (env_audit env 0) (rq_id rq)"
  consider "strncmp_eq (rq_method rq) ''approval.'' 9"
    | "\<not> strncmp_eq (rq_method rq) ''approval.'' 9" "pol_decision ?pol = POLICY_DENY"
    | "\<not> strncmp_eq (rq_method rq) ''approval.'' 9" "pol_decision ?pol \<noteq> POLICY_DENY" by blast
  then show ?thesis
  proof cases
    case 1
    define k where "k = audited (checked_audit
                 (denied_event rq caller ''denied'' ''control_plane_denied''
                    ''agent tool socket cannot access approval methods'')
                 (env_audit env 1) (rq_id rq)) st
             (st, [error_reply (rq_id rq) (- 32040) ''control_plane_denied''
                        ''approval methods require admin socket''])"
    have "r = audited ?first st k" using 1 Inr by (simp add: assms handle_tool_request_def k_def Let_def)
    moreover have "fst k = st" "quiet (snd k)" by (simp_all add: k_def)
    ultimately show ?thesis by (simp add: audited_stays)
  next
    case 2
    define k where "k = audited (checked_audit
                       (denied_event rq caller (pol_risk ?pol) (pol_reason ?pol) (pol_summary ?pol))
                       (env_audit env 1) (rq_id rq)) st
                   (st, [error_reply (rq_id rq) (- 32020) (pol_reason ?pol) ''policy denied''])"
    have "r = audited ?first st k" using 2 Inr by (simp add: assms handle_tool_request_def k_def Let_def)
    moreover have "fst k = st" "quiet (snd k)" by (simp_all add: k_def)
    ultimately show ?thesis by (simp add: audited_stays)
  next
    case 3
    define k where "k = admit_request st env caller rq ?pol"
    have "rq_method rq = ''sys.info''"
      using 3(2) by (auto simp: preflight_decision split: if_splits)
    then have r: "r = audited ?first st k" using 3 Inr by (simp add: assms handle_tool_request_def k_def Let_def)
    note k = admit_request_step [OF rpc_parse_ok [OF Inr] 3(2) k_def]
    then have "quiet (snd r)" unfolding r by (intro audited_quiet) simp
    moreover have "fst r = st \<or> fst r = fst k" unfolding r by (rule audited_state)
    ultimately show ?thesis using k Inr by auto
  qed
qed

section \<open>The admin socket\<close>

lemma pending_to_request_fits:
  "entry_fits p \<Longrightarrow> length (pd_request_id p) < 64 \<Longrightarrow>
   pending_to_request p = \<lparr>rq_id = pd_request_id p, rq_method = pd_method p, rq_session_id = pd_session_id p,
      rq_params = pd_params p, rq_hash = pd_request_hash p\<rparr>"
  by (simp add: pending_to_request_def entry_fits_def snprintf_id Let_def)

lemma find_deref:
  "anything_approval_find store rid = Some n \<Longrightarrow>
   n < length (pending store) \<and> pd_request_id (pending store ! n) = rid \<and>
   deref_pending store (Some n) = Some (pending store ! n)"
  by (auto simp: deref_pending_def dest: apst.find_Some)

lemma deref_None [simp]: "deref_pending store None = None"
  by (simp add: deref_pending_def)

lemma run_tool_step:
  assumes "r = run_tool st env admin rid n p"
  shows "\<exists>es. quiet es \<and> snd r = Ran_tool (pd_request_id p) admin (anything_sys_info_json (env_sys env) 2048) # es"
    and "fst r = (case anything_sys_info_json (env_sys env) 2048 of
       Inl e \<Rightarrow> st
     | Inr json \<Rightarrow> st\<lparr>ds_approvals := put_pending (ds_approvals st) n (p\<lparr>pd_status := APPROVAL_EXECUTED\<rparr>)\<rparr>)"
proof -
  show "\<exists>es. quiet es \<and> snd r = Ran_tool (pd_request_id p) admin (anything_sys_info_json (env_sys env) 2048) # es"
    by (cases "anything_sys_info_json (env_sys env) 2048")
      (auto simp: assms run_tool_def Let_def case_prod_beta intro!: exI [where P = "\<lambda>es. quiet es \<and> _ es"] audited_quiet)
  show "fst r = (case anything_sys_info_json (env_sys env) 2048 of
       Inl e \<Rightarrow> st
     | Inr json \<Rightarrow> st\<lparr>ds_approvals := put_pending (ds_approvals st) n (p\<lparr>pd_status := APPROVAL_EXECUTED\<rparr>)\<rparr>)"
    by (cases "anything_sys_info_json (env_sys env) 2048")
      (simp_all add: assms run_tool_def Let_def case_prod_beta)
qed

lemma execute_step:
  assumes "r = handle_admin_execute st env admin rq" "authorised (ds_config st) admin"
  shows "ds_config (fst r) = ds_config st \<and>
    protocol_step (ds_config st) (ds_approvals st) (snd r) (ds_approvals (fst r))"
proof (cases "anything_rpc_extract_param_string (rq_params rq) ''request_id'' 40")
  case None
  then show ?thesis using assms(1) by (simp add: handle_admin_execute_def ps_stay)
next
  case (Some rid)
  let ?store = "ds_approvals st"
  let ?n = "anything_approval_find ?store rid"
  let ?entry = "deref_pending ?store ?n"
  let ?hash = "case ?entry of None \<Rightarrow> 0 | Some p \<Rightarrow> rq_hash (pending_to_request p)"
  show ?thesis
  proof (cases "anything_approval_validate_for_execute ?entry ?hash (env_now env)")
    case (Inl e)
    then show ?thesis using assms(1) Some by (simp add: handle_admin_execute_def Let_def ps_stay)
  next
    case (Inr u)
    then obtain p where p: "?entry = Some p" "usable p (env_now env)"
      by (auto simp: validate_Inr usable_def)
    then obtain n where n: "?n = Some n" by (cases ?n) auto
    with p find_deref [OF n] have np: "n < length (pending ?store)" "pending ?store ! n = p"
      "deref_pending ?store (Some n) = Some p" by simp_all
    let ?recheck = "anything_policy_preflight (ds_config st) (pending_to_request p) (pd_requester p)"
    show ?thesis
    proof (cases "pol_decision ?recheck = POLICY_DENY \<or> pol_request_hash ?recheck \<noteq> pd_request_hash p")
      case True
      then show ?thesis using assms(1) Some Inr n np
        by (simp add: handle_admin_execute_def Let_def ps_stay)
    next
      case False
      define k where "k = run_tool st env admin (rq_id rq) n p"
      have r: "audited (checked_audit (started_event p admin) (env_audit env 0) (rq_id rq)) st k = r"
        using False assms(1) Some Inr n np
        by (simp add: handle_admin_execute_def Let_def k_def started_event_def)
      from r have "audited (checked_audit (started_event p admin) (env_audit env 0) (rq_id rq)) st k
          = (fst r, snd r)" by simp
      then show ?thesis
      proof (cases rule: audited_cases)
        case (recorded out)
        from run_tool_step(1) [OF k_def] obtain es where es: "quiet es"
          "snd k = Ran_tool (pd_request_id p) admin (anything_sys_info_json (env_sys env) 2048) # es" by blast
        note step = np(1) assms(2) p(2) [folded np(2)] refl es(1)
        show ?thesis
        proof (cases "anything_sys_info_json (env_sys env) 2048")
          case (Inl e)
          with run_tool_step(2) [OF k_def] recorded es show ?thesis
            using ps_attempt [OF step, of "io_time (env_audit env 0)" e] np(2) by simp
        next
          case (Inr json)
          with run_tool_step(2) [OF k_def] recorded es show ?thesis
            using ps_execute [OF step, of "io_time (env_audit env 0)" json] np(2) by simp
        qed
      next
        case (lost out)
        then show ?thesis by (simp add: ps_stay)
      qed
    qed
  qed
qed

lemma approve_step:
  assumes "r = decide_entry st env admin rpc_id index (anything_approval_grant
      (deref_pending (ds_approvals st) index) admin (env_now env)) code refusal ''approval_granted''
      ''granted'' json"
    and "authorised (ds_config st) admin" "index = anything_approval_find (ds_approvals st) rid"
  shows "ds_config (fst r) = ds_config st \<and>
    protocol_step (ds_config st) (ds_approvals st) (snd r) (ds_approvals (fst r))"
proof (cases "anything_approval_grant (deref_pending (ds_approvals st) index) admin (env_now env)")
  case (Inl e)
  then show ?thesis using assms(1) by (simp add: decide_entry_def ps_stay)
next
  case (Inr q)
  then obtain n where n: "index = Some n" by (cases index) (auto simp: anything_approval_grant_def)
  with find_deref [of "ds_approvals st" rid n] assms(3) have np: "n < length (pending (ds_approvals st))"
    "deref_pending (ds_approvals st) (Some n) = Some (pending (ds_approvals st) ! n)" by simp_all
  define st' where "st' = st\<lparr>ds_approvals := put_pending (ds_approvals st) n q\<rparr>"
  have r: "r = audited (checked_audit (granted_event q admin) (env_audit env 0) rpc_id) st'
      (st', [result_reply rpc_id json])"
    using assms(1) Inr n by (simp add: decide_entry_def granted_event_def Let_def st'_def)
  obtain ok out where "Audit (granted_event q admin) ok out \<in> set (snd r)"
    unfolding r using audited_mentions [of "granted_event q admin"] by meson
  moreover have "quiet (snd r)" "fst r = st'" unfolding r by simp_all
  ultimately show ?thesis
    using ps_grant [OF np(1) assms(2), of "env_now env" q ok out "snd r"] Inr n np(2)
    by (simp add: st'_def)
qed

lemma refuse_step:
  assumes "r = decide_entry st env admin rpc_id index (anything_approval_reject
      (deref_pending (ds_approvals st) index) admin) code refusal event decision json"
    and "authorised (ds_config st) admin" "index = anything_approval_find (ds_approvals st) rid"
  shows "ds_config (fst r) = ds_config st \<and>
    protocol_step (ds_config st) (ds_approvals st) (snd r) (ds_approvals (fst r))"
proof (cases "anything_approval_reject (deref_pending (ds_approvals st) index) admin")
  case (Inl e)
  then show ?thesis using assms(1) by (simp add: decide_entry_def ps_stay)
next
  case (Inr q)
  then obtain n where n: "index = Some n" by (cases index) (auto simp: anything_approval_reject_def)
  with find_deref [of "ds_approvals st" rid n] assms(3) have np: "n < length (pending (ds_approvals st))"
    "deref_pending (ds_approvals st) (Some n) = Some (pending (ds_approvals st) ! n)" by simp_all
  define st' where "st' = st\<lparr>ds_approvals := put_pending (ds_approvals st) n q\<rparr>"
  have r: "r = audited (checked_audit (entry_audit event q admin decision [] (pd_summary q))
      (env_audit env 0) rpc_id) st' (st', [result_reply rpc_id json])"
    using assms(1) Inr n by (simp add: decide_entry_def Let_def st'_def)
  have "quiet (snd r)" "fst r = st'" unfolding r by simp_all
  then show ?thesis
    using ps_reject [OF np(1) assms(2), of q "snd r"] Inr n np(2) by (simp add: st'_def)
qed

lemma admin_request_step:
  assumes "r = handle_admin_request st env admin body len"
  shows "ds_config (fst r) = ds_config st \<and>
    protocol_step (ds_config st) (ds_approvals st) (snd r) (ds_approvals (fst r))"
proof (cases "anything_rpc_parse (Some body) len")
  case (Inl e)
  then show ?thesis by (simp add: assms handle_admin_request_def ps_stay)
next
  case (Inr rq)
  show ?thesis
  proof (cases "authorised (ds_config st) admin")
    case False
    define k where "k = (st, [error_reply (rq_id rq) (- 32040) ''control_plane_denied''
                       ''admin caller is not authorized''])"
    have "r = audited (checked_audit (denied_event rq admin ''denied'' ''control_plane_denied''
                   ''admin caller is not in allowlist'') (env_audit env 0) (rq_id rq)) st k"
      using False Inr by (simp add: assms handle_admin_request_def k_def)
    moreover have "fst k = st" "quiet (snd k)" by (simp_all add: k_def)
    ultimately show ?thesis by (simp add: audited_stays ps_stay)
  next
    case True
    let ?id = "anything_rpc_extract_param_string (rq_params rq) ''request_id'' 40"
    consider (list) "rq_method rq = ''approval.list''"
      | (execute) "rq_method rq = ''approval.execute''"
      | (missing) "rq_method rq \<notin> {''approval.list'', ''approval.execute''}" "?id = None"
      | (approve) rid where "rq_method rq = ''approval.approve''" "?id = Some rid"
      | (reject) rid where "rq_method rq = ''approval.reject''" "?id = Some rid"
      | (unknown) rid where "?id = Some rid" "rq_method rq \<notin>
          {''approval.list'', ''approval.execute'', ''approval.approve'', ''approval.reject''}"
      by (cases ?id) auto
    then show ?thesis
    proof cases
      case list
      then show ?thesis using True Inr
        by (auto simp: assms handle_admin_request_def ps_stay split: option.splits)
    next
      case execute
      then have "r = handle_admin_execute st env admin rq"
        using True Inr by (simp add: assms handle_admin_request_def)
      then show ?thesis using True by (rule execute_step)
    next
      case missing
      then show ?thesis using True Inr by (simp add: assms handle_admin_request_def ps_stay)
    next
      case approve
      show ?thesis
        by (rule approve_step [OF _ True refl, of r env "rq_id rq" rid "- 32012" "''approval denied''"
              "''{\"approved\":true}''"])
          (use approve True Inr in \<open>simp add: assms handle_admin_request_def Let_def\<close>)
    next
      case reject
      show ?thesis
        by (rule refuse_step [OF _ True refl, of r env "rq_id rq" rid "- 32013" "''approval rejection failed''"
              "''approval_rejected''" "''rejected''" "''{\"rejected\":true}''"])
          (use reject True Inr in \<open>simp add: assms handle_admin_request_def Let_def\<close>)
    next
      case unknown
      then show ?thesis using True Inr
        by (simp add: assms handle_admin_request_def Let_def ps_stay)
    qed
  qed
qed

section \<open>One connection\<close>

lemma tool_request_protocol:
  assumes "r = handle_tool_request st env caller body len"
  shows "ds_config (fst r) = ds_config st \<and>
    protocol_step (ds_config st) (ds_approvals st) (snd r) (ds_approvals (fst r))"
proof -
  note t = tool_request_step [OF assms]
  show ?thesis
  proof (cases "fst r = st")
    case True
    with t show ?thesis by (simp add: ps_stay)
  next
    case False
    with t obtain rq store' where a: "quiet (snd r)" "anything_rpc_parse (Some body) len = Inr rq"
      "entry_added st env caller rq store'" "fst r = st\<lparr>ds_approvals := store'\<rparr>" by blast
    have "protocol_step (ds_config st) (ds_approvals st) (snd r) store'"
      using a(3) unfolding entry_added_def by (intro ps_add [OF _ _ rpc_parse_ok [OF a(2)] _ a(1)]) auto
    with a(4) show ?thesis by simp
  qed
qed

text \<open>The contract the two handlers share: what a connection relies on, whichever socket it is on.\<close>

locale request_handler =
  fixes handle :: "daemon_state \<Rightarrow> daemon_env \<Rightarrow> anything_identity \<Rightarrow> char list \<Rightarrow> nat \<Rightarrow> daemon_state \<times> effect list"
  assumes keeps_config: "ds_config (fst (handle st env peer body len)) = ds_config st"
    and refines: "protocol_step (ds_config st) (ds_approvals st) (snd (handle st env peer body len))
      (ds_approvals (fst (handle st env peer body len)))"
begin

lemma keeps_inv:
  "store_inv (ds_config st) (ds_approvals st) \<Longrightarrow>
   store_inv (ds_config st) (ds_approvals (fst (handle st env peer body len)))"
  by (rule protocol_step_inv [OF refines])

lemma handled:
  assumes "r = handle st env peer body len"
  shows "ds_config (fst r) = ds_config st \<and>
    protocol_step (ds_config st) (ds_approvals st) (snd r) (ds_approvals (fst r))"
  using keeps_config refines by (simp add: assms)

end

interpretation tool: request_handler handle_tool_request
  using tool_request_protocol [OF refl] by unfold_locales blast+

interpretation admin: request_handler handle_admin_request
  using admin_request_step [OF refl] by unfold_locales blast+

lemma accept_one_step:
  assumes "accept_one st con plane = Some r"
  shows "ds_config (fst r) = ds_config st \<and>
    protocol_step (ds_config st) (ds_approvals st) (snd r) (ds_approvals (fst r))"
proof -
  from assms consider (quiet) "fst r = st" "quiet (snd r)"
    | (tool) env peer body len where "r = handle_tool_request st env peer body len"
    | (admin) env peer body len where "r = handle_admin_request st env peer body len"
    by (auto simp: accept_one_def split: if_splits sum.splits option.splits)
  then show ?thesis
  proof cases
    case quiet
    then show ?thesis by (simp add: ps_stay)
  next
    case tool
    then show ?thesis by (rule tool.handled)
  next
    case admin
    then show ?thesis by (rule admin.handled)
  qed
qed

text \<open>The states and traces of the daemon: it starts with an empty store and serves one connection
  after the other.\<close>

inductive daemon_reaches :: "anything_config \<Rightarrow> daemon_state \<Rightarrow> effect list \<Rightarrow> bool" for cfg where
  dr_start: "daemon_reaches cfg \<lparr>ds_config = cfg, ds_approvals = anything_approval_store_init\<rparr> []"
| dr_step: "daemon_reaches cfg st tr \<Longrightarrow> accept_one st con plane = Some (st', es) \<Longrightarrow>
    daemon_reaches cfg st' (tr @ es)"

lemma daemon_reaches_protocol:
  "daemon_reaches cfg st tr \<Longrightarrow> ds_config st = cfg \<and> protocol_reaches cfg (ds_approvals st) tr"
proof (induction rule: daemon_reaches.induct)
  case dr_start
  show ?case by (simp add: pr_start)
next
  case (dr_step st tr con plane st' es)
  with accept_one_step [OF dr_step(2)] show ?case by (auto intro: pr_step)
qed

lemmas daemon_reaches_trace = protocol_reaches_trace [OF daemon_reaches_protocol [THEN conjunct2]]

lemma daemon_reaches_config: "daemon_reaches cfg st tr \<Longrightarrow> ds_config st = cfg"
  using daemon_reaches_protocol by blast

lemma daemon_reaches_inv: "daemon_reaches cfg st tr \<Longrightarrow> store_inv cfg (ds_approvals st)"
  using daemon_reaches_trace by blast

end
