(* ===== verification/Daemon_Replies.thy ===== *)
theory Daemon_Replies
  imports Daemon_Refines
begin

text \<open>
  The replies of the daemon: each request is answered once, at the end of what is done for it,
  with one complete JSON object on a line; the exception is a listing that does not fit.
\<close>

section \<open>Complete replies\<close>

definition complete :: "effect \<Rightarrow> bool" where
  "complete e \<longleftrightarrow> (\<exists>obj. e = Reply (Some (obj @ [NL])) \<and> json_value obj)"

definition silent :: "effect list \<Rightarrow> bool" where
  "silent es \<longleftrightarrow> (\<forall>e \<in> set es. case e of Reply r \<Rightarrow> False | _ \<Rightarrow> True)"

definition answered :: "effect list \<Rightarrow> bool" where
  "answered es \<longleftrightarrow> (\<exists>fs e. es = fs @ [e] \<and> silent fs \<and> complete e)"

lemma answered_one [simp]: "complete e \<Longrightarrow> answered [e]"
  by (auto simp: answered_def silent_def intro: exI [of _ "[]"])

lemma answered_Cons:
  assumes "answered es" "silent [a]"
  shows "answered (a # es)"
proof -
  from assms(1) obtain fs e where "es = fs @ [e]" "silent fs" "complete e" by (auto simp: answered_def)
  with assms(2) show ?thesis
    unfolding answered_def by (intro exI [of _ "a # fs"] exI [of _ e]) (simp add: silent_def)
qed

lemma answered_simps [simp]:
  "answered es \<Longrightarrow> answered (Audit ev ok out # es)"
  "answered es \<Longrightarrow> answered (Ran_tool rid admin r # es)"
  by (simp_all add: answered_Cons silent_def)

lemma error_reply_complete:
  assumes "length (escape rid) < 128" "length (escape kind) < 128" "length (escape message) < 256"
    "\<bar>code\<bar> < 10 ^ 5"
  shows "complete (error_reply rid code kind message)"
proof -
  have "length (decimal_int code) \<le> 6" using length_decimal_int [OF assms(4)] by simp
  then have "length (error_object rid code kind message [] @ [NL]) < 4096"
    using assms by (simp add: length_error_object)
  then have "error_reply rid code kind message = Reply (Some (error_object rid code kind message [] @ [NL]))"
    using rpc_error_plain [OF assms(1-3), of code 4096] by (simp add: error_reply_def snprintf_id)
  then show ?thesis using json_value_error_object [of "[]"] by (auto simp: complete_def)
qed

lemma result_reply_complete:
  assumes "length (escape rid) < 128" "json_value json" "length json < 3900"
  shows "complete (result_reply rid json)"
proof -
  have "length (result_object rid json @ [NL]) < 4096" using assms by (simp add: length_result_object)
  then have "result_reply rid json = Reply (Some (result_object rid json @ [NL]))"
    using rpc_result_eq [OF assms(1)] by (simp add: result_reply_def snprintf_id)
  then show ?thesis using json_value_result_object [OF assms(2)] by (auto simp: complete_def)
qed

lemma audited_answered:
  assumes "length (escape rid) < 128" "answered (snd k)"
  shows "answered (snd (audited (checked_audit ev io rid) s k))"
proof (cases rule: checked_audit_cases [of ev io rid])
  case (lost out)
  have "complete (error_reply rid (- 32050) ''audit_failed'' ''audit write failed'')"
    using assms(1) by (intro error_reply_complete) simp_all
  with lost show ?thesis by simp
qed (use assms in simp)

lemma request_id_fits: "request_ok rq \<Longrightarrow> length (escape (rq_id rq)) < 128"
  by (rule simple_id_fits) (simp_all add: request_ok_def)

lemma rpc_error_text_fits: "length (escape (rpc_error_text e)) < 256"
  by (cases e) simp_all

lemma invalid_answered:
  "length (escape kind) < 128 \<Longrightarrow> length (escape message) < 256 \<Longrightarrow>
   answered (send_invalid ''null'' kind message)"
  unfolding send_invalid_def by (intro answered_one error_reply_complete) simp_all

section \<open>The tool socket\<close>

lemma approval_data_eq:
  assumes "length (escape rid) \<le> 24" "length (escape risk) < 64" "length (escape summary) < 512" "\<bar>t\<bar> < 10 ^ 19"
  shows "approval_data (escape rid) (escape risk) (escape summary) t =
     extra_text [(''request_id'', quoted (escape rid)), (''risk'', quoted (escape risk)),
       (''summary'', quoted (escape summary)), (''expires_at'', decimal_int t)]"
proof -
  have "length (decimal_int t) \<le> 20" using length_decimal_int [OF assms(4)] by simp
  then show ?thesis using assms
    by (simp add: approval_data_def snprintf_id member_def quoted_def)
qed

lemma admit_request_answered:
  assumes "request_ok rq" "pol = anything_policy_preflight (ds_config st) rq caller"
    "pol_decision pol \<noteq> POLICY_DENY"
    and "\<bar>env_now env + approval_ttl_seconds (ds_config st)\<bar> < 10 ^ 19"
  shows "answered (snd (admit_request st env caller rq pol))"
proof -
  note fits = request_id_fits [OF assms(1)]
  show ?thesis
  proof (cases "anything_approval_add (ds_approvals st) rq pol caller
      (approval_ttl_seconds (ds_config st)) (env_now env)")
    case None
    then show ?thesis
      using fits by (simp add: admit_request_def error_reply_complete)
  next
    case (Some r)
    obtain store' i where r: "r = (store', i)" by fastforce
    let ?t = "env_now env + approval_ttl_seconds (ds_config st)"
    define p where "p = new_entry (ds_approvals st) rq pol caller ?t"
    have "entry_added st env caller rq store' \<and> i = length (pending (ds_approvals st))"
      using Some r approval_add_allowed [OF assms(1), of st caller env store' i] assms(2,3) by simp
    then have p: "pending store' ! i = p"
      using assms(2) by (simp add: entry_added_def p_def)
    have texts: "pd_request_id p = request_id_text (next_id (ds_approvals st))" "pd_risk p = ''low''"
      "pd_summary p = ''Read Linux system information with sys.info''" "pd_expires_at p = ?t"
      using preflight_granted_texts [of "ds_config st" rq caller] assms(2,3)
      by (simp_all add: p_def new_entry_def)
    let ?kvs = "[(''request_id'', quoted (escape (pd_request_id p))), (''risk'', quoted (escape (pd_risk p))),
       (''summary'', quoted (escape (pd_summary p))), (''expires_at'', decimal_int (pd_expires_at p))]"
    have rid: "length (escape (pd_request_id p)) \<le> 24"
      using length_request_id_text by (simp add: texts)
    have data: "approval_data (escape (pd_request_id p)) (escape (pd_risk p)) (escape (pd_summary p))
        (pd_expires_at p) = extra_text ?kvs"
      using rid assms(4) by (intro approval_data_eq) (simp_all add: texts)
    have "length (decimal_int (pd_expires_at p)) \<le> 20"
      using length_decimal_int [of "pd_expires_at p" 19] assms(4) by (simp add: texts)
    moreover have "length (decimal_int (- 32010)) \<le> 6" using length_decimal_int [of "- 32010" 5] by simp
    ultimately have "length (error_object (rq_id rq) (- 32010) ''approval_required'' ''approval required'' ?kvs @ [NL]) < 4096"
      using fits rid by (simp add: length_error_object texts member_def quoted_def)
    then have "anything_rpc_error (Some (rq_id rq)) (- 32010) ''approval_required'' ''approval required''
        (Some (extra_text ?kvs)) 4096 =
      Some (error_object (rq_id rq) (- 32010) ''approval_required'' ''approval required'' ?kvs @ [NL])"
      using fits by (subst rpc_error_eq) (simp_all add: snprintf_id)
    moreover have "json_value (error_object (rq_id rq) (- 32010) ''approval_required'' ''approval required'' ?kvs)"
      by (rule json_value_error_object) (simp add: val_int json_value_quoted)
    ultimately have "complete (Reply (anything_rpc_error (Some (rq_id rq)) (- 32010)
        ''approval_required'' ''approval required'' (Some (extra_text ?kvs)) 4096))"
      by (auto simp: complete_def)
    moreover have "anything_json_escape_string (Some (pd_request_id p)) 128 = Some (escape (pd_request_id p))"
      "anything_json_escape_string (Some (pd_risk p)) 64 = Some (escape (pd_risk p))"
      "anything_json_escape_string (Some (pd_summary p)) 512 = Some (escape (pd_summary p))"
      using rid by (simp_all add: json_escape_eq texts)
    ultimately show ?thesis
      using Some r p data fits by (simp add: admit_request_def Let_def audited_answered)
  qed
qed

lemma tool_request_answered:
  assumes "\<bar>env_now env + approval_ttl_seconds (ds_config st)\<bar> < 10 ^ 19"
  shows "answered (snd (handle_tool_request st env caller body len))"
proof (cases "anything_rpc_parse (Some body) len")
  case (Inl e)
  then show ?thesis by (simp add: handle_tool_request_def invalid_answered rpc_error_text_fits)
next
  case (Inr rq)
  let ?pol = "anything_policy_preflight (ds_config st) rq caller"
  note ok = rpc_parse_ok [OF Inr]
  note fits = request_id_fits [OF ok]
  consider "strncmp_eq (rq_method rq) ''approval.'' 9"
    | "\<not> strncmp_eq (rq_method rq) ''approval.'' 9" "pol_decision ?pol = POLICY_DENY"
    | "\<not> strncmp_eq (rq_method rq) ''approval.'' 9" "pol_decision ?pol \<noteq> POLICY_DENY" by blast
  then show ?thesis
  proof cases
    case 1
    with Inr fits show ?thesis
      by (simp add: handle_tool_request_def audited_answered error_reply_complete)
  next
    case 2
    have "length (escape (pol_reason ?pol)) < 128"
      using preflight_denied_texts(2) [OF 2(2)] ok by (simp add: request_ok_def)
    with 2 Inr fits show ?thesis
      by (simp add: handle_tool_request_def Let_def audited_answered error_reply_complete)
  next
    case 3
    then have "rq_method rq = ''sys.info''" by (auto simp: preflight_decision split: if_splits)
    with 3 Inr fits admit_request_answered [OF ok refl 3(2) assms] show ?thesis
      by (simp add: handle_tool_request_def Let_def audited_answered)
  qed
qed

section \<open>The admin socket\<close>

lemma json_value_true: "json_value ''{\"approved\":true}''" "json_value ''{\"rejected\":true}''"
proof -
  have "json_value (json_object [(k, ''true'')])" if "json_body k" for k
    using that by (intro json_value_object) (auto intro: val_true)
  from this [of "''approved''"] this [of "''rejected''"]
  show "json_value ''{\"approved\":true}''" "json_value ''{\"rejected\":true}''"
    by (simp_all add: json_object_def member_def json_body_plain plain_char_def)
qed

lemma sys_error_fits: "length (escape (snprintf 128 (sys_error_text e))) < 256"
  by (cases e) (simp_all add: snprintf_def)

lemma approval_kind_fits: "length (escape (snprintf 64 (approval_error_kind e))) < 128"
  by (cases e) (simp_all add: snprintf_def)

lemma run_tool_answered:
  assumes "length (escape rid) < 128"
  shows "answered (snd (run_tool st env admin rid n p))"
proof (cases "anything_sys_info_json (env_sys env) 2048")
  case (Inl e)
  have "complete (error_reply rid (- 32030) ''execution_failed'' (snprintf 128 (sys_error_text e)))"
    using assms sys_error_fits by (intro error_reply_complete) simp_all
  with Inl assms show ?thesis
    by (simp add: run_tool_def Let_def case_prod_beta audited_answered)
next
  case (Inr json)
  have "complete (result_reply rid json)"
    using assms sys_info_Inr [OF Inr] by (intro result_reply_complete) simp_all
  with Inr assms show ?thesis
    by (simp add: run_tool_def Let_def case_prod_beta audited_answered)
qed

lemma execute_answered:
  assumes "request_ok rq"
  shows "answered (snd (handle_admin_execute st env admin rq))"
proof (cases "anything_rpc_extract_param_string (rq_params rq) ''request_id'' 40")
  case None
  then show ?thesis using request_id_fits [OF assms]
    by (simp add: handle_admin_execute_def error_reply_complete)
next
  case (Some rid)
  note fits = request_id_fits [OF assms]
  let ?store = "ds_approvals st"
  let ?n = "anything_approval_find ?store rid"
  let ?entry = "deref_pending ?store ?n"
  let ?hash = "case ?entry of None \<Rightarrow> 0 | Some p \<Rightarrow> rq_hash (pending_to_request p)"
  show ?thesis
  proof (cases "anything_approval_validate_for_execute ?entry ?hash (env_now env)")
    case (Inl e)
    then show ?thesis using fits Some approval_kind_fits
      by (simp add: handle_admin_execute_def Let_def error_reply_complete)
  next
    case (Inr u)
    then obtain p where p: "?entry = Some p" by (auto simp: validate_Inr)
    then obtain n where n: "?n = Some n" by (cases ?n) auto
    show ?thesis using fits Some Inr p n
      by (auto simp: handle_admin_execute_def Let_def error_reply_complete
          intro: audited_answered run_tool_answered)
  qed
qed

lemma decide_answered:
  assumes "length (escape rid) < 128" "length (escape refusal) < 256" "\<bar>code\<bar> < 10 ^ 5"
    "json_value json" "length json < 3900" "\<And>q. outcome = Inr q \<Longrightarrow> index \<noteq> None"
  shows "answered (snd (decide_entry st env admin rid index outcome code refusal event decision json))"
proof (cases outcome)
  case (Inl e)
  then show ?thesis using assms approval_kind_fits
    by (simp add: decide_entry_def error_reply_complete)
next
  case (Inr q)
  with assms(6) obtain n where "index = Some n" by blast
  with Inr assms show ?thesis
    by (simp add: decide_entry_def Let_def audited_answered result_reply_complete)
qed

text \<open>The reply to a listing is cut when the listing and what surrounds it exceed the buffer.\<close>

definition truncated_listing :: "anything_approval_store \<Rightarrow> anything_rpc_request \<Rightarrow> effect list \<Rightarrow> bool" where
  "truncated_listing st rq es \<longleftrightarrow>
     rq_method rq = ''approval.list'' \<and> length (list_object st) < 4096 \<and>
     4095 \<le> length (result_object (rq_id rq) (list_object st)) \<and>
     es = [Reply (Some (take 4095 (result_object (rq_id rq) (list_object st))))]"

lemma store_inv_listable: "store_inv cfg st \<Longrightarrow> \<forall>p \<in> set (pending st). listable p"
proof
  fix p
  assume st: "store_inv cfg st" and p: "p \<in> set (pending st)"
  then obtain i where i: "i < length (pending st)" "p = pending st ! i" by (auto simp: in_set_conv_nth)
  have "pd_request_id p = ''req_'' @ decimal (i + 1)"
    using st i ids_ok_nth [of st i] by (simp add: store_inv_def)
  moreover have "length (pending st) \<le> 64" using st by (simp add: store_inv_def ids_ok_def)
  then have "request_id_text (of_nat (i + 1)) = ''req_'' @ decimal (i + 1)"
    using i by (intro request_id_text_small) simp
  moreover have "entry_fits p" using st p by (simp add: store_inv_def)
  ultimately show "listable p" using fitting_entry_listable by metis
qed

lemma list_request_eq:
  assumes "store_inv cfg (ds_approvals st)" "anything_rpc_parse (Some body) len = Inr rq"
    "authorised (ds_config st) admin" "rq_method rq = ''approval.list''"
  shows "handle_admin_request st env admin body len =
     (st, [if length (list_object (ds_approvals st)) < 4096
           then result_reply (rq_id rq) (list_object (ds_approvals st))
           else error_reply (rq_id rq) (- 32000) ''resource_limit'' ''pending list too large''])"
  using assms(2-4) approval_list_eq [OF store_inv_listable [OF assms(1)], of 4096]
  by (simp add: handle_admin_request_def)

lemma list_request_answered:
  assumes "store_inv cfg (ds_approvals st)" "anything_rpc_parse (Some body) len = Inr rq"
    "authorised (ds_config st) admin" "rq_method rq = ''approval.list''"
    and "es = snd (handle_admin_request st env admin body len)"
  shows "answered es \<or> truncated_listing (ds_approvals st) rq es"
proof -
  let ?list = "list_object (ds_approvals st)" and ?obj = "result_object (rq_id rq) (list_object (ds_approvals st))"
  note fits = request_id_fits [OF rpc_parse_ok [OF assms(2)]]
  have reply: "result_reply (rq_id rq) ?list = Reply (Some (snprintf 4096 (?obj @ [NL])))"
    by (simp add: result_reply_def rpc_result_eq [OF fits])
  show ?thesis
  proof (cases "length ?list < 4096 \<and> 4095 \<le> length ?obj")
    case True
    then have "es = [Reply (Some (take 4095 ?obj))]"
      using assms list_request_eq [OF assms(1-4), of env] reply by (simp add: snprintf_def)
    with True assms(4) show ?thesis by (simp add: truncated_listing_def)
  next
    case False
    show ?thesis
    proof (cases "length ?list < 4096")
      case True
      then have "result_reply (rq_id rq) ?list = Reply (Some (?obj @ [NL]))"
        using False reply by (simp add: snprintf_id)
      then have "complete (result_reply (rq_id rq) ?list)"
        using json_value_result_object [OF json_value_list_object] by (auto simp: complete_def)
      with True show ?thesis using assms list_request_eq [OF assms(1-4), of env] by simp
    next
      case False
      then show ?thesis
        using assms list_request_eq [OF assms(1-4), of env] fits by (simp add: error_reply_complete)
    qed
  qed
qed

lemma admin_request_answered:
  assumes "store_inv cfg (ds_approvals st)" "es = snd (handle_admin_request st env admin body len)"
  shows "answered es \<or>
     (\<exists>rq. anything_rpc_parse (Some body) len = Inr rq \<and> truncated_listing (ds_approvals st) rq es)"
proof (cases "anything_rpc_parse (Some body) len")
  case (Inl e)
  then show ?thesis
    by (simp add: assms(2) handle_admin_request_def invalid_answered rpc_error_text_fits)
next
  case (Inr rq)
  note ok = rpc_parse_ok [OF Inr]
  note fits = request_id_fits [OF ok]
  show ?thesis
  proof (cases "authorised (ds_config st) admin \<and> rq_method rq = ''approval.list''")
    case True
    with list_request_answered [OF assms(1) Inr _ _ assms(2)] Inr show ?thesis by auto
  next
    case False
    have approve: "index \<noteq> None" if "anything_approval_grant (deref_pending (ds_approvals st) index) admin now = Inr q"
      for index now q using that by (cases index) (auto simp: anything_approval_grant_def)
    have refuse: "index \<noteq> None" if "anything_approval_reject (deref_pending (ds_approvals st) index) admin = Inr q"
      for index q using that by (cases index) (auto simp: anything_approval_reject_def)
    have "answered es"
    proof (cases "authorised (ds_config st) admin")
      case True
      with False have m: "rq_method rq \<noteq> ''approval.list''" by simp
      show ?thesis
      proof (cases "rq_method rq = ''approval.execute''")
        case True
        with execute_answered [OF ok] \<open>authorised (ds_config st) admin\<close> Inr show ?thesis
          by (simp add: assms(2) handle_admin_request_def)
      next
        case exec: False
        show ?thesis
        proof (cases "anything_rpc_extract_param_string (rq_params rq) ''request_id'' 40")
          case None
          with True m exec Inr fits show ?thesis
            by (simp add: assms(2) handle_admin_request_def error_reply_complete)
        next
          case (Some rid)
          consider "rq_method rq = ''approval.approve''" | "rq_method rq = ''approval.reject''"
            | "rq_method rq \<noteq> ''approval.approve''" "rq_method rq \<noteq> ''approval.reject''" by blast
          then show ?thesis
          proof cases
            case 1
            with True Inr Some show ?thesis
              by (simp add: assms(2) handle_admin_request_def Let_def)
                (rule decide_answered, use fits approve json_value_true in auto)
          next
            case 2
            with True Inr Some show ?thesis
              by (simp add: assms(2) handle_admin_request_def Let_def)
                (rule decide_answered, use fits refuse json_value_true in auto)
          next
            case 3
            with True m exec Inr Some fits show ?thesis
              by (simp add: assms(2) handle_admin_request_def Let_def error_reply_complete)
          qed
        qed
      qed
    next
      case False
      with Inr fits show ?thesis
        by (simp add: assms(2) handle_admin_request_def audited_answered error_reply_complete)
    qed
    then show ?thesis ..
  qed
qed

section \<open>The contract of both sockets\<close>

text \<open>A handler that answers: the reply comes last and is complete, or is a listing cut off.\<close>

locale answering_handler = request_handler +
  assumes answers: "store_inv (ds_config st) (ds_approvals st) \<Longrightarrow>
      \<bar>env_now env + approval_ttl_seconds (ds_config st)\<bar> < 10 ^ 19 \<Longrightarrow>
      answered (snd (handle st env peer body len)) \<or>
      (\<exists>rq. anything_rpc_parse (Some body) len = Inr rq \<and>
         truncated_listing (ds_approvals st) rq (snd (handle st env peer body len)))"
begin

lemma ends_with_reply:
  assumes "store_inv (ds_config st) (ds_approvals st)" "\<bar>env_now env + approval_ttl_seconds (ds_config st)\<bar> < 10 ^ 19"
  shows "\<exists>es r. snd (handle st env peer body len) = es @ [Reply (Some r)] \<and> silent es"
  using answers [OF assms, of peer body len]
  by (auto simp: answered_def complete_def truncated_listing_def silent_def)

end

interpretation tool_plane: answering_handler handle_tool_request
  using tool_request_answered by unfold_locales blast

interpretation admin_plane: answering_handler handle_admin_request
  using admin_request_answered [OF _ refl] by unfold_locales blast

end
