(* ===== verification/Daemon_Props.thy ===== *)
theory Daemon_Props
  imports Daemon_Replies
begin

text \<open>
  What the daemon guarantees, and the progress of a request through it when the system calls
  succeed: the records it writes always fit, a request for the tool is admitted, approved and
  executed.
\<close>

section \<open>The daemon's audit records fit\<close>

lemma short_simple: "length s < 64 \<Longrightarrow> simple_text s \<Longrightarrow> length (escape s) < 128"
  using length_escape_simple [of s] by simp

lemma received_fits: "request_ok rq \<Longrightarrow> event_fits (received_event rq caller)"
  by (simp add: event_fits_def received_event_def audit_args_def or_empty_def request_ok_def short_simple)

lemma denied_fits:
  assumes "request_ok rq" "length (escape risk) < 64" "length (escape kind) < 128" "length (escape summary) < 512"
  shows "event_fits (denied_event rq caller risk kind summary)"
  using assms
  by (simp add: event_fits_def denied_event_def audit_args_def or_empty_def request_ok_def short_simple)

lemma entry_audit_fits:
  assumes "entry_fits p" "length (escape (pd_request_id p)) < 128" "length (escape event) < 64"
    "length (escape decision) < 64" "length (escape kind) < 128" "length (escape summary) < 512"
  shows "event_fits (entry_audit event p admin decision kind summary)"
  using assms
  by (simp add: event_fits_def entry_audit_def audit_args_def or_empty_def entry_fits_def short_simple)

lemma store_id_fits:
  assumes "ids_ok st" "i < length (pending st)"
  shows "escape (pd_request_id (pending st ! i)) = pd_request_id (pending st ! i)"
    "length (pd_request_id (pending st ! i)) \<le> 24"
proof -
  have "pd_request_id (pending st ! i) = request_id_text (of_nat (i + 1))"
  proof -
    have "pd_request_id (pending st ! i) = map pd_request_id (pending st) ! i" using assms(2) by simp
    also have "\<dots> = request_id_text (of_nat (i + 1))" using assms unfolding ids_ok_def by simp
    finally show ?thesis .
  qed
  then show "escape (pd_request_id (pending st ! i)) = pd_request_id (pending st ! i)"
    "length (pd_request_id (pending st ! i)) \<le> 24"
    using length_request_id_text by simp_all
qed

text \<open>Every system call of every record succeeds.\<close>

definition log_works :: "daemon_env \<Rightarrow> bool" where
  "log_works env \<longleftrightarrow> (\<forall>n. io_open (env_audit env n) = Opened True \<and> io_write_head (env_audit env n) = Written \<and>
     io_write_approver (env_audit env n) = Written \<and> io_write_tail (env_audit env n) = Written \<and>
     io_close (env_audit env n))"

lemma log_works_ok: "log_works env \<Longrightarrow> io_ok ev (env_audit env n)"
  by (simp add: log_works_def io_ok_def)

definition record_line :: "daemon_env \<Rightarrow> nat \<Rightarrow> audit_event \<Rightarrow> effect" where
  "record_line env n ev = Audit ev True (audit_object (io_time (env_audit env n)) ev @ [NL])"

lemma audited_works:
  assumes "log_works env" "event_fits ev"
  shows "audited (checked_audit ev (env_audit env n) rid) s k = (fst k, record_line env n ev # snd k)"
  by (cases rule: checked_audit_cases [of ev "env_audit env n" rid])
    (use assms log_works_ok in \<open>auto simp: record_line_def\<close>)

section \<open>The progress of a request\<close>

lemma tool_request_works:
  assumes "anything_rpc_parse (Some body) len = Inr rq" "rq_method rq = ''sys.info''"
    "capability_sys_read (ds_config st)" "store_inv (ds_config st) (ds_approvals st)"
    "length (pending (ds_approvals st)) < 64" "log_works env"
    and "p = new_entry (ds_approvals st) rq (anything_policy_preflight (ds_config st) rq caller) caller
      (env_now env + approval_ttl_seconds (ds_config st))"
  shows "\<exists>es. handle_tool_request st env caller body len =
     (st\<lparr>ds_approvals := \<lparr>pending = pending (ds_approvals st) @ [p], next_id = next_id (ds_approvals st) + 1\<rparr>\<rparr>, es)"
proof -
  let ?pol = "anything_policy_preflight (ds_config st) rq caller"
  note ok = rpc_parse_ok [OF assms(1)]
  let ?store' = "\<lparr>pending = pending (ds_approvals st) @ [p], next_id = next_id (ds_approvals st) + 1\<rparr>"
  have pol: "pol_decision ?pol \<noteq> POLICY_DENY" using assms(2,3) by (simp add: preflight_decision)
  have add: "anything_approval_add (ds_approvals st) rq ?pol caller (approval_ttl_seconds (ds_config st))
      (env_now env) = Some (?store', length (pending (ds_approvals st)))"
    using assms(2,3,5,7) by (simp add: approval_add_allowed [OF ok pol] entry_added_def)
  have p: "entry_fits p" unfolding assms(7) by (rule new_entry_fits [OF ok assms(2,3)])
  have rid: "escape (pd_request_id p) = pd_request_id p" "length (pd_request_id p) \<le> 24"
    using length_request_id_text by (simp_all add: assms(7) new_entry_def)
  have texts: "anything_json_escape_string (Some (pd_request_id p)) 128 = Some (pd_request_id p)"
    "anything_json_escape_string (Some (pd_risk p)) 64 = Some (escape (pd_risk p))"
    "anything_json_escape_string (Some (pd_summary p)) 512 = Some (escape (pd_summary p))"
    using rid p by (simp_all add: json_escape_eq entry_fits_def)
  have fits: "event_fits (audit_args ''approval_required'' (pd_request_id p) (pd_session_id p) caller None
      (pd_method p) (pd_risk p) ''approval_required'' [] (pd_summary p))"
    using rid p by (simp add: event_fits_def audit_args_def or_empty_def entry_fits_def short_simple)
  have "\<not> strncmp_eq (rq_method rq) ''approval.'' 9" using assms(2) by (simp add: strncmp_eq_def)
  then show ?thesis
    using assms(1,2) pol add texts
    by (simp add: handle_tool_request_def Let_def admit_request_def
        audited_works [OF assms(6) received_fits [OF ok]] audited_works [OF assms(6) fits])
qed

text \<open>An approval that passes the checks is stored before it is recorded.\<close>

lemma approve_eq:
  assumes "anything_rpc_parse (Some body) len = Inr rq" "rq_method rq = ''approval.approve''"
    "anything_rpc_extract_param_string (rq_params rq) ''request_id'' 40 = Some (pd_request_id p)"
    "authorised (ds_config st) admin" "store_inv (ds_config st) (ds_approvals st)"
    "n < length (pending (ds_approvals st))" "pending (ds_approvals st) ! n = p"
    "anything_approval_grant (Some p) admin (env_now env) = Inr q"
    "st' = st\<lparr>ds_approvals := put_pending (ds_approvals st) n q\<rparr>"
  shows "handle_admin_request st env admin body len =
     audited (checked_audit (granted_event q admin) (env_audit env 0) (rq_id rq)) st'
       (st', [result_reply (rq_id rq) ''{\"approved\":true}''])"
proof -
  have ids: "ids_ok (ds_approvals st)" using assms(5) by (simp add: store_inv_def)
  have find: "anything_approval_find (ds_approvals st) (pd_request_id p) = Some n"
    using find_nth [OF ids assms(6)] assms(7) by simp
  show ?thesis
    using assms find find_deref [OF find]
    by (simp add: handle_admin_request_def decide_entry_def Let_def granted_event_def)
qed

lemma granted_event_fits:
  assumes "store_inv cfg st" "n < length (pending st)" "same_request (pending st ! n) q"
  shows "event_fits (granted_event q admin)"
proof -
  have ids: "ids_ok st" using assms(1) by (simp add: store_inv_def)
  have "entry_fits q" using store_inv_nth [OF assms(1,2)] by (intro entry_fits_same [OF assms(3)]) simp
  moreover have "length (escape (pd_request_id q)) < 128"
    using store_id_fits [OF ids assms(2)] same_request_fields(1) [OF assms(3)] by simp
  ultimately show ?thesis
    unfolding granted_event_def by (intro entry_audit_fits) (simp_all add: entry_fits_def)
qed

lemma recheck_passes:
  assumes "store_inv cfg st" "n < length (pending st)" "pending st ! n = p" "cfg' = cfg"
  shows "rq_hash (pending_to_request p) = pd_request_hash p"
    "pol_decision (anything_policy_preflight cfg' (pending_to_request p) i) \<noteq> POLICY_DENY"
    "pol_request_hash (anything_policy_preflight cfg' (pending_to_request p) i) = pd_request_hash p"
proof -
  have p: "entry_fits p" "capability_sys_read cfg"
    using assms store_inv_nth [OF assms(1,2)] by (auto simp: store_inv_def)
  have "length (pd_request_id p) < 64"
    using assms store_id_fits [of st n] by (auto simp: store_inv_def)
  note rq = pending_to_request_fits [OF p(1) this]
  show "rq_hash (pending_to_request p) = pd_request_hash p" by (simp add: rq)
  show "pol_decision (anything_policy_preflight cfg' (pending_to_request p) i) \<noteq> POLICY_DENY"
    using p assms(4) by (simp add: preflight_decision rq entry_fits_def)
  show "pol_request_hash (anything_policy_preflight cfg' (pending_to_request p) i) = pd_request_hash p"
    by (simp add: rq)
qed

lemma execute_works:
  assumes "anything_rpc_parse (Some body) len = Inr rq" "rq_method rq = ''approval.execute''"
    "anything_rpc_extract_param_string (rq_params rq) ''request_id'' 40 = Some (pd_request_id p)"
    "authorised (ds_config st) admin" "store_inv (ds_config st) (ds_approvals st)"
    "n < length (pending (ds_approvals st))" "pending (ds_approvals st) ! n = p"
    "usable p (env_now env)" "log_works env" "anything_sys_info_json (env_sys env) 2048 = Inr json"
  shows "handle_admin_request st env admin body len =
     (st\<lparr>ds_approvals := put_pending (ds_approvals st) n (p\<lparr>pd_status := APPROVAL_EXECUTED\<rparr>)\<rparr>,
      [record_line env 0 (started_event p admin), Ran_tool (pd_request_id p) admin (Inr json),
       record_line env 1 (entry_audit ''execution_finished'' p admin ''finished'' [] (pd_summary p)),
       result_reply (rq_id rq) json])"
proof -
  have ids: "ids_ok (ds_approvals st)" using assms(5) by (simp add: store_inv_def)
  have find: "anything_approval_find (ds_approvals st) (pd_request_id p) = Some n"
    using find_nth [OF ids assms(6)] assms(7) by simp
  note re = recheck_passes [OF assms(5-7) refl]
  have "entry_fits p" using store_inv_nth [OF assms(5,6)] assms(7) by simp
  moreover have "length (escape (pd_request_id p)) < 128"
    using store_id_fits [OF ids assms(6)] assms(7) by simp
  ultimately have "event_fits (started_event p admin)"
    "event_fits (entry_audit ''execution_finished'' p admin ''finished'' [] (pd_summary p))"
    unfolding started_event_def by (intro entry_audit_fits; simp add: entry_fits_def)+
  note log = this [THEN audited_works [OF assms(9)], unfolded started_event_def]
  have "anything_approval_validate_for_execute (Some p) (rq_hash (pending_to_request p)) (env_now env) = Inr ()"
    using assms(8) re(1) by (simp add: validate_Inr usable_def)
  then show ?thesis
    using assms find find_deref [OF find] re
    by (simp add: handle_admin_request_def handle_admin_execute_def Let_def run_tool_def started_event_def log)
qed

end
