(* ===== verification/Client.thy ===== *)
theory Client
  imports Rpc_Requests Transport_Props
begin

text \<open>
  \<open>src/cli/anythingctl.c\<close>: the command-line client.  \<open>argv\<close> is the list of the arguments, the
  program's name first.  \<open>connect\<close>, the answers to \<open>write\<close> and the one \<open>read\<close> of the reply
  are arguments; the outcome holds what was sent, what was printed, and the exit status.
\<close>

section \<open>The code\<close>

definition make_request :: "cstring \<Rightarrow> cstring \<Rightarrow> nat \<Rightarrow> cstring" where
  "make_request command arg out_len =
     (if command = ''sys-info'' then
        snprintf out_len (''{\"jsonrpc\":\"2.0\",\"id\":\"1\",\"method\":\"sys.info\",\"params\":{\"session_id\":\"'' @ arg @ ''\"}}'' @ [NL])
      else if command = ''pending'' then
        snprintf out_len (''{\"jsonrpc\":\"2.0\",\"id\":\"1\",\"method\":\"approval.list\",\"params\":{}}'' @ [NL])
      else if command = ''approve'' then
        snprintf out_len (''{\"jsonrpc\":\"2.0\",\"id\":\"1\",\"method\":\"approval.approve\",\"params\":{\"request_id\":\"'' @ arg @ ''\"}}'' @ [NL])
      else if command = ''reject'' then
        snprintf out_len (''{\"jsonrpc\":\"2.0\",\"id\":\"1\",\"method\":\"approval.reject\",\"params\":{\"request_id\":\"'' @ arg @ ''\"}}'' @ [NL])
      else if command = ''execute'' then
        snprintf out_len (''{\"jsonrpc\":\"2.0\",\"id\":\"1\",\"method\":\"approval.execute\",\"params\":{\"request_id\":\"'' @ arg @ ''\"}}'' @ [NL])
      else [])"

text \<open>The part of \<open>main\<close> before the connection: the socket path and the request, None when it
  prints the usage and exits with 2.\<close>

definition client_request :: "cstring list \<Rightarrow> (cstring \<times> cstring) option" where
  "client_request argv =
     (if length argv < 4 then None
      else if argv ! 1 = ''--socket'' \<or> argv ! 1 = ''--admin-socket'' then
        (let socket_path = argv ! 2;
             command = argv ! 3;
             arg = (if length argv > 4 then argv ! 4 else [])
         in if command = ''raw'' \<and> length argv < 5 then None
            else
              (let request = (if command = ''raw'' then snprintf 2048 (argv ! 4 @ [NL])
                              else make_request command arg 2048)
               in if request = [] then None else Some (socket_path, request)))
      else None)"

text \<open>The path is truncated to the 108 bytes of \<open>sun_path\<close>; the result is whether \<open>socket\<close> and
  \<open>connect\<close> succeed on that path.\<close>

definition connect_socket :: "(cstring \<Rightarrow> bool) \<Rightarrow> cstring \<Rightarrow> bool" where
  "connect_socket connect path = connect (snprintf 108 path)"

datatype client_outcome =
    Client_usage
  | Client_connect_failed
  | Client_read_failed cstring
  | Client_printed cstring cstring

fun client_status :: "client_outcome \<Rightarrow> int" where
  "client_status Client_usage = 2"
| "client_status Client_connect_failed = 1"
| "client_status (Client_read_failed sent) = 1"
| "client_status (Client_printed sent printed) = 0"

text \<open>\<open>reply\<close> is what the single \<open>read\<close> of up to 4095 bytes answers, None for a failure.  None
  as the result while the write has not ended.\<close>

definition client_main ::
  "(cstring \<Rightarrow> bool) \<Rightarrow> write_answer list \<Rightarrow> char list option \<Rightarrow> cstring list \<Rightarrow> client_outcome option" where
  "client_main connect answers reply argv =
     (case client_request argv of
        None \<Rightarrow> Some Client_usage
      | Some (socket_path, request) \<Rightarrow>
          if \<not> connect_socket connect socket_path then Some Client_connect_failed
          else
            (case anything_transport_write_response request answers of
               None \<Rightarrow> None
             | Some (ok, sent) \<Rightarrow>
                 Some (case reply of
                         None \<Rightarrow> Client_read_failed sent
                       | Some bytes \<Rightarrow> Client_printed sent (c_str (take 4095 bytes)))))"

section \<open>The requests it prints\<close>

definition client_method :: "cstring \<Rightarrow> cstring option" where
  "client_method command =
     (if command = ''sys-info'' then Some ''sys.info''
      else if command = ''pending'' then Some ''approval.list''
      else if command = ''approve'' then Some ''approval.approve''
      else if command = ''reject'' then Some ''approval.reject''
      else if command = ''execute'' then Some ''approval.execute''
      else None)"

definition client_params :: "cstring \<Rightarrow> cstring \<Rightarrow> (string \<times> string) list" where
  "client_params command arg =
     (if command = ''sys-info'' then [(''session_id'', arg)]
      else if command = ''pending'' then [] else [(''request_id'', arg)])"

definition client_fields :: "cstring \<Rightarrow> cstring \<Rightarrow> cstring \<Rightarrow> (string \<times> field_value) list" where
  "client_fields m command arg =
     [(''jsonrpc'', Text_value ''2.0''), (''id'', Text_value ''1''), (''method'', Text_value m),
      (''params'', Object_value (client_params command arg))]"

lemma client_method_cases:
  assumes "client_method command = Some m"
  obtains "command = ''sys-info''" "m = ''sys.info''"
  | "command = ''pending''" "m = ''approval.list''"
  | "command = ''approve''" "m = ''approval.approve''"
  | "command = ''reject''" "m = ''approval.reject''"
  | "command = ''execute''" "m = ''approval.execute''"
  using assms by (simp add: client_method_def split: if_splits)

lemma print_client_fields:
  "escape m = m \<Longrightarrow> print_request (client_fields m command arg) @ [NL] =
   ''{\"jsonrpc\":\"2.0\",\"id\":\"1\",\"method\":\"'' @ m @ ''\",\"params\":'' @
     string_params (client_params command arg) @ ''}'' @ [NL]"
  by (simp add: print_request_def client_fields_def json_object_def member_def quoted_def)

lemma string_params_one:
  "escape k = k \<Longrightarrow> escape arg = arg \<Longrightarrow> string_params [(k, arg)] = ''{\"'' @ k @ ''\":\"'' @ arg @ ''\"}''"
  by (simp add: string_params_def json_object_def member_def quoted_def)

lemma string_params_none: "string_params [] = ''{}''"
  by (simp add: string_params_text)

lemma make_request_fields:
  assumes "client_method command = Some m" "\<forall>c \<in> set arg. plain_char c" "length arg < 1900"
  shows "make_request command arg 2048 = print_request (client_fields m command arg) @ [NL]"
proof -
  have esc: "escape arg = arg" by (rule escape_plain [OF assms(2)])
  have fits: "snprintf 2048 (u @ arg @ v @ w) = u @ arg @ v @ w" if "length u + length v + length w < 148"
    for u v w using that assms(3) by (simp add: snprintf_id)
  show ?thesis
  proof (cases rule: client_method_cases [OF assms(1)])
    case 1
    have "snprintf 2048 (''{\"jsonrpc\":\"2.0\",\"id\":\"1\",\"method\":\"sys.info\",\"params\":{\"session_id\":\"'' @ arg @ ''\"}}'' @ [NL])
      = ''{\"jsonrpc\":\"2.0\",\"id\":\"1\",\"method\":\"sys.info\",\"params\":{\"session_id\":\"'' @ arg @ ''\"}}'' @ [NL]"
      by (rule fits) simp
    with 1 esc show ?thesis
      by (simp add: print_client_fields make_request_def client_params_def string_params_one)
  next
    case 2
    have "snprintf 2048 (''{\"jsonrpc\":\"2.0\",\"id\":\"1\",\"method\":\"approval.list\",\"params\":{}}'' @ [NL])
      = ''{\"jsonrpc\":\"2.0\",\"id\":\"1\",\"method\":\"approval.list\",\"params\":{}}'' @ [NL]"
      by (rule snprintf_id) simp
    with 2 show ?thesis
      by (simp add: print_client_fields make_request_def client_params_def string_params_none)
  next
    case 3
    have "snprintf 2048 (''{\"jsonrpc\":\"2.0\",\"id\":\"1\",\"method\":\"approval.approve\",\"params\":{\"request_id\":\"'' @ arg @ ''\"}}'' @ [NL])
      = ''{\"jsonrpc\":\"2.0\",\"id\":\"1\",\"method\":\"approval.approve\",\"params\":{\"request_id\":\"'' @ arg @ ''\"}}'' @ [NL]"
      by (rule fits) simp
    with 3 esc show ?thesis
      by (simp add: print_client_fields make_request_def client_params_def string_params_one)
  next
    case 4
    have "snprintf 2048 (''{\"jsonrpc\":\"2.0\",\"id\":\"1\",\"method\":\"approval.reject\",\"params\":{\"request_id\":\"'' @ arg @ ''\"}}'' @ [NL])
      = ''{\"jsonrpc\":\"2.0\",\"id\":\"1\",\"method\":\"approval.reject\",\"params\":{\"request_id\":\"'' @ arg @ ''\"}}'' @ [NL]"
      by (rule fits) simp
    with 4 esc show ?thesis
      by (simp add: print_client_fields make_request_def client_params_def string_params_one)
  next
    case 5
    have "snprintf 2048 (''{\"jsonrpc\":\"2.0\",\"id\":\"1\",\"method\":\"approval.execute\",\"params\":{\"request_id\":\"'' @ arg @ ''\"}}'' @ [NL])
      = ''{\"jsonrpc\":\"2.0\",\"id\":\"1\",\"method\":\"approval.execute\",\"params\":{\"request_id\":\"'' @ arg @ ''\"}}'' @ [NL]"
      by (rule fits) simp
    with 5 esc show ?thesis
      by (simp add: print_client_fields make_request_def client_params_def string_params_one)
  qed
qed

lemma client_method_plain:
  assumes "client_method command = Some m"
  shows "simple_text m \<and> length m < 64"
  by (cases rule: client_method_cases [OF assms]) (simp_all add: simple_char_def)

lemma plain_text_simple: "\<forall>c \<in> set s. plain_char c \<Longrightarrow> simple_text s"
  by (blast intro: plain_char_simple)

lemma client_fields_simple:
  assumes "client_method command = Some m" "\<forall>c \<in> set arg. plain_char c"
  shows "simple_fields (client_fields m command arg)"
  using client_method_plain [OF assms(1)] plain_text_simple [OF assms(2)]
  by (auto simp: simple_fields_def client_fields_def client_params_def simple_char_def split: if_splits)

lemma length_client_params:
  "\<forall>c \<in> set arg. plain_char c \<Longrightarrow> length (string_params (client_params command arg)) \<le> 19 + length arg"
  by (simp add: client_params_def string_params_def json_object_def member_def quoted_def escape_plain)

lemma read_client_fields:
  assumes "client_method command = Some m" "length (string_params (client_params command arg)) < 1024"
  shows "read_request (client_fields m command arg) =
     (let ps = string_params (client_params command arg); s = session_of_params ps
      in Inr \<lparr>rq_id = ''1'', rq_method = m, rq_session_id = s, rq_params = ps,
              rq_hash = anything_rpc_hash_request m ps s\<rparr>)"
  using assms client_method_plain [OF assms(1)]
  by (simp add: read_request_def client_fields_def read_field_def empty_scan_def empty_request_def
      default_params_def Let_def)

text \<open>The daemon's view of a client request.\<close>

definition client_rpc :: "cstring \<Rightarrow> cstring \<Rightarrow> cstring \<Rightarrow> anything_rpc_request" where
  "client_rpc command m arg =
     (let ps = string_params (client_params command arg); s = session_of_params ps
      in \<lparr>rq_id = ''1'', rq_method = m, rq_session_id = s, rq_params = ps,
         rq_hash = anything_rpc_hash_request m ps s\<rparr>)"

lemma client_parse:
  assumes "client_method command = Some m" "\<forall>c \<in> set arg. plain_char c" "length arg < 64" "0 < n"
  shows "anything_rpc_parse (Some (make_request command arg 2048)) n = Inr (client_rpc command m arg)"
proof -
  have "length (string_params (client_params command arg)) < 1024"
    using length_client_params [OF assms(2), of command] assms(3) by simp
  from read_client_fields [OF assms(1) this] show ?thesis
    using parse_print [OF client_fields_simple [OF assms(1,2)], of "[NL]" n "CHR ''}''"] assms
    by (simp add: make_request_fields print_request_text isspace_def client_rpc_def Let_def)
qed

lemma client_extract:
  assumes "\<forall>c \<in> set arg. plain_char c" "length arg < 64"
  shows "anything_rpc_extract_param_string (rq_params (client_rpc command m arg)) key n =
     (case map_of (client_params command arg) key of
        None \<Rightarrow> None | Some v \<Rightarrow> if length v < n then Some v else None)"
  using extract_string_params [of "client_params command arg" key n] plain_text_simple [OF assms(1)]
  by (simp add: client_rpc_def Let_def) (auto simp: client_params_def simple_char_def)

lemma length_make_request:
  assumes "client_method command = Some m" "length arg < 64"
  shows "length (make_request command arg 2048) < 256"
  by (cases rule: client_method_cases [OF assms(1)])
    (use assms(2) in \<open>simp_all add: make_request_def snprintf_def\<close>)

lemma make_request_line:
  assumes "client_method command = Some m" "\<forall>c \<in> set arg. plain_char c" "length arg < 64"
  shows "NL \<in> set (make_request command arg 2048)"
  using assms by (simp add: make_request_fields [OF assms(1,2)])

section \<open>Properties\<close>

text \<open>C27: for an argument of less than 64 bytes without quotes, backslashes and control characters,
  each command sends one line that the daemon's parser reads as the command's method, with the
  argument as the session of \<open>sys-info\<close>; the 40 bytes with which the daemon looks up the request
  id of the other commands find exactly the argument when it has less than 40 bytes, and nothing
  otherwise.\<close>

theorem client_request_parsed_by_daemon:
  assumes "client_method command = Some m" "\<forall>c \<in> set arg. plain_char c" "length arg < 64"
  shows "\<exists>rq. anything_rpc_parse (Some (make_request command arg 2048)) (length (make_request command arg 2048)) = Inr rq \<and>
     rq_method rq = m \<and> rq_id rq = ''1'' \<and>
     rq_session_id rq = (if command = ''sys-info'' then arg else ''default'') \<and>
     anything_rpc_extract_param_string (rq_params rq) ''request_id'' 40 =
       (if command = ''sys-info'' \<or> command = ''pending'' then None
        else if length arg < 40 then Some arg else None)"
proof (intro exI conjI)
  have "0 < length (make_request command arg 2048)"
    using make_request_line [OF assms] by (rule length_pos_if_in_set)
  then show "anything_rpc_parse (Some (make_request command arg 2048)) (length (make_request command arg 2048)) =
      Inr (client_rpc command m arg)" by (rule client_parse [OF assms])
  note found = client_extract [OF assms(2,3), of command m]
  show "rq_session_id (client_rpc command m arg) = (if command = ''sys-info'' then arg else ''default'')"
    using found [of "''session_id''" 64] assms(3)
    by (simp add: client_rpc_def Let_def session_of_params_def client_params_def)
  show "anything_rpc_extract_param_string (rq_params (client_rpc command m arg)) ''request_id'' 40 =
      (if command = ''sys-info'' \<or> command = ''pending'' then None
       else if length arg < 40 then Some arg else None)"
    by (simp add: found client_params_def)
qed (simp_all add: client_rpc_def Let_def)

theorem client_request_parsed_by_daemon_witness:
  "\<exists>rq. anything_rpc_parse (Some (make_request ''approve'' ''req_1'' 2048)) (length (make_request ''approve'' ''req_1'' 2048)) = Inr rq \<and>
     rq_method rq = ''approval.approve'' \<and>
     anything_rpc_extract_param_string (rq_params rq) ''request_id'' 40 = Some ''req_1''"
  using client_request_parsed_by_daemon [of "''approve''" "''approval.approve''" "''req_1''"]
  by (auto simp: client_method_def)

text \<open>The argument is not escaped, so an argument with a quote is more than an argument: what is
  meant as the session of a \<open>sys-info\<close> request can close the parameters and add members to the
  request that is sent, and a backslash at its end makes the request malformed.\<close>

theorem client_argument_injects_members:
  "client_request [''anythingctl'', ''--socket'', ''/tmp/s'', ''sys-info'', ''x\"},\"other\":{\"y\":\"''] =
     Some (''/tmp/s'', print_request
       [(''jsonrpc'', Text_value ''2.0''), (''id'', Text_value ''1''), (''method'', Text_value ''sys.info''),
        (''params'', Object_value [(''session_id'', ''x'')]), (''other'', Object_value [(''y'', [])])] @ [NL]) \<and>
   (case client_request [''anythingctl'', ''--admin-socket'', ''/tmp/a'', ''approve'', ''x'' @ [BS]] of
      None \<Rightarrow> None
    | Some (path, request) \<Rightarrow> Some (anything_rpc_parse (Some request) (length request))) =
   Some (Inl Invalid_params)"
  by code_simp

text \<open>The client connects to a truncated path when the given one does not fit in a socket
  address, sends a request in full whenever the peer takes it, and prints at most 4095 bytes of
  the answer.\<close>

theorem client_session:
  assumes "client_request argv = Some (path, request)" "connect (take 107 path)"
    and "length request \<le> taken answers" "Write_error \<notin> set answers"
  shows "client_main connect answers reply argv =
     Some (case reply of None \<Rightarrow> Client_read_failed request
           | Some bytes \<Rightarrow> Client_printed request (c_str (take 4095 bytes)))"
  using assms write_loop_enough [of answers request 0]
  by (simp add: client_main_def connect_socket_def snprintf_def anything_transport_write_response_def)

theorem client_session_witness:
  "client_main (\<lambda>p. p = ''/tmp/a'') [Wrote 9999] (Some (''{}'' @ [NL]))
     [''anythingctl'', ''--admin-socket'', ''/tmp/a'', ''pending''] =
   Some (Client_printed (make_request ''pending'' [] 2048) (''{}'' @ [NL]))"
proof -
  have len: "length (make_request ''pending'' [] 2048) \<le> 9999"
    by (simp add: make_request_def snprintf_def)
  have "client_request [''anythingctl'', ''--admin-socket'', ''/tmp/a'', ''pending''] =
      Some (''/tmp/a'', make_request ''pending'' [] 2048)" by code_simp
  from client_session [OF this, of "\<lambda>p. p = ''/tmp/a''" "[Wrote 9999]" "Some (''{}'' @ [NL])"] len
  show ?thesis by (simp add: c_str_def)
qed

end
