(* ===== verification/Session.thy ===== *)
theory Session
  imports Daemon_Props Client
begin

text \<open>
  A whole session of the client with the daemon: one connection that delivers a line, and the
  three connections that take a request from the tool socket over its approval to its execution.
\<close>

section \<open>A connection that delivers one line\<close>

definition line_connection :: "daemon_env \<Rightarrow> anything_identity \<Rightarrow> cstring \<Rightarrow> connection" where
  "line_connection env peer line =
     \<lparr>con_accepted = True, con_cred = Inr (id_uid peer, id_gid peer, id_pid peer),
      con_setsockopt = (\<lambda>_. None), con_calloc = True, con_started = (0, 0),
      con_turns = [((0, 0), Data line)], con_ended = (0, 0), con_env = env\<rparr>"

lemma line_received:
  assumes "NL \<in> set line" "length line < max_request_bytes (ds_config st)" "0 \<le> read_timeout_ms (ds_config st)"
  shows "accept_one st (line_connection env peer line) plane =
     Some (if plane = SOCKET_TOOL then handle_tool_request st env peer line (length line)
           else handle_admin_request st env peer line (length line))"
proof -
  have "\<not> late (0, 0) (read_timeout_ms (ds_config st)) (0, 0)"
    "elapsed_ms_since (0, 0) (0, 0) = 0"
    using assms(3) by (simp_all add: late_def elapsed_ms_since_def cdiv_def)
  moreover have "line \<noteq> []" using assms(1) by auto
  ultimately have "anything_transport_read_request (0, 0) (max_request_bytes (ds_config st))
      (read_timeout_ms (ds_config st)) [((0, 0), Data line)] (0, 0) = Some (Inr line)"
    using assms by (simp add: anything_transport_read_request_def Let_def)
  then show ?thesis
    by (cases peer) (simp add: accept_one_def line_connection_def anything_transport_peer_identity_def
        anything_transport_set_read_timeout_def)
qed

definition client_connection :: "daemon_env \<Rightarrow> anything_identity \<Rightarrow> cstring \<Rightarrow> cstring \<Rightarrow> connection" where
  "client_connection env peer command arg = line_connection env peer (make_request command arg 2048)"

lemma client_received:
  assumes "client_method command = Some m" "\<forall>c \<in> set arg. plain_char c" "length arg < 64"
    "256 \<le> max_request_bytes (ds_config st)" "0 \<le> read_timeout_ms (ds_config st)"
  shows "accept_one st (client_connection env peer command arg) plane =
     Some (if plane = SOCKET_TOOL
           then handle_tool_request st env peer (make_request command arg 2048) (length (make_request command arg 2048))
           else handle_admin_request st env peer (make_request command arg 2048) (length (make_request command arg 2048)))"
  unfolding client_connection_def
  using make_request_line [OF assms(1-3)] length_make_request [OF assms(1,3)] assms(4,5)
  by (intro line_received) auto

lemma client_line_parsed:
  assumes "client_method command = Some m" "\<forall>c \<in> set arg. plain_char c" "length arg < 64"
  shows "anything_rpc_parse (Some (make_request command arg 2048)) (length (make_request command arg 2048)) =
     Inr (client_rpc command m arg)"
  using make_request_line [OF assms] by (intro client_parse [OF assms]) (auto intro: length_pos_if_in_set)

lemma client_rpc_simps [simp]: "rq_method (client_rpc command m arg) = m" "rq_id (client_rpc command m arg) = ''1''"
  by (simp_all add: client_rpc_def Let_def)

lemma client_request_id:
  assumes "\<forall>c \<in> set arg. plain_char c" "length arg < 40"
    and "command \<noteq> ''sys-info''" "command \<noteq> ''pending''"
  shows "anything_rpc_extract_param_string (rq_params (client_rpc command m arg)) ''request_id'' 40 = Some arg"
  using client_extract [OF assms(1), of command m "''request_id''" 40] assms
  by (simp add: client_params_def)

text \<open>The client prints a reply of the daemon as it is.\<close>

lemma client_prints:
  assumes "client_method command = Some m" "connect (take 107 path)" "\<forall>c \<in> set arg. plain_char c"
    "length arg < 64" "json_value obj" "length obj < 4095"
  shows "client_main connect [Wrote 2048] (Some (obj @ [NL])) [''anythingctl'', ''--admin-socket'', path, command, arg] =
     Some (Client_printed (make_request command arg 2048) (obj @ [NL]))"
proof -
  have "make_request command arg 2048 \<noteq> []" using make_request_line [OF assms(1,3,4)] by auto
  moreover have "command \<noteq> ''raw''" using assms(1) by (auto simp: client_method_def)
  ultimately have "client_request [''anythingctl'', ''--admin-socket'', path, command, arg] =
      Some (path, make_request command arg 2048)" by (simp add: client_request_def)
  moreover have "length (make_request command arg 2048) \<le> taken [Wrote 2048]"
    using length_make_request [OF assms(1,4)] by simp
  moreover have "c_str (obj @ [NL]) = obj @ [NL]"
    using json_value_no_NUL [OF assms(5)] by (intro c_str_id) simp
  ultimately show ?thesis
    using client_session [where connect = connect, OF _ assms(2), of _ "make_request command arg 2048" "[Wrote 2048]" "Some (obj @ [NL])"] assms(6)
    by simp
qed

section \<open>The three connections\<close>

text \<open>The configuration lets the tool run and the client's lines through.\<close>

definition session_config :: "anything_config \<Rightarrow> bool" where
  "session_config cfg \<longleftrightarrow>
     capability_sys_read cfg \<and> 256 \<le> max_request_bytes cfg \<and> 0 \<le> read_timeout_ms cfg"

lemma stored_id_sendable:
  assumes "daemon_reaches cfg st tr" "i < length (pending (ds_approvals st))"
  shows "\<forall>c \<in> set (pd_request_id (pending (ds_approvals st) ! i)). plain_char c"
    "length (pd_request_id (pending (ds_approvals st) ! i)) < 40"
proof -
  have "ids_ok (ds_approvals st)" using daemon_reaches_inv [OF assms(1)] by (simp add: store_inv_def)
  note id = ids_ok_nth [OF this assms(2)] store_id_fits [OF this assms(2)]
  show "\<forall>c \<in> set (pd_request_id (pending (ds_approvals st) ! i)). plain_char c"
    using id(1) decimal_digits by auto
  show "length (pd_request_id (pending (ds_approvals st) ! i)) < 40" using id(3) by simp
qed

lemma request_admitted:
  assumes "daemon_reaches cfg st tr" "length (pending (ds_approvals st)) = n" "n < 64"
    "session_config cfg" "log_works env" "\<forall>c \<in> set session. plain_char c" "length session < 64"
  shows "\<exists>st' es p. accept_one st (client_connection env requester ''sys-info'' session) SOCKET_TOOL = Some (st', es) \<and>
     daemon_reaches cfg st' (tr @ es) \<and>
     pending (ds_approvals st') = pending (ds_approvals st) @ [p] \<and>
     pd_request_id p = ''req_'' @ decimal (n + 1) \<and> pd_requester p = requester \<and>
     pd_status p = APPROVAL_PENDING \<and> pd_expires_at p = env_now env + approval_ttl_seconds cfg"
proof -
  note cfg = daemon_reaches_config [OF assms(1)]
  let ?rq = "client_rpc ''sys-info'' ''sys.info'' session"
  define p where "p = new_entry (ds_approvals st) ?rq (anything_policy_preflight cfg ?rq requester) requester
      (env_now env + approval_ttl_seconds cfg)"
  define st' where "st' = st\<lparr>ds_approvals := \<lparr>pending = pending (ds_approvals st) @ [p], next_id = next_id (ds_approvals st) + 1\<rparr>\<rparr>"
  obtain es where a: "accept_one st (client_connection env requester ''sys-info'' session) SOCKET_TOOL = Some (st', es)"
    using tool_request_works [OF client_line_parsed [OF _ assms(6,7)], of "''sys-info''" "''sys.info''" st env p requester]
      client_received [of "''sys-info''" "''sys.info''" session st env requester SOCKET_TOOL]
      daemon_reaches_inv [OF assms(1)] assms(2-7) cfg
    by (auto simp: client_method_def session_config_def p_def st'_def)
  have r: "daemon_reaches cfg st' (tr @ es)" by (rule dr_step [OF assms(1) a])
  have "ids_ok (ds_approvals st')" using daemon_reaches_inv [OF r] by (simp add: store_inv_def)
  from ids_ok_nth [OF this, of n] have "pd_request_id p = ''req_'' @ decimal (n + 1)"
    using assms(2) by (simp add: st'_def nth_append)
  moreover have "pending (ds_approvals st') = pending (ds_approvals st) @ [p]" by (simp add: st'_def)
  moreover have "pd_requester p = requester" "pd_status p = APPROVAL_PENDING"
    "pd_expires_at p = env_now env + approval_ttl_seconds cfg" by (simp_all add: p_def new_entry_def)
  ultimately show ?thesis using a r by blast
qed

lemma approve_received:
  assumes "daemon_reaches cfg st tr" "i < length (pending (ds_approvals st))" "p = pending (ds_approvals st) ! i"
    "session_config cfg" "authorised cfg admin" "anything_approval_grant (Some p) admin (env_now env) = Inr q"
    "st' = st\<lparr>ds_approvals := put_pending (ds_approvals st) i q\<rparr>"
  shows "accept_one st (client_connection env admin ''approve'' (pd_request_id p)) SOCKET_ADMIN =
     Some (audited (checked_audit (granted_event q admin) (env_audit env 0) ''1'') st'
       (st', [result_reply ''1'' ''{\"approved\":true}'']))"
proof -
  note id = stored_id_sendable [OF assms(1,2), folded assms(3)]
  have len: "length (pd_request_id p) < 64" using id(2) by simp
  have m: "client_method ''approve'' = Some ''approval.approve''" by (simp add: client_method_def)
  note cfg = daemon_reaches_config [OF assms(1)]
  have inv: "store_inv (ds_config st) (ds_approvals st)" unfolding cfg by (rule daemon_reaches_inv [OF assms(1)])
  have auth: "authorised (ds_config st) admin" unfolding cfg by (rule assms(5))
  have sizes: "256 \<le> max_request_bytes (ds_config st)" "0 \<le> read_timeout_ms (ds_config st)"
    using assms(4) cfg by (simp_all add: session_config_def)
  note rid = client_request_id [OF id, of "''approve''" "''approval.approve''"]
  show ?thesis
    using client_received [OF m id(1) len sizes, of env admin SOCKET_ADMIN]
      approve_eq [OF client_line_parsed [OF m id(1) len] _ rid auth inv assms(2) assms(3) [symmetric] assms(6,7)]
    by simp
qed

lemma request_approved:
  assumes "daemon_reaches cfg st tr" "i < length (pending (ds_approvals st))" "p = pending (ds_approvals st) ! i"
    "session_config cfg" "authorised cfg admin" "anything_approval_grant (Some p) admin (env_now env) = Inr q"
    "log_works env"
  shows "\<exists>st' es. accept_one st (client_connection env admin ''approve'' (pd_request_id p)) SOCKET_ADMIN = Some (st', es) \<and>
     daemon_reaches cfg st' (tr @ es) \<and>
     pending (ds_approvals st') = (pending (ds_approvals st))[i := q] \<and>
     last es = result_reply ''1'' ''{\"approved\":true}''"
proof -
  define st' where "st' = st\<lparr>ds_approvals := put_pending (ds_approvals st) i q\<rparr>"
  define es where "es = [record_line env 0 (granted_event q admin), result_reply ''1'' ''{\"approved\":true}'']"
  have "event_fits (granted_event q admin)"
    using granted_event_fits [OF daemon_reaches_inv [OF assms(1)] assms(2)] grant.run_frame [OF assms(6)] assms(3)
    by simp
  with approve_received [OF assms(1-6) st'_def]
  have a: "accept_one st (client_connection env admin ''approve'' (pd_request_id p)) SOCKET_ADMIN = Some (st', es)"
    by (simp add: audited_works [OF assms(7)] es_def)
  moreover have "daemon_reaches cfg st' (tr @ es)" by (rule dr_step [OF assms(1) a])
  moreover have "pending (ds_approvals st') = (pending (ds_approvals st))[i := q]" by (simp add: st'_def)
  moreover have "last es = result_reply ''1'' ''{\"approved\":true}''" by (simp add: es_def)
  ultimately show ?thesis by blast
qed

lemma request_executed:
  assumes "daemon_reaches cfg st tr" "i < length (pending (ds_approvals st))" "p = pending (ds_approvals st) ! i"
    "session_config cfg" "authorised cfg admin" "usable p (env_now env)"
    "log_works env" "anything_sys_info_json (env_sys env) 2048 = Inr json"
  shows "\<exists>st' es. accept_one st (client_connection env admin ''execute'' (pd_request_id p)) SOCKET_ADMIN = Some (st', es) \<and>
     daemon_reaches cfg st' (tr @ es) \<and>
     pending (ds_approvals st') = (pending (ds_approvals st))[i := p\<lparr>pd_status := APPROVAL_EXECUTED\<rparr>] \<and>
     Ran_tool (pd_request_id p) admin (Inr json) \<in> set es \<and> last es = result_reply ''1'' json"
proof -
  note id = stored_id_sendable [OF assms(1,2), folded assms(3)]
  have len: "length (pd_request_id p) < 64" using id(2) by simp
  have m: "client_method ''execute'' = Some ''approval.execute''" by (simp add: client_method_def)
  note cfg = daemon_reaches_config [OF assms(1)]
  have inv: "store_inv (ds_config st) (ds_approvals st)" unfolding cfg by (rule daemon_reaches_inv [OF assms(1)])
  have auth: "authorised (ds_config st) admin" unfolding cfg by (rule assms(5))
  have sizes: "256 \<le> max_request_bytes (ds_config st)" "0 \<le> read_timeout_ms (ds_config st)"
    using assms(4) cfg by (simp_all add: session_config_def)
  note rid = client_request_id [OF id, of "''execute''" "''approval.execute''"]
  define st' where "st' = st\<lparr>ds_approvals := put_pending (ds_approvals st) i (p\<lparr>pd_status := APPROVAL_EXECUTED\<rparr>)\<rparr>"
  define es where "es = [record_line env 0 (started_event p admin), Ran_tool (pd_request_id p) admin (Inr json),
       record_line env 1 (entry_audit ''execution_finished'' p admin ''finished'' [] (pd_summary p)),
       result_reply ''1'' json]"
  have a: "accept_one st (client_connection env admin ''execute'' (pd_request_id p)) SOCKET_ADMIN = Some (st', es)"
    using client_received [OF m id(1) len sizes, of env admin SOCKET_ADMIN]
      execute_works [OF client_line_parsed [OF m id(1) len] _ rid auth inv assms(2) assms(3) [symmetric] assms(6-8)]
    by (simp add: st'_def es_def)
  moreover have "daemon_reaches cfg st' (tr @ es)" by (rule dr_step [OF assms(1) a])
  moreover have "pending (ds_approvals st') = (pending (ds_approvals st))[i := p\<lparr>pd_status := APPROVAL_EXECUTED\<rparr>]"
    by (simp add: st'_def)
  moreover have "Ran_tool (pd_request_id p) admin (Inr json) \<in> set es" "last es = result_reply ''1'' json"
    by (simp_all add: es_def)
  ultimately show ?thesis by blast
qed

text \<open>The surroundings of a session: the system works, and the clock does not pass the expiry.\<close>

definition session_env :: "anything_config \<Rightarrow> daemon_env \<Rightarrow> daemon_env \<Rightarrow> daemon_env \<Rightarrow> bool" where
  "session_env cfg env1 env2 env3 \<longleftrightarrow>
     log_works env1 \<and> log_works env2 \<and> log_works env3 \<and>
     env_now env2 \<le> env_now env1 + approval_ttl_seconds cfg \<and>
     env_now env3 \<le> env_now env1 + approval_ttl_seconds cfg"

lemma session_reaches:
  assumes "daemon_reaches cfg st tr" "length (pending (ds_approvals st)) = n" "n < 64"
    "session_config cfg" "session_env cfg env1 env2 env3"
    "\<forall>c \<in> set session. plain_char c" "length session < 64"
    "authorised cfg admin" "\<not> anything_identity_same requester admin"
    "anything_sys_info_json (env_sys env3) 2048 = Inr json"
    and "rid = ''req_'' @ decimal (n + 1)"
  shows "\<exists>st1 st2 st3 es1 es2 es3.
     accept_one st (client_connection env1 requester ''sys-info'' session) SOCKET_TOOL = Some (st1, es1) \<and>
     accept_one st1 (client_connection env2 admin ''approve'' rid) SOCKET_ADMIN = Some (st2, es2) \<and>
     accept_one st2 (client_connection env3 admin ''execute'' rid) SOCKET_ADMIN = Some (st3, es3) \<and>
     daemon_reaches cfg st3 (tr @ es1 @ es2 @ es3) \<and> length (pending (ds_approvals st3)) = n + 1 \<and>
     length (pending (ds_approvals st1)) = n + 1 \<and>
     pd_status (pending (ds_approvals st1) ! n) = APPROVAL_PENDING \<and>
     pd_status (pending (ds_approvals st2) ! n) = APPROVAL_GRANTED \<and>
     pd_status (pending (ds_approvals st3) ! n) = APPROVAL_EXECUTED \<and>
     last es2 = result_reply ''1'' ''{\"approved\":true}'' \<and>
     Ran_tool rid admin (Inr json) \<in> set es3 \<and> last es3 = result_reply ''1'' json"
proof -
  have env: "log_works env1" "log_works env2" "log_works env3"
    "env_now env2 \<le> env_now env1 + approval_ttl_seconds cfg" "env_now env3 \<le> env_now env1 + approval_ttl_seconds cfg"
    using assms(5) by (simp_all add: session_env_def)
  from request_admitted [OF assms(1-4) env(1) assms(6,7), of requester] obtain st1 es1 p where
    1: "accept_one st (client_connection env1 requester ''sys-info'' session) SOCKET_TOOL = Some (st1, es1)"
      "daemon_reaches cfg st1 (tr @ es1)" "pending (ds_approvals st1) = pending (ds_approvals st) @ [p]"
    and p: "pd_request_id p = rid" "pd_requester p = requester" "pd_status p = APPROVAL_PENDING"
      "pd_expires_at p = env_now env1 + approval_ttl_seconds cfg"
    unfolding assms(11) by blast
  define q where "q = p\<lparr>pd_approver := admin, pd_status := APPROVAL_GRANTED\<rparr>"
  have n1: "n < length (pending (ds_approvals st1))" "p = pending (ds_approvals st1) ! n"
    using 1(3) assms(2) by auto
  have "anything_approval_grant (Some p) admin (env_now env2) = Inr q"
    using p env(4) assms(9) by (simp add: grant_Inr q_def)
  from request_approved [OF 1(2) n1 assms(4,8) this env(2), unfolded p(1)] obtain st2 es2 where
    2: "accept_one st1 (client_connection env2 admin ''approve'' rid) SOCKET_ADMIN = Some (st2, es2)"
      "daemon_reaches cfg st2 ((tr @ es1) @ es2)" "pending (ds_approvals st2) = (pending (ds_approvals st1))[n := q]"
      "last es2 = result_reply ''1'' ''{\"approved\":true}''" by blast
  have n2: "n < length (pending (ds_approvals st2))" "q = pending (ds_approvals st2) ! n"
    using 2(3) n1(1) by auto
  have q: "usable q (env_now env3)" "pd_request_id q = rid"
    using p env(5) by (simp_all add: usable_def q_def)
  from request_executed [OF 2(2) n2 assms(4,8) q(1) env(3) assms(10), unfolded q(2)] obtain st3 es3 where
    3: "accept_one st2 (client_connection env3 admin ''execute'' rid) SOCKET_ADMIN = Some (st3, es3)"
      "daemon_reaches cfg st3 (((tr @ es1) @ es2) @ es3)"
      "pending (ds_approvals st3) = (pending (ds_approvals st2))[n := q\<lparr>pd_status := APPROVAL_EXECUTED\<rparr>]"
      "Ran_tool rid admin (Inr json) \<in> set es3" "last es3 = result_reply ''1'' json" by blast
  have lens: "length (pending (ds_approvals st1)) = n + 1" "length (pending (ds_approvals st3)) = n + 1"
    using assms(2) 1(3) 2(3) 3(3) by simp_all
  have sts: "pd_status (pending (ds_approvals st1) ! n) = APPROVAL_PENDING"
    "pd_status (pending (ds_approvals st2) ! n) = APPROVAL_GRANTED"
    "pd_status (pending (ds_approvals st3) ! n) = APPROVAL_EXECUTED"
    using p(3) 3(3) n2(1) by (simp_all flip: n1(2) n2(2)) (simp add: q_def)
  show ?thesis
    using 1(1) 2(1,4) 3(1,4,5) 3(2)[unfolded append_assoc] lens sts by blast
qed

end
