(* ===== verification/Daemon_Theorems.thy ===== *)
theory Daemon_Theorems
  imports Session
begin

text \<open>
  The properties of the daemon over its connections and the traces they leave: refinement of the
  abstract specification, approval before execution, single use, the invariant of the store.  The
  sample run carries a request from its admission to its execution.
\<close>

section \<open>A sample run\<close>

definition sample_env :: daemon_env where
  "sample_env = \<lparr>env_now = 0, env_audit = (\<lambda>n. sample_io), env_sys = sample_sys_env\<rparr>"

definition sample_json :: string where
  "sample_json = sys_info_object ''host'' ''6.1'' ''unknown'' ''12.5 3.1'' ''x86_64''"

lemma sample_env_works: "session_env example_config sample_env sample_env sample_env"
  by (simp add: session_env_def sample_env_def log_works_def sample_io_def example_config_def
      anything_config_init_def)

lemma sample_config_works: "session_config example_config"
  by (simp add: session_config_def example_config_def anything_config_init_def)

lemma sample_admin: "authorised example_config other_identity"
  by (simp add: anything_config_identity_is_admin_def example_config_def anything_config_init_def
      other_identity_def)

lemma sample_requester: "\<not> authorised example_config sample_identity"
  "\<not> anything_identity_same sample_identity other_identity"
  by (simp_all add: anything_config_identity_is_admin_def example_config_def anything_config_init_def
      sample_identity_def other_identity_def anything_identity_same_def)

lemma sample_sys_info: "anything_sys_info_json (env_sys sample_env) 2048 = Inr sample_json"
proof -
  have "read_first_line (sys_os_release sample_sys_env) 256 = ''unknown''"
    "read_first_line (sys_proc_uptime sample_sys_env) 64 = ''12.5 3.1''" by code_simp+
  then show ?thesis
    by (simp add: sys_info_eq sample_env_def sample_sys_env_def sample_json_def sys_texts_fit_def)
qed

definition start_state :: daemon_state where
  "start_state = \<lparr>ds_config = example_config, ds_approvals = anything_approval_store_init\<rparr>"

lemma start_reached: "daemon_reaches example_config start_state []"
  unfolding start_state_def by (rule dr_start)

lemma sample_session:
  "\<exists>st1 st2 st3 es1 es2 es3.
     accept_one start_state (client_connection sample_env sample_identity ''sys-info'' ''s1'') SOCKET_TOOL = Some (st1, es1) \<and>
     accept_one st1 (client_connection sample_env other_identity ''approve'' ''req_1'') SOCKET_ADMIN = Some (st2, es2) \<and>
     accept_one st2 (client_connection sample_env other_identity ''execute'' ''req_1'') SOCKET_ADMIN = Some (st3, es3) \<and>
     daemon_reaches example_config st3 (es1 @ es2 @ es3) \<and> length (pending (ds_approvals st3)) = 1 \<and> length (pending (ds_approvals st1)) = 1 \<and>
     pd_status (pending (ds_approvals st1) ! 0) = APPROVAL_PENDING \<and>
     pd_status (pending (ds_approvals st2) ! 0) = APPROVAL_GRANTED \<and>
     pd_status (pending (ds_approvals st3) ! 0) = APPROVAL_EXECUTED \<and>
     last es2 = result_reply ''1'' ''{\"approved\":true}'' \<and>
     Ran_tool ''req_1'' other_identity (Inr sample_json) \<in> set es3 \<and> last es3 = result_reply ''1'' sample_json"
proof -
  have rid: "''req_1'' = ''req_'' @ decimal (0 + 1)" by code_simp
  have len: "length (pending (ds_approvals start_state)) = 0"
    by (simp add: start_state_def anything_approval_store_init_def)
  have plain: "\<forall>c \<in> set ''s1''. plain_char c" by simp
  show ?thesis
    using session_reaches [OF start_reached len _ sample_config_works sample_env_works plain _
        sample_admin sample_requester(2) sample_sys_info rid] by simp
qed

lemma sample_run:
  obtains st u v where
    "daemon_reaches example_config st (u @ Ran_tool ''req_1'' other_identity (Inr sample_json) # v)"
    "length (pending (ds_approvals st)) = 1" "pd_status (pending (ds_approvals st) ! 0) = APPROVAL_EXECUTED"
proof -
  from sample_session obtain st es1 es2 es3 where r: "daemon_reaches example_config st (es1 @ es2 @ es3)"
    "length (pending (ds_approvals st)) = 1" "pd_status (pending (ds_approvals st) ! 0) = APPROVAL_EXECUTED"
    "Ran_tool ''req_1'' other_identity (Inr sample_json) \<in> set es3" by blast
  from r(4) obtain a b where "es3 = a @ Ran_tool ''req_1'' other_identity (Inr sample_json) # b"
    by (auto simp: in_set_conv_decomp)
  with r that [of st "es1 @ es2 @ a" b] show ?thesis by simp
qed

section \<open>Refinement and safety\<close>

text \<open>C2: every connection the daemon serves, on either socket and with any bytes, is one step of
  the abstract protocol on the approval store, and never changes the configuration.\<close>

theorem connection_refines_protocol:
  assumes "accept_one st con plane = Some (st', es)"
  shows "ds_config st' = ds_config st \<and>
     protocol_step (ds_config st) (ds_approvals st) es (ds_approvals st')"
  using accept_one_step [OF assms] by simp

theorem connection_refines_protocol_witness:
  "\<exists>st es. accept_one start_state (client_connection sample_env sample_identity ''sys-info'' ''s1'') SOCKET_TOOL =
      Some (st, es) \<and> protocol_step example_config anything_approval_store_init es (ds_approvals st)"
proof -
  from sample_session obtain st es where a: "accept_one start_state
      (client_connection sample_env sample_identity ''sys-info'' ''s1'') SOCKET_TOOL = Some (st, es)" by blast
  from connection_refines_protocol [OF a] a show ?thesis by (auto simp: start_state_def)
qed

text \<open>C1: in every trace of the daemon, each run of the tool, for a request with some id, comes
  immediately after a complete audit record of its start; the request was granted before by an
  authorised administrator other than the requester, with an audit record attempted for the grant,
  and the run was ordered by an authorised administrator.\<close>

theorem execution_was_approved:
  assumes "daemon_reaches cfg st (u @ Ran_tool rid admin r # v)"
  shows "\<exists>p before t.
     u = before @ [Audit (started_event p admin) True (audit_object t (started_event p admin) @ [NL])] \<and>
     pd_request_id p = rid \<and> pd_method p = ''sys.info'' \<and>
     pd_request_hash p = anything_rpc_hash_request (pd_method p) (pd_params p) (pd_session_id p) \<and>
     anything_config_identity_is_admin cfg admin \<and>
     anything_config_identity_is_admin cfg (pd_approver p) \<and>
     \<not> anything_identity_same (pd_requester p) (pd_approver p) \<and>
     (\<exists>ok out. Audit (granted_event p (pd_approver p)) ok out \<in> set before)"
  using protocol_reaches_run [OF daemon_reaches_protocol [OF assms, THEN conjunct2]]
  unfolding justified_def entry_fits_def grant_recorded_def by blast

theorem execution_was_approved_witness:
  "\<exists>st u v before p t. daemon_reaches example_config st (u @ Ran_tool ''req_1'' other_identity (Inr sample_json) # v) \<and>
     u = before @ [Audit (started_event p other_identity) True (audit_object t (started_event p other_identity) @ [NL])] \<and>
     pd_request_id p = ''req_1'' \<and> anything_config_identity_is_admin example_config (pd_approver p) \<and>
     \<not> anything_identity_same (pd_requester p) (pd_approver p) \<and>
     (\<exists>ok out. Audit (granted_event p (pd_approver p)) ok out \<in> set before)"
proof -
  obtain st u v where r: "daemon_reaches example_config st (u @ Ran_tool ''req_1'' other_identity (Inr sample_json) # v)"
    by (rule sample_run)
  from execution_was_approved [OF r] r show ?thesis by blast
qed

text \<open>C3: no request is executed successfully more than once, in any trace.\<close>

theorem executed_at_most_once:
  assumes "daemon_reaches cfg st tr"
  shows "length (filter (succeeded rid) tr) \<le> 1"
  using daemon_reaches_trace [OF assms] by (simp add: used_once_def successes_def)

theorem executed_at_most_once_witness:
  "\<exists>tr. length (filter (succeeded ''req_1'') tr) = 1 \<and> (\<exists>st. daemon_reaches example_config st tr)"
proof -
  obtain st u v where r: "daemon_reaches example_config st (u @ Ran_tool ''req_1'' other_identity (Inr sample_json) # v)"
    by (rule sample_run)
  let ?tr = "u @ Ran_tool ''req_1'' other_identity (Inr sample_json) # v"
  have "1 \<le> length (filter (succeeded ''req_1'') ?tr)" by (simp add: succeeded_def)
  with executed_at_most_once [OF r, of "''req_1''"]
  have "length (filter (succeeded ''req_1'') ?tr) = 1" by (rule le_antisym)
  with r show ?thesis by blast
qed

text \<open>C5: in every reachable state the store holds at most 64 requests, numbered consecutively;
  each was admitted by the policy, keeps its own hash, and, unless it is pending, was decided by
  an authorised administrator other than its requester; recomputing the hash and the policy before
  an execution never disagrees with what is stored.\<close>

theorem reachable_store_sound:
  assumes "daemon_reaches cfg st tr" "i < length (pending (ds_approvals st))"
    and "p = pending (ds_approvals st) ! i"
  shows "length (pending (ds_approvals st)) \<le> 64 \<and> pd_request_id p = ''req_'' @ decimal (i + 1) \<and>
     (pd_status p = APPROVAL_PENDING \<or>
        anything_config_identity_is_admin cfg (pd_approver p) \<and>
        \<not> anything_identity_same (pd_requester p) (pd_approver p)) \<and>
     rq_hash (pending_to_request p) = pd_request_hash p \<and>
     pol_decision (anything_policy_preflight (ds_config st) (pending_to_request p) (pd_requester p)) =
       POLICY_APPROVAL_REQUIRED \<and>
     anything_approval_validate_for_execute (Some p) (rq_hash (pending_to_request p)) now \<noteq> Inl Request_changed"
proof -
  note inv = daemon_reaches_inv [OF assms(1)]
  have ids: "ids_ok (ds_approvals st)" using inv by (simp add: store_inv_def)
  note re = recheck_passes [OF inv assms(2) assms(3) [symmetric] daemon_reaches_config [OF assms(1)]]
  have "pol_decision (anything_policy_preflight (ds_config st) (pending_to_request p) (pd_requester p)) =
      POLICY_APPROVAL_REQUIRED"
    using re(2) by (auto simp: preflight_decision split: if_splits)
  moreover have "anything_approval_validate_for_execute (Some p) (rq_hash (pending_to_request p)) now \<noteq> Inl Request_changed"
    using re(1) by (simp add: anything_approval_validate_for_execute_def)
  moreover have "approval_sound cfg p" using store_inv_nth [OF inv assms(2)] assms(3) by simp
  ultimately show ?thesis
    using ids ids_ok_nth [OF ids assms(2)] assms(3) re(1) by (auto simp: approval_sound_def ids_ok_def)
qed

theorem reachable_store_sound_witness:
  "\<exists>st tr p. daemon_reaches example_config st tr \<and> pending (ds_approvals st) = [p] \<and>
     pd_request_id p = ''req_1'' \<and> pd_status p = APPROVAL_EXECUTED \<and>
     anything_config_identity_is_admin example_config (pd_approver p) \<and>
     rq_hash (pending_to_request p) = pd_request_hash p"
proof -
  obtain st u v where r: "daemon_reaches example_config st (u @ Ran_tool ''req_1'' other_identity (Inr sample_json) # v)"
    "length (pending (ds_approvals st)) = 1" "pd_status (pending (ds_approvals st) ! 0) = APPROVAL_EXECUTED"
    by (rule sample_run)
  have rid: "''req_'' @ decimal (0 + 1) = ''req_1''" by code_simp
  from r(2) obtain p where p: "pending (ds_approvals st) = [p]" by (auto simp: length_Suc_conv)
  then have "0 < length (pending (ds_approvals st))" "p = pending (ds_approvals st) ! 0" by simp_all
  from reachable_store_sound [OF r(1) this, unfolded rid] r(3) p
  have "pd_request_id p = ''req_1''" "pd_status p = APPROVAL_EXECUTED"
    "anything_config_identity_is_admin example_config (pd_approver p)"
    "rq_hash (pending_to_request p) = pd_request_hash p"
    by simp_all
  with r(1) p show ?thesis by blast
qed

text \<open>C12: a connection never removes an entry and never changes a stored request: what it does to
  an entry is nothing, or one step of the life cycle.\<close>

theorem connection_keeps_requests:
  assumes "daemon_reaches cfg st tr" "accept_one st con plane = Some (st', es)"
    "i < length (pending (ds_approvals st))"
  shows "i < length (pending (ds_approvals st')) \<and>
     same_request (pending (ds_approvals st) ! i) (pending (ds_approvals st') ! i) \<and>
     lifecycle\<^sup>=\<^sup>= (pd_status (pending (ds_approvals st) ! i)) (pd_status (pending (ds_approvals st') ! i))"
proof -
  have "ds_config st = cfg" "store_inv cfg (ds_approvals st)"
    using daemon_reaches_config daemon_reaches_inv assms(1) by blast+
  moreover from this accept_one_step [OF assms(2)]
  have "protocol_step cfg (ds_approvals st) es (ds_approvals st')" by simp
  ultimately show ?thesis using protocol_step_entry assms(3) less_le_trans by blast
qed

theorem connection_keeps_requests_witness:
  "\<exists>st tr st' es. daemon_reaches example_config st tr \<and>
     accept_one st (client_connection sample_env other_identity ''approve'' ''req_1'') SOCKET_ADMIN = Some (st', es) \<and>
     0 < length (pending (ds_approvals st)) \<and>
     same_request (pending (ds_approvals st) ! 0) (pending (ds_approvals st') ! 0) \<and>
     pd_status (pending (ds_approvals st) ! 0) = APPROVAL_PENDING \<and>
     pd_status (pending (ds_approvals st') ! 0) = APPROVAL_GRANTED"
proof -
  from sample_session obtain st1 st2 es1 es2 where
    a: "accept_one start_state (client_connection sample_env sample_identity ''sys-info'' ''s1'') SOCKET_TOOL = Some (st1, es1)"
      "accept_one st1 (client_connection sample_env other_identity ''approve'' ''req_1'') SOCKET_ADMIN = Some (st2, es2)"
      "pd_status (pending (ds_approvals st1) ! 0) = APPROVAL_PENDING"
      "pd_status (pending (ds_approvals st2) ! 0) = APPROVAL_GRANTED"
      "length (pending (ds_approvals st1)) = 1" by blast
  have r: "daemon_reaches example_config st1 ([] @ es1)" by (rule dr_step [OF start_reached a(1)])
  have "0 < length (pending (ds_approvals st1))" using a(5) by simp
  with connection_keeps_requests [OF r a(2), of 0] a(2-4) r show ?thesis by blast
qed

end
