(* ===== verification/Daemon_Planes.thy ===== *)
theory Daemon_Planes
  imports Daemon_Theorems
begin

text \<open>
  Properties of the two sockets: what a caller of the tool socket, an unlisted administrator and a
  failing audit log can do, and that every request read is answered.
\<close>

section \<open>The tool socket\<close>

text \<open>C6: a request on the tool socket never runs the tool and never touches the configuration or
  an existing entry; it leaves the store alone, or adds one pending entry for its caller, for the
  tool's method and only when the capability is configured.\<close>

theorem tool_socket_only_adds:
  "quiet (snd (handle_tool_request st env caller body len)) \<and>
   ds_config (fst (handle_tool_request st env caller body len)) = ds_config st \<and>
   (fst (handle_tool_request st env caller body len) = st \<or>
    (\<exists>p. pending (ds_approvals (fst (handle_tool_request st env caller body len))) = pending (ds_approvals st) @ [p] \<and>
       length (pending (ds_approvals st)) < 64 \<and> capability_sys_read (ds_config st) \<and>
       pd_requester p = caller \<and> pd_method p = ''sys.info'' \<and> pd_status p = APPROVAL_PENDING \<and>
       pd_expires_at p = env_now env + approval_ttl_seconds (ds_config st)))"
proof -
  note t = tool_request_step [OF refl, of st env caller body len]
  show ?thesis
  proof (cases "fst (handle_tool_request st env caller body len) = st")
    case False
    with t obtain rq store' where a: "entry_added st env caller rq store'"
      "fst (handle_tool_request st env caller body len) = st\<lparr>ds_approvals := store'\<rparr>" by blast
    then show ?thesis using t by (auto simp: entry_added_def new_entry_def)
  qed (use t in simp)
qed

section \<open>Callers that are not administrators\<close>

text \<open>C7: on the admin socket, a request from an identity that is not authorised changes nothing and
  runs nothing: when it can be parsed it leaves one denial in the log and an error, whatever its
  method is.\<close>

theorem unauthorised_admin_denied:
  assumes "\<not> anything_config_identity_is_admin (ds_config st) admin"
  shows "case anything_rpc_parse (Some body) len of
      Inl e \<Rightarrow> handle_admin_request st env admin body len =
        (st, send_invalid ''null'' ''invalid_request'' (rpc_error_text e))
    | Inr rq \<Rightarrow> \<exists>ok out. handle_admin_request st env admin body len =
        (st, [Audit (denied_event rq admin ''denied'' ''control_plane_denied''
                       ''admin caller is not in allowlist'') ok out,
              if ok then error_reply (rq_id rq) (- 32040) ''control_plane_denied'' ''admin caller is not authorized''
              else error_reply (rq_id rq) (- 32050) ''audit_failed'' ''audit write failed''])"
proof (cases "anything_rpc_parse (Some body) len")
  case (Inr rq)
  then show ?thesis using assms
    by (cases rule: checked_audit_cases [of "denied_event rq admin ''denied'' ''control_plane_denied''
          ''admin caller is not in allowlist''" "env_audit env 0" "rq_id rq"])
      (simp_all add: handle_admin_request_def ex_bool_eq)
qed (simp add: handle_admin_request_def)

theorem unauthorised_admin_denied_witness:
  "\<exists>ok out es. handle_admin_request start_state sample_env sample_identity
     (make_request ''execute'' ''req_1'' 2048) (length (make_request ''execute'' ''req_1'' 2048)) =
     (start_state, Audit (denied_event (client_rpc ''execute'' ''approval.execute'' ''req_1'') sample_identity
        ''denied'' ''control_plane_denied'' ''admin caller is not in allowlist'') ok out # es)"
proof -
  have a: "\<not> authorised (ds_config start_state) sample_identity"
    using sample_requester(1) by (simp add: start_state_def)
  have p: "anything_rpc_parse (Some (make_request ''execute'' ''req_1'' 2048))
      (length (make_request ''execute'' ''req_1'' 2048)) = Inr (client_rpc ''execute'' ''approval.execute'' ''req_1'')"
    by (rule client_line_parsed) (simp_all add: client_method_def)
  from unauthorised_admin_denied [OF a, of sample_env "make_request ''execute'' ''req_1'' 2048"
      "length (make_request ''execute'' ''req_1'' 2048)"]
  show ?thesis unfolding p by auto
qed

section \<open>A log that cannot be written\<close>

lemma audit_open_fails:
  assumes "io_open io \<noteq> Opened True"
  shows "checked_audit ev io rid = (False, [Audit ev False [],
     error_reply rid (- 32050) ''audit_failed'' ''audit write failed''])"
proof -
  obtain e where "open_audit_fd (io_open io) = Inl e"
    using assms by (cases "io_open io") (auto simp: open_audit_fd_def)
  then have "anything_audit_write_event ev io = (False, [])"
    by (cases "event_fits ev") (simp_all add: audit_write_eq audit_write_unfit)
  then show ?thesis by (simp add: checked_audit_def)
qed

lemma execute_needs_audit:
  assumes "io_open (env_audit env 0) \<noteq> Opened True"
  shows "quiet (snd (handle_admin_execute st env admin rq)) \<and> fst (handle_admin_execute st env admin rq) = st"
proof (cases "anything_rpc_extract_param_string (rq_params rq) ''request_id'' 40")
  case (Some rid)
  let ?entry = "deref_pending (ds_approvals st) (anything_approval_find (ds_approvals st) rid)"
  show ?thesis
  proof (cases "anything_approval_validate_for_execute ?entry
      (case ?entry of None \<Rightarrow> 0 | Some p \<Rightarrow> rq_hash (pending_to_request p)) (env_now env)")
    case (Inr u)
    with Some show ?thesis
      by (cases "anything_approval_find (ds_approvals st) rid"; cases ?entry)
        (simp_all add: handle_admin_execute_def Let_def audit_open_fails [OF assms])
  qed (use Some in \<open>simp add: handle_admin_execute_def Let_def\<close>)
qed (simp add: handle_admin_execute_def)

text \<open>C8: while the audit log cannot be opened, no request on either socket runs the tool; the tool
  socket admits nothing, and every request the parser accepts there is answered with the audit
  error alone.\<close>

theorem no_audit_no_execution:
  assumes "io_open (env_audit env 0) \<noteq> Opened True"
  shows "fst (handle_tool_request st env caller body len) = st \<and>
     snd (handle_tool_request st env caller body len) =
       (case anything_rpc_parse (Some body) len of
          Inl e \<Rightarrow> send_invalid ''null'' ''invalid_request'' (rpc_error_text e)
        | Inr rq \<Rightarrow> [Audit (received_event rq caller) False [],
            error_reply (rq_id rq) (- 32050) ''audit_failed'' ''audit write failed'']) \<and>
     quiet (snd (handle_admin_request st env admin body len))"
proof -
  have "quiet (snd (decide_entry st env admin rid i outcome code refusal event decision json))"
    for rid i outcome code refusal event decision json
    by (simp add: decide_entry_def Let_def audit_open_fails [OF assms] split: sum.split option.split)
  then have "quiet (snd (handle_admin_request st env admin body len))"
    using execute_needs_audit [OF assms]
    by (simp add: handle_admin_request_def Let_def audit_open_fails [OF assms] split: sum.split option.split)
  then show ?thesis
    by (simp add: handle_tool_request_def audit_open_fails [OF assms] split: sum.split)
qed

definition broken_env :: daemon_env where
  "broken_env = sample_env\<lparr>env_audit := \<lambda>n. sample_io\<lparr>io_open := Open_failed False\<rparr>\<rparr>"

theorem no_audit_no_execution_witness:
  "fst (handle_tool_request start_state broken_env sample_identity
     (make_request ''sys-info'' ''s1'' 2048) (length (make_request ''sys-info'' ''s1'' 2048))) = start_state \<and>
   snd (handle_tool_request start_state broken_env sample_identity
     (make_request ''sys-info'' ''s1'' 2048) (length (make_request ''sys-info'' ''s1'' 2048))) =
     [Audit (received_event (client_rpc ''sys-info'' ''sys.info'' ''s1'') sample_identity) False [],
      error_reply ''1'' (- 32050) ''audit_failed'' ''audit write failed'']"
proof -
  have b: "io_open (env_audit broken_env 0) \<noteq> Opened True" by (simp add: broken_env_def)
  have p: "anything_rpc_parse (Some (make_request ''sys-info'' ''s1'' 2048))
      (length (make_request ''sys-info'' ''s1'' 2048)) = Inr (client_rpc ''sys-info'' ''sys.info'' ''s1'')"
    by (rule client_line_parsed) (simp_all add: client_method_def)
  show ?thesis
    using no_audit_no_execution [OF b, of start_state sample_identity "make_request ''sys-info'' ''s1'' 2048"
        "length (make_request ''sys-info'' ''s1'' 2048)"] unfolding p by simp
qed

text \<open>C30: an approval is stored before it is recorded: when the log cannot be opened, the
  administrator gets the audit error, nothing is written, and the entry is granted all the same.\<close>

theorem grant_survives_audit_failure:
  assumes "daemon_reaches cfg st tr" "i < length (pending (ds_approvals st))" "p = pending (ds_approvals st) ! i"
    "session_config cfg" "anything_config_identity_is_admin cfg admin" "pd_status p = APPROVAL_PENDING"
    "env_now env \<le> pd_expires_at p" "\<not> anything_identity_same (pd_requester p) admin"
    "io_open (env_audit env 0) \<noteq> Opened True"
  shows "\<exists>st' ev. accept_one st (client_connection env admin ''approve'' (pd_request_id p)) SOCKET_ADMIN =
      Some (st', [Audit ev False [], error_reply ''1'' (- 32050) ''audit_failed'' ''audit write failed'']) \<and>
    pending (ds_approvals st') =
      (pending (ds_approvals st))[i := p\<lparr>pd_approver := admin, pd_status := APPROVAL_GRANTED\<rparr>]"
proof -
  have "anything_approval_grant (Some p) admin (env_now env) =
      Inr (p\<lparr>pd_approver := admin, pd_status := APPROVAL_GRANTED\<rparr>)"
    using assms(6-8) by (simp add: grant_Inr)
  from approve_received [OF assms(1-5) this refl] show ?thesis
    by (simp add: audit_open_fails [OF assms(9)])
qed

lemma sample_admitted:
  obtains st es p where "daemon_reaches example_config st es" "pending (ds_approvals st) = [p]"
    "accept_one start_state (client_connection sample_env sample_identity ''sys-info'' ''s1'') SOCKET_TOOL = Some (st, es)"
    "pd_requester p = sample_identity" "pd_status p = APPROVAL_PENDING" "0 \<le> pd_expires_at p"
proof -
  have len: "length (pending (ds_approvals start_state)) = 0"
    by (simp add: start_state_def anything_approval_store_init_def)
  have log: "log_works sample_env" using sample_env_works by (simp add: session_env_def)
  have plain: "\<forall>c \<in> set ''s1''. plain_char c" by simp
  have ttl: "0 \<le> approval_ttl_seconds example_config"
    by (simp add: example_config_def anything_config_init_def)
  have "length ''s1'' < 64" by simp
  from request_admitted [OF start_reached len _ sample_config_works log plain this, of sample_identity]
  obtain st es p where r: "accept_one start_state (client_connection sample_env sample_identity ''sys-info'' ''s1'') SOCKET_TOOL = Some (st, es)"
    "daemon_reaches example_config st ([] @ es)"
    "pending (ds_approvals st) = pending (ds_approvals start_state) @ [p]" "pd_requester p = sample_identity"
    "pd_status p = APPROVAL_PENDING" "pd_expires_at p = env_now sample_env + approval_ttl_seconds example_config"
    by auto
  from len r(3) have "pending (ds_approvals st) = [p]" by simp
  moreover have "0 \<le> pd_expires_at p" using r(6) ttl by (simp add: sample_env_def)
  ultimately show ?thesis using r that by simp
qed

theorem grant_survives_audit_failure_witness:
  "\<exists>st tr st' ev p. daemon_reaches example_config st tr \<and> pending (ds_approvals st) = [p] \<and>
     accept_one st (client_connection broken_env other_identity ''approve'' (pd_request_id p)) SOCKET_ADMIN =
       Some (st', [Audit ev False [], error_reply ''1'' (- 32050) ''audit_failed'' ''audit write failed'']) \<and>
     pending (ds_approvals st') = [p\<lparr>pd_approver := other_identity, pd_status := APPROVAL_GRANTED\<rparr>]"
proof -
  obtain st es p where r: "daemon_reaches example_config st es" "pending (ds_approvals st) = [p]"
    and p: "pd_requester p = sample_identity" "pd_status p = APPROVAL_PENDING" "0 \<le> pd_expires_at p"
    by (rule sample_admitted)
  have b: "io_open (env_audit broken_env 0) \<noteq> Opened True" "env_now broken_env \<le> pd_expires_at p"
    using p(3) by (simp_all add: broken_env_def sample_env_def)
  have i: "0 < length (pending (ds_approvals st))" "p = pending (ds_approvals st) ! 0" using r(2) by simp_all
  have n: "\<not> anything_identity_same (pd_requester p) other_identity" using sample_requester(2) p(1) by simp
  from grant_survives_audit_failure [OF r(1) i sample_config_works sample_admin p(2) b(2) n b(1)]
  show ?thesis using r by auto
qed

section \<open>Replies\<close>

text \<open>The texts of the system's errors are short, as those of \<open>strerror\<close> are.\<close>

definition short_errors :: "connection \<Rightarrow> bool" where
  "short_errors con \<longleftrightarrow>
     (\<forall>e. con_cred con = Inl e \<longrightarrow> length (escape e) < 200) \<and>
     (\<forall>tv e. con_setsockopt con tv = Some e \<longrightarrow> length (escape e) < 200) \<and>
     (\<forall>(now, r) \<in> set (con_turns con). \<forall>e. r = Failed e \<longrightarrow> length (escape e) < 200)"

lemma length_le_escape: "length s \<le> length (escape s)"
proof -
  have "Suc 0 \<le> length (esc_char c)" for c by (simp add: esc_char_def)
  then show ?thesis by (induction s) (simp_all add: escape_def add_mono [of "Suc 0", simplified])
qed

lemma failed_text_fits:
  "length (escape e) < 200 \<Longrightarrow> length (escape what) \<le> 30 \<Longrightarrow> length (escape (snprintf 256 (what @ e))) < 256"
  using length_le_escape [of e] length_le_escape [of what] by (simp add: snprintf_id)

lemma read_failed_turn:
  "read_loop started m d buf turns = Some (Inl err) \<Longrightarrow>
   err = Deadline_exceeded \<or> (\<exists>now e. err = Read_failed e \<and> (now, Failed e) \<in> set turns)"
proof (induction turns arbitrary: buf)
  case (Cons t turns)
  obtain now r where t: "t = (now, r)" by (cases t) blast
  show ?case
    using Cons.prems t by (cases r; cases now) (auto simp: Let_def split: if_splits dest: Cons.IH)
qed (simp split: if_splits)

lemma read_error_fits:
  assumes "short_errors con" "anything_transport_read_request s m d (con_turns con) e = Some (Inl err)"
  shows "length (escape (transport_error_text err)) < 256"
proof -
  from assms(2) have "err = Deadline_exceeded \<or> err = Request_too_large \<or>
      read_loop s m d [] (con_turns con) = Some (Inl err)"
    by (auto simp: anything_transport_read_request_def split: option.splits sum.splits if_splits)
  with read_failed_turn [of s m d "[]" "con_turns con" err] consider "err = Deadline_exceeded"
    | "err = Request_too_large" | now what where "err = Read_failed what" "(now, Failed what) \<in> set (con_turns con)"
    by blast
  then show ?thesis
  proof cases
    case 3
    with assms(1) have "length (escape what) < 200" by (auto simp: short_errors_def)
    with 3 show ?thesis using failed_text_fits [of what "''read failed: ''"] by simp
  qed simp_all
qed


lemma accept_errors_answered:
  assumes "short_errors con"
  shows "con_cred con = Inl e \<Longrightarrow>
      answered (send_invalid ''null'' ''control_plane_denied'' (transport_error_text (Peercred_failed e)))"
    and "con_setsockopt con tv = Some e \<Longrightarrow>
      answered (send_invalid ''null'' ''resource_limit'' (transport_error_text (Rcvtimeo_failed e)))"
proof -
  assume "con_cred con = Inl e"
  with assms have "length (escape e) < 200" by (simp add: short_errors_def)
  from failed_text_fits [OF this, of "''SO_PEERCRED failed: ''"]
  show "answered (send_invalid ''null'' ''control_plane_denied'' (transport_error_text (Peercred_failed e)))"
    by (intro invalid_answered) simp_all
next
  assume "con_setsockopt con tv = Some e"
  with assms have "length (escape e) < 200" by (cases tv) (simp add: short_errors_def)
  from failed_text_fits [OF this, of "''SO_RCVTIMEO failed: ''"]
  show "answered (send_invalid ''null'' ''resource_limit'' (transport_error_text (Rcvtimeo_failed e)))"
    by (intro invalid_answered) simp_all
qed

lemma accept_one_cases:
  assumes "accept_one st con plane = Some (st', es)" "con_accepted con" "short_errors con"
  shows "answered es \<or>
     (\<exists>peer body. (st', es) = handle_tool_request st (con_env con) peer body (length body)) \<or>
     (\<exists>peer body. (st', es) = handle_admin_request st (con_env con) peer body (length body))"
proof (cases "con_cred con")
  case (Inl e)
  with assms show ?thesis using accept_errors_answered(1) [OF assms(3) Inl]
    by (simp add: accept_one_def anything_transport_peer_identity_def)
next
  case (Inr c)
  obtain uid gid pid where c: "c = (uid, gid, pid)" by (cases c) blast
  show ?thesis
  proof (cases "con_setsockopt con (timeval_of_ms (read_timeout_ms (ds_config st)))")
    case (Some e)
    with assms c Inr show ?thesis using accept_errors_answered(2) [OF assms(3) Some]
      by (simp add: accept_one_def anything_transport_peer_identity_def anything_transport_set_read_timeout_def)
  next
    case None
    have "answered (send_invalid ''null'' ''resource_limit'' ''allocation failed'')"
      by (rule invalid_answered) simp_all
    moreover have "answered (send_invalid ''null'' ''resource_limit'' (transport_error_text e))"
      if "anything_transport_read_request s m d (con_turns con) t = Some (Inl e)" for s m d t e
      using read_error_fits [OF assms(3) that] by (intro invalid_answered) simp_all
    moreover have "accept_one st con plane =
        (if \<not> con_calloc con then Some (st, send_invalid ''null'' ''resource_limit'' ''allocation failed'')
         else case anything_transport_read_request (con_started con) (max_request_bytes (ds_config st))
                (read_timeout_ms (ds_config st)) (con_turns con) (con_ended con) of
              None \<Rightarrow> None
            | Some (Inl e) \<Rightarrow> Some (st, send_invalid ''null'' ''resource_limit'' (transport_error_text e))
            | Some (Inr body) \<Rightarrow> Some
                (if plane = SOCKET_TOOL
                 then handle_tool_request st (con_env con) \<lparr>id_uid = uid, id_gid = gid, id_pid = pid\<rparr> body (length body)
                 else handle_admin_request st (con_env con) \<lparr>id_uid = uid, id_gid = gid, id_pid = pid\<rparr> body (length body)))"
      using None c Inr assms(2)
      by (simp add: accept_one_def anything_transport_peer_identity_def anything_transport_set_read_timeout_def)
    ultimately show ?thesis using assms(1)
      by (simp split: if_splits option.splits sum.splits) metis+
  qed
qed

text \<open>C9: every accepted connection whose read returns gets exactly one reply, as the last thing done
  for it, and the reply is one complete JSON object on a line; the one exception is a listing that
  fits its own buffer but not the reply's, which is sent cut off, as a prefix of 4095 bytes.\<close>

theorem requests_always_answered:
  assumes "daemon_reaches cfg st tr" "accept_one st con plane = Some (st', es)" "con_accepted con"
    "short_errors con" "\<bar>env_now (con_env con) + approval_ttl_seconds cfg\<bar> < 2 ^ 63"
  shows "answered es \<or>
     (\<exists>body rq. anything_rpc_parse (Some body) (length body) = Inr rq \<and> truncated_listing (ds_approvals st) rq es)"
proof -
  note cfg = daemon_reaches_config [OF assms(1)]
  have inv: "store_inv (ds_config st) (ds_approvals st)" using daemon_reaches_inv [OF assms(1)] cfg by simp
  have "\<bar>env_now (con_env con) + approval_ttl_seconds (ds_config st)\<bar> < 10 ^ 19" using assms(5) cfg by simp
  note tool = tool_plane.answers [OF inv this] and admin = admin_plane.answers [OF inv this]
  from accept_one_cases [OF assms(2-4)] show ?thesis
  proof (elim disjE exE)
    fix peer body
    assume "(st', es) = handle_tool_request st (con_env con) peer body (length body)"
    with tool [of peer body "length body"] show ?thesis by (metis snd_conv)
  next
    fix peer body
    assume "(st', es) = handle_admin_request st (con_env con) peer body (length body)"
    with admin [of peer body "length body"] show ?thesis by (metis snd_conv)
  qed simp
qed

theorem requests_always_answered_witness:
  "\<exists>st es. accept_one start_state (client_connection sample_env sample_identity ''sys-info'' ''s1'') SOCKET_TOOL =
      Some (st, es) \<and> answered es"
proof -
  obtain st es p where a: "accept_one start_state
      (client_connection sample_env sample_identity ''sys-info'' ''s1'') SOCKET_TOOL = Some (st, es)"
    by (rule sample_admitted)
  have not_truncated: "\<not> truncated_listing (ds_approvals start_state) rq es"
    if "anything_rpc_parse (Some body) n = Inr rq" for body n rq
    using request_id_fits [OF rpc_parse_ok [OF that]]
    by (simp add: truncated_listing_def length_result_object start_state_def
        anything_approval_store_init_def list_object_def json_object_def json_array_def member_def)
  let ?con = "client_connection sample_env sample_identity ''sys-info'' ''s1''"
  have con: "con_accepted ?con" "short_errors ?con"
    by (simp_all add: client_connection_def line_connection_def short_errors_def)
  have "\<bar>env_now (con_env ?con) + approval_ttl_seconds example_config\<bar> < 2 ^ 63"
    by (simp add: client_connection_def line_connection_def sample_env_def example_config_def
        anything_config_init_def)
  from requests_always_answered [OF start_reached a con this] not_truncated a show ?thesis by blast
qed

end
