(* ===== verification/Daemon_Limits.thy ===== *)
theory Daemon_Limits
  imports Daemon_Planes
begin

text \<open>
  Properties of the daemon as a process: its start, its loop and its end, the time one connection
  can take, and the limits of the approval store: it is never emptied, and its listing stops
  fitting the buffer long before the store is full.
\<close>

section \<open>Start, loop and end\<close>

lemma daemon_args_allow:
  "daemon_args args path allow = (p, a) \<Longrightarrow> a = (allow \<or> ''--dev-insecure-admin'' \<in> set args)"
  by (induction args path allow rule: daemon_args.induct) (auto split: if_splits)

lemma listen_Inr:
  "anything_transport_listen calls path mode = (Inr s, effs) \<Longrightarrow>
   length path < 108 \<and> effs = [Unlinked path, Bound path, Mode_set path mode, Listening path 16]"
  by (auto simp: anything_transport_listen_def Let_def snprintf_id split: option.splits if_splits)

lemma daemon_start_Serving:
  assumes "daemon_start env argv = Some (Serving st, effs)"
  obtains path allow where "daemon_args (tl argv) ''config/anythingd.example.toml'' False = (path, allow)"
    "anything_config_load_with_options (su_file env path) allow = Inr (ds_config st)"
    "anything_audit_validate_startup (su_realpath env) (su_is_dir env) (su_open_log env) (ds_config st) = Some (Inr ())"
    "st = \<lparr>ds_config = ds_config st, ds_approvals = anything_approval_store_init\<rparr>"
    "effs = concat (map (\<lambda>s. [Unlinked s, Bound s, Mode_set s 384, Listening s 16])
       [tool_socket_path (ds_config st), admin_socket_path (ds_config st)])"
proof -
  obtain path allow where args: "daemon_args (tl argv) ''config/anythingd.example.toml'' False = (path, allow)"
    by fastforce
  with assms obtain cfg where cfg: "anything_config_load_with_options (su_file env path) allow = Inr cfg"
    by (auto simp: daemon_start_def split: sum.splits)
  with assms args have audit: "anything_audit_validate_startup (su_realpath env) (su_is_dir env) (su_open_log env) cfg =
      Some (Inr ())"
    by (auto simp: daemon_start_def split: option.splits sum.splits prod.splits)
  obtain r1 e1 where tool: "anything_transport_listen (su_tool_socket env) (tool_socket_path cfg) 384 = (r1, e1)"
    by fastforce
  obtain r2 e2 where admin: "anything_transport_listen (su_admin_socket env) (admin_socket_path cfg) 384 = (r2, e2)"
    by fastforce
  from assms args cfg audit tool admin obtain s1 s2 where "r1 = Inr s1" "r2 = Inr s2"
    "st = \<lparr>ds_config = cfg, ds_approvals = anything_approval_store_init\<rparr>" "effs = e1 @ e2"
    by (cases r1; cases r2) (auto simp: daemon_start_def)
  with that args cfg audit listen_Inr [of "su_tool_socket env" "tool_socket_path cfg" 384 s1 e1]
    listen_Inr [of "su_admin_socket env" "admin_socket_path cfg" 384 s2 e2] tool admin
  show ?thesis by simp
qed

lemma accept_ready_reaches:
  assumes "daemon_reaches cfg st tr" "accept_ready st ready plane = Some (st', es)"
  shows "daemon_reaches cfg st' (tr @ es)"
  using assms by (cases ready) (auto simp: accept_ready_def intro: dr_step)

lemma serve_reaches:
  "daemon_reaches cfg st tr \<Longrightarrow> serve st turns = Some (st', es) \<Longrightarrow> daemon_reaches cfg st' (tr @ es)"
proof (induction st turns arbitrary: tr es rule: serve.induct)
  case (3 state tool admin turns)
  from 3(3) obtain st1 es1 st2 es2 es3 where a: "accept_ready state tool SOCKET_TOOL = Some (st1, es1)"
    "accept_ready st1 admin SOCKET_ADMIN = Some (st2, es2)" "serve st2 turns = Some (st', es3)"
    "es = es1 @ es2 @ es3"
    by (auto split: option.splits)
  have "daemon_reaches cfg st2 ((tr @ es1) @ es2)"
    using accept_ready_reaches [OF accept_ready_reaches [OF 3(2) a(1)] a(2)] .
  from 3(1) [OF a(1) refl a(2) refl this a(3)] show ?case by (simp add: a(4))
qed simp_all

text \<open>C11: a daemon that starts serving has loaded and validated its configuration, with the
  insecure mode only where its flag was given, and checked its log; it has an empty store and two
  different sockets, each removed, bound, given mode 0600 (the call of \<open>chmod\<close>, whose result the
  code ignores) and only then listened on.\<close>

theorem startup_serves_safely:
  assumes "daemon_start env argv = Some (Serving st, effs)"
  shows "valid_config (ds_config st) (''--dev-insecure-admin'' \<in> set (tl argv)) \<and> config_fits (ds_config st) \<and>
     (require_admin_allowlist (ds_config st) \<or> ''--dev-insecure-admin'' \<in> set (tl argv)) \<and>
     anything_audit_validate_startup (su_realpath env) (su_is_dir env) (su_open_log env) (ds_config st) = Some (Inr ()) \<and>
     pending (ds_approvals st) = [] \<and>
     tool_socket_path (ds_config st) \<noteq> admin_socket_path (ds_config st) \<and>
     effs = concat (map (\<lambda>s. [Unlinked s, Bound s, Mode_set s 384, Listening s 16])
       [tool_socket_path (ds_config st), admin_socket_path (ds_config st)])"
proof -
  from daemon_start_Serving [OF assms] obtain path allow where
    s: "daemon_args (tl argv) ''config/anythingd.example.toml'' False = (path, allow)"
      "anything_config_load_with_options (su_file env path) allow = Inr (ds_config st)"
      "anything_audit_validate_startup (su_realpath env) (su_is_dir env) (su_open_log env) (ds_config st) = Some (Inr ())"
      "st = \<lparr>ds_config = ds_config st, ds_approvals = anything_approval_store_init\<rparr>"
      "effs = concat (map (\<lambda>s. [Unlinked s, Bound s, Mode_set s 384, Listening s 16])
         [tool_socket_path (ds_config st), admin_socket_path (ds_config st)])" by blast
  have allow: "allow = (''--dev-insecure-admin'' \<in> set (tl argv))"
    using daemon_args_allow [OF s(1)] by simp
  have valid: "valid_config (ds_config st) (''--dev-insecure-admin'' \<in> set (tl argv))"
    using s(2) unfolding allow by (auto simp: load_Inr)
  moreover have "config_fits (ds_config st)" by (rule load_fits [OF s(2)])
  moreover have "ds_approvals st = anything_approval_store_init" using s(4) by (metis daemon_state.select_convs(2))
  ultimately show ?thesis using s(3,5)
    by (auto simp: valid_config_def anything_approval_store_init_def)
qed

definition sample_startup :: startup_env where
  "sample_startup = \<lparr>su_file = (\<lambda>path. Some example_toml), su_realpath = (\<lambda>path. None), su_is_dir = (\<lambda>path. True),
     su_open_log = Opened True, su_tool_socket = \<lparr>call_socket = None, call_bind = None, call_listen = None\<rparr>,
     su_admin_socket = \<lparr>call_socket = None, call_bind = None, call_listen = None\<rparr>\<rparr>"

lemma sample_starts:
  obtains effs where "daemon_start sample_startup [''anythingd''] = Some (Serving start_state, effs)"
proof -
  have "audit_log_path example_config = ''/tmp/anything-audit.jsonl''"
    by (simp add: example_config_def anything_config_init_def snprintf_def)
  then have "anything_audit_validate_startup (\<lambda>path. None) (\<lambda>path. True) (Opened True) example_config = Some (Inr ())"
    by (simp add: anything_audit_validate_startup_def open_audit_fd_Inr example_config_def snprintf_def)
  moreover have "length (tool_socket_path example_config) < 108" "length (admin_socket_path example_config) < 108"
    by (simp_all add: example_config_def anything_config_init_def snprintf_def)
  ultimately show ?thesis
    using that example_loads_any
    by (simp add: daemon_start_def sample_startup_def start_state_def anything_transport_listen_def Let_def)
qed

theorem startup_serves_safely_witness:
  "valid_config (ds_config start_state) False \<and> pending (ds_approvals start_state) = []"
proof -
  obtain effs where s: "daemon_start sample_startup [''anythingd''] = Some (Serving start_state, effs)"
    by (rule sample_starts)
  from startup_serves_safely [OF s] show ?thesis by simp
qed

text \<open>C10: a run of the daemon that ends either stopped before serving, with status 2 and no
  connection handled, or ended with status 0: then all it did is a trace of the daemon under a
  valid configuration, and both sockets were removed at the end.\<close>

theorem daemon_run_is_reachable:
  assumes "daemon_main env argv turns = Some (status, es, effs)"
  shows "(status = 2 \<and> es = []) \<or>
     (status = 0 \<and> (\<exists>cfg st effs'. valid_config cfg (''--dev-insecure-admin'' \<in> set (tl argv)) \<and>
        daemon_reaches cfg st es \<and>
        effs = effs' @ [Closed, Closed, Unlinked (tool_socket_path cfg), Unlinked (admin_socket_path cfg)]))"
proof -
  from assms obtain su effs' where start: "daemon_start env argv = Some (su, effs')"
    by (auto simp: daemon_main_def split: option.splits)
  show ?thesis
  proof (cases su)
    case (Serving st)
    with start assms obtain st' where s: "serve st turns = Some (st', es)" "status = 0"
      "effs = effs' @ [Closed, Closed, Unlinked (tool_socket_path (ds_config st)), Unlinked (admin_socket_path (ds_config st))]"
      by (auto simp: daemon_main_def anything_transport_cleanup_socket_def split: option.splits)
    from start Serving have serving: "daemon_start env argv = Some (Serving st, effs')" by simp
    from daemon_start_Serving [OF serving] obtain path allow where
      d: "daemon_args (tl argv) ''config/anythingd.example.toml'' False = (path, allow)"
        "anything_config_load_with_options (su_file env path) allow = Inr (ds_config st)"
        "st = \<lparr>ds_config = ds_config st, ds_approvals = anything_approval_store_init\<rparr>" by blast
    have "valid_config (ds_config st) (''--dev-insecure-admin'' \<in> set (tl argv))"
      using d(2) daemon_args_allow [OF d(1)] by (auto simp: load_Inr)
    moreover have "daemon_reaches (ds_config st) st []" by (subst (2) d(3)) (rule dr_start)
    from serve_reaches [OF this s(1)] have "daemon_reaches (ds_config st) st' es" by simp
    ultimately show ?thesis using s(2,3) by blast
  qed (use assms start in \<open>auto simp: daemon_main_def\<close>)
qed

theorem daemon_run_is_reachable_witness:
  "\<exists>es effs. daemon_main sample_startup [''anythingd''] [Idle, Ready None None] = Some (0, es, effs) \<and>
     (\<exists>cfg st. valid_config cfg False \<and> daemon_reaches cfg st es)"
proof -
  obtain effs where s: "daemon_start sample_startup [''anythingd''] = Some (Serving start_state, effs)"
    by (rule sample_starts)
  have m: "daemon_main sample_startup [''anythingd''] [Idle, Ready None None] = Some (0, [],
      effs @ [Closed, Closed] @ anything_transport_cleanup_socket (tool_socket_path (ds_config start_state)) @
        anything_transport_cleanup_socket (admin_socket_path (ds_config start_state)))"
    using s by (simp add: daemon_main_def accept_ready_def)
  from daemon_run_is_reachable [OF m] m show ?thesis by auto
qed

section \<open>The time of a connection\<close>

text \<open>C18: no peer can hold the single-threaded daemon: once a turn of the read starts after the
  configured timeout, the connection is finished, whatever was sent.\<close>

theorem connection_ends_at_deadline:
  assumes "(now, r) \<in> set (con_turns con)"
    and "read_timeout_ms (ds_config st) < elapsed_ms_since (con_started con) now"
  shows "\<exists>st' es. accept_one st con plane = Some (st', es)"
proof -
  have "\<exists>t \<in> set (con_turns con). late (con_started con) (read_timeout_ms (ds_config st)) (fst t)"
    using assms by (force simp: late_def)
  note read_loop_late [OF this, of "max_request_bytes (ds_config st)" "[]"]
  then have "anything_transport_read_request (con_started con) (max_request_bytes (ds_config st))
      (read_timeout_ms (ds_config st)) (con_turns con) (con_ended con) \<noteq> None"
    by (auto simp: anything_transport_read_request_def split: option.splits sum.splits)
  then have "accept_one st con plane \<noteq> None"
    by (auto simp: accept_one_def split: option.splits sum.splits)
  then show ?thesis by auto
qed

theorem connection_ends_at_deadline_witness:
  "\<exists>st es. accept_one start_state ((line_connection sample_env sample_identity [])
     \<lparr>con_turns := [((0, 0), Data ''a''), ((3, 0), Interrupted)], con_ended := (3, 0)\<rparr>) SOCKET_TOOL = Some (st, es)"
  by (rule connection_ends_at_deadline [of "(3, 0)" Interrupted])
    (simp_all add: line_connection_def start_state_def example_config_def anything_config_init_def
      elapsed_ms_since_def cdiv_def)

end
