(* ===== verification/Store_Limits.thy ===== *)
theory Store_Limits
  imports Daemon_Limits
begin

text \<open>
  The limits of the approval store over the life of the daemon: entries are only ever added, a
  full store stays full, and the listing of the administrator fits its buffer for at most 32
  entries.
\<close>

section \<open>The store only grows\<close>

definition grows :: "daemon_state \<Rightarrow> daemon_state \<Rightarrow> bool" where
  "grows st st' \<longleftrightarrow> length (pending (ds_approvals st)) \<le> length (pending (ds_approvals st')) \<and>
     (\<forall>i < length (pending (ds_approvals st)).
        same_request (pending (ds_approvals st) ! i) (pending (ds_approvals st') ! i))"

lemma grows_refl: "grows st st"
  by (simp add: grows_def)

lemma grows_trans: "grows st st' \<Longrightarrow> grows st' st'' \<Longrightarrow> grows st st''"
  by (auto simp: grows_def intro: same_request_trans order_trans dest: order.strict_trans2)

lemma accept_one_grows:
  assumes "daemon_reaches cfg st tr" "accept_one st con plane = Some (st', es)"
  shows "grows st st'"
proof -
  have "protocol_step cfg (ds_approvals st) es (ds_approvals st')"
    using accept_one_step [OF assms(2)] daemon_reaches_config [OF assms(1)] by simp
  from protocol_step_entry [OF this daemon_reaches_inv [OF assms(1)]] show ?thesis
    by (simp add: grows_def)
qed

lemma accept_ready_grows:
  "daemon_reaches cfg st tr \<Longrightarrow> accept_ready st ready plane = Some (st', es) \<Longrightarrow> grows st st'"
  by (cases ready) (auto simp: accept_ready_def grows_refl intro: accept_one_grows)

lemma serve_grows:
  "daemon_reaches cfg st tr \<Longrightarrow> serve st turns = Some (st', es) \<Longrightarrow> grows st st'"
proof (induction st turns arbitrary: tr es rule: serve.induct)
  case (3 state tool admin turns)
  from 3(3) obtain st1 es1 st2 es2 es3 where a: "accept_ready state tool SOCKET_TOOL = Some (st1, es1)"
    "accept_ready st1 admin SOCKET_ADMIN = Some (st2, es2)" "serve st2 turns = Some (st', es3)"
    by (auto split: option.splits)
  note r1 = accept_ready_reaches [OF 3(2) a(1)]
  note r2 = accept_ready_reaches [OF r1 a(2)]
  from 3(1) [OF a(1) refl a(2) refl r2 a(3)] show ?case
    using grows_trans accept_ready_grows [OF 3(2) a(1)] accept_ready_grows [OF r1 a(2)] by blast
qed (simp_all add: grows_refl)

section \<open>A store with any number of entries\<close>

lemma filled_store:
  "n \<le> 64 \<Longrightarrow> \<exists>st tr. daemon_reaches example_config st tr \<and> length (pending (ds_approvals st)) = n"
proof (induction n)
  case 0
  have "length (pending (ds_approvals start_state)) = 0"
    by (simp add: start_state_def anything_approval_store_init_def)
  with start_reached show ?case by blast
next
  case (Suc n)
  then obtain st tr where r: "daemon_reaches example_config st tr" "length (pending (ds_approvals st)) = n" by auto
  have "n < 64" "log_works sample_env" "\<forall>c \<in> set ''s1''. plain_char c" "length ''s1'' < 64"
    using Suc.prems sample_env_works by (simp_all add: session_env_def)
  from request_admitted [OF r this(1) sample_config_works this(2-)] obtain st' tr' p where
    "daemon_reaches example_config st' tr'" "pending (ds_approvals st') = pending (ds_approvals st) @ [p]" by blast
  with r(2) show ?case by force
qed

text \<open>C29: the store is never emptied: whatever the daemon serves later, entries stay and keep their
  requests, so a store of 64 requests, used or expired as they may be, stays full and every later
  request on the tool socket is refused without effect on the store.\<close>

theorem full_store_is_final:
  assumes "daemon_reaches cfg st tr" "length (pending (ds_approvals st)) = 64" "serve st turns = Some (st', es)"
  shows "list_all2 same_request (pending (ds_approvals st)) (pending (ds_approvals st')) \<and>
     fst (handle_tool_request st' env caller body len) = st'"
proof -
  have inv: "store_inv cfg (ds_approvals st')" by (rule daemon_reaches_inv [OF serve_reaches [OF assms(1,3)]])
  then have "length (pending (ds_approvals st')) \<le> 64" by (simp add: store_inv_def ids_ok_def)
  with serve_grows [OF assms(1,3)] assms(2) have len: "length (pending (ds_approvals st')) = 64"
    and same: "list_all2 same_request (pending (ds_approvals st)) (pending (ds_approvals st'))"
    by (auto simp: grows_def list_all2_conv_all_nth)
  from tool_request_step [OF refl, of st' env caller body len] len
  have "fst (handle_tool_request st' env caller body len) = st'" by (auto simp: entry_added_def)
  with same show ?thesis ..
qed

theorem full_store_is_final_witness:
  "\<exists>st tr. daemon_reaches example_config st tr \<and> length (pending (ds_approvals st)) = 64 \<and>
     fst (handle_tool_request st sample_env sample_identity
       (make_request ''sys-info'' ''s1'' 2048) (length (make_request ''sys-info'' ''s1'' 2048))) = st"
proof -
  obtain st tr where r: "daemon_reaches example_config st tr" "length (pending (ds_approvals st)) = 64"
    using filled_store [of 64] by auto
  have "serve st [] = Some (st, [])" by simp
  from full_store_is_final [OF r this, of sample_env sample_identity] r show ?thesis by blast
qed

section \<open>The listing\<close>

lemma length_comma_sep: "xs \<noteq> [] \<Longrightarrow> length (comma_sep xs) + 1 = (\<Sum>x \<leftarrow> xs. length x + 1)"
  by (induction xs rule: comma_sep.induct) auto

definition entry_room :: "nat \<Rightarrow> nat" where
  "entry_room i = (if i < 9 then 122 else 123)"

lemma length_entry_nth:
  assumes "store_inv cfg st" "i < length (pending st)"
  shows "length (entry_object (pending st ! i)) = entry_room i"
proof -
  have ids: "ids_ok st" using assms(1) by (simp add: store_inv_def)
  have i: "i < 64" using ids assms(2) by (simp add: ids_ok_def)
  have "length (decimal (i + 1)) = (if i < 9 then 1 else 2)"
    using i by (subst decimal.simps) (auto simp: decimal.simps [of "Suc i div 10"])
  then show ?thesis
    using length_entry_object [of "pending st ! i"] store_inv_nth [OF assms] store_id_fits(1) [OF ids assms(2)]
      ids_ok_nth [OF ids assms(2)] by (simp add: entry_room_def)
qed

lemma length_list_object:
  assumes "store_inv cfg st"
  shows "length (list_object st) + (if pending st = [] then 0 else 1) = 14 + (\<Sum>i \<leftarrow> [0..<length (pending st)]. entry_room i + 1)"
proof (cases "pending st = []")
  case True
  then show ?thesis by (simp add: list_object_def json_object_def json_array_def member_def)
next
  case False
  have "map (\<lambda>p. length (entry_object p) + 1) (pending st) =
      map (\<lambda>i. entry_room i + 1) [0..<length (pending st)]"
    using length_entry_nth [OF assms] by (intro nth_equalityI) simp_all
  then have "(\<Sum>x \<leftarrow> map entry_object (pending st). length x + 1) = (\<Sum>i \<leftarrow> [0..<length (pending st)]. entry_room i + 1)"
    by (simp add: comp_def)
  with False length_comma_sep [of "map entry_object (pending st)"] show ?thesis
    by (simp add: list_object_def json_object_def json_array_def member_def)
qed

lemma room_mono: "m \<le> n \<Longrightarrow> (\<Sum>i \<leftarrow> [0..<m]. entry_room i + 1) \<le> (\<Sum>i \<leftarrow> [0..<n]. entry_room i + 1)"
  using upt_add_eq_append [of 0 m "n - m"] by simp

lemma room_values:
  "(\<Sum>i \<leftarrow> [0..<32]. entry_room i + 1) = 3959" "(\<Sum>i \<leftarrow> [0..<33]. entry_room i + 1) = 4083"
  by (simp_all add: upt_rec entry_room_def)

lemma list_object_bounds:
  assumes "store_inv cfg st"
  shows "length (pending st) \<le> 32 \<Longrightarrow> length (list_object st) \<le> 3973"
    and "32 < length (pending st) \<Longrightarrow> 4096 \<le> length (list_object st)"
  using length_list_object [OF assms] room_mono [of "length (pending st)" 32]
    room_mono [of 33 "length (pending st)"] room_values
  by (auto split: if_splits)

text \<open>C28: the client's \<open>pending\<close> command: an authorised administrator gets the whole listing, as one
  complete JSON object, while the store holds at most 32 requests; from 33 on, until the store is
  full at 64 and for ever after, the answer is an error, so the requests cannot be reviewed.\<close>

theorem listing_up_to_32:
  assumes "daemon_reaches cfg st tr" "session_config cfg" "anything_config_identity_is_admin cfg admin"
  shows "accept_one st (client_connection env admin ''pending'' []) SOCKET_ADMIN =
     Some (st, [Reply (Some ((if length (pending (ds_approvals st)) \<le> 32
        then result_object ''1'' (list_object (ds_approvals st))
        else error_object ''1'' (- 32000) ''resource_limit'' ''pending list too large'' []) @ [NL]))])"
proof -
  note cfg = daemon_reaches_config [OF assms(1)]
  note inv = daemon_reaches_inv [OF assms(1)]
  have m: "client_method ''pending'' = Some ''approval.list''" by (simp add: client_method_def)
  have plain: "\<forall>c \<in> set []. plain_char c" "length ([] :: char list) < 64" by simp_all
  have sizes: "256 \<le> max_request_bytes (ds_config st)" "0 \<le> read_timeout_ms (ds_config st)"
    using assms(2) cfg by (simp_all add: session_config_def)
  have auth: "authorised (ds_config st) admin" using assms(3) cfg by simp
  have "accept_one st (client_connection env admin ''pending'' []) SOCKET_ADMIN =
     Some (st, [if length (list_object (ds_approvals st)) < 4096 then result_reply ''1'' (list_object (ds_approvals st))
       else error_reply ''1'' (- 32000) ''resource_limit'' ''pending list too large''])"
    using client_received [OF m plain sizes, of env admin SOCKET_ADMIN]
      list_request_eq [OF inv client_line_parsed [OF m plain] auth] by simp
  moreover have "result_reply ''1'' (list_object (ds_approvals st)) =
      Reply (Some (result_object ''1'' (list_object (ds_approvals st)) @ [NL]))"
    if "length (list_object (ds_approvals st)) \<le> 3973"
    using that rpc_result_eq [of "''1''" "list_object (ds_approvals st)" 4096]
    by (simp add: result_reply_def snprintf_id length_result_object)
  moreover have "error_reply ''1'' (- 32000) ''resource_limit'' ''pending list too large'' =
      Reply (Some (error_object ''1'' (- 32000) ''resource_limit'' ''pending list too large'' [] @ [NL]))"
  proof -
    have "length (decimal_int (- 32000)) \<le> 6" using length_decimal_int [of "- 32000" 5] by simp
    then show ?thesis
      by (simp add: error_reply_def rpc_error_plain snprintf_id length_error_object)
  qed
  ultimately show ?thesis using list_object_bounds [OF inv] by auto
qed

theorem listing_up_to_32_witness:
  "\<exists>st tr. daemon_reaches example_config st tr \<and> length (pending (ds_approvals st)) = 33 \<and>
     accept_one st (client_connection sample_env other_identity ''pending'' []) SOCKET_ADMIN =
       Some (st, [Reply (Some (error_object ''1'' (- 32000) ''resource_limit'' ''pending list too large'' [] @ [NL]))])"
proof -
  obtain st tr where r: "daemon_reaches example_config st tr" "length (pending (ds_approvals st)) = 33"
    using filled_store [of 33] by auto
  from listing_up_to_32 [OF r(1) sample_config_works sample_admin, of sample_env] r show ?thesis by auto
qed

end
