(* ===== verification/Spec2Isabelle.thy ===== *)
theory Spec2Isabelle
  imports Store_Limits
begin

text \<open>
  Development of the local agent tool layer \<open>anythingd\<close>: a daemon that lets an agent ask for
  a tool on one Unix socket and makes every use of it wait for the approval of an administrator
  on another, with an audit log, and its client \<open>anythingctl\<close>.  Everything under
  \<open>src/common\<close>, \<open>src/daemon\<close>, \<open>src/tools\<close> and \<open>src/cli\<close> is modelled.

  \<^bold>\<open>The parts and how they interact.\<close>  A connection is accepted, its peer identified and its request
  read within a deadline (\<open>transport.c\<close>); the request is parsed (\<open>rpc.c\<close>) and, on the tool
  socket, put to the policy (\<open>policy.c\<close>) and into the approval store (\<open>approval.c\<close>); on the
  admin socket an identity of the configuration's allowlist (\<open>config.c\<close>) lists, approves,
  rejects or executes the stored requests, and an execution runs the tool (\<open>sys_info.c\<close>).  Each
  step writes a record to the log (\<open>audit.c\<close>) and each request gets a reply; both are JSON texts
  built with the escaping of \<open>json.c\<close>.  \<open>anythingd.c\<close> composes them; \<open>anythingctl.c\<close> is the other
  end of the sockets.

  \<^bold>\<open>Theories and sources.\<close>
    \<^item> \<open>Prelude\<close>: C strings, \<open>snprintf\<close>, \<open>strtol\<close>, decimal numbers, lists; \<open>Json_Grammar\<close>: the
      grammar of JSON, the reference everything printed is compared with.
    \<^item> \<open>Json\<close>: \<open>src/common/json.c\<close>.
    \<^item> \<open>Rpc_Scan\<close>, \<open>Rpc\<close>: \<open>src/common/rpc.c\<close>; facts in \<open>Rpc_Props\<close> (parsed requests, the hash),
      \<open>Rpc_Replies\<close> (the reply printers), \<open>Rpc_Requests\<close> (the parser against an abstract reading).
    \<^item> \<open>Config\<close>: \<open>identity.h\<close>, \<open>config.h\<close>, \<open>src/common/config.c\<close>; facts in \<open>Config_Props\<close>.
    \<^item> \<open>Policy\<close>: \<open>src/common/policy.c\<close>.
    \<^item> \<open>Approval\<close>: \<open>src/common/approval.c\<close>; facts in \<open>Approval_Props\<close>.
    \<^item> \<open>Audit_Log\<close>: \<open>src/common/audit.c\<close>; facts in \<open>Audit_Props\<close>.
    \<^item> \<open>Transport\<close>: \<open>src/common/transport.c\<close>; facts in \<open>Transport_Props\<close>.
    \<^item> \<open>Sys_Info\<close>: \<open>src/tools/sys_info.c\<close>.
    \<^item> \<open>Client\<close>: \<open>src/cli/anythingctl.c\<close>.
    \<^item> \<open>Daemon\<close>: \<open>src/daemon/anythingd.c\<close>; facts in \<open>Daemon_Refines\<close>, \<open>Daemon_Replies\<close>,
      \<open>Daemon_Props\<close>; properties in \<open>Daemon_Theorems\<close>, \<open>Daemon_Planes\<close>, \<open>Daemon_Limits\<close>,
      \<open>Store_Limits\<close>.
    \<^item> \<open>Protocol\<close>, \<open>Protocol_Props\<close>: the abstract specification of the daemon.
    \<^item> \<open>Session\<close> and this theory: the client and the daemon together.

  \<^bold>\<open>State and operations.\<close>  A definition has the name of the function or type it models; loops and
  long bodies are split into named parts.  A struct is a record; an array with a count is the list
  of its first elements; a pointer into the store is an index; a C string is the list of its
  characters before the NUL; identifiers of processes and users and the request hash are machine
  words, and the other numbers are \<open>int\<close> or \<open>nat\<close> with the conversions of the code written out.
  An error text is a constructor of an error type, with a function that gives the text.  A buffer
  that is too small is what the code makes of it: a truncation, an error, or None where the code
  overruns it.  What the operating system answers (clock, files, sockets, \<open>uname\<close>) is an
  argument, so that every theorem holds whatever it answers.  A handler of the daemon returns its new state and
  the list of its effects (audit records, runs of the tool, replies) in order; \<open>daemon_reaches\<close> is
  the set of states and traces over all connections, and \<open>serve\<close>, the poll loop, stays inside it.

  \<^bold>\<open>What is shown.\<close>  The printers produce JSON and are unambiguous; the parser computes the abstract
  reading of a request (\<open>abstract_request\<close>, which scans no text), errors included; the scanners, as
  instances of one interface, always move forward and so end.  The start-up checks of the log
  decide, for paths that resolve, whether it lies in a writable directory, component by component.
  The operations on the store keep its frame and refine the life cycle of an entry.  Each
  connection is one step of \<open>Protocol\<close>, whose invariants carry over: a run of the tool was recorded,
  granted before by another, authorised identity, and happens successfully at most once.  Each
  socket allows only what it should, each request is answered, a failing log stops executions, a
  connection ends.  Conversely a session of the client completes when the system works.  Where
  the code does not do what it means to, the property states what it does (the grant that survives
  the failure of its record, the listing that ends at 32 requests, the full store, the log that is
  checked only once it exists, the unterminated request, and others).

  \<^bold>\<open>Bounds and termination.\<close>  No model needs fuel: the scanners recurse on the text they consume, the
  read and write loops on the list of the answers of the system.  A list of answers that ends
  before the loop does stands for a call that has not returned, and the result is None; that the
  read returns once its deadline has passed is proved (\<open>connection_ends_at_deadline\<close>).

  \<^bold>\<open>Not modelled.\<close>  Messages on the error stream and the client's usage text; signals, beyond ending
  the loop between two turns (\<open>SIGPIPE\<close> is not handled by the code: a peer that goes away before its
  reply can end the daemon, which the model does not show); the fate of a reply once it is handed
  to \<open>anything_transport_write_response\<close> (that function has its own properties, and its result is
  ignored); the modes of files as the kernel keeps them (\<open>Mode_set\<close> is the call of \<open>chmod\<close>, whose result the code
  ignores, not its success); the tests, scripts and build
  files.  The two configuration files of the repository are constants, evaluated in
  \<open>Config_Props\<close>.
\<close>

section \<open>Across the components\<close>

text \<open>C4: from any reachable state with room, under an ordinary configuration and while the system
  calls succeed and the approval has not expired, the three commands of the client complete: the
  request is admitted, another listed identity approves it, its execution runs the tool and marks
  the entry, and the client prints the reply of the daemon with the tool's JSON object.\<close>

theorem session_completes:
  assumes "daemon_reaches cfg st tr" "length (pending (ds_approvals st)) = n" "n < 64"
    "session_config cfg" "session_env cfg env1 env2 env3"
    "\<forall>c \<in> set session. plain_char c" "length session < 64"
    "anything_config_identity_is_admin cfg admin" "\<not> anything_identity_same requester admin"
    "anything_sys_info_json (env_sys env3) 2048 = Inr json"
    and "rid = ''req_'' @ decimal (n + 1)" "reply = result_object ''1'' json @ [NL]" "connect (take 107 path)"
  shows "\<exists>st1 st2 st3 es1 es2 es3.
     accept_one st (client_connection env1 requester ''sys-info'' session) SOCKET_TOOL = Some (st1, es1) \<and>
     accept_one st1 (client_connection env2 admin ''approve'' rid) SOCKET_ADMIN = Some (st2, es2) \<and>
     accept_one st2 (client_connection env3 admin ''execute'' rid) SOCKET_ADMIN = Some (st3, es3) \<and>
     pd_status (pending (ds_approvals st1) ! n) = APPROVAL_PENDING \<and>
     pd_status (pending (ds_approvals st2) ! n) = APPROVAL_GRANTED \<and>
     pd_status (pending (ds_approvals st3) ! n) = APPROVAL_EXECUTED \<and>
     Ran_tool rid admin (Inr json) \<in> set es3 \<and> last es3 = Reply (Some reply) \<and>
     client_main connect [Wrote 2048] (Some reply) [''anythingctl'', ''--admin-socket'', path, ''execute'', rid] =
       Some (Client_printed (make_request ''execute'' rid 2048) reply)"
proof -
  have json: "json_value json" "length json < 1376" using sys_info_Inr [OF assms(10)] by simp_all
  then have obj: "json_value (result_object ''1'' json)" "length (result_object ''1'' json) < 4095"
    by (simp_all add: json_value_result_object length_result_object)
  then have reply: "result_reply ''1'' json = Reply (Some reply)"
    by (simp add: result_reply_def rpc_result_eq snprintf_id assms(12))
  have "length (decimal (n + 1)) \<le> 2" using assms(3) by (intro length_decimal) simp_all
  then have rid: "length rid < 64" "\<forall>c \<in> set rid. plain_char c"
    using assms(11) decimal_digits by auto
  have m: "client_method ''execute'' = Some ''approval.execute''" by (simp add: client_method_def)
  have "client_main connect [Wrote 2048] (Some reply) [''anythingctl'', ''--admin-socket'', path, ''execute'', rid] =
      Some (Client_printed (make_request ''execute'' rid 2048) reply)"
    unfolding assms(12) by (rule client_prints [where connect = connect, OF m assms(13) rid(2,1) obj])
  with session_reaches [OF assms(1-11)] show ?thesis unfolding reply by blast
qed

theorem session_completes_witness:
  "\<exists>st. daemon_reaches example_config st [] \<and> (\<exists>st1 st2 st3 es1 es2 es3.
     accept_one st (client_connection sample_env sample_identity ''sys-info'' ''s1'') SOCKET_TOOL = Some (st1, es1) \<and>
     accept_one st1 (client_connection sample_env other_identity ''approve'' ''req_1'') SOCKET_ADMIN = Some (st2, es2) \<and>
     accept_one st2 (client_connection sample_env other_identity ''execute'' ''req_1'') SOCKET_ADMIN = Some (st3, es3) \<and>
     last es3 = Reply (Some (result_object ''1'' sample_json @ [NL])))"
proof -
  have rid: "''req_1'' = ''req_'' @ decimal (0 + 1)" by code_simp
  have len: "length (pending (ds_approvals start_state)) = 0"
    by (simp add: start_state_def anything_approval_store_init_def)
  have s: "(0 :: nat) < 64" "\<forall>c \<in> set ''s1''. plain_char c" "length ''s1'' < 64" by simp_all
  from session_completes [OF start_reached len s(1) sample_config_works sample_env_works s(2,3) sample_admin
      sample_requester(2) sample_sys_info rid refl, of "\<lambda>path. True"] start_reached
  show ?thesis by blast
qed

end
